(* ===== verification/Prelude.thy ===== *)
theory Prelude
  imports Main "HOL-Library.Word" "HOL-Library.List_Lexorder" "HOL-Library.RBT"
begin

text \<open>
  Shared vocabulary of the development: the machine types of the C++ sources, the unwinding
  rules that take an early-return function apart, and the few facts on lists, words and ordered
  maps that every component theory uses.

  \<^item> \<open>uint8_t\<close> is \<open>8 word\<close>, and \<open>std::vector<uint8_t>\<close> a list of them; the other unsigned
    types are words of their width, so conversions wrap as the C++ conversions do.
  \<^item> \<open>int64_t\<close> is \<open>int\<close>: signed overflow is undefined in C++, so the theories prove that the
    values stay in range instead of giving overflow a meaning.
  \<^item> \<open>std::map\<close> is the red-black tree of HOL-Library.RBT, ordered lexicographically on byte
    lists as \<open>std::array\<close> is.
\<close>

type_synonym byte = "8 word"
type_synonym bytes = "byte list"
type_synonym u16 = "16 word"
type_synonym u32 = "32 word"
type_synonym u64 = "64 word"

text \<open>\<open>std::array<uint8_t, 8>\<close>: a byte list; every operation that builds one yields eight bytes.\<close>

type_synonym hid8 = bytes

text \<open>
  \<open>unwind\<close>: the success value of a chain of guarded early returns, as a conjunction of what
  each guard let through. \<open>size_simps\<close>: the compile-time sizes. \<open>wf_rules\<close>: preservation of the
  well-formedness predicates.
\<close>

named_theorems unwind \<open>success of a guarded early return\<close>
named_theorems size_simps \<open>compile-time sizes\<close>
named_theorems wf_rules \<open>preservation of well-formedness\<close>

section \<open>Unwinding early returns\<close>

lemma case_option_None_eq_Some [unwind]:
  "(case x of None \<Rightarrow> None | Some y \<Rightarrow> f y) = Some z \<longleftrightarrow> (\<exists>y. x = Some y \<and> f y = Some z)"
  by (cases x) auto

lemma case_option_Inl_eq_Inr [unwind]:
  "(case x of None \<Rightarrow> Inl e | Some y \<Rightarrow> f y) = Inr z \<longleftrightarrow> (\<exists>y. x = Some y \<and> f y = Inr z)"
  by (cases x) auto

lemma case_sum_Inl_eq_Inr [unwind]:
  "(case x of Inl e \<Rightarrow> Inl (g e) | Inr y \<Rightarrow> f y) = Inr z \<longleftrightarrow> (\<exists>y. x = Inr y \<and> f y = Inr z)"
  by (cases x) auto

lemma if_Inl_eq_Inr [unwind]:
  "(if b then Inl e else r) = Inr z \<longleftrightarrow> \<not> b \<and> r = Inr z"
  by auto

lemma if_None_eq_Some [unwind]:
  "(if b then None else r) = Some z \<longleftrightarrow> \<not> b \<and> r = Some z"
  by auto

lemma if_else_None_eq_Some [unwind]:
  "(if b then r else None) = Some z \<longleftrightarrow> b \<and> r = Some z"
  by auto

lemma if_False_then [unwind]: "(if b then False else r) \<longleftrightarrow> \<not> b \<and> r"
  by auto

lemma case_option_False [unwind]:
  "(case x of None \<Rightarrow> False | Some y \<Rightarrow> P y) \<longleftrightarrow> (\<exists>y. x = Some y \<and> P y)"
  by (cases x) auto

section \<open>Lists\<close>

text \<open>\<open>std::copy_n(v.end() - n, n, ...)\<close>: the last \<open>n\<close> elements.\<close>

definition last_n :: "nat \<Rightarrow> 'a list \<Rightarrow> 'a list" where
  "last_n n xs = drop (length xs - n) xs"

lemma length_last_n [simp]: "n \<le> length xs \<Longrightarrow> length (last_n n xs) = n"
  by (simp add: last_n_def)

lemma last_n_append [simp]: "length ys = n \<Longrightarrow> last_n n (xs @ ys) = ys"
  by (simp add: last_n_def)

text \<open>Byte-wise exclusive or of two vectors of the same length.\<close>

unbundle bit_operations_syntax

definition xor_bytes :: "bytes \<Rightarrow> bytes \<Rightarrow> bytes" where
  "xor_bytes a b = map2 (\<lambda>x y. x XOR y) a b"

lemma length_xor_bytes [simp]: "length (xor_bytes a b) = min (length a) (length b)"
  by (simp add: xor_bytes_def)

lemma xor_bytes_cancel: "length a = length b \<Longrightarrow> xor_bytes a (xor_bytes a b) = b"
proof (induction a b rule: list_induct2)
  case Nil
  then show ?case by (simp add: xor_bytes_def)
next
  case (Cons x a y b)
  have "x XOR (x XOR y) = y"
    by (simp add: bit_eq_iff bit_xor_iff)
  with Cons show ?case by (simp add: xor_bytes_def)
qed

section \<open>Ordered maps\<close>

text \<open>
  Looking a key up after a sequence of insertions: the last insertion of the key wins, and a key
  that is never inserted keeps its old value.
\<close>

lemma lookup_fold_insert_other:
  fixes t :: "('k::linorder, 'v) rbt"
  assumes "\<And>x. x \<in> set xs \<Longrightarrow> key x \<noteq> k"
  shows "RBT.lookup (fold (\<lambda>x t. RBT.insert (key x) x t) xs t) k = RBT.lookup t k"
  using assms by (induction xs arbitrary: t) auto

end
