(* ===== verification/StaticBytes.thy ===== *)
theory StaticBytes
  imports Sizes
begin

text \<open>
  \<open>include/v2xpki/static_bytes.hpp\<close>: the fixed-capacity buffer \<open>StaticBytes<N>\<close>. The template
  parameter is the first argument of the operations that build a buffer. \<open>fixed_buffer\<close> states
  what the rest of the code relies on (a buffer either holds exactly the bytes it was given or is
  not built: overflow never truncates), and is interpreted for every capacity.
\<close>

record StaticBytes =
  sb_data :: bytes
  sb_len :: nat

section \<open>Operations\<close>

definition sb_default :: "nat \<Rightarrow> StaticBytes" where
  "sb_default N = \<lparr>sb_data = replicate N 0, sb_len = 0\<rparr>"

text \<open>\<open>from(p, n)\<close> copies the first \<open>n\<close> bytes at \<open>p\<close> over a zeroed array.\<close>

definition sb_from_ptr :: "nat \<Rightarrow> bytes \<Rightarrow> nat \<Rightarrow> StaticBytes option" where
  "sb_from_ptr N p n =
     (if n > N then None
      else Some \<lparr>sb_data = take n p @ drop n (replicate N 0), sb_len = n\<rparr>)"

definition sb_from :: "nat \<Rightarrow> bytes \<Rightarrow> StaticBytes option" where
  "sb_from N v = sb_from_ptr N v (length v)"

definition to_vector :: "StaticBytes \<Rightarrow> bytes" where
  "to_vector b = take (sb_len b) (sb_data b)"

definition sb_size :: "StaticBytes \<Rightarrow> nat" where
  "sb_size b = sb_len b"

definition sb_empty :: "StaticBytes \<Rightarrow> bool" where
  "sb_empty b \<longleftrightarrow> sb_len b = 0"

text \<open>
  \<open>operator[]\<close> reads the array, not the used prefix: an index below the capacity is defined
  even past \<open>size()\<close>; \<open>None\<close> is a read outside the array.
\<close>

definition sb_at :: "StaticBytes \<Rightarrow> nat \<Rightarrow> byte option" where
  "sb_at b i = (if i < length (sb_data b) then Some (sb_data b ! i) else None)"

definition sb_clear :: "StaticBytes \<Rightarrow> StaticBytes" where
  "sb_clear b = b\<lparr>sb_len := 0\<rparr>"

definition sb_eq :: "StaticBytes \<Rightarrow> StaticBytes \<Rightarrow> bool" where
  "sb_eq a b \<longleftrightarrow> sb_len a = sb_len b \<and> take (sb_len a) (sb_data a) = take (sb_len a) (sb_data b)"

definition sb_eq_vector :: "StaticBytes \<Rightarrow> bytes \<Rightarrow> bool" where
  "sb_eq_vector a v \<longleftrightarrow> sb_len a = length v \<and> take (sb_len a) (sb_data a) = take (sb_len a) v"

text \<open>The class invariant: the array has the capacity of its type and the length fits in it.\<close>

definition wf_sb :: "nat \<Rightarrow> StaticBytes \<Rightarrow> bool" where
  "wf_sb N b \<longleftrightarrow> length (sb_data b) = N \<and> sb_len b \<le> N"

section \<open>The interface\<close>

locale fixed_buffer =
  fixes cap :: nat
    and make :: "bytes \<Rightarrow> 'b option"
    and bytes_of :: "'b \<Rightarrow> bytes"
    and count :: "'b \<Rightarrow> nat"
    and wf :: "'b \<Rightarrow> bool"
  assumes make_None: "make v = None \<longleftrightarrow> cap < length v"
    and make_bytes: "make v = Some b \<Longrightarrow> bytes_of b = v"
    and make_wf: "make v = Some b \<Longrightarrow> wf b"
    and count_bytes: "wf b \<Longrightarrow> count b = length (bytes_of b)"
    and count_cap: "wf b \<Longrightarrow> count b \<le> cap"
begin

lemma make_fits: "length v \<le> cap \<Longrightarrow> \<exists>b. make v = Some b \<and> bytes_of b = v \<and> wf b"
  using make_None [of v] make_bytes make_wf by (cases "make v") auto

lemma make_inject: "make v = Some b \<Longrightarrow> make w = Some b \<Longrightarrow> v = w"
  using make_bytes by blast

lemma remake: "wf b \<Longrightarrow> \<exists>b'. make (bytes_of b) = Some b' \<and> bytes_of b' = bytes_of b"
  using make_fits [of "bytes_of b"] count_bytes [of b] count_cap [of b] by auto

end

section \<open>Facts\<close>

lemma sb_from_None [simp]: "sb_from N v = None \<longleftrightarrow> N < length v"
  by (simp add: sb_from_def sb_from_ptr_def)

lemma sb_from_SomeD:
  "sb_from N v = Some b \<Longrightarrow>
   to_vector b = v \<and> sb_len b = length v \<and> wf_sb N b \<and> length v \<le> N"
  by (auto simp: sb_from_def sb_from_ptr_def to_vector_def wf_sb_def split: if_splits)

lemma sb_from_fits: "length v \<le> N \<Longrightarrow> \<exists>b. sb_from N v = Some b"
  by (simp add: sb_from_def sb_from_ptr_def)

lemma sb_from_ptr_to_vector:
  "sb_from_ptr N p n = Some b \<Longrightarrow> n \<le> length p \<Longrightarrow> to_vector b = take n p"
  by (auto simp: sb_from_ptr_def to_vector_def split: if_splits)

lemma to_vector_default [simp]: "to_vector (sb_default N) = []"
  by (simp add: to_vector_def sb_default_def)

lemma sb_size_default [simp]: "sb_size (sb_default N) = 0"
  by (simp add: sb_size_def sb_default_def)

lemma sb_empty_default [simp]: "sb_empty (sb_default N)"
  by (simp add: sb_empty_def sb_default_def)

lemma wf_sb_default [simp, wf_rules]: "wf_sb N (sb_default N)"
  by (simp add: wf_sb_def sb_default_def)

lemma wf_sb_clear [wf_rules]: "wf_sb N b \<Longrightarrow> wf_sb N (sb_clear b)"
  by (simp add: wf_sb_def sb_clear_def)

lemma wf_sb_length: "wf_sb N b \<Longrightarrow> length (to_vector b) = sb_size b"
  by (simp add: wf_sb_def to_vector_def sb_size_def)

lemma wf_sb_empty_iff: "wf_sb N b \<Longrightarrow> sb_empty b \<longleftrightarrow> to_vector b = []"
  by (auto simp: wf_sb_def sb_empty_def to_vector_def)

lemma wf_sb_from [wf_rules]: "sb_from N v = Some b \<Longrightarrow> wf_sb N b"
  by (simp add: sb_from_SomeD)

lemma sb_from_sizes [simp]:
  assumes "sb_from N v = Some b"
  shows "to_vector b = v" "sb_size b = length v" "sb_empty b \<longleftrightarrow> v = []"
  using sb_from_SomeD [OF assms] by (auto simp: sb_size_def sb_empty_def)

interpretation sb: fixed_buffer N "sb_from N" to_vector sb_size "wf_sb N" for N
proof unfold_locales
  fix v b
  show "sb_from N v = None \<longleftrightarrow> N < length v" by simp
  show "to_vector b = v" if "sb_from N v = Some b" using that by simp
  show "wf_sb N b" if "sb_from N v = Some b" using that by (rule wf_sb_from)
  show "sb_size b = length (to_vector b)" if "wf_sb N b" using that by (simp add: wf_sb_length)
  show "sb_size b \<le> N" if "wf_sb N b" using that by (simp add: wf_sb_def sb_size_def)
qed

lemma sb_eq_to_vector:
  "wf_sb N a \<Longrightarrow> wf_sb N b \<Longrightarrow> sb_eq a b \<longleftrightarrow> to_vector a = to_vector b"
proof -
  assume wf: "wf_sb N a" "wf_sb N b"
  then have "sb_len a = sb_len b" if "to_vector a = to_vector b"
    using that wf_sb_length [of N a] wf_sb_length [of N b] by (simp add: sb_size_def)
  then show ?thesis by (auto simp: sb_eq_def to_vector_def)
qed

lemma sb_eq_vector_iff: "wf_sb N a \<Longrightarrow> sb_eq_vector a v \<longleftrightarrow> to_vector a = v"
  by (auto simp: sb_eq_vector_def to_vector_def wf_sb_def)

section \<open>Properties\<close>

text \<open>
  A fixed buffer is built exactly for inputs that fit its capacity, and then holds exactly
  those bytes: overflow is refused, never truncated.
\<close>

theorem buffer_exact_or_refused:
  "case sb_from N v of
     None \<Rightarrow> N < length v
   | Some b \<Rightarrow> to_vector b = v \<and> sb_size b = length v \<and> length v \<le> N \<and> wf_sb N b"
  using sb_from_SomeD [of N v] by (auto simp: sb_size_def split: option.splits)

end
