(* ===== verification/V2xResult.thy ===== *)
theory V2xResult
  imports StaticBytes
begin

text \<open>
  \<open>include/v2xpki/result.hpp\<close>: the error codes and \<open>Result<T>\<close>. A \<open>Result\<close> built from a value
  is \<open>Inr\<close>, one built from an error is \<open>Inl\<close>; \<open>error()\<close> of a success is \<open>Error::None\<close>.
\<close>

datatype Error =
    ErrorNone | InvalidArgument | Network | HttpStatus | Decode | Encode | Crypto
  | SignatureInvalid | NotFound | KeyStoreError | Protocol

primrec Error_to_string :: "Error \<Rightarrow> string" where
  "Error_to_string ErrorNone = ''none''"
| "Error_to_string InvalidArgument = ''invalid argument''"
| "Error_to_string Network = ''network''"
| "Error_to_string HttpStatus = ''http status''"
| "Error_to_string Decode = ''decode''"
| "Error_to_string Encode = ''encode''"
| "Error_to_string Crypto = ''crypto''"
| "Error_to_string SignatureInvalid = ''signature invalid''"
| "Error_to_string NotFound = ''not found''"
| "Error_to_string KeyStoreError = ''keystore''"
| "Error_to_string Protocol = ''protocol''"

type_synonym 'a Result = "Error + 'a"

primrec has_value :: "'a Result \<Rightarrow> bool" where
  "has_value (Inl e) = False"
| "has_value (Inr v) = True"

primrec result_error :: "'a Result \<Rightarrow> Error" where
  "result_error (Inl e) = e"
| "result_error (Inr v) = ErrorNone"

lemma Error_to_string_inj: "Error_to_string a = Error_to_string b \<Longrightarrow> a = b"
  by (cases a; cases b) simp_all

lemma has_value_iff: "has_value r \<longleftrightarrow> (\<exists>v. r = Inr v)"
  by (cases r) simp_all

end
