(* ===== verification/Asn1Types.thy ===== *)
theory Asn1Types
  imports V2xResult
begin

text \<open>
  The ASN.1 structures the C++ code reads and writes, from the modules under \<open>src/asn/\<close> in the
  shape the asn1c compiler gives them: a SEQUENCE is a record, a CHOICE a datatype with one
  constructor per alternative, a pointer member an \<open>option\<close> (\<open>None\<close> is the null pointer) and an
  OCTET STRING its bytes. Components that no source file touches are carried in a \<open>_rest\<close> field,
  so that encoding a decoded structure still depends on all of it. The generated encoders and
  decoders are not part of the sources: they are the members of \<open>asn_TYPE\<close>, a parameter.
\<close>

section \<open>Curve points, signatures and keys (Ieee1609Dot2BaseTypes)\<close>

datatype EccP256CurvePoint =
    P256_x_only bytes
  | P256_fill
  | P256_compressed_y_0 bytes
  | P256_compressed_y_1 bytes
  | P256_uncompressed bytes bytes

datatype EccP384CurvePoint =
    P384_x_only bytes
  | P384_fill
  | P384_compressed_y_0 bytes
  | P384_compressed_y_1 bytes
  | P384_uncompressed bytes bytes

record EcdsaP256Signature =
  rSig256 :: "EccP256CurvePoint option"
  sSig256 :: bytes

record EcdsaP384Signature =
  rSig384 :: "EccP384CurvePoint option"
  sSig384 :: bytes

datatype AsnSignature =
    Sig_ecdsaNistP256 "EcdsaP256Signature option"
  | Sig_ecdsaBrainpoolP256r1 "EcdsaP256Signature option"
  | Sig_ecdsaBrainpoolP384r1 "EcdsaP384Signature option"
  | Sig_ecdsaNistP384 "EcdsaP384Signature option"
  | Sig_sm2 bytes

datatype HashAlgorithm = HA_sha256 | HA_sha384 | HA_sm3

datatype PublicVerificationKey =
    PVK_ecdsaNistP256 "EccP256CurvePoint option"
  | PVK_ecdsaBrainpoolP256r1 "EccP256CurvePoint option"
  | PVK_ecdsaBrainpoolP384r1 "EccP384CurvePoint option"
  | PVK_ecdsaNistP384 "EccP384CurvePoint option"
  | PVK_ecsigSm2 "EccP256CurvePoint option"

datatype BasePublicEncryptionKey =
    BPEK_eciesNistP256 "EccP256CurvePoint option"
  | BPEK_eciesBrainpoolP256r1 "EccP256CurvePoint option"
  | BPEK_ecencSm2 "EccP256CurvePoint option"

record PublicEncryptionKey =
  supportedSymmAlg :: nat
  pek_publicKey :: "BasePublicEncryptionKey option"

datatype Duration =
    Dur_microseconds u16
  | Dur_milliseconds u16
  | Dur_seconds u16
  | Dur_minutes u16
  | Dur_hours u16
  | Dur_sixtyHours u16
  | Dur_years u16

record ValidityPeriod =
  vp_start :: u32
  vp_duration :: "Duration option"

record PsidSsp =
  ps_psid :: u64
  ps_ssp :: "bytes option"

record EciesP256EncryptedKey =
  ek_v :: "EccP256CurvePoint option"
  ek_c :: bytes
  ek_t :: bytes

section \<open>Certificates (Ieee1609Dot2)\<close>

datatype CertificateId =
    CertId_linkageData bytes
  | CertId_name string
  | CertId_binaryId bytes
  | CertId_none

datatype CertificateType = CT_explicit | CT_implicit

datatype IssuerIdentifier =
    Issuer_sha256AndDigest bytes
  | Issuer_self HashAlgorithm
  | Issuer_sha384AndDigest bytes
  | Issuer_sm3AndDigest bytes

datatype VerificationKeyIndicator =
    VKI_verificationKey "PublicVerificationKey option"
  | VKI_reconstructionValue "EccP256CurvePoint option"

record ToBeSignedCertificate =
  tbs_id :: "CertificateId option"
  tbs_cracaId :: bytes
  tbs_crlSeries :: u16
  tbs_validityPeriod :: "ValidityPeriod option"
  tbs_appPermissions :: "PsidSsp list option"
  tbs_certIssuePermissions :: "bytes list option"
  tbs_encryptionKey :: "PublicEncryptionKey option"
  tbs_verifyKeyIndicator :: "VerificationKeyIndicator option"
  tbs_rest :: bytes

record CertificateBase =
  cb_version :: nat
  cb_type :: CertificateType
  cb_issuer :: "IssuerIdentifier option"
  cb_toBeSigned :: "ToBeSignedCertificate option"
  cb_signature :: "AsnSignature option"

section \<open>Secured messages (Ieee1609Dot2)\<close>

datatype HashedData =
    sha256HashedData bytes
  | sha384HashedData bytes
  | sm3HashedData bytes

datatype SignerIdentifier =
    Signer_digest bytes
  | Signer_certificate "CertificateBase list"
  | Signer_self

record HeaderInfo =
  hi_psid :: u64
  hi_generationTime :: "u64 option"
  hi_rest :: bytes

record One28BitCcmCiphertext =
  ccm_nonce :: bytes
  ccm_ccmCiphertext :: bytes

datatype SymmetricCiphertext =
    aes128ccm "One28BitCcmCiphertext option"
  | sm4Ccm "One28BitCcmCiphertext option"

datatype EncryptedDataEncryptionKey =
    EDEK_eciesNistP256 "EciesP256EncryptedKey option"
  | EDEK_eciesBrainpoolP256r1 "EciesP256EncryptedKey option"
  | EDEK_ecencSm2256 bytes

record PKRecipientInfo =
  pk_recipientId :: bytes
  pk_encKey :: "EncryptedDataEncryptionKey option"

datatype RecipientInfo =
    pskRecipInfo bytes
  | symmRecipInfo bytes
  | certRecipInfo "PKRecipientInfo option"
  | signedDataRecipInfo "PKRecipientInfo option"
  | rekRecipInfo "PKRecipientInfo option"

record EncryptedData =
  ed_recipients :: "RecipientInfo list option"
  ed_ciphertext :: "SymmetricCiphertext option"

text \<open>
  The recursive part: a signed message carries a payload that is itself an
  \<open>Ieee1609Dot2Data\<close>. Selector names are those of the C structure members.
\<close>

datatype Ieee1609Dot2Data =
    Ieee1609Dot2Data (protocolVersion: nat) (data_content: "Ieee1609Dot2Content option")
and Ieee1609Dot2Content =
    unsecuredData bytes
  | signedData "SignedData option"
  | encryptedData "EncryptedData option"
  | signedCertificateRequest bytes
  | signedX509CertificateRequest bytes
and SignedData =
    SignedData (hashId: HashAlgorithm) (sd_tbsData: "ToBeSignedData option")
      (sd_signer: "SignerIdentifier option") (sd_signature: "AsnSignature option")
and ToBeSignedData =
    ToBeSignedData (tbsd_payload: "SignedDataPayload option")
      (tbsd_headerInfo: "HeaderInfo option")
and SignedDataPayload =
    SignedDataPayload (payload_data: "Ieee1609Dot2Data option")
      (extDataHash: "HashedData option")

section \<open>TS 102 941 structures\<close>

record CertificateSubjectAttributes =
  csa_validityPeriod :: "ValidityPeriod option"
  csa_appPermissions :: "PsidSsp list option"
  csa_rest :: bytes

record PublicKeys =
  pks_verificationKey :: "PublicVerificationKey option"
  pks_encryptionKey :: "PublicEncryptionKey option"

record InnerEcRequest =
  ier_itsId :: bytes
  ier_certificateFormat :: nat
  ier_publicKeys :: "PublicKeys option"
  ier_requestedSubjectAttributes :: "CertificateSubjectAttributes option"

record InnerEcResponse =
  iers_requestHash :: bytes
  iers_responseCode :: int
  iers_certificate :: "CertificateBase option"

record SharedAtRequest =
  sar_eaId :: bytes
  sar_keyTag :: bytes
  sar_certificateFormat :: nat
  sar_requestedSubjectAttributes :: "CertificateSubjectAttributes option"

datatype EcSignature =
    encryptedEcSignature "Ieee1609Dot2Data option"
  | ecSignature "Ieee1609Dot2Data option"

record InnerAtRequest =
  iar_publicKeys :: "PublicKeys option"
  iar_hmacKey :: bytes
  iar_sharedAtRequest :: "SharedAtRequest option"
  iar_ecSignature :: "EcSignature option"

record InnerAtResponse =
  iars_requestHash :: bytes
  iars_responseCode :: int
  iars_certificate :: "CertificateBase option"

record ToBeSignedCrl =
  crl_version :: int
  crl_thisUpdate :: u32
  crl_nextUpdate :: u32
  crl_entries :: "bytes list"

record RootCaEntry =
  selfsignedRootCa :: "CertificateBase option"
  rca_successorTo :: "CertificateBase option"

record EaEntry =
  eaCertificate :: "CertificateBase option"
  ea_aaAccessPoint :: string
  ea_itsAccessPoint :: "string option"

record AaEntry =
  aaCertificate :: "CertificateBase option"
  aa_accessPoint :: string

record DcEntry =
  dc_entry_url :: string
  dc_cert :: "bytes list"

record TlmEntry =
  selfSignedTLMCertificate :: "CertificateBase option"
  tlm_successorTo :: "CertificateBase option"
  tlm_accessPoint :: string

datatype CtlEntry =
    CtlEntry_rca "RootCaEntry option"
  | CtlEntry_ea "EaEntry option"
  | CtlEntry_aa "AaEntry option"
  | CtlEntry_dc "DcEntry option"
  | CtlEntry_tlm "TlmEntry option"

datatype CtlCommand =
    CtlCommand_add "CtlEntry option"
  | CtlCommand_delete bytes

record CtlFormat =
  ctl_version :: int
  ctl_nextUpdate :: u32
  ctl_isFullCtl :: bool
  ctl_ctlSequence :: nat
  ctl_ctlCommands :: "CtlCommand list"

datatype EtsiTs102941DataContent =
    certificateRevocationList "ToBeSignedCrl option"
  | certificateTrustListTlm "CtlFormat option"
  | certificateTrustListRca "CtlFormat option"
  | otherDataContent bytes

record EtsiTs102941Data =
  etsi_version :: int
  etsi_content :: "EtsiTs102941DataContent option"

section \<open>The generated codecs, as a parameter\<close>

text \<open>
  \<open>asn_TYPE_descriptor_t\<close> with the functions the library runs on it: \<open>None\<close> is a failed
  encoding, respectively a decoding that does not return \<open>RC_OK\<close>.
\<close>

record 'a asn_TYPE =
  oer_encode :: "'a \<Rightarrow> bytes option"
  oer_decode_canonical :: "bytes \<Rightarrow> 'a option"
  oer_decode_basic :: "bytes \<Rightarrow> 'a option"
  uper_encode :: "'a \<Rightarrow> bytes option"
  uper_decode :: "bytes \<Rightarrow> 'a option"

record asn_defs =
  asn_DEF_CertificateBase :: "CertificateBase asn_TYPE"
  asn_DEF_EtsiTs103097Certificate :: "CertificateBase asn_TYPE"
  asn_DEF_ToBeSignedCertificate :: "ToBeSignedCertificate asn_TYPE"
  asn_DEF_Ieee1609Dot2Data :: "Ieee1609Dot2Data asn_TYPE"
  asn_DEF_ToBeSignedData :: "ToBeSignedData asn_TYPE"
  asn_DEF_PublicVerificationKey :: "PublicVerificationKey asn_TYPE"
  asn_DEF_InnerEcRequest :: "InnerEcRequest asn_TYPE"
  asn_DEF_InnerEcResponse :: "InnerEcResponse asn_TYPE"
  asn_DEF_SharedAtRequest :: "SharedAtRequest asn_TYPE"
  asn_DEF_InnerAtRequest :: "InnerAtRequest asn_TYPE"
  asn_DEF_InnerAtResponse :: "InnerAtResponse asn_TYPE"
  asn_DEF_EtsiTs102941Data :: "EtsiTs102941Data asn_TYPE"

text \<open>
  What the library relies on of a codec, stated for one value: its canonical encoding, when there
  is one, decodes to the value.
\<close>

definition codec_roundtrip :: "'a asn_TYPE \<Rightarrow> 'a \<Rightarrow> bool" where
  "codec_roundtrip td x \<longleftrightarrow> (\<forall>bs. oer_encode td x = Some bs \<longrightarrow> oer_decode_canonical td bs = Some x)"

lemma codec_roundtripD:
  "codec_roundtrip td x \<Longrightarrow> oer_encode td x = Some bs \<Longrightarrow> oer_decode_canonical td bs = Some x"
  by (simp add: codec_roundtrip_def)

end
