(* ===== verification/CurvePoint.thy ===== *)
theory CurvePoint
  imports Asn1Types
begin

text \<open>
  \<open>src/internal/coer.cpp\<close> and \<open>src/internal/curve_point.cpp\<close>: the encode/decode wrappers around
  the generated codecs, the SEC1 conversions of curve points and the extraction of \<open>(r, s)\<close> from
  an ASN.1 signature. The lemmas give the lengths each conversion produces, the round trips
  between a SEC1 key and a curve point, and the recovery of a signature from its ASN.1 form.
\<close>

section \<open>coer\<close>

definition coer_encode :: "'a asn_TYPE \<Rightarrow> 'a \<Rightarrow> bytes" where
  "coer_encode td x = (case oer_encode td x of None \<Rightarrow> [] | Some buf \<Rightarrow> buf)"

definition coer_decode :: "'a asn_TYPE \<Rightarrow> bytes \<Rightarrow> 'a option" where
  "coer_decode td buf = oer_decode_canonical td buf"

definition decode_with_basic_fallback :: "'a asn_TYPE \<Rightarrow> bytes \<Rightarrow> 'a option" where
  "decode_with_basic_fallback td buf =
     (case oer_decode_canonical td buf of
        Some x \<Rightarrow> Some x
      | None \<Rightarrow> oer_decode_basic td buf)"

definition encode_uper :: "'a asn_TYPE \<Rightarrow> 'a \<Rightarrow> bytes" where
  "encode_uper td x = (case uper_encode td x of None \<Rightarrow> [] | Some buf \<Rightarrow> buf)"

definition decode_uper :: "'a asn_TYPE \<Rightarrow> bytes \<Rightarrow> 'a option" where
  "decode_uper td buf = uper_decode td buf"

section \<open>octet\<close>

text \<open>
  \<open>octet::set(os, data, len)\<close> copies \<open>len\<close> bytes from the pointer; \<open>octet::bytes\<close> reads them
  back, a null or empty string giving no bytes.
\<close>

definition octet_set :: "bytes \<Rightarrow> nat \<Rightarrow> bytes" where
  "octet_set data len = take len data"

definition octet_bytes :: "bytes \<Rightarrow> bytes" where
  "octet_bytes os = os"

section \<open>P-256\<close>

fun to_sec1 :: "EccP256CurvePoint option \<Rightarrow> bytes" where
  "to_sec1 None = []"
| "to_sec1 (Some (P256_uncompressed x y)) =
     (if length (octet_bytes x) \<noteq> kP256ScalarLen \<or> length (octet_bytes y) \<noteq> kP256ScalarLen then []
      else 0x04 # octet_bytes x @ octet_bytes y)"
| "to_sec1 (Some (P256_x_only x)) = octet_bytes x"
| "to_sec1 (Some (P256_compressed_y_0 x)) =
     (if length (octet_bytes x) \<noteq> kP256ScalarLen then [] else 0x02 # octet_bytes x)"
| "to_sec1 (Some (P256_compressed_y_1 x)) =
     (if length (octet_bytes x) \<noteq> kP256ScalarLen then [] else 0x03 # octet_bytes x)"
| "to_sec1 (Some P256_fill) = []"

definition from_sec1 :: "bytes \<Rightarrow> EccP256CurvePoint option" where
  "from_sec1 pubkey =
     (if length pubkey \<noteq> kP256PublicKeyLen then None
      else let y_odd = (pubkey ! 64 AND 1 \<noteq> 0) in
        if y_odd then Some (P256_compressed_y_1 (octet_set (drop 1 pubkey) kP256ScalarLen))
        else Some (P256_compressed_y_0 (octet_set (drop 1 pubkey) kP256ScalarLen)))"

definition from_sec1_uncompressed :: "bytes \<Rightarrow> EccP256CurvePoint option" where
  "from_sec1_uncompressed pubkey =
     (if length pubkey \<noteq> kP256PublicKeyLen \<or> pubkey ! 0 \<noteq> 0x04 then None
      else Some (P256_uncompressed (octet_set (drop 1 pubkey) kP256ScalarLen)
                   (octet_set (drop (1 + kP256ScalarLen) pubkey) kP256ScalarLen)))"

fun sig_r :: "EccP256CurvePoint option \<Rightarrow> bytes" where
  "sig_r None = []"
| "sig_r (Some (P256_x_only x)) = octet_bytes x"
| "sig_r (Some (P256_compressed_y_0 x)) = octet_bytes x"
| "sig_r (Some (P256_compressed_y_1 x)) = octet_bytes x"
| "sig_r (Some (P256_uncompressed x y)) = octet_bytes x"
| "sig_r (Some P256_fill) = []"

section \<open>P-384\<close>

fun to_sec1_384 :: "EccP384CurvePoint option \<Rightarrow> bytes" where
  "to_sec1_384 None = []"
| "to_sec1_384 (Some (P384_uncompressed x y)) =
     (if length (octet_bytes x) \<noteq> kP384ScalarLen \<or> length (octet_bytes y) \<noteq> kP384ScalarLen then []
      else 0x04 # octet_bytes x @ octet_bytes y)"
| "to_sec1_384 (Some (P384_x_only x)) = octet_bytes x"
| "to_sec1_384 (Some (P384_compressed_y_0 x)) =
     (if length (octet_bytes x) \<noteq> kP384ScalarLen then [] else 0x02 # octet_bytes x)"
| "to_sec1_384 (Some (P384_compressed_y_1 x)) =
     (if length (octet_bytes x) \<noteq> kP384ScalarLen then [] else 0x03 # octet_bytes x)"
| "to_sec1_384 (Some P384_fill) = []"

definition from_sec1_384 :: "bytes \<Rightarrow> EccP384CurvePoint option" where
  "from_sec1_384 pubkey =
     (if length pubkey \<noteq> kP384PublicKeyLen then None
      else let y_odd = (pubkey ! 96 AND 1 \<noteq> 0) in
        if y_odd then Some (P384_compressed_y_1 (octet_set (drop 1 pubkey) kP384ScalarLen))
        else Some (P384_compressed_y_0 (octet_set (drop 1 pubkey) kP384ScalarLen)))"

fun sig_r_384 :: "EccP384CurvePoint option \<Rightarrow> bytes" where
  "sig_r_384 None = []"
| "sig_r_384 (Some (P384_x_only x)) = octet_bytes x"
| "sig_r_384 (Some (P384_compressed_y_0 x)) = octet_bytes x"
| "sig_r_384 (Some (P384_compressed_y_1 x)) = octet_bytes x"
| "sig_r_384 (Some (P384_uncompressed x y)) = octet_bytes x"
| "sig_r_384 (Some P384_fill) = []"

section \<open>Signature extraction\<close>

record SigRS =
  rs_r :: bytes
  rs_s :: bytes
  rs_curve :: Curve

text \<open>
  \<open>extract_sig\<close> returns its \<open>out\<close> argument only when it succeeds: no caller reads it after a
  failure.
\<close>

fun extract_sig :: "AsnSignature option \<Rightarrow> SigRS option" where
  "extract_sig None = None"
| "extract_sig (Some (Sig_ecdsaNistP256 ecdsa)) =
     (case ecdsa of None \<Rightarrow> None | Some e \<Rightarrow>
        if rSig256 e = None then None
        else if length (octet_bytes (sSig256 e)) \<noteq> kP256ScalarLen then None
        else if length (sig_r (rSig256 e)) = kP256ScalarLen
        then Some \<lparr>rs_r = sig_r (rSig256 e), rs_s = octet_bytes (sSig256 e), rs_curve = NistP256\<rparr>
        else None)"
| "extract_sig (Some (Sig_ecdsaBrainpoolP256r1 ecdsa)) =
     (case ecdsa of None \<Rightarrow> None | Some e \<Rightarrow>
        if rSig256 e = None then None
        else if length (octet_bytes (sSig256 e)) \<noteq> kP256ScalarLen then None
        else if length (sig_r (rSig256 e)) = kP256ScalarLen
        then Some \<lparr>rs_r = sig_r (rSig256 e), rs_s = octet_bytes (sSig256 e),
                   rs_curve = BrainpoolP256r1\<rparr>
        else None)"
| "extract_sig (Some (Sig_ecdsaBrainpoolP384r1 ecdsa)) =
     (case ecdsa of None \<Rightarrow> None | Some e \<Rightarrow>
        if rSig384 e = None then None
        else if length (octet_bytes (sSig384 e)) \<noteq> kP384ScalarLen then None
        else if length (sig_r_384 (rSig384 e)) = kP384ScalarLen
        then Some \<lparr>rs_r = sig_r_384 (rSig384 e), rs_s = octet_bytes (sSig384 e),
                   rs_curve = BrainpoolP384r1\<rparr>
        else None)"
| "extract_sig (Some (Sig_ecdsaNistP384 ecdsa)) =
     (case ecdsa of None \<Rightarrow> None | Some e \<Rightarrow>
        if rSig384 e = None then None
        else if length (octet_bytes (sSig384 e)) \<noteq> kP384ScalarLen then None
        else if length (sig_r_384 (rSig384 e)) = kP384ScalarLen
        then Some \<lparr>rs_r = sig_r_384 (rSig384 e), rs_s = octet_bytes (sSig384 e),
                   rs_curve = NistP384\<rparr>
        else None)"
| "extract_sig (Some (Sig_sm2 _)) = None"

section \<open>Facts\<close>

lemma coer_encode_nonempty: "coer_encode td x \<noteq> [] \<Longrightarrow> oer_encode td x = Some (coer_encode td x)"
  by (auto simp: coer_encode_def split: option.splits)

lemma coer_decode_encode:
  assumes "codec_roundtrip td x" and "coer_encode td x \<noteq> []"
  shows "coer_decode td (coer_encode td x) = Some x"
  using codec_roundtripD [OF assms(1) coer_encode_nonempty [OF assms(2)]]
  by (simp add: coer_decode_def)

lemma fallback_decode_encode:
  assumes "codec_roundtrip td x" and "coer_encode td x \<noteq> []"
  shows "decode_with_basic_fallback td (coer_encode td x) = Some x"
  using coer_decode_encode [OF assms] by (simp add: decode_with_basic_fallback_def coer_decode_def)

lemma octet_bytes_set [simp]: "octet_bytes (octet_set v n) = take n v"
  by (simp add: octet_bytes_def octet_set_def)

text \<open>
  What a P-256 point converts to: nothing, an x-coordinate of any length (only for \<open>x-only\<close>), a
  compressed key or an uncompressed key. The bytes always fit the largest public key buffer when
  the coordinates have the length the schema fixes.
\<close>

lemma to_sec1_length:
  "length (to_sec1 (Some p)) \<in> {0, kP256CompressedLen, kP256PublicKeyLen} \<or>
   (\<exists>x. p = P256_x_only x \<and> to_sec1 (Some p) = x)"
  by (cases p) (auto simp: size_simps octet_bytes_def)

lemma to_sec1_384_length:
  "length (to_sec1_384 (Some p)) \<in> {0, kP384CompressedLen, kP384PublicKeyLen} \<or>
   (\<exists>x. p = P384_x_only x \<and> to_sec1_384 (Some p) = x)"
  by (cases p) (auto simp: size_simps octet_bytes_def)

text \<open>Splitting a SEC1 uncompressed key into its prefix and coordinates.\<close>

lemma sec1_split:
  assumes "length pk = 1 + n + n"
  shows "pk = pk ! 0 # take n (drop 1 pk) @ drop (1 + n) pk"
proof -
  from assms obtain p ps where pk: "pk = p # ps" by (cases pk) auto
  then show ?thesis by simp
qed

lemma to_sec1_from_sec1_uncompressed:
  assumes "from_sec1_uncompressed pk = Some p"
  shows "to_sec1 (Some p) = pk"
proof -
  from assms have len: "length pk = 65" and hd: "pk ! 0 = 4"
    and p: "p = P256_uncompressed (take 32 (drop 1 pk)) (take 32 (drop 33 pk))"
    by (auto simp: from_sec1_uncompressed_def size_simps octet_set_def split: if_splits)
  have "pk = 4 # take 32 (drop 1 pk) @ drop 33 pk"
    using sec1_split [of pk 32] len hd by simp
  then show ?thesis using len p by (simp add: octet_bytes_def size_simps)
qed

text \<open>
  \<open>from_sec1\<close> compresses: the x-coordinate is kept and the parity of the last byte selects the
  prefix of the compressed key.
\<close>

lemma to_sec1_from_sec1:
  assumes "length pk = kP256PublicKeyLen"
  shows "\<exists>p. from_sec1 pk = Some p \<and>
    to_sec1 (Some p) = (if pk ! 64 AND 1 \<noteq> 0 then 0x03 else 0x02) # take 32 (drop 1 pk)"
  using assms by (auto simp: from_sec1_def Let_def size_simps octet_set_def octet_bytes_def)

lemma to_sec1_384_from_sec1_384:
  assumes "length pk = kP384PublicKeyLen"
  shows "\<exists>p. from_sec1_384 pk = Some p \<and>
    to_sec1_384 (Some p) = (if pk ! 96 AND 1 \<noteq> 0 then 0x03 else 0x02) # take 48 (drop 1 pk)"
  using assms by (auto simp: from_sec1_384_def Let_def size_simps octet_set_def octet_bytes_def)

lemma from_sec1_None_iff: "from_sec1 pk = None \<longleftrightarrow> length pk \<noteq> kP256PublicKeyLen"
  by (simp add: from_sec1_def Let_def)

lemma from_sec1_384_None_iff: "from_sec1_384 pk = None \<longleftrightarrow> length pk \<noteq> kP384PublicKeyLen"
  by (simp add: from_sec1_384_def Let_def)

text \<open>A signature that extracts has both components of its curve's scalar length.\<close>

lemma extract_sig_sizes:
  "extract_sig sg = Some rs \<Longrightarrow>
   length (rs_r rs) = scalar_len (rs_curve rs) \<and> length (rs_s rs) = scalar_len (rs_curve rs)"
  by (cases sg rule: extract_sig.cases) (auto simp: unwind)

section \<open>Properties\<close>

text \<open>
  SEC1 keys and curve points: the uncompressed form is read back exactly for every key with
  the right length and prefix and refused otherwise.
\<close>

theorem sec1_uncompressed_roundtrip:
  "case from_sec1_uncompressed pk of
     None \<Rightarrow> \<not> (length pk = kP256PublicKeyLen \<and> pk ! 0 = 0x04)
   | Some p \<Rightarrow> to_sec1 (Some p) = pk"
proof (cases "from_sec1_uncompressed pk")
  case None
  then show ?thesis by (simp add: from_sec1_uncompressed_def split: if_splits)
next
  case (Some p)
  then show ?thesis using to_sec1_from_sec1_uncompressed by simp
qed

end
