(* ===== verification/OpenSsl.thy ===== *)
theory OpenSsl
  imports CurvePoint
begin

text \<open>
  The environment of the library: the OpenSSL 3 functions it calls and the generated ASN.1
  codecs. Neither is part of the sources, so both are the members of one record \<open>env\<close> that every
  definition using them takes as its first argument. A call that can fail returns an \<open>option\<close>;
  what OpenSSL draws at random is a function of an explicit seed, and a function of the library
  that draws several times uses consecutive seeds. A null pointer from an OpenSSL allocation is
  part of the failure of the call it prepares.

  The predicates at the end are the documented behaviour the properties rely on. They are
  hypotheses, and \<open>ToyEnv\<close> gives an environment that meets all of them.
\<close>

section \<open>OpenSSL objects\<close>

datatype nid =
    NID_X9_62_prime256v1 | NID_brainpoolP256r1 | NID_secp384r1 | NID_brainpoolP384r1

datatype ec_point = Point_at_infinity | Affine nat nat

text \<open>
  A key handle holds the parameters it was made from: the group name, the private scalar of a key
  pair and the encoded public point.
\<close>

datatype EVP_PKEY = EVP_KEYPAIR string nat bytes | EVP_PUBLIC string bytes

fun EVP_PKEY_get_priv :: "EVP_PKEY \<Rightarrow> nat option" where
  "EVP_PKEY_get_priv (EVP_KEYPAIR g d pub) = Some d"
| "EVP_PKEY_get_priv (EVP_PUBLIC g pub) = None"

fun EVP_PKEY_get_pub :: "EVP_PKEY \<Rightarrow> bytes" where
  "EVP_PKEY_get_pub (EVP_KEYPAIR g d pub) = pub"
| "EVP_PKEY_get_pub (EVP_PUBLIC g pub) = pub"

fun EVP_PKEY_group :: "EVP_PKEY \<Rightarrow> string" where
  "EVP_PKEY_group (EVP_KEYPAIR g d pub) = g"
| "EVP_PKEY_group (EVP_PUBLIC g pub) = g"

section \<open>The environment\<close>

record env = asn_defs +
  EVP_sha256 :: "bytes \<Rightarrow> bytes option"
  EVP_sha384 :: "bytes \<Rightarrow> bytes option"
  HMAC_sha256 :: "bytes \<Rightarrow> bytes \<Rightarrow> bytes option"
  BN_bin2bn :: "bytes \<Rightarrow> nat option"
  BN_bn2binpad :: "nat \<Rightarrow> nat \<Rightarrow> bytes option"
  EC_GROUP_new_by_curve_name :: "nid \<Rightarrow> bool"
  EC_POINT_mul :: "nid \<Rightarrow> nat \<Rightarrow> ec_point option"
  EC_POINT_point2oct :: "nid \<Rightarrow> ec_point \<Rightarrow> bytes"
  EC_POINT_oct2point :: "nid \<Rightarrow> bytes \<Rightarrow> ec_point option"
  EVP_PKEY_fromdata :: "EVP_PKEY \<Rightarrow> bool"
  EVP_PKEY_generate :: "string \<Rightarrow> nat \<Rightarrow> EVP_PKEY option"
  EVP_PKEY_sign :: "EVP_PKEY \<Rightarrow> bytes \<Rightarrow> nat \<Rightarrow> bytes option"
  EVP_PKEY_verify :: "EVP_PKEY \<Rightarrow> bytes \<Rightarrow> bytes \<Rightarrow> bool"
  EVP_DigestSign_sha256 :: "EVP_PKEY \<Rightarrow> bytes \<Rightarrow> nat \<Rightarrow> bytes option"
  EVP_DigestVerify_sha256 :: "EVP_PKEY \<Rightarrow> bytes \<Rightarrow> bytes \<Rightarrow> bool"
  EVP_PKEY_derive :: "EVP_PKEY \<Rightarrow> EVP_PKEY \<Rightarrow> bytes option"
  d2i_ECDSA_SIG :: "bytes \<Rightarrow> (nat \<times> nat) option"
  i2d_ECDSA_SIG :: "nat \<times> nat \<Rightarrow> bytes option"
  aes_ccm_seal :: "bytes \<Rightarrow> bytes \<Rightarrow> bytes \<Rightarrow> (bytes \<times> bytes) option"
  aes_ccm_open :: "bytes \<Rightarrow> bytes \<Rightarrow> bytes \<Rightarrow> bytes \<Rightarrow> bytes option"
  RAND_bytes :: "nat \<Rightarrow> nat \<Rightarrow> bytes option"
  uninit :: "nat \<Rightarrow> bytes"

text \<open>
  \<open>uninit\<close> is the content of an array of the given size that was declared without an initialiser.
  A call that fills a caller's zeroed buffer of \<open>n\<close> bytes and whose failure the caller ignores:
  the buffer keeps its zeros.
\<close>

definition fill_buffer :: "nat \<Rightarrow> bytes option \<Rightarrow> bytes" where
  "fill_buffer n r = (case r of None \<Rightarrow> replicate n 0 | Some b \<Rightarrow> take n b @ replicate (n - length b) 0)"

lemma length_fill_buffer [simp]: "length (fill_buffer n r) = n"
  by (auto simp: fill_buffer_def min_def split: option.splits)

lemma fill_buffer_exact [simp]: "length b = n \<Longrightarrow> fill_buffer n (Some b) = b"
  by (simp add: fill_buffer_def)

end
