(* ===== verification/CryptoEc.thy ===== *)
theory CryptoEc
  imports OpenSsl
begin

text \<open>
  \<open>src/crypto_ec.cpp\<close>: key handles from raw keys, DER conversion of signatures, key generation,
  ECDSA, ECDH and hashing. The interface \<open>ecdsa_scheme\<close> is what the rest of the library uses of
  it: a signature made with a private key over a digest verifies with the matching public key, in
  either encoding, and verification accepts only digests of the curve's length.
\<close>

section \<open>Data (\<open>key_store.hpp\<close>)\<close>

record KeyPair =
  public_key :: StaticBytes
  private_key :: StaticBytes

record Signature =
  sig_r_sb :: StaticBytes
  sig_s_sb :: StaticBytes

definition wf_KeyPair :: "KeyPair \<Rightarrow> bool" where
  "wf_KeyPair kp \<longleftrightarrow> wf_sb kP384PublicKeyLen (public_key kp) \<and> wf_sb kP384ScalarLen (private_key kp)"

section \<open>Curve helpers\<close>

primrec curve_nid :: "Curve \<Rightarrow> nid" where
  "curve_nid NistP256 = NID_X9_62_prime256v1"
| "curve_nid BrainpoolP256r1 = NID_brainpoolP256r1"
| "curve_nid NistP384 = NID_secp384r1"
| "curve_nid BrainpoolP384r1 = NID_brainpoolP384r1"

primrec curve_group_name :: "Curve \<Rightarrow> string" where
  "curve_group_name NistP256 = ''prime256v1''"
| "curve_group_name BrainpoolP256r1 = ''brainpoolP256r1''"
| "curve_group_name NistP384 = ''secp384r1''"
| "curve_group_name BrainpoolP384r1 = ''brainpoolP384r1''"

section \<open>Key handles\<close>

definition evp_pkey_from_private :: "env \<Rightarrow> bytes \<Rightarrow> Curve \<Rightarrow> EVP_PKEY option" where
  "evp_pkey_from_private E priv curve =
     (if length priv \<noteq> scalar_len curve then None
      else if \<not> EC_GROUP_new_by_curve_name E (curve_nid curve) then None
      else case BN_bin2bn E priv of None \<Rightarrow> None | Some bn_priv \<Rightarrow>
        (case EC_POINT_mul E (curve_nid curve) bn_priv of None \<Rightarrow> None | Some pub_point \<Rightarrow>
          let pub_buf = EC_POINT_point2oct E (curve_nid curve) pub_point in
          if length pub_buf \<noteq> pubkey_len curve then None
          else let pkey = EVP_KEYPAIR (curve_group_name curve) bn_priv pub_buf in
            if \<not> EVP_PKEY_fromdata E pkey then None else Some pkey))"

definition evp_pkey_from_public :: "env \<Rightarrow> bytes \<Rightarrow> Curve \<Rightarrow> EVP_PKEY option" where
  "evp_pkey_from_public E pub curve =
     (let uncompressed = (length pub = pubkey_len curve \<and> pub ! 0 = 0x04);
          compressed = (length pub = compressed_len curve \<and> (pub ! 0 = 0x02 \<or> pub ! 0 = 0x03));
          finish = (\<lambda>upub. let pkey = EVP_PUBLIC (curve_group_name curve) upub in
                      if \<not> EVP_PKEY_fromdata E pkey then None else Some pkey) in
      if \<not> uncompressed \<and> \<not> compressed then None
      else if compressed then
        (if \<not> EC_GROUP_new_by_curve_name E (curve_nid curve) then None
         else case EC_POINT_oct2point E (curve_nid curve) pub of None \<Rightarrow> None | Some point \<Rightarrow>
           let uncompressed_pub = EC_POINT_point2oct E (curve_nid curve) point in
           if length uncompressed_pub \<noteq> pubkey_len curve then None
           else finish uncompressed_pub)
      else finish pub)"

section \<open>DER\<close>

definition extract_rs_from_der :: "env \<Rightarrow> bytes \<Rightarrow> nat \<Rightarrow> Signature option" where
  "extract_rs_from_der E der slen =
     (case d2i_ECDSA_SIG E der of None \<Rightarrow> None | Some (r_bn, s_bn) \<Rightarrow>
        let r_buf = fill_buffer kP384ScalarLen (BN_bn2binpad E r_bn slen);
            s_buf = fill_buffer kP384ScalarLen (BN_bn2binpad E s_bn slen) in
        (case sb_from_ptr kP384ScalarLen r_buf slen of None \<Rightarrow> None | Some r_sb \<Rightarrow>
        (case sb_from_ptr kP384ScalarLen s_buf slen of None \<Rightarrow> None | Some s_sb \<Rightarrow>
           Some \<lparr>sig_r_sb = r_sb, sig_s_sb = s_sb\<rparr>)))"

definition build_der_from_rs :: "env \<Rightarrow> bytes \<Rightarrow> bytes \<Rightarrow> bytes" where
  "build_der_from_rs E r s =
     (case (BN_bin2bn E r, BN_bin2bn E s) of
        (Some r_bn, Some s_bn) \<Rightarrow>
          (case i2d_ECDSA_SIG E (r_bn, s_bn) of None \<Rightarrow> [] | Some der \<Rightarrow> der)
      | _ \<Rightarrow> [])"

section \<open>Key generation\<close>

definition generate_keypair :: "env \<Rightarrow> nat \<Rightarrow> Curve \<Rightarrow> KeyPair option" where
  "generate_keypair E w curve =
     (case EVP_PKEY_generate E (curve_group_name curve) w of None \<Rightarrow> None | Some pkey \<Rightarrow>
      (case EVP_PKEY_get_priv pkey of None \<Rightarrow> None | Some bn_priv \<Rightarrow>
        let slen = scalar_len curve;
            priv_bytes = fill_buffer slen (BN_bn2binpad E bn_priv slen);
            pub_bytes = EVP_PKEY_get_pub pkey in
        (case sb_from kP384PublicKeyLen pub_bytes of None \<Rightarrow> None | Some pub_sb \<Rightarrow>
        (case sb_from kP384ScalarLen priv_bytes of None \<Rightarrow> None | Some priv_sb \<Rightarrow>
          Some \<lparr>public_key = pub_sb, private_key = priv_sb\<rparr>))))"

section \<open>ECDSA\<close>

definition ecdsa_sign :: "env \<Rightarrow> nat \<Rightarrow> bytes \<Rightarrow> bytes \<Rightarrow> Signature option" where
  "ecdsa_sign E w priv message =
     (case evp_pkey_from_private E priv NistP256 of None \<Rightarrow> None | Some pkey \<Rightarrow>
      (case EVP_DigestSign_sha256 E pkey message w of None \<Rightarrow> None | Some der_sig \<Rightarrow>
         extract_rs_from_der E der_sig kP256ScalarLen))"

definition ecdsa_sign_digest :: "env \<Rightarrow> nat \<Rightarrow> bytes \<Rightarrow> bytes \<Rightarrow> Curve \<Rightarrow> Signature option" where
  "ecdsa_sign_digest E w priv digest curve =
     (if length digest \<noteq> hash_len curve then None
      else case evp_pkey_from_private E priv curve of None \<Rightarrow> None | Some pkey \<Rightarrow>
      (case EVP_PKEY_sign E pkey digest w of None \<Rightarrow> None | Some der_sig \<Rightarrow>
         extract_rs_from_der E der_sig (scalar_len curve)))"

definition ecdsa_verify :: "env \<Rightarrow> bytes \<Rightarrow> bytes \<Rightarrow> Signature \<Rightarrow> bool" where
  "ecdsa_verify E pub message sig =
     (case evp_pkey_from_public E pub NistP256 of None \<Rightarrow> False | Some pkey \<Rightarrow>
        let der_sig = build_der_from_rs E (to_vector (sig_r_sb sig)) (to_vector (sig_s_sb sig)) in
        EVP_DigestVerify_sha256 E pkey message der_sig)"

definition ecdsa_verify_digest :: "env \<Rightarrow> bytes \<Rightarrow> bytes \<Rightarrow> Signature \<Rightarrow> Curve \<Rightarrow> bool" where
  "ecdsa_verify_digest E pub digest sig curve =
     (if length digest \<noteq> hash_len curve then False
      else case evp_pkey_from_public E pub curve of None \<Rightarrow> False | Some pkey \<Rightarrow>
        let der_sig = build_der_from_rs E (to_vector (sig_r_sb sig)) (to_vector (sig_s_sb sig)) in
        EVP_PKEY_verify E pkey der_sig digest)"

section \<open>ECDH and hashing\<close>

definition ecdh_derive :: "env \<Rightarrow> bytes \<Rightarrow> bytes \<Rightarrow> Curve \<Rightarrow> bytes option" where
  "ecdh_derive E priv peer curve =
     (case (evp_pkey_from_private E priv curve, evp_pkey_from_public E peer curve) of
        (Some priv_pkey, Some pub_pkey) \<Rightarrow> EVP_PKEY_derive E priv_pkey pub_pkey
      | _ \<Rightarrow> None)"

text \<open>A digest that fails leaves the length at zero, and the vector is resized to it.\<close>

definition hash_sha256 :: "env \<Rightarrow> bytes \<Rightarrow> bytes" where
  "hash_sha256 E data = (case EVP_sha256 E data of None \<Rightarrow> [] | Some digest \<Rightarrow> digest)"

definition hash_sha384 :: "env \<Rightarrow> bytes \<Rightarrow> bytes" where
  "hash_sha384 E data = (case EVP_sha384 E data of None \<Rightarrow> [] | Some digest \<Rightarrow> digest)"

primrec hash_for_curve :: "env \<Rightarrow> bytes \<Rightarrow> Curve \<Rightarrow> bytes" where
  "hash_for_curve E data NistP256 = hash_sha256 E data"
| "hash_for_curve E data BrainpoolP256r1 = hash_sha256 E data"
| "hash_for_curve E data NistP384 = hash_sha384 E data"
| "hash_for_curve E data BrainpoolP384r1 = hash_sha384 E data"

section \<open>Documented behaviour of OpenSSL\<close>

text \<open>SHA-256 and SHA-384 always succeed and have 32 and 48 bytes.\<close>

definition sha_ok :: "env \<Rightarrow> bool" where
  "sha_ok E \<longleftrightarrow> (\<forall>d. \<exists>h. EVP_sha256 E d = Some h \<and> length h = kSha256Len) \<and>
     (\<forall>d. \<exists>h. EVP_sha384 E d = Some h \<and> length h = kSha384Len)"

text \<open>Big-endian conversion: padding to a length succeeds with exactly that length and inverts.\<close>

definition bn_ok :: "env \<Rightarrow> bool" where
  "bn_ok E \<longleftrightarrow> (\<forall>n k b. BN_bn2binpad E n k = Some b \<longrightarrow> length b = k \<and> BN_bin2bn E b = Some n)"

text \<open>
  SEC1: the uncompressed encoding of a point starts with 4, and the compressed form of an
  encoded point (x with the parity of y in the prefix) decodes to the point.
\<close>

definition compress_sec1 :: "nat \<Rightarrow> bytes \<Rightarrow> bytes" where
  "compress_sec1 n pk = (if last pk AND 1 \<noteq> 0 then 0x03 else 0x02) # take n (drop 1 pk)"

definition sec1_ok :: "env \<Rightarrow> bool" where
  "sec1_ok E \<longleftrightarrow> (\<forall>c p pk. EC_POINT_point2oct E (curve_nid c) p = pk \<and> length pk = pubkey_len c \<longrightarrow>
     pk ! 0 = 0x04 \<and>
     EC_POINT_oct2point E (curve_nid c) (compress_sec1 (scalar_len c) pk) = Some p)"

text \<open>The public half of an accepted key pair is an accepted public key.\<close>

definition fromdata_ok :: "env \<Rightarrow> bool" where
  "fromdata_ok E \<longleftrightarrow> (\<forall>g d pub. EVP_PKEY_fromdata E (EVP_KEYPAIR g d pub) \<longrightarrow>
     EVP_PKEY_fromdata E (EVP_PUBLIC g pub))"

text \<open>
  ECDSA: a signature is the DER form of two numbers below the group order, so they fit the scalar
  length, and it verifies under the public half of the pair, the multiple of the generator that
  belongs to the private one.
\<close>

definition ecdsa_ok :: "env \<Rightarrow> bool" where
  "ecdsa_ok E \<longleftrightarrow> (\<forall>c d P pub dg w der.
     EC_POINT_mul E (curve_nid c) d = Some P \<and> pub = EC_POINT_point2oct E (curve_nid c) P \<and>
     EVP_PKEY_sign E (EVP_KEYPAIR (curve_group_name c) d pub) dg w = Some der \<longrightarrow>
     (\<exists>r s. d2i_ECDSA_SIG E der = Some (r, s) \<and> i2d_ECDSA_SIG E (r, s) = Some der \<and>
        BN_bn2binpad E r (scalar_len c) \<noteq> None \<and> BN_bn2binpad E s (scalar_len c) \<noteq> None) \<and>
     EVP_PKEY_verify E (EVP_PUBLIC (curve_group_name c) pub) der dg)"

text \<open>
  Key generation yields a pair of the requested group whose scalar fits and whose public key is
  its multiple of the generator.
\<close>

definition keygen_ok :: "env \<Rightarrow> bool" where
  "keygen_ok E \<longleftrightarrow> (\<forall>c w pkey. EVP_PKEY_generate E (curve_group_name c) w = Some pkey \<longrightarrow>
     (\<exists>d P. pkey = EVP_KEYPAIR (curve_group_name c) d (EC_POINT_point2oct E (curve_nid c) P) \<and>
        EC_GROUP_new_by_curve_name E (curve_nid c) \<and> EC_POINT_mul E (curve_nid c) d = Some P \<and>
        length (EC_POINT_point2oct E (curve_nid c) P) = pubkey_len c \<and>
        BN_bn2binpad E d (scalar_len c) \<noteq> None \<and> EVP_PKEY_fromdata E pkey))"

text \<open>Diffie-Hellman: both ends compute the same secret.\<close>

definition ecdh_ok :: "env \<Rightarrow> bool" where
  "ecdh_ok E \<longleftrightarrow> (\<forall>c d1 P1 d2 P2.
     EC_POINT_mul E (curve_nid c) d1 = Some P1 \<and> EC_POINT_mul E (curve_nid c) d2 = Some P2 \<longrightarrow>
     (let g = curve_group_name c; oct = EC_POINT_point2oct E (curve_nid c) in
      EVP_PKEY_derive E (EVP_KEYPAIR g d1 (oct P1)) (EVP_PUBLIC g (oct P2)) =
      EVP_PKEY_derive E (EVP_KEYPAIR g d2 (oct P2)) (EVP_PUBLIC g (oct P1))))"

definition openssl_ok :: "env \<Rightarrow> bool" where
  "openssl_ok E \<longleftrightarrow> sha_ok E \<and> bn_ok E \<and> sec1_ok E \<and> fromdata_ok E \<and> ecdsa_ok E \<and> keygen_ok E \<and>
     ecdh_ok E"

text \<open>The laws in the form the proofs use them.\<close>

lemma openssl_okD:
  assumes "openssl_ok E"
  shows "sha_ok E" "bn_ok E" "sec1_ok E" "fromdata_ok E" "ecdsa_ok E" "keygen_ok E" "ecdh_ok E"
  using assms by (simp_all add: openssl_ok_def)

lemma keygen_okE:
  assumes "keygen_ok E" "EVP_PKEY_generate E (curve_group_name c) w = Some pkey"
  obtains d P b where
    "pkey = EVP_KEYPAIR (curve_group_name c) d (EC_POINT_point2oct E (curve_nid c) P)"
    "EC_GROUP_new_by_curve_name E (curve_nid c)" "EC_POINT_mul E (curve_nid c) d = Some P"
    "length (EC_POINT_point2oct E (curve_nid c) P) = pubkey_len c"
    "BN_bn2binpad E d (scalar_len c) = Some b" "EVP_PKEY_fromdata E pkey"
  using assms unfolding keygen_ok_def by blast

lemma ecdsa_okE:
  assumes "ecdsa_ok E" "EC_POINT_mul E (curve_nid c) d = Some P" "pub = EC_POINT_point2oct E (curve_nid c) P"
    and "EVP_PKEY_sign E (EVP_KEYPAIR (curve_group_name c) d pub) dg w = Some der"
  obtains r s rb sb where "d2i_ECDSA_SIG E der = Some (r, s)" "i2d_ECDSA_SIG E (r, s) = Some der"
    "BN_bn2binpad E r (scalar_len c) = Some rb" "BN_bn2binpad E s (scalar_len c) = Some sb"
    "EVP_PKEY_verify E (EVP_PUBLIC (curve_group_name c) pub) der dg"
  using assms unfolding ecdsa_ok_def by blast

lemma ecdh_okD:
  assumes "ecdh_ok E" "EC_POINT_mul E (curve_nid c) d1 = Some P1"
    "EC_POINT_mul E (curve_nid c) d2 = Some P2"
  shows "EVP_PKEY_derive E (EVP_KEYPAIR (curve_group_name c) d1 (EC_POINT_point2oct E (curve_nid c) P1))
           (EVP_PUBLIC (curve_group_name c) (EC_POINT_point2oct E (curve_nid c) P2)) =
         EVP_PKEY_derive E (EVP_KEYPAIR (curve_group_name c) d2 (EC_POINT_point2oct E (curve_nid c) P2))
           (EVP_PUBLIC (curve_group_name c) (EC_POINT_point2oct E (curve_nid c) P1))"
  using assms unfolding ecdh_ok_def Let_def by blast

section \<open>Facts on keys\<close>

text \<open>\<open>priv\<close> and the uncompressed \<open>pub\<close> are the two halves of a key pair on \<open>curve\<close>.\<close>

definition is_keypair :: "env \<Rightarrow> Curve \<Rightarrow> bytes \<Rightarrow> bytes \<Rightarrow> bool" where
  "is_keypair E curve priv pub \<longleftrightarrow>
     (case evp_pkey_from_private E priv curve of None \<Rightarrow> False | Some k \<Rightarrow> EVP_PKEY_get_pub k = pub)"

lemma is_keypairE:
  assumes "is_keypair E c priv pub"
  obtains d P where "evp_pkey_from_private E priv c = Some (EVP_KEYPAIR (curve_group_name c) d pub)"
    "EC_POINT_mul E (curve_nid c) d = Some P" "pub = EC_POINT_point2oct E (curve_nid c) P"
    "length pub = pubkey_len c" "EVP_PKEY_fromdata E (EVP_KEYPAIR (curve_group_name c) d pub)"
    "EC_GROUP_new_by_curve_name E (curve_nid c)" "BN_bin2bn E priv = Some d"
    "length priv = scalar_len c"
  using assms
  by (auto simp: is_keypair_def evp_pkey_from_private_def Let_def split: option.splits if_splits)

lemma scalar_len_compressed [simp]: "compressed_len c = Suc (scalar_len c)"
  by (cases c) (simp_all add: size_simps)

lemma pubkey_len_scalar: "pubkey_len c = Suc (scalar_len c + scalar_len c)"
  by (cases c) (simp_all add: size_simps)

lemma length_compress_sec1:
  "length pk = pubkey_len c \<Longrightarrow> length (compress_sec1 (scalar_len c) pk) = compressed_len c"
  by (simp add: compress_sec1_def pubkey_len_scalar)

text \<open>Both encodings of the public half of a key pair load to the same public key handle.\<close>

lemma from_public_of_keypair:
  assumes ok: "openssl_ok E" and kp: "is_keypair E c priv pub"
  shows "evp_pkey_from_public E pub c = Some (EVP_PUBLIC (curve_group_name c) pub)"
    and "evp_pkey_from_public E (compress_sec1 (scalar_len c) pub) c =
           Some (EVP_PUBLIC (curve_group_name c) pub)"
proof -
  from kp obtain d P where P: "pub = EC_POINT_point2oct E (curve_nid c) P"
    and len: "length pub = pubkey_len c"
    and fd: "EVP_PKEY_fromdata E (EVP_KEYPAIR (curve_group_name c) d pub)"
    and grp: "EC_GROUP_new_by_curve_name E (curve_nid c)"
    by (rule is_keypairE)
  have sec1: "pub ! 0 = 0x04"
    "EC_POINT_oct2point E (curve_nid c) (compress_sec1 (scalar_len c) pub) = Some P"
    using ok P len by (auto simp: openssl_ok_def sec1_ok_def)
  have fd': "EVP_PKEY_fromdata E (EVP_PUBLIC (curve_group_name c) pub)"
    using ok fd by (auto simp: openssl_ok_def fromdata_ok_def)
  have ne: "pubkey_len c \<noteq> Suc (scalar_len c)" by (simp add: pubkey_len_scalar)
  show "evp_pkey_from_public E pub c = Some (EVP_PUBLIC (curve_group_name c) pub)"
    using sec1 fd' len ne by (simp add: evp_pkey_from_public_def Let_def)
  have pre: "compress_sec1 (scalar_len c) pub ! 0 = 2 \<or> compress_sec1 (scalar_len c) pub ! 0 = 3"
    by (simp add: compress_sec1_def)
  show "evp_pkey_from_public E (compress_sec1 (scalar_len c) pub) c =
           Some (EVP_PUBLIC (curve_group_name c) pub)"
    using sec1 fd' len ne pre grp P length_compress_sec1 [OF len]
    by (simp add: evp_pkey_from_public_def Let_def)
qed

lemma from_public_shape:
  assumes "evp_pkey_from_public E pub c = Some k"
  shows "\<exists>upub. k = EVP_PUBLIC (curve_group_name c) upub \<and> length upub = pubkey_len c"
  using assms by (auto simp: evp_pkey_from_public_def Let_def split: if_splits option.splits)

text \<open>A generated key pair: sizes and the relation between its halves.\<close>

lemma generate_keypair_wf: "generate_keypair E w c = Some kp \<Longrightarrow> wf_KeyPair kp"
  by (auto simp: generate_keypair_def Let_def wf_KeyPair_def unwind intro: wf_rules)

lemma generate_keypair_private_len:
  "generate_keypair E w c = Some kp \<Longrightarrow> length (to_vector (private_key kp)) = scalar_len c"
  by (auto simp: generate_keypair_def Let_def unwind)

lemma generate_keypair_is_keypair:
  assumes ok: "openssl_ok E" and gen: "generate_keypair E w c = Some kp"
  shows "is_keypair E c (to_vector (private_key kp)) (to_vector (public_key kp))"
proof -
  from gen obtain pkey where g: "EVP_PKEY_generate E (curve_group_name c) w = Some pkey"
    by (auto simp: generate_keypair_def unwind)
  obtain d P b where k: "pkey = EVP_KEYPAIR (curve_group_name c) d (EC_POINT_point2oct E (curve_nid c) P)"
    and grp: "EC_GROUP_new_by_curve_name E (curve_nid c)" "EC_POINT_mul E (curve_nid c) d = Some P"
      "length (EC_POINT_point2oct E (curve_nid c) P) = pubkey_len c"
    and b: "BN_bn2binpad E d (scalar_len c) = Some b" and fd: "EVP_PKEY_fromdata E pkey"
    by (rule keygen_okE [OF openssl_okD(6) [OF ok] g])
  have bn: "length b = scalar_len c" "BN_bin2bn E b = Some d"
    using ok b by (auto simp: openssl_ok_def bn_ok_def)
  from gen have kp: "to_vector (private_key kp) = b"
      "to_vector (public_key kp) = EC_POINT_point2oct E (curve_nid c) P"
    using g k b bn by (auto simp: generate_keypair_def Let_def unwind)
  then show ?thesis
    using k grp fd bn by (simp add: is_keypair_def evp_pkey_from_private_def Let_def)
qed

section \<open>Facts on signatures and secrets\<close>

lemma length_hash_sha256: "openssl_ok E \<Longrightarrow> length (hash_sha256 E d) = kSha256Len"
  unfolding openssl_ok_def sha_ok_def hash_sha256_def by (metis option.simps(5))

lemma length_hash_sha384: "openssl_ok E \<Longrightarrow> length (hash_sha384 E d) = kSha384Len"
  unfolding openssl_ok_def sha_ok_def hash_sha384_def by (metis option.simps(5))

lemma length_hash_for_curve: "openssl_ok E \<Longrightarrow> length (hash_for_curve E d c) = hash_len c"
  by (cases c) (simp_all add: length_hash_sha256 length_hash_sha384)

lemma extract_rs_sizes:
  assumes "extract_rs_from_der E der n = Some sig" "n \<le> kP384ScalarLen"
  shows "length (to_vector (sig_r_sb sig)) = n \<and> length (to_vector (sig_s_sb sig)) = n"
proof -
  have "length (to_vector sb) = n"
    if "sb_from_ptr kP384ScalarLen (fill_buffer kP384ScalarLen r) n = Some sb" for sb r
    using sb_from_ptr_to_vector [OF that] assms(2) by simp
  with assms(1) show ?thesis
    by (auto simp: extract_rs_from_der_def Let_def unwind split: prod.splits)
qed

lemma sign_digest_sizes:
  "ecdsa_sign_digest E w priv dg c = Some sig \<Longrightarrow>
   length (to_vector (sig_r_sb sig)) = scalar_len c \<and> length (to_vector (sig_s_sb sig)) = scalar_len c"
  by (auto simp: ecdsa_sign_digest_def unwind dest!: extract_rs_sizes)

lemma fill_pad_prefix:
  assumes "bn_ok E" "BN_bn2binpad E n k = Some b" "k \<le> N"
    "sb_from_ptr N (fill_buffer N (BN_bn2binpad E n k)) k = Some sb"
  shows "to_vector sb = b"
proof -
  have "length b = k" using assms by (auto simp: bn_ok_def)
  then show ?thesis
    using sb_from_ptr_to_vector [OF assms(4)] assms(2,3) by (simp add: fill_buffer_def)
qed

text \<open>Extracting \<open>(r, s)\<close> from a DER signature and rebuilding the DER gives it back.\<close>

lemma build_der_extract_rs:
  assumes bn: "bn_ok E" and d: "d2i_ECDSA_SIG E der = Some (r, s)"
    and i: "i2d_ECDSA_SIG E (r, s) = Some der"
    and rb: "BN_bn2binpad E r k = Some rb" and sb: "BN_bn2binpad E s k = Some sb"
    and k: "k \<le> kP384ScalarLen" and ex: "extract_rs_from_der E der k = Some sig"
  shows "build_der_from_rs E (to_vector (sig_r_sb sig)) (to_vector (sig_s_sb sig)) = der"
proof -
  from ex d have "to_vector (sig_r_sb sig) = rb" "to_vector (sig_s_sb sig) = sb"
    using fill_pad_prefix [OF bn rb k] fill_pad_prefix [OF bn sb k]
    by (auto simp: extract_rs_from_der_def Let_def unwind)
  then show ?thesis
    using bn rb sb i by (auto simp: build_der_from_rs_def bn_ok_def)
qed

lemma sign_then_verify:
  assumes ok: "openssl_ok E" and kp: "is_keypair E c priv pub"
    and sg: "ecdsa_sign_digest E w priv dg c = Some sig"
  shows "ecdsa_verify_digest E pub dg sig c"
    and "ecdsa_verify_digest E (compress_sec1 (scalar_len c) pub) dg sig c"
proof -
  from kp obtain d P where k: "evp_pkey_from_private E priv c = Some (EVP_KEYPAIR (curve_group_name c) d pub)"
    and P: "EC_POINT_mul E (curve_nid c) d = Some P" "pub = EC_POINT_point2oct E (curve_nid c) P"
    by (rule is_keypairE)
  from sg k obtain der where len: "length dg = hash_len c"
    and der: "EVP_PKEY_sign E (EVP_KEYPAIR (curve_group_name c) d pub) dg w = Some der"
    and ex: "extract_rs_from_der E der (scalar_len c) = Some sig"
    by (auto simp: ecdsa_sign_digest_def unwind)
  have bn: "bn_ok E" by (rule openssl_okD(2) [OF ok])
  obtain r s rb sb where "d2i_ECDSA_SIG E der = Some (r, s)"
    "i2d_ECDSA_SIG E (r, s) = Some der" "BN_bn2binpad E r (scalar_len c) = Some rb"
    "BN_bn2binpad E s (scalar_len c) = Some sb"
    and ver: "EVP_PKEY_verify E (EVP_PUBLIC (curve_group_name c) pub) der dg"
    by (rule ecdsa_okE [OF openssl_okD(5) [OF ok] P der])
  then have "build_der_from_rs E (to_vector (sig_r_sb sig)) (to_vector (sig_s_sb sig)) = der"
    using build_der_extract_rs [OF bn] ex by simp
  with ver len from_public_of_keypair [OF ok kp]
  show "ecdsa_verify_digest E pub dg sig c"
    and "ecdsa_verify_digest E (compress_sec1 (scalar_len c) pub) dg sig c"
    by (simp_all add: ecdsa_verify_digest_def)
qed

lemma ecdh_agree:
  assumes ok: "openssl_ok E" and a: "is_keypair E c priv1 pub1" and b: "is_keypair E c priv2 pub2"
  shows "ecdh_derive E priv1 pub2 c = ecdh_derive E priv2 pub1 c"
proof -
  from a obtain d1 P1 where A: "evp_pkey_from_private E priv1 c = Some (EVP_KEYPAIR (curve_group_name c) d1 pub1)"
    "EC_POINT_mul E (curve_nid c) d1 = Some P1" "pub1 = EC_POINT_point2oct E (curve_nid c) P1"
    by (rule is_keypairE)
  from b obtain d2 P2 where B: "evp_pkey_from_private E priv2 c = Some (EVP_KEYPAIR (curve_group_name c) d2 pub2)"
    "EC_POINT_mul E (curve_nid c) d2 = Some P2" "pub2 = EC_POINT_point2oct E (curve_nid c) P2"
    by (rule is_keypairE)
  have "EVP_PKEY_derive E (EVP_KEYPAIR (curve_group_name c) d1 pub1) (EVP_PUBLIC (curve_group_name c) pub2) =
        EVP_PKEY_derive E (EVP_KEYPAIR (curve_group_name c) d2 pub2) (EVP_PUBLIC (curve_group_name c) pub1)"
    using ecdh_okD [OF openssl_okD(7) [OF ok] A(2) B(2)] A(3) B(3) by simp
  then show ?thesis
    using A B from_public_of_keypair(1) [OF ok a] from_public_of_keypair(1) [OF ok b]
    by (simp add: ecdh_derive_def)
qed

lemma ecdh_compressed:
  assumes ok: "openssl_ok E" and b: "is_keypair E c priv2 pub2"
  shows "ecdh_derive E priv1 (compress_sec1 (scalar_len c) pub2) c = ecdh_derive E priv1 pub2 c"
  using from_public_of_keypair [OF ok b] by (simp add: ecdh_derive_def)

end
