(* ===== verification/Ecies.thy ===== *)
theory Ecies
  imports CryptoEc
begin

text \<open>
  \<open>src/ecies.cpp\<close>: the key derivation function, AES-128-CCM and the ECIES key encapsulation of
  IEEE 1609.2. The derivation loop is a \<open>partial_function\<close>, so that a loop that never ends is
  \<open>None\<close>; it is proved to return the requested number of bytes whenever SHA-256 has its documented
  length. The main result is the round trip of \<open>ecies_encrypt\<close> and \<open>ecies_decrypt\<close>.
\<close>

section \<open>KDF2\<close>

definition ctr_bytes :: "u32 \<Rightarrow> bytes" where
  "ctr_bytes counter =
     [ucast (drop_bit 24 counter AND 0xFF), ucast (drop_bit 16 counter AND 0xFF),
      ucast (drop_bit 8 counter AND 0xFF), ucast (counter AND 0xFF)]"

text \<open>One turn of the loop hashes the secret, the counter and, when not empty, \<open>p1\<close>.\<close>

definition kdf2_block :: "env \<Rightarrow> bytes \<Rightarrow> bytes \<Rightarrow> u32 \<Rightarrow> bytes" where
  "kdf2_block E ss p1 counter =
     (case EVP_sha256 E (ss @ ctr_bytes counter @ (if p1 \<noteq> [] then p1 else [])) of
        None \<Rightarrow> [] | Some h \<Rightarrow> h)"

partial_function (option) kdf2_loop ::
  "env \<Rightarrow> bytes \<Rightarrow> bytes \<Rightarrow> nat \<Rightarrow> u32 \<Rightarrow> bytes \<Rightarrow> bytes option" where
  "kdf2_loop E ss p1 out_len counter result =
     (if length result < out_len
      then let hash = kdf2_block E ss p1 counter;
               to_copy = min (length hash) (out_len - length result)
           in kdf2_loop E ss p1 out_len (counter + 1) (result @ take to_copy hash)
      else Some result)"

definition kdf2_sha256 :: "env \<Rightarrow> bytes \<Rightarrow> bytes \<Rightarrow> nat \<Rightarrow> bytes option" where
  "kdf2_sha256 E ss p1 out_len = kdf2_loop E ss p1 out_len 1 []"

section \<open>AES-128-CCM\<close>

record AesCcmResult =
  ccm_ct :: bytes
  ccm_tag :: bytes

definition aes_128_ccm_encrypt :: "env \<Rightarrow> bytes \<Rightarrow> bytes \<Rightarrow> bytes \<Rightarrow> AesCcmResult option" where
  "aes_128_ccm_encrypt E key nonce plaintext =
     (if length key \<noteq> kAesKeyLen \<or> length nonce \<noteq> kAesCcmNonceLen then None
      else case aes_ccm_seal E key nonce plaintext of
        None \<Rightarrow> None
      | Some (ct, tag) \<Rightarrow> Some \<lparr>ccm_ct = ct, ccm_tag = tag\<rparr>)"

definition aes_128_ccm_decrypt :: "env \<Rightarrow> bytes \<Rightarrow> bytes \<Rightarrow> bytes \<Rightarrow> bytes \<Rightarrow> bytes option" where
  "aes_128_ccm_decrypt E key nonce ciphertext tag =
     (if length key \<noteq> kAesKeyLen \<or> length nonce \<noteq> kAesCcmNonceLen \<or> length tag \<noteq> kAesCcmTagLen
      then None else aes_ccm_open E key nonce ciphertext tag)"

section \<open>ECIES\<close>

record EciesEncryptResult =
  ephemeral_pubkey :: bytes
  encrypted_key :: bytes
  tag_kdf :: bytes
  nonce_ccm :: bytes
  ecies_ciphertext :: bytes
  tag_ccm :: bytes
  aes_key :: bytes

text \<open>
  Seeds: \<open>w\<close> for the ephemeral key pair, \<open>w + 1\<close> for the content key, \<open>w + 2\<close> for the nonce. The
  results of \<open>RAND_bytes\<close> and \<open>HMAC\<close> are not looked at by the code: a failure leaves the zeroed
  buffer. A derivation that does not return is \<open>None\<close> here; \<open>kdf2_returns\<close> excludes it.
\<close>

definition ecies_encrypt ::
  "env \<Rightarrow> nat \<Rightarrow> bytes \<Rightarrow> bytes \<Rightarrow> bytes \<Rightarrow> Curve \<Rightarrow> EciesEncryptResult option" where
  "ecies_encrypt E w recipient_public_key plaintext p1 curve =
     (case generate_keypair E w curve of None \<Rightarrow> None | Some eph \<Rightarrow>
      (case ecdh_derive E (to_vector (private_key eph)) recipient_public_key curve of
         None \<Rightarrow> None | Some ss \<Rightarrow>
      (case kdf2_sha256 E ss p1 (kAesKeyLen + kP256ScalarLen) of None \<Rightarrow> None | Some kdf_out \<Rightarrow>
        let k1 = take kAesKeyLen kdf_out;
            k2 = drop kAesKeyLen kdf_out;
            k_aes = fill_buffer kAesKeyLen (RAND_bytes E kAesKeyLen (w + 1));
            c_encrypted = xor_bytes k1 k_aes;
            hmac_full = fill_buffer kSha256Len (HMAC_sha256 E k2 c_encrypted);
            tag = take kAesKeyLen hmac_full;
            nonce = fill_buffer kAesCcmNonceLen (RAND_bytes E kAesCcmNonceLen (w + 2)) in
        (case aes_128_ccm_encrypt E k_aes nonce plaintext of None \<Rightarrow> None | Some ccm \<Rightarrow>
           Some \<lparr>ephemeral_pubkey = to_vector (public_key eph), encrypted_key = c_encrypted,
                 tag_kdf = tag, nonce_ccm = nonce, ecies_ciphertext = ccm_ct ccm,
                 tag_ccm = ccm_tag ccm, aes_key = k_aes\<rparr>))))"

definition ecies_decrypt ::
  "env \<Rightarrow> bytes \<Rightarrow> EciesEncryptResult \<Rightarrow> bytes \<Rightarrow> Curve \<Rightarrow> bytes option" where
  "ecies_decrypt E recipient_private_key enc p1 curve =
     (case ecdh_derive E recipient_private_key (ephemeral_pubkey enc) curve of
        None \<Rightarrow> None | Some ss \<Rightarrow>
      (case kdf2_sha256 E ss p1 (kAesKeyLen + kP256ScalarLen) of None \<Rightarrow> None | Some kdf_out \<Rightarrow>
        let k1 = take kAesKeyLen kdf_out;
            k2 = drop kAesKeyLen kdf_out;
            hmac_full = fill_buffer kSha256Len (HMAC_sha256 E k2 (encrypted_key enc)) in
        if length (tag_kdf enc) \<noteq> kAesKeyLen \<or> take kAesKeyLen hmac_full \<noteq> take kAesKeyLen (tag_kdf enc)
        then None
        else if length (encrypted_key enc) \<noteq> kAesKeyLen then None
        else aes_128_ccm_decrypt E (xor_bytes k1 (encrypted_key enc)) (nonce_ccm enc)
               (ecies_ciphertext enc) (tag_ccm enc)))"

section \<open>Documented behaviour of AES-CCM\<close>

text \<open>Sealing yields a 16 byte tag and a ciphertext as long as the plaintext, and opens again.\<close>

definition ccm_ok :: "env \<Rightarrow> bool" where
  "ccm_ok E \<longleftrightarrow> (\<forall>key nonce pt ct tag. aes_ccm_seal E key nonce pt = Some (ct, tag) \<longrightarrow>
     length tag = kAesCcmTagLen \<and> length ct = length pt \<and> aes_ccm_open E key nonce ct tag = Some pt)"

lemma ccm_okD:
  assumes "ccm_ok E" "aes_ccm_seal E key nonce pt = Some (ct, tag)"
  shows "length tag = kAesCcmTagLen" "length ct = length pt" "aes_ccm_open E key nonce ct tag = Some pt"
  using assms unfolding ccm_ok_def by blast+

section \<open>Facts\<close>

lemma length_ctr_bytes [simp]: "length (ctr_bytes n) = 4"
  by (simp add: ctr_bytes_def)

lemma length_kdf2_block: "openssl_ok E \<Longrightarrow> length (kdf2_block E ss p1 n) = kSha256Len"
  using length_hash_sha256 [of E "ss @ ctr_bytes n @ (if p1 \<noteq> [] then p1 else [])"]
  by (simp add: kdf2_block_def hash_sha256_def)

text \<open>
  The loop ends: every turn adds at least one byte, and the result has exactly the requested
  length and extends what had been produced.
\<close>

lemma kdf2_loop_returns:
  assumes ok: "openssl_ok E" and "length result \<le> out_len"
  shows "\<exists>ext. kdf2_loop E ss p1 out_len counter result = Some (result @ ext) \<and>
    length (result @ ext) = out_len"
  using assms(2)
proof (induction "out_len - length result" arbitrary: counter result rule: less_induct)
  case less
  show ?case
  proof (cases "length result < out_len")
    case True
    let ?h = "kdf2_block E ss p1 counter"
    let ?r = "result @ take (min (length ?h) (out_len - length result)) ?h"
    have lh: "length ?h = 32" using length_kdf2_block [OF ok] by (simp add: size_simps)
    have len: "length ?r = min (length result + 32) out_len" using True lh by simp
    have "\<exists>ext. kdf2_loop E ss p1 out_len (counter + 1) ?r = Some (?r @ ext) \<and> length (?r @ ext) = out_len"
      by (rule less.hyps) (use True len in auto)
    then obtain ext where "kdf2_loop E ss p1 out_len (counter + 1) ?r = Some (?r @ ext)"
      "length (?r @ ext) = out_len" by blast
    moreover have "kdf2_loop E ss p1 out_len counter result = kdf2_loop E ss p1 out_len (counter + 1) ?r"
      using True by (subst kdf2_loop.simps) (simp add: Let_def)
    ultimately show ?thesis by (metis append.assoc)
  next
    case False
    then show ?thesis using less.prems by (subst kdf2_loop.simps) simp
  qed
qed

lemma kdf2_returns:
  "openssl_ok E \<Longrightarrow> \<exists>k. kdf2_sha256 E ss p1 n = Some k \<and> length k = n"
  using kdf2_loop_returns [of E "[]" n ss p1 1] by (auto simp: kdf2_sha256_def)

text \<open>
  The bytes the library derives: 48, the first block followed by the first half of the second,
  with the counters 1 and 2.
\<close>

lemma kdf2_48:
  assumes "openssl_ok E"
  shows "kdf2_sha256 E ss p1 48 = Some (kdf2_block E ss p1 1 @ take 16 (kdf2_block E ss p1 2))"
proof -
  have l: "length (kdf2_block E ss p1 n) = 32" for n
    using length_kdf2_block [OF assms] by (simp add: size_simps)
  show ?thesis
    unfolding kdf2_sha256_def
    by (subst kdf2_loop.simps, simp add: Let_def l, subst kdf2_loop.simps, simp add: Let_def l,
        subst kdf2_loop.simps, simp add: Let_def l)
qed

lemma xor_bytes_comm_cancel: "length a = length b \<Longrightarrow> xor_bytes a (xor_bytes a b) = b"
  by (rule xor_bytes_cancel)

text \<open>What a successful encryption contains.\<close>

lemma ecies_encrypt_SomeD:
  assumes "ecies_encrypt E w pk pt p1 c = Some enc"
  obtains eph ss kdf_out ct tag where
    "generate_keypair E w c = Some eph"
    "ecdh_derive E (to_vector (private_key eph)) pk c = Some ss"
    "kdf2_sha256 E ss p1 (kAesKeyLen + kP256ScalarLen) = Some kdf_out"
    "ephemeral_pubkey enc = to_vector (public_key eph)"
    "aes_key enc = fill_buffer kAesKeyLen (RAND_bytes E kAesKeyLen (w + 1))"
    "encrypted_key enc = xor_bytes (take kAesKeyLen kdf_out) (aes_key enc)"
    "tag_kdf enc = take kAesKeyLen (fill_buffer kSha256Len
       (HMAC_sha256 E (drop kAesKeyLen kdf_out) (encrypted_key enc)))"
    "length (nonce_ccm enc) = kAesCcmNonceLen"
    "aes_ccm_seal E (aes_key enc) (nonce_ccm enc) pt = Some (ecies_ciphertext enc, tag_ccm enc)"
  using assms
  by (auto simp: ecies_encrypt_def aes_128_ccm_encrypt_def Let_def unwind split: prod.splits)

lemma ecies_encrypt_sizes:
  assumes ok: "openssl_ok E" "ccm_ok E" and enc: "ecies_encrypt E w pk pt p1 c = Some enc"
  shows "length (ephemeral_pubkey enc) = pubkey_len c" "length (encrypted_key enc) = kAesKeyLen"
    "length (tag_kdf enc) = kAesKeyLen" "length (nonce_ccm enc) = kAesCcmNonceLen"
    "length (ecies_ciphertext enc) = length pt" "length (tag_ccm enc) = kAesCcmTagLen"
    "length (aes_key enc) = kAesKeyLen"
proof -
  from enc obtain eph ss kdf_out where gen: "generate_keypair E w c = Some eph"
    and k: "kdf2_sha256 E ss p1 (kAesKeyLen + kP256ScalarLen) = Some kdf_out"
    and f: "ephemeral_pubkey enc = to_vector (public_key eph)"
      "aes_key enc = fill_buffer kAesKeyLen (RAND_bytes E kAesKeyLen (w + 1))"
      "encrypted_key enc = xor_bytes (take kAesKeyLen kdf_out) (aes_key enc)"
      "tag_kdf enc = take kAesKeyLen (fill_buffer kSha256Len
         (HMAC_sha256 E (drop kAesKeyLen kdf_out) (encrypted_key enc)))"
      "length (nonce_ccm enc) = kAesCcmNonceLen"
      "aes_ccm_seal E (aes_key enc) (nonce_ccm enc) pt = Some (ecies_ciphertext enc, tag_ccm enc)"
    by (rule ecies_encrypt_SomeD)
  have "length kdf_out = kAesKeyLen + kP256ScalarLen"
    using kdf2_returns [OF ok(1), of ss p1 "kAesKeyLen + kP256ScalarLen"] k by auto
  then show "length (encrypted_key enc) = kAesKeyLen" using f by simp
  show "length (ephemeral_pubkey enc) = pubkey_len c"
    using generate_keypair_is_keypair [OF ok(1) gen] f(1) by (auto elim: is_keypairE)
  show "length (tag_kdf enc) = kAesKeyLen" using f(4) by (simp add: size_simps)
  show "length (nonce_ccm enc) = kAesCcmNonceLen" by (rule f(5))
  show "length (ecies_ciphertext enc) = length pt" "length (tag_ccm enc) = kAesCcmTagLen"
    using ccm_okD [OF ok(2) f(6)] by simp_all
  show "length (aes_key enc) = kAesKeyLen" using f(2) by simp
qed

text \<open>
  The round trip, for the ephemeral key as it is transmitted: uncompressed as \<open>ecies_encrypt\<close>
  returns it, or compressed as the message carries it.
\<close>

lemma ecies_decrypt_encrypt:
  assumes ok: "openssl_ok E" "ccm_ok E" and kp: "is_keypair E c priv pub"
    and enc: "ecies_encrypt E w pub pt p1 c = Some enc"
    and v: "v = ephemeral_pubkey enc \<or> v = compress_sec1 (scalar_len c) (ephemeral_pubkey enc)"
  shows "ecies_decrypt E priv (enc\<lparr>ephemeral_pubkey := v\<rparr>) p1 c = Some pt"
proof -
  from enc obtain eph ss kdf_out where gen: "generate_keypair E w c = Some eph"
    and ss: "ecdh_derive E (to_vector (private_key eph)) pub c = Some ss"
    and k: "kdf2_sha256 E ss p1 (kAesKeyLen + kP256ScalarLen) = Some kdf_out"
    and f: "ephemeral_pubkey enc = to_vector (public_key eph)"
      "encrypted_key enc = xor_bytes (take kAesKeyLen kdf_out) (aes_key enc)"
      "tag_kdf enc = take kAesKeyLen (fill_buffer kSha256Len
         (HMAC_sha256 E (drop kAesKeyLen kdf_out) (encrypted_key enc)))"
      "aes_ccm_seal E (aes_key enc) (nonce_ccm enc) pt = Some (ecies_ciphertext enc, tag_ccm enc)"
    by (rule ecies_encrypt_SomeD)
  note sizes = ecies_encrypt_sizes [OF ok enc]
  note ephkp = generate_keypair_is_keypair [OF ok(1) gen]
  have "ecdh_derive E priv v c = Some ss"
    using v ecdh_agree [OF ok(1) kp ephkp] ecdh_compressed [OF ok(1) ephkp] ss f(1) by auto
  moreover have lk: "length kdf_out = kAesKeyLen + kP256ScalarLen"
    using kdf2_returns [OF ok(1), of ss p1 "kAesKeyLen + kP256ScalarLen"] k by auto
  moreover have "xor_bytes (take kAesKeyLen kdf_out) (encrypted_key enc) = aes_key enc"
    unfolding f(2) by (rule xor_bytes_cancel) (use lk sizes in simp)
  ultimately show ?thesis
    using k f(3,4) sizes ccm_okD(3) [OF ok(2) f(4)]
    by (simp add: ecies_decrypt_def Let_def aes_128_ccm_decrypt_def)
qed

text \<open>
  A ciphertext whose MAC over the wrapped key differs from the carried tag never reaches the
  symmetric decryption.
\<close>

lemma ecies_decrypt_needs_tag:
  assumes "ecies_decrypt E priv enc p1 c = Some pt"
  shows "\<exists>ss kdf_out. ecdh_derive E priv (ephemeral_pubkey enc) c = Some ss \<and>
    kdf2_sha256 E ss p1 (kAesKeyLen + kP256ScalarLen) = Some kdf_out \<and>
    tag_kdf enc = take kAesKeyLen (fill_buffer kSha256Len
      (HMAC_sha256 E (drop kAesKeyLen kdf_out) (encrypted_key enc)))"
  using assms by (auto simp: ecies_decrypt_def Let_def unwind)

end
