(* ===== verification/ToyEnv.thy ===== *)
theory ToyEnv
  imports Ecies
begin

text \<open>
  An environment that meets every hypothesis on OpenSSL: big-endian integers as they are, a hash
  that keeps the end of its input, a group in which the point of a scalar has the scalar as both
  coordinates, signatures made of the digest and the public key, and an authenticated cipher that
  adds a zero tag. It shows that the hypotheses can hold together and is the environment of the
  concrete examples; it is not a model of the cryptography.
\<close>

section \<open>Big-endian integers\<close>

definition be_nat :: "bytes \<Rightarrow> nat" where
  "be_nat bs = foldl (\<lambda>v b. v * 256 + unat b) 0 bs"

primrec nat_be :: "nat \<Rightarrow> nat \<Rightarrow> bytes" where
  "nat_be 0 n = []"
| "nat_be (Suc k) n = nat_be k (n div 256) @ [of_nat (n mod 256)]"

lemma length_nat_be [simp]: "length (nat_be k n) = k"
  by (induction k arbitrary: n) simp_all

lemma unat_of_nat_byte: "unat (of_nat (n mod 256) :: byte) = n mod 256"
proof -
  have "n mod 256 < 2 ^ 8" by simp
  then show ?thesis by (simp only: unsigned_of_nat take_bit_nat_eq_self_iff len_bit0 len_num1) (simp add: take_bit_nat_eq_self)
qed

lemma be_nat_append [simp]: "be_nat (bs @ [b]) = be_nat bs * 256 + unat b"
  by (simp add: be_nat_def)

lemma be_nat_nat_be: "n < 256 ^ k \<Longrightarrow> be_nat (nat_be k n) = n"
proof (induction k arbitrary: n)
  case 0
  then show ?case by (simp add: be_nat_def)
next
  case (Suc k)
  then have "n div 256 < 256 ^ k" by (simp add: less_mult_imp_div_less mult.commute)
  with Suc show ?case by (simp add: unat_of_nat_byte)
qed

lemma be_nat_bound: "be_nat bs < 256 ^ length bs"
proof (induction bs rule: rev_induct)
  case Nil
  then show ?case by (simp add: be_nat_def)
next
  case (snoc b bs)
  have "unat b < 256" using unsigned_less [of b, where ?'a = nat] by simp
  with snoc show ?case by simp
qed

section \<open>The functions\<close>

definition toy_hash :: "nat \<Rightarrow> bytes \<Rightarrow> bytes" where
  "toy_hash n d = last_n n (replicate n 0 @ d)"

definition toy_slen :: "string \<Rightarrow> nat" where
  "toy_slen g = (if g = ''prime256v1'' \<or> g = ''brainpoolP256r1'' then 32 else 48)"

primrec toy_nid_slen :: "nid \<Rightarrow> nat" where
  "toy_nid_slen NID_X9_62_prime256v1 = 32"
| "toy_nid_slen NID_brainpoolP256r1 = 32"
| "toy_nid_slen NID_secp384r1 = 48"
| "toy_nid_slen NID_brainpoolP384r1 = 48"

definition toy_pub :: "nat \<Rightarrow> nat \<Rightarrow> bytes" where
  "toy_pub n d = 0x04 # nat_be n d @ nat_be n d"

fun toy_point2oct :: "nid \<Rightarrow> ec_point \<Rightarrow> bytes" where
  "toy_point2oct nd Point_at_infinity = [0]"
| "toy_point2oct nd (Affine x y) =
     (let n = toy_nid_slen nd in if x = y \<and> x < 256 ^ n then toy_pub n x else [])"

definition toy_oct2point :: "nid \<Rightarrow> bytes \<Rightarrow> ec_point option" where
  "toy_oct2point nd bs = (if bs = [] then None else let x = be_nat (tl bs) in Some (Affine x x))"

text \<open>The x coordinate in an encoded public key.\<close>

definition toy_x :: "nat \<Rightarrow> bytes \<Rightarrow> nat" where
  "toy_x n pub = be_nat (take n (drop 1 pub))"

definition toy_der :: "nat \<times> nat \<Rightarrow> bytes" where
  "toy_der rs = nat_be 48 (fst rs) @ nat_be 48 (snd rs)"

fun toy_sign :: "EVP_PKEY \<Rightarrow> bytes \<Rightarrow> nat \<Rightarrow> bytes option" where
  "toy_sign (EVP_KEYPAIR g d pub) dg w =
     (if length dg = toy_slen g then Some (toy_der (be_nat dg, toy_x (toy_slen g) pub)) else None)"
| "toy_sign (EVP_PUBLIC g pub) dg w = None"

fun toy_verify :: "EVP_PKEY \<Rightarrow> bytes \<Rightarrow> bytes \<Rightarrow> bool" where
  "toy_verify (EVP_PUBLIC g pub) der dg = (der = toy_der (be_nat dg, toy_x (toy_slen g) pub))"
| "toy_verify (EVP_KEYPAIR g d pub) der dg = (der = toy_der (be_nat dg, toy_x (toy_slen g) pub))"

fun toy_derive :: "EVP_PKEY \<Rightarrow> EVP_PKEY \<Rightarrow> bytes option" where
  "toy_derive (EVP_KEYPAIR g d p1) (EVP_PUBLIC h p2) =
     (let n = toy_slen g in Some (nat_be n ((toy_x n p1 * toy_x n p2) mod 256 ^ n)))"
| "toy_derive _ _ = None"

definition no_codec :: "'a asn_TYPE" where
  "no_codec = \<lparr>oer_encode = (\<lambda>x. None), oer_decode_canonical = (\<lambda>b. None), oer_decode_basic = (\<lambda>b. None),
     uper_encode = (\<lambda>x. None), uper_decode = (\<lambda>b. None)\<rparr>"

text \<open>A codec for one value.\<close>

definition single_codec :: "'a \<Rightarrow> bytes \<Rightarrow> 'a asn_TYPE" where
  "single_codec v bs =
     \<lparr>oer_encode = (\<lambda>x. if x = v then Some bs else None),
      oer_decode_canonical = (\<lambda>b. if b = bs then Some v else None), oer_decode_basic = (\<lambda>b. None),
      uper_encode = (\<lambda>x. None), uper_decode = (\<lambda>b. None)\<rparr>"

text \<open>A codec that encodes every value, for structures that are only encoded.\<close>

definition const_codec :: "bytes \<Rightarrow> 'a asn_TYPE" where
  "const_codec bs =
     \<lparr>oer_encode = (\<lambda>x. Some bs), oer_decode_canonical = (\<lambda>b. None), oer_decode_basic = (\<lambda>b. None),
      uper_encode = (\<lambda>x. None), uper_decode = (\<lambda>b. None)\<rparr>"

definition toy_env :: env where
  "toy_env =
     \<lparr>asn_DEF_CertificateBase = no_codec, asn_DEF_EtsiTs103097Certificate = no_codec,
      asn_DEF_ToBeSignedCertificate = no_codec, asn_DEF_Ieee1609Dot2Data = no_codec,
      asn_DEF_ToBeSignedData = no_codec, asn_DEF_PublicVerificationKey = no_codec,
      asn_DEF_InnerEcRequest = no_codec, asn_DEF_InnerEcResponse = no_codec,
      asn_DEF_SharedAtRequest = no_codec, asn_DEF_InnerAtRequest = no_codec,
      asn_DEF_InnerAtResponse = no_codec, asn_DEF_EtsiTs102941Data = no_codec,
      EVP_sha256 = (\<lambda>d. Some (toy_hash 32 d)), EVP_sha384 = (\<lambda>d. Some (toy_hash 48 d)),
      HMAC_sha256 = (\<lambda>k m. Some (toy_hash 32 m)), BN_bin2bn = (\<lambda>b. Some (be_nat b)),
      BN_bn2binpad = (\<lambda>n k. if n < 256 ^ k then Some (nat_be k n) else None),
      EC_GROUP_new_by_curve_name = (\<lambda>nd. True),
      EC_POINT_mul = (\<lambda>nd d. Some (Affine d d)), EC_POINT_point2oct = toy_point2oct,
      EC_POINT_oct2point = toy_oct2point, EVP_PKEY_fromdata = (\<lambda>k. True),
      EVP_PKEY_generate = (\<lambda>g w. let n = toy_slen g; d = w mod 256 ^ n in Some (EVP_KEYPAIR g d (toy_pub n d))),
      EVP_PKEY_sign = toy_sign, EVP_PKEY_verify = toy_verify,
      EVP_DigestSign_sha256 = (\<lambda>k m w. toy_sign k (toy_hash 32 m) w),
      EVP_DigestVerify_sha256 = (\<lambda>k m der. toy_verify k der (toy_hash 32 m)),
      EVP_PKEY_derive = toy_derive,
      d2i_ECDSA_SIG = (\<lambda>b. if length b = 96 then Some (be_nat (take 48 b), be_nat (drop 48 b)) else None),
      i2d_ECDSA_SIG = (\<lambda>rs. Some (toy_der rs)),
      aes_ccm_seal = (\<lambda>k n pt. Some (pt, replicate 16 0)),
      aes_ccm_open = (\<lambda>k n ct tag. if tag = replicate 16 0 then Some ct else None),
      RAND_bytes = (\<lambda>n w. Some (replicate n (of_nat w))),
      uninit = (\<lambda>n. replicate n 0xAA)\<rparr>"

section \<open>It meets the hypotheses\<close>

lemma toy_slen_curve [simp]: "toy_slen (curve_group_name c) = scalar_len c"
  by (cases c) (simp_all add: toy_slen_def size_simps)

lemma toy_nid_slen_curve [simp]: "toy_nid_slen (curve_nid c) = scalar_len c"
  by (cases c) (simp_all add: size_simps)

lemma length_toy_hash [simp]: "length (toy_hash n d) = n"
  by (simp add: toy_hash_def)

lemma length_toy_pub [simp]: "length (toy_pub (scalar_len c) d) = pubkey_len c"
  by (simp add: toy_pub_def pubkey_len_scalar)

lemma toy_x_bound: "toy_x n pub < 256 ^ n"
proof -
  have "be_nat (take n (drop 1 pub)) < 256 ^ length (take n (drop 1 pub))" by (rule be_nat_bound)
  also have "\<dots> \<le> 256 ^ n" by (rule power_increasing) simp_all
  finally show ?thesis by (simp add: toy_x_def)
qed

lemma pow_scalar_48: "n < 256 ^ scalar_len c \<Longrightarrow> n < 256 ^ 48" for n :: nat
proof -
  assume "n < 256 ^ scalar_len c"
  also have "(256 :: nat) ^ scalar_len c \<le> 256 ^ 48"
    using scalar_len_le [of c] by (intro power_increasing) (simp_all add: size_simps)
  finally show ?thesis .
qed

lemma toy_sha: "sha_ok toy_env"
  by (simp add: sha_ok_def toy_env_def size_simps)

lemma toy_bn: "bn_ok toy_env"
  by (auto simp: bn_ok_def toy_env_def be_nat_nat_be split: if_splits)

lemma toy_fromdata: "fromdata_ok toy_env"
  by (simp add: fromdata_ok_def toy_env_def)

lemma toy_sec1: "sec1_ok toy_env"
  unfolding sec1_ok_def
proof (intro allI impI, elim conjE)
  fix c p pk
  have nz: "pubkey_len c \<noteq> 0" "pubkey_len c \<noteq> Suc 0" by (cases c; simp add: size_simps)+
  assume pk: "EC_POINT_point2oct toy_env (curve_nid c) p = pk" and len: "length pk = pubkey_len c"
  then obtain x where x: "p = Affine x x" "x < 256 ^ scalar_len c" "pk = toy_pub (scalar_len c) x"
    using nz
    by (cases p) (auto simp: toy_env_def Let_def split: if_splits)
  then show "pk ! 0 = 0x04 \<and>
     EC_POINT_oct2point toy_env (curve_nid c) (compress_sec1 (scalar_len c) pk) = Some p"
    by (simp add: toy_env_def toy_pub_def toy_oct2point_def compress_sec1_def be_nat_nat_be)
qed

lemma toy_ecdsa: "ecdsa_ok toy_env"
  unfolding ecdsa_ok_def
proof (intro allI impI)
  fix c d P pub dg w der
  let ?g = "curve_group_name c" and ?n = "scalar_len c"
  assume "EC_POINT_mul toy_env (curve_nid c) d = Some P \<and> pub = EC_POINT_point2oct toy_env (curve_nid c) P \<and>
    EVP_PKEY_sign toy_env (EVP_KEYPAIR ?g d pub) dg w = Some der"
  then have len: "length dg = ?n" and der: "der = toy_der (be_nat dg, toy_x ?n pub)"
    by (auto simp: toy_env_def split: if_splits)
  have b: "be_nat dg < 256 ^ ?n" "toy_x ?n pub < 256 ^ ?n"
    using be_nat_bound [of dg] len toy_x_bound by auto
  then show "(\<exists>r s. d2i_ECDSA_SIG toy_env der = Some (r, s) \<and> i2d_ECDSA_SIG toy_env (r, s) = Some der \<and>
        BN_bn2binpad toy_env r ?n \<noteq> None \<and> BN_bn2binpad toy_env s ?n \<noteq> None) \<and>
     EVP_PKEY_verify toy_env (EVP_PUBLIC ?g pub) der dg"
    using der pow_scalar_48 [OF b(1)] pow_scalar_48 [OF b(2)]
    by (simp add: toy_env_def toy_der_def be_nat_nat_be)
qed

lemma toy_keygen: "keygen_ok toy_env"
  unfolding keygen_ok_def
proof (intro allI impI)
  fix c pkey and w :: nat
  let ?d = "w mod 256 ^ scalar_len c"
  assume "EVP_PKEY_generate toy_env (curve_group_name c) w = Some pkey"
  then have k: "pkey = EVP_KEYPAIR (curve_group_name c) ?d (toy_pub (scalar_len c) ?d)"
    by (simp add: toy_env_def Let_def)
  have b: "?d < 256 ^ scalar_len c" by simp
  show "\<exists>d P. pkey = EVP_KEYPAIR (curve_group_name c) d (EC_POINT_point2oct toy_env (curve_nid c) P) \<and>
        EC_GROUP_new_by_curve_name toy_env (curve_nid c) \<and> EC_POINT_mul toy_env (curve_nid c) d = Some P \<and>
        length (EC_POINT_point2oct toy_env (curve_nid c) P) = pubkey_len c \<and>
        BN_bn2binpad toy_env d (scalar_len c) \<noteq> None \<and> EVP_PKEY_fromdata toy_env pkey"
    by (rule exI [of _ ?d], rule exI [of _ "Affine ?d ?d"]) (use k b in \<open>simp add: toy_env_def Let_def\<close>)
qed

lemma toy_ecdh: "ecdh_ok toy_env"
  by (simp add: ecdh_ok_def toy_env_def Let_def mult.commute)

lemma toy_openssl: "openssl_ok toy_env"
  by (simp add: openssl_ok_def toy_sha toy_bn toy_sec1 toy_fromdata toy_ecdsa toy_keygen toy_ecdh)

lemma toy_ccm: "ccm_ok toy_env"
  by (simp add: ccm_ok_def toy_env_def size_simps)

text \<open>The codecs play no part in the hypotheses on OpenSSL.\<close>

lemmas ssl_laws = openssl_ok_def sha_ok_def bn_ok_def sec1_ok_def fromdata_ok_def ecdsa_ok_def
  keygen_ok_def ecdh_ok_def ccm_ok_def

lemma openssl_ok_codec [simp]:
  "openssl_ok (E\<lparr>asn_DEF_CertificateBase := t1\<rparr>) = openssl_ok E"
  "openssl_ok (E\<lparr>asn_DEF_ToBeSignedCertificate := t2\<rparr>) = openssl_ok E"
  "openssl_ok (E\<lparr>asn_DEF_Ieee1609Dot2Data := t3\<rparr>) = openssl_ok E"
  "openssl_ok (E\<lparr>asn_DEF_ToBeSignedData := t4\<rparr>) = openssl_ok E"
  "openssl_ok (E\<lparr>asn_DEF_InnerEcRequest := t5\<rparr>) = openssl_ok E"
  by (simp_all add: ssl_laws)

lemma ccm_ok_codec [simp]:
  "ccm_ok (E\<lparr>asn_DEF_CertificateBase := t1\<rparr>) = ccm_ok E"
  "ccm_ok (E\<lparr>asn_DEF_ToBeSignedCertificate := t2\<rparr>) = ccm_ok E"
  "ccm_ok (E\<lparr>asn_DEF_Ieee1609Dot2Data := t3\<rparr>) = ccm_ok E"
  "ccm_ok (E\<lparr>asn_DEF_ToBeSignedData := t4\<rparr>) = ccm_ok E"
  "ccm_ok (E\<lparr>asn_DEF_InnerEcRequest := t5\<rparr>) = ccm_ok E"
  by (simp_all add: ccm_ok_def)

lemma private_key_codec [simp]:
  "evp_pkey_from_private (E\<lparr>asn_DEF_CertificateBase := t1\<rparr>) = evp_pkey_from_private E"
  "evp_pkey_from_private (E\<lparr>asn_DEF_ToBeSignedCertificate := t2\<rparr>) = evp_pkey_from_private E"
  "evp_pkey_from_private (E\<lparr>asn_DEF_Ieee1609Dot2Data := t3\<rparr>) = evp_pkey_from_private E"
  "evp_pkey_from_private (E\<lparr>asn_DEF_ToBeSignedData := t4\<rparr>) = evp_pkey_from_private E"
  "evp_pkey_from_private (E\<lparr>asn_DEF_InnerEcRequest := t5\<rparr>) = evp_pkey_from_private E"
  by (simp_all add: fun_eq_iff evp_pkey_from_private_def cong: option.case_cong if_cong)

lemma is_keypair_codec [simp]:
  "is_keypair (E\<lparr>asn_DEF_CertificateBase := t1\<rparr>) c priv pub = is_keypair E c priv pub"
  "is_keypair (E\<lparr>asn_DEF_ToBeSignedCertificate := t2\<rparr>) c priv pub = is_keypair E c priv pub"
  "is_keypair (E\<lparr>asn_DEF_Ieee1609Dot2Data := t3\<rparr>) c priv pub = is_keypair E c priv pub"
  "is_keypair (E\<lparr>asn_DEF_ToBeSignedData := t4\<rparr>) c priv pub = is_keypair E c priv pub"
  "is_keypair (E\<lparr>asn_DEF_InnerEcRequest := t5\<rparr>) c priv pub = is_keypair E c priv pub"
  by (simp_all add: is_keypair_def)

lemma sign_digest_codec [simp]:
  "ecdsa_sign_digest (E\<lparr>asn_DEF_CertificateBase := t1\<rparr>) w priv dg c = ecdsa_sign_digest E w priv dg c"
  "ecdsa_sign_digest (E\<lparr>asn_DEF_ToBeSignedCertificate := t2\<rparr>) w priv dg c = ecdsa_sign_digest E w priv dg c"
  "ecdsa_sign_digest (E\<lparr>asn_DEF_Ieee1609Dot2Data := t3\<rparr>) w priv dg c = ecdsa_sign_digest E w priv dg c"
  "ecdsa_sign_digest (E\<lparr>asn_DEF_ToBeSignedData := t4\<rparr>) w priv dg c = ecdsa_sign_digest E w priv dg c"
  "ecdsa_sign_digest (E\<lparr>asn_DEF_InnerEcRequest := t5\<rparr>) w priv dg c = ecdsa_sign_digest E w priv dg c"
  by (simp_all add: ecdsa_sign_digest_def extract_rs_from_der_def cong: option.case_cong if_cong)

lemma hash_codec [simp]:
  "hash_for_curve (E\<lparr>asn_DEF_CertificateBase := t1\<rparr>) d c = hash_for_curve E d c"
  "hash_for_curve (E\<lparr>asn_DEF_ToBeSignedCertificate := t2\<rparr>) d c = hash_for_curve E d c"
  "hash_for_curve (E\<lparr>asn_DEF_Ieee1609Dot2Data := t3\<rparr>) d c = hash_for_curve E d c"
  "hash_for_curve (E\<lparr>asn_DEF_ToBeSignedData := t4\<rparr>) d c = hash_for_curve E d c"
  "hash_for_curve (E\<lparr>asn_DEF_InnerEcRequest := t5\<rparr>) d c = hash_for_curve E d c"
  by (cases c; simp add: hash_sha256_def hash_sha384_def)+

lemma sha256_codec [simp]:
  "hash_sha256 (E\<lparr>asn_DEF_CertificateBase := t1\<rparr>) = hash_sha256 E"
  "hash_sha256 (E\<lparr>asn_DEF_ToBeSignedCertificate := t2\<rparr>) = hash_sha256 E"
  "hash_sha256 (E\<lparr>asn_DEF_Ieee1609Dot2Data := t3\<rparr>) = hash_sha256 E"
  "hash_sha256 (E\<lparr>asn_DEF_ToBeSignedData := t4\<rparr>) = hash_sha256 E"
  "hash_sha256 (E\<lparr>asn_DEF_InnerEcRequest := t5\<rparr>) = hash_sha256 E"
  by (simp_all add: fun_eq_iff hash_sha256_def)

text \<open>The amount ECIES derives.\<close>

lemma kdf2_ecies:
  "openssl_ok E \<Longrightarrow> kdf2_sha256 E ss p1 (kAesKeyLen + kP256ScalarLen) =
     Some (kdf2_block E ss p1 1 @ take 16 (kdf2_block E ss p1 2))"
  using kdf2_48 [of E ss p1] by (simp add: size_simps)

lemma public_key_codec [simp]:
  "evp_pkey_from_public (E\<lparr>asn_DEF_CertificateBase := t1\<rparr>) = evp_pkey_from_public E"
  "evp_pkey_from_public (E\<lparr>asn_DEF_ToBeSignedCertificate := t2\<rparr>) = evp_pkey_from_public E"
  "evp_pkey_from_public (E\<lparr>asn_DEF_Ieee1609Dot2Data := t3\<rparr>) = evp_pkey_from_public E"
  "evp_pkey_from_public (E\<lparr>asn_DEF_ToBeSignedData := t4\<rparr>) = evp_pkey_from_public E"
  "evp_pkey_from_public (E\<lparr>asn_DEF_InnerEcRequest := t5\<rparr>) = evp_pkey_from_public E"
  by (simp_all add: fun_eq_iff evp_pkey_from_public_def Let_def cong: option.case_cong if_cong)

lemma generate_codec [simp]:
  "generate_keypair (E\<lparr>asn_DEF_CertificateBase := t1\<rparr>) w c = generate_keypair E w c"
  "generate_keypair (E\<lparr>asn_DEF_ToBeSignedCertificate := t2\<rparr>) w c = generate_keypair E w c"
  "generate_keypair (E\<lparr>asn_DEF_Ieee1609Dot2Data := t3\<rparr>) w c = generate_keypair E w c"
  "generate_keypair (E\<lparr>asn_DEF_ToBeSignedData := t4\<rparr>) w c = generate_keypair E w c"
  "generate_keypair (E\<lparr>asn_DEF_InnerEcRequest := t5\<rparr>) w c = generate_keypair E w c"
  by (simp_all add: generate_keypair_def cong: option.case_cong)

lemma ecdh_codec [simp]:
  "ecdh_derive (E\<lparr>asn_DEF_CertificateBase := t1\<rparr>) priv pk c = ecdh_derive E priv pk c"
  "ecdh_derive (E\<lparr>asn_DEF_ToBeSignedCertificate := t2\<rparr>) priv pk c = ecdh_derive E priv pk c"
  "ecdh_derive (E\<lparr>asn_DEF_Ieee1609Dot2Data := t3\<rparr>) priv pk c = ecdh_derive E priv pk c"
  "ecdh_derive (E\<lparr>asn_DEF_ToBeSignedData := t4\<rparr>) priv pk c = ecdh_derive E priv pk c"
  "ecdh_derive (E\<lparr>asn_DEF_InnerEcRequest := t5\<rparr>) priv pk c = ecdh_derive E priv pk c"
  by (simp_all add: ecdh_derive_def cong: option.case_cong)

lemma kdf2_block_codec [simp]:
  "kdf2_block (E\<lparr>asn_DEF_CertificateBase := t1\<rparr>) ss p1 n = kdf2_block E ss p1 n"
  "kdf2_block (E\<lparr>asn_DEF_ToBeSignedCertificate := t2\<rparr>) ss p1 n = kdf2_block E ss p1 n"
  "kdf2_block (E\<lparr>asn_DEF_Ieee1609Dot2Data := t3\<rparr>) ss p1 n = kdf2_block E ss p1 n"
  "kdf2_block (E\<lparr>asn_DEF_ToBeSignedData := t4\<rparr>) ss p1 n = kdf2_block E ss p1 n"
  "kdf2_block (E\<lparr>asn_DEF_InnerEcRequest := t5\<rparr>) ss p1 n = kdf2_block E ss p1 n"
  by (simp_all add: kdf2_block_def)

lemma ecies_encrypt_codec [simp]:
  "openssl_ok E \<Longrightarrow> ecies_encrypt (E\<lparr>asn_DEF_CertificateBase := t1\<rparr>) w pk pt p1 c = ecies_encrypt E w pk pt p1 c"
  "openssl_ok E \<Longrightarrow> ecies_encrypt (E\<lparr>asn_DEF_ToBeSignedCertificate := t2\<rparr>) w pk pt p1 c = ecies_encrypt E w pk pt p1 c"
  "openssl_ok E \<Longrightarrow> ecies_encrypt (E\<lparr>asn_DEF_Ieee1609Dot2Data := t3\<rparr>) w pk pt p1 c = ecies_encrypt E w pk pt p1 c"
  "openssl_ok E \<Longrightarrow> ecies_encrypt (E\<lparr>asn_DEF_ToBeSignedData := t4\<rparr>) w pk pt p1 c = ecies_encrypt E w pk pt p1 c"
  "openssl_ok E \<Longrightarrow> ecies_encrypt (E\<lparr>asn_DEF_InnerEcRequest := t5\<rparr>) w pk pt p1 c = ecies_encrypt E w pk pt p1 c"
  by (simp_all add: ecies_encrypt_def kdf2_ecies aes_128_ccm_encrypt_def Let_def cong: option.case_cong)

lemma single_codec_roundtrip: "codec_roundtrip (single_codec v bs) x"
  by (simp add: codec_roundtrip_def single_codec_def)

text \<open>A codec for the values of a table, each with its own encoding.\<close>

definition table_codec :: "('a \<times> bytes) list \<Rightarrow> 'a asn_TYPE" where
  "table_codec tbl =
     \<lparr>oer_encode = map_of tbl, oer_decode_canonical = map_of (map (\<lambda>(v, b). (b, v)) tbl),
      oer_decode_basic = (\<lambda>b. None), uper_encode = (\<lambda>x. None), uper_decode = (\<lambda>b. None)\<rparr>"

lemma table_codec_roundtrip:
  assumes "distinct (map snd tbl)"
  shows "codec_roundtrip (table_codec tbl) x"
proof -
  have "distinct (map fst (map (\<lambda>(v, b). (b, v)) tbl))"
    using assms by (simp add: comp_def case_prod_unfold)
  then show ?thesis
    by (auto simp: codec_roundtrip_def table_codec_def intro!: map_of_is_SomeI dest!: map_of_SomeD)
qed

lemma const_codec_encode [simp]: "oer_encode (const_codec bs) x = Some bs"
  by (simp add: const_codec_def)

text \<open>A key pair of the toy group.\<close>

lemma toy_keypair:
  assumes "d < 256 ^ scalar_len c"
  shows "is_keypair toy_env c (nat_be (scalar_len c) d) (toy_pub (scalar_len c) d)"
  using assms by (simp add: is_keypair_def evp_pkey_from_private_def toy_env_def be_nat_nat_be Let_def)

text \<open>Signing in the example environment succeeds on every digest of the right length.\<close>

lemma toy_signs:
  assumes "d < 256 ^ scalar_len c" "length dg = hash_len c"
  shows "\<exists>sig. ecdsa_sign_digest toy_env w (nat_be (scalar_len c) d) dg c = Some sig"
proof -
  have "is_keypair toy_env c (nat_be (scalar_len c) d) (toy_pub (scalar_len c) d)"
    using assms(1) by (rule toy_keypair)
  then obtain d' where k: "evp_pkey_from_private toy_env (nat_be (scalar_len c) d) c =
      Some (EVP_KEYPAIR (curve_group_name c) d' (toy_pub (scalar_len c) d))"
    by (rule is_keypairE)
  have n: "length dg = scalar_len c" using assms(2) by (cases c) (simp_all add: size_simps)
  let ?x = "toy_x (scalar_len c) (toy_pub (scalar_len c) d)"
  have b: "be_nat dg < 256 ^ scalar_len c" "?x < 256 ^ scalar_len c"
    using be_nat_bound [of dg] n toy_x_bound by auto
  have e: "\<exists>sig. extract_rs_from_der toy_env (toy_der (be_nat dg, ?x)) (scalar_len c) = Some sig"
    using b pow_scalar_48 [OF b(1)] pow_scalar_48 [OF b(2)]
    by (simp add: extract_rs_from_der_def toy_env_def toy_der_def be_nat_nat_be sb_from_def sb_from_ptr_def Let_def
        not_less scalar_len_le)
  then show ?thesis
    using n assms(2) by (simp add: ecdsa_sign_digest_def k) (simp add: toy_env_def)
qed

text \<open>Encryption to a key of the example environment succeeds.\<close>

lemma toy_generates:
  "\<exists>kp d. generate_keypair toy_env w c = Some kp \<and> d < 256 ^ scalar_len c \<and>
     to_vector (private_key kp) = nat_be (scalar_len c) d"
proof -
  let ?d = "w mod 256 ^ scalar_len c"
  have l: "length (toy_pub (scalar_len c) ?d) \<le> kP384PublicKeyLen"
    "length (nat_be (scalar_len c) ?d) \<le> kP384ScalarLen"
    by (cases c; simp add: toy_pub_def size_simps)+
  from sb_from_fits [OF l(1)] sb_from_fits [OF l(2)] obtain pb sv where
    "sb_from kP384PublicKeyLen (toy_pub (scalar_len c) ?d) = Some pb"
    "sb_from kP384ScalarLen (nat_be (scalar_len c) ?d) = Some sv" by blast
  then show ?thesis
    by (intro exI [of _ "\<lparr>public_key = pb, private_key = sv\<rparr>"] exI [of _ ?d])
      (auto simp: generate_keypair_def toy_env_def Let_def dest: sb_from_SomeD)
qed

lemma toy_encrypts: "\<exists>enc. ecies_encrypt toy_env w (toy_pub (scalar_len c) d) pt p1 c = Some enc"
proof -
  obtain kp e where g: "generate_keypair toy_env w c = Some kp" and e: "e < 256 ^ scalar_len c"
    and pr: "to_vector (private_key kp) = nat_be (scalar_len c) e" using toy_generates by blast
  obtain d' where pk: "evp_pkey_from_private toy_env (nat_be (scalar_len c) e) c =
      Some (EVP_KEYPAIR (curve_group_name c) d' (toy_pub (scalar_len c) e))"
    by (rule is_keypairE [OF toy_keypair [OF e]])
  have lens: "length (toy_pub (scalar_len c) d) = pubkey_len c" "toy_pub (scalar_len c) d ! 0 = 0x04"
    by (simp_all add: toy_pub_def pubkey_len_scalar)
  then have "evp_pkey_from_public toy_env (toy_pub (scalar_len c) d) c =
      Some (EVP_PUBLIC (curve_group_name c) (toy_pub (scalar_len c) d))"
    by (simp add: evp_pkey_from_public_def toy_env_def Let_def)
  then obtain ss where ss: "ecdh_derive toy_env (nat_be (scalar_len c) e) (toy_pub (scalar_len c) d) c = Some ss"
    by (simp add: ecdh_derive_def pk) (simp add: toy_env_def Let_def)
  have "aes_128_ccm_encrypt toy_env (fill_buffer 16 (RAND_bytes toy_env 16 x)) (fill_buffer 12 (RAND_bytes toy_env 12 y)) pt
      = Some \<lparr>ccm_ct = pt, ccm_tag = replicate 16 0\<rparr>" for x y
    by (simp add: aes_128_ccm_encrypt_def toy_env_def size_simps)
  then show ?thesis
    by (simp add: ecies_encrypt_def g pr ss kdf2_ecies [OF toy_openssl] Let_def) (simp add: size_simps)
qed

end
