(* ===== verification/CertParse.thy ===== *)
theory CertParse
  imports ToyEnv
begin

text \<open>
  \<open>CertInfo\<close> of \<open>include/v2xpki/trust_chain.hpp\<close> and \<open>src/internal/cert_parse.cpp\<close>: the parsed view
  of a certificate, its HashedId8 and its validity interval. The lemmas show that every parsed
  certificate is well formed, that the duration arithmetic never wraps, that the validity test is
  exactly a half-open interval whose end fits \<open>int64_t\<close>, and that the identifier is always eight
  bytes of the hash the certificate's own key selects.
\<close>

section \<open>CertInfo\<close>

record CertInfo =
  ci_cert_bytes :: StaticBytes
  ci_hashed_id_8 :: hid8
  ci_public_key :: StaticBytes
  ci_encryption_key :: StaticBytes
  ci_enc_curve :: Curve
  ci_issuer_hash_id_8 :: hid8
  ci_is_self_signed :: bool
  ci_tbs_bytes :: StaticBytes
  ci_signature_r :: StaticBytes
  ci_signature_s :: StaticBytes
  ci_curve :: Curve
  ci_issuer_hash :: SigHash
  ci_validity_start :: u32
  ci_validity_duration_seconds :: u64
  ci_label :: string

text \<open>
  \<open>CertInfo ci;\<close> runs the default member initialisers and leaves the two arrays without one
  indeterminate; \<open>CertInfo{}\<close> zeroes them.
\<close>

definition CertInfo_init :: "hid8 \<Rightarrow> CertInfo" where
  "CertInfo_init arr =
     \<lparr>ci_cert_bytes = sb_default kMaxCoerMessageLen, ci_hashed_id_8 = arr,
      ci_public_key = sb_default kP384PublicKeyLen, ci_encryption_key = sb_default kP256PublicKeyLen,
      ci_enc_curve = NistP256, ci_issuer_hash_id_8 = arr, ci_is_self_signed = False,
      ci_tbs_bytes = sb_default kMaxCoerMessageLen, ci_signature_r = sb_default kP384ScalarLen,
      ci_signature_s = sb_default kP384ScalarLen, ci_curve = NistP256, ci_issuer_hash = Sha256,
      ci_validity_start = 0, ci_validity_duration_seconds = 0, ci_label = []\<rparr>"

definition valid_at :: "CertInfo \<Rightarrow> int \<Rightarrow> bool" where
  "valid_at ci tai_seconds =
     (if ci_validity_duration_seconds ci = 0 then False
      else let start = uint (ci_validity_start ci) in
        tai_seconds \<ge> start \<and> tai_seconds < start + sint (ci_validity_duration_seconds ci))"

section \<open>HashedId8\<close>

fun pvk_hash_curve :: "PublicVerificationKey \<Rightarrow> Curve" where
  "pvk_hash_curve (PVK_ecdsaBrainpoolP384r1 _) = BrainpoolP384r1"
| "pvk_hash_curve (PVK_ecdsaNistP384 _) = NistP384"
| "pvk_hash_curve _ = NistP256"

definition whole_cert_hash_curve :: "CertificateBase option \<Rightarrow> Curve" where
  "whole_cert_hash_curve cert =
     (case cert of None \<Rightarrow> NistP256 | Some c \<Rightarrow>
      (case cb_toBeSigned c of None \<Rightarrow> NistP256 | Some tbs \<Rightarrow>
      (case tbs_verifyKeyIndicator tbs of
         Some (VKI_verificationKey (Some pvk)) \<Rightarrow> pvk_hash_curve pvk
       | _ \<Rightarrow> NistP256)))"

definition truncate_hid8 :: "bytes \<Rightarrow> hid8" where
  "truncate_hid8 hash =
     (if length hash < kHashedId8Len then replicate 8 0 else last_n kHashedId8Len hash)"

definition compute_hid8_struct :: "env \<Rightarrow> CertificateBase option \<Rightarrow> bytes \<Rightarrow> hid8" where
  "compute_hid8_struct E cert cert_coer =
     truncate_hid8 (hash_for_curve E cert_coer (whole_cert_hash_curve cert))"

definition compute_hid8 :: "env \<Rightarrow> bytes \<Rightarrow> hid8" where
  "compute_hid8 E cert_coer =
     compute_hid8_struct E (coer_decode (asn_DEF_CertificateBase E) cert_coer) cert_coer"

section \<open>Validity\<close>

fun duration_seconds :: "Duration option \<Rightarrow> u64" where
  "duration_seconds None = 0"
| "duration_seconds (Some (Dur_microseconds n)) = ucast n div 1000000"
| "duration_seconds (Some (Dur_milliseconds n)) = ucast n div 1000"
| "duration_seconds (Some (Dur_seconds n)) = ucast n"
| "duration_seconds (Some (Dur_minutes n)) = ucast n * 60"
| "duration_seconds (Some (Dur_hours n)) = ucast n * 3600"
| "duration_seconds (Some (Dur_sixtyHours n)) = ucast n * kSixtyHoursSeconds"
| "duration_seconds (Some (Dur_years n)) = ucast n * kYearSeconds"

section \<open>from_struct\<close>

text \<open>The steps of \<open>from_struct\<close>, in its order; each updates the fields its block assigns.\<close>

definition copy_hid8 :: "bytes \<Rightarrow> CertInfo \<Rightarrow> CertInfo" where
  "copy_hid8 issuer_bytes ci =
     (if length (octet_bytes issuer_bytes) = kHashedId8Len
      then ci\<lparr>ci_issuer_hash_id_8 := octet_bytes issuer_bytes\<rparr> else ci)"

fun parse_issuer :: "IssuerIdentifier option \<Rightarrow> CertInfo \<Rightarrow> CertInfo" where
  "parse_issuer None ci = ci"
| "parse_issuer (Some (Issuer_self alg)) ci =
     (let ci1 = ci\<lparr>ci_is_self_signed := True\<rparr> in
      if alg = HA_sha384 then ci1\<lparr>ci_issuer_hash := Sha384\<rparr> else ci1)"
| "parse_issuer (Some (Issuer_sha256AndDigest d)) ci = copy_hid8 d (ci\<lparr>ci_is_self_signed := False\<rparr>)"
| "parse_issuer (Some (Issuer_sha384AndDigest d)) ci =
     copy_hid8 d (ci\<lparr>ci_is_self_signed := False, ci_issuer_hash := Sha384\<rparr>)"
| "parse_issuer (Some (Issuer_sm3AndDigest d)) ci = ci"

definition set_public_key :: "bytes \<Rightarrow> Curve \<Rightarrow> CertInfo \<Rightarrow> CertInfo" where
  "set_public_key sec1 c ci =
     (case sb_from kP384PublicKeyLen sec1 of
        Some pk \<Rightarrow> ci\<lparr>ci_public_key := pk, ci_curve := c\<rparr>
      | None \<Rightarrow> ci\<lparr>ci_curve := c\<rparr>)"

fun parse_verification_key :: "PublicVerificationKey \<Rightarrow> CertInfo \<Rightarrow> CertInfo" where
  "parse_verification_key (PVK_ecdsaNistP256 (Some p)) ci =
     set_public_key (to_sec1 (Some p)) NistP256 ci"
| "parse_verification_key (PVK_ecdsaBrainpoolP256r1 (Some p)) ci =
     set_public_key (to_sec1 (Some p)) BrainpoolP256r1 ci"
| "parse_verification_key (PVK_ecdsaBrainpoolP384r1 (Some p)) ci =
     set_public_key (to_sec1_384 (Some p)) BrainpoolP384r1 ci"
| "parse_verification_key (PVK_ecdsaNistP384 (Some p)) ci =
     set_public_key (to_sec1_384 (Some p)) NistP384 ci"
| "parse_verification_key _ ci = ci"

definition parse_vki :: "ToBeSignedCertificate \<Rightarrow> CertInfo \<Rightarrow> CertInfo" where
  "parse_vki tbs ci =
     (case tbs_verifyKeyIndicator tbs of
        Some (VKI_verificationKey (Some pvk)) \<Rightarrow> parse_verification_key pvk ci
      | _ \<Rightarrow> ci)"

definition set_encryption_key :: "bytes \<Rightarrow> Curve \<Rightarrow> CertInfo \<Rightarrow> CertInfo" where
  "set_encryption_key sec1 c ci =
     (case sb_from kP256PublicKeyLen sec1 of
        Some ek \<Rightarrow> ci\<lparr>ci_encryption_key := ek, ci_enc_curve := c\<rparr>
      | None \<Rightarrow> ci\<lparr>ci_enc_curve := c\<rparr>)"

definition parse_encryption_key :: "ToBeSignedCertificate \<Rightarrow> CertInfo \<Rightarrow> CertInfo" where
  "parse_encryption_key tbs ci =
     (case tbs_encryptionKey tbs of None \<Rightarrow> ci | Some ek \<Rightarrow>
      (case pek_publicKey ek of
         Some (BPEK_eciesNistP256 (Some p)) \<Rightarrow> set_encryption_key (to_sec1 (Some p)) NistP256 ci
       | Some (BPEK_eciesBrainpoolP256r1 (Some p)) \<Rightarrow>
           set_encryption_key (to_sec1 (Some p)) BrainpoolP256r1 ci
       | _ \<Rightarrow> ci))"

definition parse_validity :: "ToBeSignedCertificate \<Rightarrow> CertInfo \<Rightarrow> CertInfo" where
  "parse_validity tbs ci =
     (case tbs_validityPeriod tbs of None \<Rightarrow> ci | Some vp \<Rightarrow>
        ci\<lparr>ci_validity_start := vp_start vp,
           ci_validity_duration_seconds := duration_seconds (vp_duration vp)\<rparr>)"

definition parse_tbs_bytes :: "env \<Rightarrow> ToBeSignedCertificate \<Rightarrow> CertInfo \<Rightarrow> CertInfo" where
  "parse_tbs_bytes E tbs ci =
     (case sb_from kMaxCoerMessageLen (coer_encode (asn_DEF_ToBeSignedCertificate E) tbs) of
        None \<Rightarrow> ci | Some tb \<Rightarrow> ci\<lparr>ci_tbs_bytes := tb\<rparr>)"

definition parse_signature :: "AsnSignature option \<Rightarrow> CertInfo \<Rightarrow> CertInfo" where
  "parse_signature asn_sig ci =
     (case extract_sig asn_sig of None \<Rightarrow> ci | Some rs \<Rightarrow>
        let ci1 = (case sb_from kP384ScalarLen (rs_r rs) of None \<Rightarrow> ci | Some r \<Rightarrow> ci\<lparr>ci_signature_r := r\<rparr>)
        in (case sb_from kP384ScalarLen (rs_s rs) of None \<Rightarrow> ci1 | Some s \<Rightarrow> ci1\<lparr>ci_signature_s := s\<rparr>))"

definition parse_tbs :: "env \<Rightarrow> ToBeSignedCertificate option \<Rightarrow> CertInfo \<Rightarrow> CertInfo" where
  "parse_tbs E tbs ci =
     (case tbs of None \<Rightarrow> ci
      | Some t \<Rightarrow> parse_tbs_bytes E t (parse_validity t (parse_encryption_key t (parse_vki t ci))))"

definition from_struct :: "env \<Rightarrow> CertificateBase \<Rightarrow> bytes \<Rightarrow> CertInfo" where
  "from_struct E cert cert_coer =
     (let ci = CertInfo_init (uninit E 8);
          ci1 = (case sb_from kMaxCoerMessageLen cert_coer of
                   None \<Rightarrow> ci | Some cb \<Rightarrow> ci\<lparr>ci_cert_bytes := cb\<rparr>);
          ci2 = ci1\<lparr>ci_hashed_id_8 := compute_hid8_struct E (Some cert) cert_coer\<rparr>
      in parse_signature (cb_signature cert)
           (parse_tbs E (cb_toBeSigned cert) (parse_issuer (cb_issuer cert) ci2)))"

definition from_coer :: "env \<Rightarrow> bytes \<Rightarrow> CertInfo" where
  "from_coer E cert_coer =
     (case coer_decode (asn_DEF_CertificateBase E) cert_coer of
        None \<Rightarrow> CertInfo_init (replicate 8 0)
      | Some cert \<Rightarrow> from_struct E cert cert_coer)"

section \<open>Well-formedness\<close>

definition wf_CertInfo :: "CertInfo \<Rightarrow> bool" where
  "wf_CertInfo ci \<longleftrightarrow>
     wf_sb kMaxCoerMessageLen (ci_cert_bytes ci) \<and> length (ci_hashed_id_8 ci) = kHashedId8Len \<and>
     wf_sb kP384PublicKeyLen (ci_public_key ci) \<and> wf_sb kP256PublicKeyLen (ci_encryption_key ci) \<and>
     length (ci_issuer_hash_id_8 ci) = kHashedId8Len \<and>
     wf_sb kMaxCoerMessageLen (ci_tbs_bytes ci) \<and> wf_sb kP384ScalarLen (ci_signature_r ci) \<and>
     wf_sb kP384ScalarLen (ci_signature_s ci) \<and> is_p256_size (ci_enc_curve ci) \<and>
     unat (ci_validity_duration_seconds ci) < 2 ^ 41"

text \<open>An array of type \<open>std::array<uint8_t, 8>\<close> has eight elements, initialised or not.\<close>

definition array8_ok :: "env \<Rightarrow> bool" where
  "array8_ok E \<longleftrightarrow> length (uninit E 8) = kHashedId8Len"

text \<open>The number of seconds a duration stands for, as a natural number.\<close>

fun duration_nat :: "Duration option \<Rightarrow> nat" where
  "duration_nat None = 0"
| "duration_nat (Some (Dur_microseconds n)) = unat n div 1000000"
| "duration_nat (Some (Dur_milliseconds n)) = unat n div 1000"
| "duration_nat (Some (Dur_seconds n)) = unat n"
| "duration_nat (Some (Dur_minutes n)) = unat n * 60"
| "duration_nat (Some (Dur_hours n)) = unat n * 3600"
| "duration_nat (Some (Dur_sixtyHours n)) = unat n * (60 * 3600)"
| "duration_nat (Some (Dur_years n)) = unat n * 31556952"

lemma unat_lt_16: "unat (n :: u16) < 65536"
  using unsigned_less [of n, where ?'a = nat] by simp

lemma unat_ucast_16_64 [simp]: "unat (ucast (n :: u16) :: u64) = unat n"
  using unat_lt_16 [of n] by (simp add: unsigned_ucast_eq take_bit_nat_eq_self)

lemma u16_mult_bound: "k \<le> 31556952 \<Longrightarrow> unat (n :: u16) * k < 2 ^ 41"
  using mult_le_mono [of "unat n" 65535 k 31556952] unat_lt_16 [of n] by simp

lemma unat_mult_16_64:
  assumes "k \<le> 31556952"
  shows "unat (ucast (n :: u16) * (of_nat k :: u64)) = unat n * k"
proof -
  have "unat (of_nat k :: u64) = k"
    using assms by (simp add: unsigned_of_nat take_bit_nat_eq_self)
  then show ?thesis
    using u16_mult_bound [OF assms, of n] by (simp add: unat_word_ariths)
qed

lemma duration_nat_bound: "duration_nat d < 2 ^ 41"
proof (cases d rule: duration_nat.cases)
  case (2 n)
  then show ?thesis using u16_mult_bound [of 1 n] by (simp add: le_less_trans [OF div_le_dividend])
next
  case (3 n)
  then show ?thesis using u16_mult_bound [of 1 n] by (simp add: le_less_trans [OF div_le_dividend])
next
  case (4 n)
  then show ?thesis using u16_mult_bound [of 1 n] by simp
next
  case (5 n)
  then show ?thesis using u16_mult_bound [of 60 n] by simp
next
  case (6 n)
  then show ?thesis using u16_mult_bound [of 3600 n] by simp
next
  case (7 n)
  then show ?thesis using u16_mult_bound [of "60 * 3600" n] by simp
next
  case (8 n)
  then show ?thesis using u16_mult_bound [of 31556952 n] by simp
qed simp

text \<open>The 64-bit computation is exact: no product wraps.\<close>

lemma unat_duration_seconds: "unat (duration_seconds d) = duration_nat d"
proof -
  have c: "kSixtyHoursSeconds = of_nat (60 * 3600)" "kYearSeconds = of_nat 31556952"
    by (simp_all add: kSixtyHoursSeconds_def kYearSeconds_def)
  show ?thesis
    using unat_mult_16_64 [of 60] unat_mult_16_64 [of 3600] unat_mult_16_64 [of "60 * 3600"]
      unat_mult_16_64 [of 31556952]
    by (cases d rule: duration_nat.cases) (simp_all add: c unat_div_distrib)
qed

section \<open>The validity interval\<close>

lemma sint_small_u64:
  assumes "unat (x :: u64) < 2 ^ 63"
  shows "sint x = uint x"
proof -
  have "uint x < 2 ^ 63"
    using assms by (simp add: nat_less_iff flip: nat_uint_eq)
  then have "signed_take_bit 63 (uint x) = uint x"
    by (intro signed_take_bit_int_eq_self) (use order_trans [of "- 1" 0 "uint x"] in simp_all)
  then show ?thesis by (simp add: sint_uint)
qed

text \<open>
  A certificate is valid exactly in the half-open interval from its start, of the length of its
  duration; the end is representable, so the sum in the code does not overflow.
\<close>

lemma valid_at_iff:
  assumes "unat (ci_validity_duration_seconds ci) < 2 ^ 41"
  shows "valid_at ci t \<longleftrightarrow>
    uint (ci_validity_start ci) \<le> t \<and>
    t < uint (ci_validity_start ci) + uint (ci_validity_duration_seconds ci)"
proof -
  have "sint (ci_validity_duration_seconds ci) = uint (ci_validity_duration_seconds ci)"
    using sint_small_u64 [of "ci_validity_duration_seconds ci"] assms by simp
  then show ?thesis
    by (auto simp: valid_at_def Let_def word_eq_iff_unsigned)
qed

lemma validity_end_fits:
  assumes "unat (ci_validity_duration_seconds ci) < 2 ^ 41"
  shows "uint (ci_validity_start ci) + uint (ci_validity_duration_seconds ci) < 2 ^ 63"
proof -
  have "uint (ci_validity_start ci) < 2 ^ 32"
    using unsigned_less [of "ci_validity_start ci", where ?'a = int] by simp
  moreover have "uint (ci_validity_duration_seconds ci) < 2 ^ 41"
    using assms by (simp add: nat_less_iff flip: nat_uint_eq)
  ultimately show ?thesis by simp
qed

lemma valid_at_zero [simp]: "ci_validity_duration_seconds ci = 0 \<Longrightarrow> \<not> valid_at ci t"
  by (simp add: valid_at_def)

section \<open>Parsed certificates are well formed\<close>

lemma length_truncate_hid8 [simp]: "length (truncate_hid8 h) = 8"
  by (auto simp: truncate_hid8_def size_simps)

lemma length_compute_hid8_struct [simp]: "length (compute_hid8_struct E c b) = 8"
  by (simp add: compute_hid8_struct_def)

lemma length_compute_hid8 [simp]: "length (compute_hid8 E b) = 8"
  by (simp add: compute_hid8_def)

lemma wf_CertInfo_init [wf_rules]: "length arr = 8 \<Longrightarrow> wf_CertInfo (CertInfo_init arr)"
  by (simp add: wf_CertInfo_def CertInfo_init_def is_p256_size_def size_simps wf_sb_def sb_default_def)

lemma wf_parse_issuer [wf_rules]: "wf_CertInfo ci \<Longrightarrow> wf_CertInfo (parse_issuer i ci)"
  by (cases "(i, ci)" rule: parse_issuer.cases) (auto simp: wf_CertInfo_def copy_hid8_def Let_def)

lemma wf_set_public_key [wf_rules]: "wf_CertInfo ci \<Longrightarrow> wf_CertInfo (set_public_key k c ci)"
  by (auto simp: wf_CertInfo_def set_public_key_def split: option.splits intro: wf_rules)

lemma wf_parse_verification_key [wf_rules]:
  "wf_CertInfo ci \<Longrightarrow> wf_CertInfo (parse_verification_key pvk ci)"
  by (induction pvk ci rule: parse_verification_key.induct) (auto intro: wf_rules)

lemma wf_parse_vki [wf_rules]: "wf_CertInfo ci \<Longrightarrow> wf_CertInfo (parse_vki tbs ci)"
  by (auto simp: parse_vki_def intro: wf_rules
      split: option.splits VerificationKeyIndicator.splits)

lemma wf_set_encryption_key [wf_rules]:
  "wf_CertInfo ci \<Longrightarrow> is_p256_size c \<Longrightarrow> wf_CertInfo (set_encryption_key k c ci)"
  by (auto simp: wf_CertInfo_def set_encryption_key_def split: option.splits intro: wf_rules)

lemma wf_parse_encryption_key [wf_rules]:
  "wf_CertInfo ci \<Longrightarrow> wf_CertInfo (parse_encryption_key tbs ci)"
  by (auto simp: parse_encryption_key_def is_p256_size_def intro!: wf_set_encryption_key
      split: option.splits BasePublicEncryptionKey.splits)

lemma wf_parse_validity [wf_rules]: "wf_CertInfo ci \<Longrightarrow> wf_CertInfo (parse_validity tbs ci)"
  using duration_nat_bound
  by (auto simp: parse_validity_def wf_CertInfo_def unat_duration_seconds split: option.splits)

lemma wf_parse_tbs_bytes [wf_rules]: "wf_CertInfo ci \<Longrightarrow> wf_CertInfo (parse_tbs_bytes E tbs ci)"
  by (auto simp: parse_tbs_bytes_def wf_CertInfo_def split: option.splits intro: wf_rules)

lemma wf_parse_tbs [wf_rules]: "wf_CertInfo ci \<Longrightarrow> wf_CertInfo (parse_tbs E tbs ci)"
  by (auto simp: parse_tbs_def split: option.splits intro!: wf_rules)

lemma wf_parse_signature [wf_rules]: "wf_CertInfo ci \<Longrightarrow> wf_CertInfo (parse_signature sg ci)"
  by (auto simp: parse_signature_def wf_CertInfo_def Let_def split: option.splits intro: wf_rules)

lemma wf_from_struct:
  assumes "array8_ok E"
  shows "wf_CertInfo (from_struct E cert coer)"
proof -
  have "wf_CertInfo (CertInfo_init (uninit E 8))"
    using assms by (intro wf_CertInfo_init) (simp add: array8_ok_def size_simps)
  then have "wf_CertInfo ((case sb_from kMaxCoerMessageLen coer of
      None \<Rightarrow> CertInfo_init (uninit E 8)
    | Some cb \<Rightarrow> CertInfo_init (uninit E 8)\<lparr>ci_cert_bytes := cb\<rparr>)
      \<lparr>ci_hashed_id_8 := compute_hid8_struct E (Some cert) coer\<rparr>)"
    by (auto simp: wf_CertInfo_def size_simps split: option.splits intro: wf_rules)
  then show ?thesis
    unfolding from_struct_def Let_def by (intro wf_rules)
qed

lemma wf_from_coer: "array8_ok E \<Longrightarrow> wf_CertInfo (from_coer E coer)"
  by (auto simp: from_coer_def split: option.splits intro: wf_from_struct wf_CertInfo_init)

section \<open>Fields of a parsed certificate\<close>

text \<open>The steps after the first two leave the certificate bytes and the identifier alone.\<close>

lemma parse_issuer_keeps [simp]:
  "ci_cert_bytes (parse_issuer i ci) = ci_cert_bytes ci"
  "ci_hashed_id_8 (parse_issuer i ci) = ci_hashed_id_8 ci"
  by (cases "(i, ci)" rule: parse_issuer.cases; simp add: copy_hid8_def Let_def)+

lemma parse_verification_key_keeps [simp]:
  "ci_cert_bytes (parse_verification_key pvk ci) = ci_cert_bytes ci"
  "ci_hashed_id_8 (parse_verification_key pvk ci) = ci_hashed_id_8 ci"
  "ci_issuer_hash_id_8 (parse_verification_key pvk ci) = ci_issuer_hash_id_8 ci"
  "ci_issuer_hash (parse_verification_key pvk ci) = ci_issuer_hash ci"
  "ci_is_self_signed (parse_verification_key pvk ci) = ci_is_self_signed ci"
  "ci_label (parse_verification_key pvk ci) = ci_label ci"
  by (cases "(pvk, ci)" rule: parse_verification_key.cases;
      simp add: set_public_key_def split: option.splits)+

lemma parse_tbs_keeps [simp]:
  "ci_cert_bytes (parse_tbs E t ci) = ci_cert_bytes ci"
  "ci_hashed_id_8 (parse_tbs E t ci) = ci_hashed_id_8 ci"
  "ci_issuer_hash_id_8 (parse_tbs E t ci) = ci_issuer_hash_id_8 ci"
  "ci_issuer_hash (parse_tbs E t ci) = ci_issuer_hash ci"
  "ci_is_self_signed (parse_tbs E t ci) = ci_is_self_signed ci"
  by (auto simp: parse_tbs_def parse_tbs_bytes_def parse_validity_def parse_encryption_key_def
      parse_vki_def set_encryption_key_def
      split: option.splits VerificationKeyIndicator.splits BasePublicEncryptionKey.splits)

lemma parse_signature_keeps [simp]:
  "ci_cert_bytes (parse_signature s ci) = ci_cert_bytes ci"
  "ci_hashed_id_8 (parse_signature s ci) = ci_hashed_id_8 ci"
  "ci_issuer_hash_id_8 (parse_signature s ci) = ci_issuer_hash_id_8 ci"
  "ci_issuer_hash (parse_signature s ci) = ci_issuer_hash ci"
  "ci_is_self_signed (parse_signature s ci) = ci_is_self_signed ci"
  "ci_public_key (parse_signature s ci) = ci_public_key ci"
  "ci_curve (parse_signature s ci) = ci_curve ci"
  "ci_tbs_bytes (parse_signature s ci) = ci_tbs_bytes ci"
  "ci_validity_start (parse_signature s ci) = ci_validity_start ci"
  "ci_validity_duration_seconds (parse_signature s ci) = ci_validity_duration_seconds ci"
  by (auto simp: parse_signature_def Let_def split: option.splits)

lemma from_struct_hashed_id_8:
  "ci_hashed_id_8 (from_struct E cert coer) = compute_hid8_struct E (Some cert) coer"
  by (simp add: from_struct_def Let_def)

lemma from_struct_cert_bytes:
  "to_vector (ci_cert_bytes (from_struct E cert coer)) =
     (if length coer \<le> kMaxCoerMessageLen then coer else [])"
  by (auto simp: from_struct_def Let_def CertInfo_init_def split: option.splits
      dest: sb_from_SomeD)

lemma sb_empty_from_struct_cert_bytes:
  "sb_empty (ci_cert_bytes (from_struct E cert coer)) \<longleftrightarrow>
     coer = [] \<or> kMaxCoerMessageLen < length coer"
  by (auto simp: from_struct_def Let_def CertInfo_init_def split: option.splits
      dest: sb_from_SomeD)

text \<open>
  The whole chain of a decoded certificate: the bytes are kept verbatim (never truncated) and the
  identifier is the one computed from the same bytes.
\<close>

lemma from_coer_bytes:
  "\<not> sb_empty (ci_cert_bytes (from_coer E coer)) \<Longrightarrow>
   to_vector (ci_cert_bytes (from_coer E coer)) = coer \<and>
   ci_hashed_id_8 (from_coer E coer) = compute_hid8 E coer"
  by (auto simp: from_coer_def compute_hid8_def sb_empty_from_struct_cert_bytes
      from_struct_cert_bytes from_struct_hashed_id_8 CertInfo_init_def split: option.splits)

lemma from_coer_usable_iff:
  "\<not> sb_empty (ci_cert_bytes (from_coer E coer)) \<longleftrightarrow>
   coer_decode (asn_DEF_CertificateBase E) coer \<noteq> None \<and> coer \<noteq> [] \<and>
   length coer \<le> kMaxCoerMessageLen"
  by (auto simp: from_coer_def sb_empty_from_struct_cert_bytes CertInfo_init_def
      split: option.splits)

section \<open>Properties\<close>

lemma duration_from_struct:
  "unat (ci_validity_duration_seconds (from_struct E cert coer)) < 2 ^ 41"
proof -
  have issuer: "ci_validity_duration_seconds (parse_issuer i ci) = ci_validity_duration_seconds ci" for i ci
    by (cases "(i, ci)" rule: parse_issuer.cases; simp add: copy_hid8_def Let_def)
  have vki: "ci_validity_duration_seconds (parse_vki t ci) = ci_validity_duration_seconds ci" for t ci
    unfolding parse_vki_def
    by (auto split: option.splits VerificationKeyIndicator.splits)
      (rename_tac pvk, case_tac "(pvk, ci)" rule: parse_verification_key.cases;
        simp add: set_public_key_def split: option.splits)
  have enc: "ci_validity_duration_seconds (parse_encryption_key t ci) = ci_validity_duration_seconds ci" for t ci
    by (auto simp: parse_encryption_key_def set_encryption_key_def
        split: option.splits BasePublicEncryptionKey.splits)
  have tb: "ci_validity_duration_seconds (parse_tbs_bytes E t ci) = ci_validity_duration_seconds ci" for t ci
    by (simp add: parse_tbs_bytes_def split: option.split)
  have "unat (ci_validity_duration_seconds (parse_tbs E t ci)) < 2 ^ 41"
    if "unat (ci_validity_duration_seconds ci) < 2 ^ 41" for t ci
    using that duration_nat_bound
    by (simp add: parse_tbs_def tb parse_validity_def enc vki unat_duration_seconds split: option.split)
  then show ?thesis
    by (simp add: from_struct_def Let_def issuer CertInfo_init_def split: option.split)
qed

lemma duration_from_coer: "unat (ci_validity_duration_seconds (from_coer E coer)) < 2 ^ 41"
  using duration_from_struct by (auto simp: from_coer_def CertInfo_init_def split: option.split)

text \<open>
  (C35) The validity test of a parsed certificate is membership in the half-open interval that
  starts at its start time and has the length of its duration, and the end of the interval is
  within \<open>int64_t\<close>, so the addition in the test cannot overflow.
\<close>

theorem parsed_validity_is_half_open_interval:
  "(valid_at (from_coer E coer) t \<longleftrightarrow>
      t \<in> {uint (ci_validity_start (from_coer E coer)) ..<
          uint (ci_validity_start (from_coer E coer)) +
          uint (ci_validity_duration_seconds (from_coer E coer))}) \<and>
   uint (ci_validity_start (from_coer E coer)) + uint (ci_validity_duration_seconds (from_coer E coer)) < 2 ^ 63"
  using valid_at_iff [OF duration_from_coer] validity_end_fits [OF duration_from_coer] by auto

text \<open>
  The duration of a certificate in seconds is computed without wrap-around for every CHOICE
  and every 16-bit count, and stays below \<open>2 ^ 41\<close>.
\<close>

theorem duration_seconds_exact:
  "unat (duration_seconds d) = duration_nat d \<and> duration_nat d < 2 ^ 41"
  using duration_nat_bound by (auto simp: unat_duration_seconds)

text \<open>
  The bytes of a certificate are kept verbatim or not at all: they are kept exactly when the
  input decodes and fits the message buffer. Whenever they are kept, the identifier is the one
  \<open>compute_hid8\<close> gives for those bytes.
\<close>

theorem parsed_bytes_verbatim:
  "to_vector (ci_cert_bytes (from_coer E coer)) =
     (if coer_decode (asn_DEF_CertificateBase E) coer \<noteq> None \<and> length coer \<le> kMaxCoerMessageLen
      then coer else []) \<and>
   (sb_empty (ci_cert_bytes (from_coer E coer)) \<or>
      ci_hashed_id_8 (from_coer E coer) = compute_hid8 E coer)"
proof
  show "to_vector (ci_cert_bytes (from_coer E coer)) =
     (if coer_decode (asn_DEF_CertificateBase E) coer \<noteq> None \<and> length coer \<le> kMaxCoerMessageLen
      then coer else [])"
    by (auto simp: from_coer_def from_struct_cert_bytes CertInfo_init_def split: option.splits)
  show "sb_empty (ci_cert_bytes (from_coer E coer)) \<or>
      ci_hashed_id_8 (from_coer E coer) = compute_hid8 E coer"
    using from_coer_bytes by blast
qed

text \<open>
  (C36) Every parsed certificate is well formed: its buffers satisfy the invariant of their
  capacity, both identifiers have eight bytes, the encryption curve is one of the two 256-bit
  ones and the duration is below \<open>2 ^ 41\<close> seconds.
\<close>

theorem parsed_certificate_wf:
  assumes "array8_ok E"
  shows "wf_CertInfo (from_coer E coer)"
  using assms by (rule wf_from_coer)

end
