(* ===== verification/SignedMessage.thy ===== *)
theory SignedMessage
  imports CertParse
begin

text \<open>
  \<open>src/internal/signed_message.cpp\<close>: unwrapping an \<open>EtsiTs103097Data-Signed\<close> envelope and verifying
  its signature against a certificate the caller supplies. The trust list and the revocation list
  decoders both use it.
\<close>

record SignedMessage =
  sm_payload_coer :: bytes
  sm_tbs_coer :: bytes
  sm_signer_hid8 :: hid8
  sm_sig_r :: bytes
  sm_sig_s :: bytes
  sm_sig_curve :: Curve
  sm_has_signer_digest :: bool

definition SignedMessage_init :: SignedMessage where
  "SignedMessage_init =
     \<lparr>sm_payload_coer = [], sm_tbs_coer = [], sm_signer_hid8 = replicate 8 0, sm_sig_r = [],
      sm_sig_s = [], sm_sig_curve = NistP256, sm_has_signer_digest = False\<rparr>"

section \<open>unwrap\<close>

definition read_signer :: "SignerIdentifier option \<Rightarrow> SignedMessage \<Rightarrow> SignedMessage" where
  "read_signer signer m =
     (case signer of
        Some (Signer_digest dig) \<Rightarrow>
          let d = octet_bytes dig in
          if length d = kHashedId8Len then m\<lparr>sm_signer_hid8 := d, sm_has_signer_digest := True\<rparr> else m
      | _ \<Rightarrow> m)"

definition read_signature :: "AsnSignature option \<Rightarrow> SignedMessage \<Rightarrow> SignedMessage" where
  "read_signature sg m =
     (case extract_sig sg of None \<Rightarrow> m | Some rs \<Rightarrow>
        m\<lparr>sm_sig_r := rs_r rs, sm_sig_s := rs_s rs, sm_sig_curve := rs_curve rs\<rparr>)"

definition unsecured_payload :: "SignedDataPayload \<Rightarrow> bytes option" where
  "unsecured_payload payload =
     (case payload_data payload of None \<Rightarrow> None | Some d \<Rightarrow>
      (case data_content d of Some (unsecuredData os) \<Rightarrow> Some (octet_bytes os) | _ \<Rightarrow> None))"

text \<open>The result of \<open>unwrap\<close> for the parts of the decoded structure it reads.\<close>

definition message_of :: "env \<Rightarrow> SignedData \<Rightarrow> ToBeSignedData \<Rightarrow> bytes \<Rightarrow> SignedMessage" where
  "message_of E sd tbs p =
     (let m = SignedMessage_init\<lparr>sm_tbs_coer := coer_encode (asn_DEF_ToBeSignedData E) tbs\<rparr>;
          m1 = read_signer (sd_signer sd) m;
          m2 = read_signature (sd_signature sd) m1
      in m2\<lparr>sm_payload_coer := p\<rparr>)"

definition unwrap :: "env \<Rightarrow> bytes \<Rightarrow> SignedMessage option" where
  "unwrap E coer =
     (case decode_with_basic_fallback (asn_DEF_Ieee1609Dot2Data E) coer of
        None \<Rightarrow> None | Some outer \<Rightarrow>
      (case data_content outer of Some (signedData (Some sd)) \<Rightarrow>
        (case sd_tbsData sd of None \<Rightarrow> None | Some tbs \<Rightarrow>
        (case tbsd_payload tbs of None \<Rightarrow> None | Some payload \<Rightarrow>
        (case unsecured_payload payload of None \<Rightarrow> None | Some p \<Rightarrow>
           if p = [] then None else Some (message_of E sd tbs p))))
       | _ \<Rightarrow> None))"

section \<open>verify\<close>

text \<open>IEEE 1609.2 5.3.1: \<open>H( H(tbs) || H(signerIdentifierInput) )\<close>.\<close>

definition double_hash :: "(bytes \<Rightarrow> bytes) \<Rightarrow> bytes \<Rightarrow> bytes \<Rightarrow> bytes" where
  "double_hash H tbs signer_input = H (H tbs @ H signer_input)"

definition verify :: "env \<Rightarrow> SignedMessage \<Rightarrow> bytes \<Rightarrow> bytes \<Rightarrow> bool" where
  "verify E data verifier_pubkey signer_cert_coer =
     (if verifier_pubkey = [] \<or> sm_tbs_coer data = [] then False
      else let slen = scalar_len (sm_sig_curve data) in
      if length (sm_sig_r data) \<noteq> slen \<or> length (sm_sig_s data) \<noteq> slen then False
      else if sm_has_signer_digest data \<and> compute_hid8 E signer_cert_coer \<noteq> sm_signer_hid8 data
      then False
      else let signed_data_hash =
          double_hash (\<lambda>d. hash_for_curve E d (sm_sig_curve data)) (sm_tbs_coer data) signer_cert_coer in
      (case sb_from kP384ScalarLen (sm_sig_r data) of None \<Rightarrow> False | Some r \<Rightarrow>
      (case sb_from kP384ScalarLen (sm_sig_s data) of None \<Rightarrow> False | Some s \<Rightarrow>
         ecdsa_verify_digest E verifier_pubkey signed_data_hash
           \<lparr>sig_r_sb = r, sig_s_sb = s\<rparr> (sm_sig_curve data))))"

section \<open>Facts\<close>

lemma read_signer_keeps [simp]:
  "sm_tbs_coer (read_signer s m) = sm_tbs_coer m" "sm_sig_r (read_signer s m) = sm_sig_r m"
  "sm_sig_s (read_signer s m) = sm_sig_s m" "sm_sig_curve (read_signer s m) = sm_sig_curve m"
  by (auto simp: read_signer_def Let_def split: option.splits SignerIdentifier.splits)

lemma read_signature_keeps [simp]:
  "sm_tbs_coer (read_signature s m) = sm_tbs_coer m"
  "sm_signer_hid8 (read_signature s m) = sm_signer_hid8 m"
  "sm_has_signer_digest (read_signature s m) = sm_has_signer_digest m"
  by (auto simp: read_signature_def split: option.splits)

lemma message_of_fields [simp]:
  "sm_tbs_coer (message_of E sd tbs p) = coer_encode (asn_DEF_ToBeSignedData E) tbs"
  "sm_payload_coer (message_of E sd tbs p) = p"
  by (simp_all add: message_of_def Let_def)

lemma unwrap_Some_iff:
  "unwrap E coer = Some m \<longleftrightarrow>
     (\<exists>pv sd tbs payload p.
        decode_with_basic_fallback (asn_DEF_Ieee1609Dot2Data E) coer =
          Some (Ieee1609Dot2Data pv (Some (signedData (Some sd)))) \<and>
        sd_tbsData sd = Some tbs \<and> tbsd_payload tbs = Some payload \<and>
        unsecured_payload payload = Some p \<and> p \<noteq> [] \<and> m = message_of E sd tbs p)"
proof -
  have "(case data_content outer of Some (signedData (Some sd)) \<Rightarrow> f sd | _ \<Rightarrow> None) = Some m \<longleftrightarrow>
      (\<exists>pv sd. outer = Ieee1609Dot2Data pv (Some (signedData (Some sd))) \<and> f sd = Some m)"
    for outer and f :: "SignedData \<Rightarrow> SignedMessage option"
    by (cases outer) (auto split: option.splits Ieee1609Dot2Content.splits)
  then show ?thesis
    unfolding unwrap_def by (auto simp: unwind)
qed

text \<open>
  The payload a message is unwrapped to is part of the structure whose encoding is verified: it
  is what the signature covers, not a separate field.
\<close>

lemma unwrap_payload_covered:
  "unwrap E coer = Some m \<Longrightarrow>
   \<exists>tbs payload. sm_tbs_coer m = coer_encode (asn_DEF_ToBeSignedData E) tbs \<and>
     tbsd_payload tbs = Some payload \<and> unsecured_payload payload = Some (sm_payload_coer m)"
  by (auto simp: unwrap_Some_iff)

lemma verify_iff:
  "verify E m pk cert \<longleftrightarrow>
     pk \<noteq> [] \<and> sm_tbs_coer m \<noteq> [] \<and>
     length (sm_sig_r m) = scalar_len (sm_sig_curve m) \<and>
     length (sm_sig_s m) = scalar_len (sm_sig_curve m) \<and>
     \<not> (sm_has_signer_digest m \<and> compute_hid8 E cert \<noteq> sm_signer_hid8 m) \<and>
     (\<exists>r s. sb_from kP384ScalarLen (sm_sig_r m) = Some r \<and> sb_from kP384ScalarLen (sm_sig_s m) = Some s \<and>
        ecdsa_verify_digest E pk
          (double_hash (\<lambda>d. hash_for_curve E d (sm_sig_curve m)) (sm_tbs_coer m) cert)
          \<lparr>sig_r_sb = r, sig_s_sb = s\<rparr> (sm_sig_curve m))"
  by (auto simp: verify_def Let_def unwind)

lemma verify_binds_signer:
  "verify E m pk cert \<Longrightarrow> sm_has_signer_digest m \<Longrightarrow> sm_signer_hid8 m = compute_hid8 E cert"
  by (simp add: verify_iff)

text \<open>Verification reads the signature buffers only through their bytes.\<close>

lemma ecdsa_verify_digest_bytes:
  "to_vector (sig_r_sb a) = to_vector (sig_r_sb b) \<Longrightarrow> to_vector (sig_s_sb a) = to_vector (sig_s_sb b) \<Longrightarrow>
   ecdsa_verify_digest E pk dg a c \<longleftrightarrow> ecdsa_verify_digest E pk dg b c"
  by (simp add: ecdsa_verify_digest_def cong: option.case_cong)

text \<open>Verification over the bytes of the message, without the fixed buffers.\<close>

lemma verify_bytes_iff:
  "verify E m pk cert \<longleftrightarrow>
     pk \<noteq> [] \<and> sm_tbs_coer m \<noteq> [] \<and>
     length (sm_sig_r m) = scalar_len (sm_sig_curve m) \<and>
     length (sm_sig_s m) = scalar_len (sm_sig_curve m) \<and>
     \<not> (sm_has_signer_digest m \<and> compute_hid8 E cert \<noteq> sm_signer_hid8 m) \<and>
     (\<exists>r s. to_vector r = sm_sig_r m \<and> to_vector s = sm_sig_s m \<and>
        ecdsa_verify_digest E pk
          (hash_for_curve E (hash_for_curve E (sm_tbs_coer m) (sm_sig_curve m) @
             hash_for_curve E cert (sm_sig_curve m)) (sm_sig_curve m))
          \<lparr>sig_r_sb = r, sig_s_sb = s\<rparr> (sm_sig_curve m))"
  (is "_ \<longleftrightarrow> ?rhs")
proof
  assume "verify E m pk cert"
  then show ?rhs unfolding verify_iff double_hash_def using sb_from_sizes(1) by blast
next
  assume r: ?rhs
  then obtain r s where rs: "to_vector r = sm_sig_r m" "to_vector s = sm_sig_s m"
    and ver: "ecdsa_verify_digest E pk (double_hash (\<lambda>d. hash_for_curve E d (sm_sig_curve m)) (sm_tbs_coer m) cert)
      \<lparr>sig_r_sb = r, sig_s_sb = s\<rparr> (sm_sig_curve m)"
    unfolding double_hash_def by blast
  obtain a where a: "sb_from kP384ScalarLen (sm_sig_r m) = Some a"
    using r sb_from_fits by (metis scalar_len_le)
  obtain b where b: "sb_from kP384ScalarLen (sm_sig_s m) = Some b"
    using r sb_from_fits by (metis scalar_len_le)
  have "ecdsa_verify_digest E pk (double_hash (\<lambda>d. hash_for_curve E d (sm_sig_curve m)) (sm_tbs_coer m) cert)
      \<lparr>sig_r_sb = a, sig_s_sb = b\<rparr> (sm_sig_curve m)"
    by (rule iffD1 [OF ecdsa_verify_digest_bytes ver]) (use rs a b in auto)
  then show "verify E m pk cert" using r a b unfolding verify_iff by blast
qed

text \<open>The digest a signer field names, when it has the length of one.\<close>

definition signer_digest :: "SignerIdentifier option \<Rightarrow> bytes option" where
  "signer_digest signer =
     (case signer of
        Some (Signer_digest dig) \<Rightarrow> if length (octet_bytes dig) = kHashedId8Len then Some (octet_bytes dig) else None
      | _ \<Rightarrow> None)"

lemma read_signer_digest:
  "\<not> sm_has_signer_digest m \<Longrightarrow>
   sm_has_signer_digest (read_signer s m) = (signer_digest s \<noteq> None) \<and>
   (\<forall>d. signer_digest s = Some d \<longrightarrow> sm_signer_hid8 (read_signer s m) = d)"
  by (auto simp: read_signer_def signer_digest_def Let_def split: option.splits SignerIdentifier.splits if_splits)

lemma message_of_signer:
  "sm_has_signer_digest (message_of E sd tbs p) = (signer_digest (sd_signer sd) \<noteq> None)"
  "signer_digest (sd_signer sd) = Some d \<Longrightarrow> sm_signer_hid8 (message_of E sd tbs p) = d"
  using read_signer_digest [of "SignedMessage_init\<lparr>sm_tbs_coer := coer_encode (asn_DEF_ToBeSignedData E) tbs\<rparr>" "sd_signer sd"]
  by (simp_all add: message_of_def Let_def SignedMessage_init_def)

lemma message_of_signature:
  "extract_sig (sd_signature sd) = Some rs \<Longrightarrow>
   sm_sig_r (message_of E sd tbs p) = rs_r rs \<and> sm_sig_s (message_of E sd tbs p) = rs_s rs \<and>
   sm_sig_curve (message_of E sd tbs p) = rs_curve rs"
  "extract_sig (sd_signature sd) = None \<Longrightarrow>
   sm_sig_r (message_of E sd tbs p) = [] \<and> sm_sig_curve (message_of E sd tbs p) = NistP256"
  by (simp_all add: message_of_def read_signature_def Let_def SignedMessage_init_def)

section \<open>Properties\<close>

text \<open>
  (C16) What it means that the bytes of a message are accepted with a payload: they decode to a signed
  structure whose part to be signed holds this payload; the signature in it has the length of its
  curve and verifies, under the given key, over the double hash of the re-encoded part to be signed
  and of the signer's certificate; and if the structure names its signer by a digest, it is the
  identifier of that certificate. So the payload handed on is always inside what the signature covers.
\<close>

theorem message_accepted_iff_signed:
  "(\<exists>m. unwrap E coer = Some m \<and> sm_payload_coer m = p \<and> verify E m pk cert) \<longleftrightarrow>
   pk \<noteq> [] \<and> p \<noteq> [] \<and>
   (\<exists>pv sd tbs payload rs r s.
      decode_with_basic_fallback (asn_DEF_Ieee1609Dot2Data E) coer =
        Some (Ieee1609Dot2Data pv (Some (signedData (Some sd)))) \<and>
      sd_tbsData sd = Some tbs \<and> tbsd_payload tbs = Some payload \<and> unsecured_payload payload = Some p \<and>
      coer_encode (asn_DEF_ToBeSignedData E) tbs \<noteq> [] \<and> extract_sig (sd_signature sd) = Some rs \<and>
      length (rs_r rs) = scalar_len (rs_curve rs) \<and> length (rs_s rs) = scalar_len (rs_curve rs) \<and>
      signer_digest (sd_signer sd) \<in> {None, Some (compute_hid8 E cert)} \<and>
      to_vector r = rs_r rs \<and> to_vector s = rs_s rs \<and>
      ecdsa_verify_digest E pk
        (hash_for_curve E (hash_for_curve E (coer_encode (asn_DEF_ToBeSignedData E) tbs) (rs_curve rs) @
           hash_for_curve E cert (rs_curve rs)) (rs_curve rs))
        \<lparr>sig_r_sb = r, sig_s_sb = s\<rparr> (rs_curve rs))"
proof -
  have step: "verify E (message_of E sd tbs p) pk cert \<longleftrightarrow>
      pk \<noteq> [] \<and> coer_encode (asn_DEF_ToBeSignedData E) tbs \<noteq> [] \<and>
      (\<exists>rs r s. extract_sig (sd_signature sd) = Some rs \<and>
        length (rs_r rs) = scalar_len (rs_curve rs) \<and> length (rs_s rs) = scalar_len (rs_curve rs) \<and>
        signer_digest (sd_signer sd) \<in> {None, Some (compute_hid8 E cert)} \<and>
        to_vector r = rs_r rs \<and> to_vector s = rs_s rs \<and>
        ecdsa_verify_digest E pk
          (hash_for_curve E (hash_for_curve E (coer_encode (asn_DEF_ToBeSignedData E) tbs) (rs_curve rs) @
             hash_for_curve E cert (rs_curve rs)) (rs_curve rs))
          \<lparr>sig_r_sb = r, sig_s_sb = s\<rparr> (rs_curve rs))" for sd tbs
  proof (cases "extract_sig (sd_signature sd)")
    case None
    then show ?thesis
      using message_of_signature(2) [OF None, of E tbs p] by (simp add: verify_bytes_iff size_simps)
  next
    case (Some rs)
    have "\<not> (sm_has_signer_digest (message_of E sd tbs p) \<and> compute_hid8 E cert \<noteq> sm_signer_hid8 (message_of E sd tbs p)) \<longleftrightarrow>
        signer_digest (sd_signer sd) \<in> {None, Some (compute_hid8 E cert)}"
      using message_of_signer(1) [of E sd tbs p] message_of_signer(2) [of sd _ E tbs p] by (cases "signer_digest (sd_signer sd)") auto
    then show ?thesis
      unfolding verify_bytes_iff using message_of_signature(1) [OF Some, of E tbs p] Some by auto
  qed
  have "(\<exists>m. unwrap E coer = Some m \<and> sm_payload_coer m = p \<and> verify E m pk cert) \<longleftrightarrow>
    (\<exists>pv sd tbs payload. decode_with_basic_fallback (asn_DEF_Ieee1609Dot2Data E) coer =
        Some (Ieee1609Dot2Data pv (Some (signedData (Some sd)))) \<and> sd_tbsData sd = Some tbs \<and>
      tbsd_payload tbs = Some payload \<and> unsecured_payload payload = Some p \<and> p \<noteq> [] \<and>
      verify E (message_of E sd tbs p) pk cert)"
    unfolding unwrap_Some_iff by fastforce
  then show ?thesis unfolding step by blast
qed

end
