(* ===== verification/Revocation.thy ===== *)
theory Revocation
  imports SignedMessage
begin

text \<open>
  \<open>src/revocation.cpp\<close> and \<open>include/v2xpki/revocation.hpp\<close>: decoding a CRL and the revocation store,
  a map from an issuer's HashedId8 to the set of HashedId8 values it revoked. The interface
  \<open>revocation_list\<close> states what the chain validation relies on.
\<close>

record CrlContents =
  crl_issuer_hid8 :: hid8
  crl_this_update :: u32
  crl_next_update :: u32
  crl_revoked :: "hid8 list"

text \<open>The loop over the entries keeps those of eight bytes, in order.\<close>

primrec read_crl_entries :: "bytes list \<Rightarrow> hid8 list" where
  "read_crl_entries [] = []"
| "read_crl_entries (e # es) =
     (if length e \<noteq> kHashedId8Len then read_crl_entries es else e # read_crl_entries es)"

text \<open>The three null and discriminator checks on the content, all answered by \<open>Decode\<close>.\<close>

definition crl_of_content :: "EtsiTs102941Data \<Rightarrow> ToBeSignedCrl option" where
  "crl_of_content etsi_data =
     (case etsi_content etsi_data of
        Some (certificateRevocationList crl) \<Rightarrow> crl
      | _ \<Rightarrow> None)"

definition decode_crl :: "env \<Rightarrow> bytes \<Rightarrow> bytes \<Rightarrow> bytes \<Rightarrow> CrlContents Result" where
  "decode_crl E coer rca_pubkey rca_cert_coer =
     (case unwrap E coer of None \<Rightarrow> Inl Decode | Some msg \<Rightarrow>
      if rca_pubkey = [] \<or> rca_cert_coer = [] then Inl InvalidArgument
      else if \<not> verify E msg rca_pubkey rca_cert_coer then Inl SignatureInvalid
      else case decode_with_basic_fallback (asn_DEF_EtsiTs102941Data E) (sm_payload_coer msg) of
        None \<Rightarrow> Inl Decode | Some etsi_data \<Rightarrow>
      (case crl_of_content etsi_data of None \<Rightarrow> Inl Decode | Some crl \<Rightarrow>
         if \<not> sm_has_signer_digest msg then Inl Decode
         else Inr \<lparr>crl_issuer_hid8 = sm_signer_hid8 msg, crl_this_update = crl_thisUpdate crl,
                   crl_next_update = crl_nextUpdate crl,
                   crl_revoked = read_crl_entries (crl_entries crl)\<rparr>))"

section \<open>The store\<close>

record RevocationStore =
  revoked :: "(hid8, (hid8, unit) rbt) rbt"

definition RevocationStore_init :: RevocationStore where
  "RevocationStore_init = \<lparr>revoked = RBT.empty\<rparr>"

text \<open>\<open>std::set\<close> built from a range.\<close>

definition set_of_range :: "hid8 list \<Rightarrow> (hid8, unit) rbt" where
  "set_of_range xs = fold (\<lambda>x t. RBT.insert x () t) xs RBT.empty"

text \<open>\<open>apply\<close> returns whether it took the list, with the store after the call.\<close>

definition revocation_apply :: "RevocationStore \<Rightarrow> CrlContents \<Rightarrow> int \<Rightarrow> bool \<times> RevocationStore" where
  "revocation_apply st crl now_tai =
     (if crl_next_update crl > 0 \<and> now_tai > uint (crl_next_update crl) then (False, st)
      else (True, st\<lparr>revoked := RBT.insert (crl_issuer_hid8 crl) (set_of_range (crl_revoked crl))
                                 (revoked st)\<rparr>))"

definition is_revoked :: "RevocationStore \<Rightarrow> hid8 \<Rightarrow> hid8 \<Rightarrow> bool" where
  "is_revoked st issuer_hid8 cert_hid8 =
     (case RBT.lookup (revoked st) issuer_hid8 of
        None \<Rightarrow> False
      | Some entries \<Rightarrow> RBT.lookup entries cert_hid8 \<noteq> None)"

definition issuer_count :: "RevocationStore \<Rightarrow> nat" where
  "issuer_count st = length (RBT.entries (revoked st))"

section \<open>The interface\<close>

text \<open>
  A list either is taken, and then the issuer's set becomes exactly its entries while every other
  issuer's is untouched, or is refused as stale, and then nothing changes.
\<close>

locale revocation_list =
  fixes empty_store :: 's
    and update :: "'s \<Rightarrow> 'c \<Rightarrow> int \<Rightarrow> bool \<times> 's"
    and revokes :: "'s \<Rightarrow> hid8 \<Rightarrow> hid8 \<Rightarrow> bool"
    and issuer :: "'c \<Rightarrow> hid8"
    and entries_of :: "'c \<Rightarrow> hid8 set"
    and stale :: "'c \<Rightarrow> int \<Rightarrow> bool"
  assumes empty_revokes: "\<not> revokes empty_store i h"
    and update_taken: "fst (update s c t) \<longleftrightarrow> \<not> stale c t"
    and update_stale: "stale c t \<Longrightarrow> snd (update s c t) = s"
    and update_revokes: "\<not> stale c t \<Longrightarrow>
      revokes (snd (update s c t)) i h \<longleftrightarrow> (if i = issuer c then h \<in> entries_of c else revokes s i h)"
begin

text \<open>A run of updates, each with the time at which it happened.\<close>

definition updates :: "('c \<times> int) list \<Rightarrow> 's \<Rightarrow> 's" where
  "updates cs s = fold (\<lambda>(c, t) s. snd (update s c t)) cs s"

lemma updates_snoc: "updates (cs @ [(c, t)]) s = snd (update (updates cs s) c t)"
  by (simp add: updates_def)

text \<open>What an issuer revokes after a run is what its last accepted list says.\<close>

lemma updates_revokes:
  "revokes (updates cs empty_store) i h \<longleftrightarrow>
     (case filter (\<lambda>(c, t). issuer c = i \<and> \<not> stale c t) (rev cs) of
        [] \<Rightarrow> False | (c, t) # _ \<Rightarrow> h \<in> entries_of c)"
proof (induction cs rule: rev_induct)
  case Nil
  then show ?case by (simp add: updates_def empty_revokes)
next
  case (snoc x cs)
  obtain c t where x: "x = (c, t)" by (cases x)
  show ?case
  proof (cases "stale c t")
    case True
    then show ?thesis using snoc x by (simp add: updates_snoc update_stale)
  next
    case False
    then show ?thesis using snoc x by (auto simp: updates_snoc update_revokes)
  qed
qed

lemma updates_only_listed_issuers:
  "(\<And>c t. (c, t) \<in> set cs \<Longrightarrow> issuer c \<noteq> i) \<Longrightarrow> \<not> revokes (updates cs empty_store) i h"
proof -
  assume "\<And>c t. (c, t) \<in> set cs \<Longrightarrow> issuer c \<noteq> i"
  then have "filter (\<lambda>(c, t). issuer c = i \<and> \<not> stale c t) (rev cs) = []"
    by (auto simp: filter_empty_conv)
  then show ?thesis by (simp add: updates_revokes)
qed

end

section \<open>Facts\<close>

lemma lookup_set_of_range: "RBT.lookup (set_of_range xs) h \<noteq> None \<longleftrightarrow> h \<in> set xs"
proof -
  have "RBT.lookup (fold (\<lambda>x t. RBT.insert x () t) xs t) h \<noteq> None \<longleftrightarrow>
      h \<in> set xs \<or> RBT.lookup t h \<noteq> None" for t :: "(hid8, unit) rbt"
    by (induction xs arbitrary: t) auto
  then show ?thesis by (simp add: set_of_range_def)
qed

definition crl_stale :: "CrlContents \<Rightarrow> int \<Rightarrow> bool" where
  "crl_stale crl now \<longleftrightarrow> crl_next_update crl > 0 \<and> now > uint (crl_next_update crl)"

interpretation crl: revocation_list RevocationStore_init revocation_apply is_revoked
  crl_issuer_hid8 "\<lambda>c. set (crl_revoked c)" crl_stale
proof unfold_locales
  fix s c t i h
  show "\<not> is_revoked RevocationStore_init i h"
    by (simp add: is_revoked_def RevocationStore_init_def)
  show "fst (revocation_apply s c t) \<longleftrightarrow> \<not> crl_stale c t"
    by (simp add: revocation_apply_def crl_stale_def)
  show "snd (revocation_apply s c t) = s" if "crl_stale c t"
    using that by (simp add: revocation_apply_def crl_stale_def)
  show "is_revoked (snd (revocation_apply s c t)) i h \<longleftrightarrow>
      (if i = crl_issuer_hid8 c then h \<in> set (crl_revoked c) else is_revoked s i h)"
    if "\<not> crl_stale c t"
    using that lookup_set_of_range [of "crl_revoked c" h]
    by (auto simp: revocation_apply_def crl_stale_def is_revoked_def)
qed

lemma set_read_crl_entries: "set (read_crl_entries es) = {e \<in> set es. length e = kHashedId8Len}"
  by (induction es) auto

lemma read_crl_entries_filter: "read_crl_entries es = filter (\<lambda>e. length e = kHashedId8Len) es"
  by (induction es) auto

lemma crl_of_content_Some:
  "crl_of_content ed = Some crl \<longleftrightarrow> etsi_content ed = Some (certificateRevocationList (Some crl))"
  by (auto simp: crl_of_content_def split: option.splits EtsiTs102941DataContent.splits)

text \<open>
  What an accepted CRL is: the message verified under the key and certificate given, its signer
  digest is the identifier of that certificate, and the entries are those of the signed payload.
\<close>

lemma decode_crl_Ok_iff:
  "decode_crl E coer pk cert = Inr crl \<longleftrightarrow>
     (\<exists>msg ed tb. unwrap E coer = Some msg \<and> pk \<noteq> [] \<and> cert \<noteq> [] \<and> verify E msg pk cert \<and>
        decode_with_basic_fallback (asn_DEF_EtsiTs102941Data E) (sm_payload_coer msg) = Some ed \<and>
        etsi_content ed = Some (certificateRevocationList (Some tb)) \<and> sm_has_signer_digest msg \<and>
        crl = \<lparr>crl_issuer_hid8 = compute_hid8 E cert, crl_this_update = crl_thisUpdate tb,
               crl_next_update = crl_nextUpdate tb,
               crl_revoked = filter (\<lambda>e. length e = kHashedId8Len) (crl_entries tb)\<rparr>)"
proof -
  have "decode_crl E coer pk cert = Inr crl \<longleftrightarrow>
     (\<exists>msg ed tb. unwrap E coer = Some msg \<and> pk \<noteq> [] \<and> cert \<noteq> [] \<and> verify E msg pk cert \<and>
        decode_with_basic_fallback (asn_DEF_EtsiTs102941Data E) (sm_payload_coer msg) = Some ed \<and>
        etsi_content ed = Some (certificateRevocationList (Some tb)) \<and> sm_has_signer_digest msg \<and>
        crl = \<lparr>crl_issuer_hid8 = sm_signer_hid8 msg, crl_this_update = crl_thisUpdate tb,
               crl_next_update = crl_nextUpdate tb,
               crl_revoked = read_crl_entries (crl_entries tb)\<rparr>)"
    by (auto simp: decode_crl_def unwind crl_of_content_Some)
  also have "\<dots> \<longleftrightarrow> (\<exists>msg ed tb. unwrap E coer = Some msg \<and> pk \<noteq> [] \<and> cert \<noteq> [] \<and> verify E msg pk cert \<and>
        decode_with_basic_fallback (asn_DEF_EtsiTs102941Data E) (sm_payload_coer msg) = Some ed \<and>
        etsi_content ed = Some (certificateRevocationList (Some tb)) \<and> sm_has_signer_digest msg \<and>
        crl = \<lparr>crl_issuer_hid8 = compute_hid8 E cert, crl_this_update = crl_thisUpdate tb,
               crl_next_update = crl_nextUpdate tb,
               crl_revoked = filter (\<lambda>e. length e = kHashedId8Len) (crl_entries tb)\<rparr>)"
    using verify_binds_signer by (fastforce simp: read_crl_entries_filter)
  finally show ?thesis .
qed

section \<open>Properties\<close>

text \<open>
  (C21) An accepted revocation list is a message that verified under the Root CA's key and
  certificate, names that certificate as its signer, and carries a CRL; its issuer is the
  identifier of the certificate and its entries are the eight-byte entries of the signed payload.
\<close>

theorem decode_crl_accepts_iff:
  "decode_crl E coer pk cert = Inr crl \<longleftrightarrow>
     (\<exists>msg ed tb. unwrap E coer = Some msg \<and> cert \<noteq> [] \<and> verify E msg pk cert \<and>
        sm_has_signer_digest msg \<and>
        decode_with_basic_fallback (asn_DEF_EtsiTs102941Data E) (sm_payload_coer msg) = Some ed \<and>
        etsi_content ed = Some (certificateRevocationList (Some tb)) \<and>
        crl = \<lparr>crl_issuer_hid8 = compute_hid8 E cert, crl_this_update = crl_thisUpdate tb,
               crl_next_update = crl_nextUpdate tb,
               crl_revoked = filter (\<lambda>e. length e = kHashedId8Len) (crl_entries tb)\<rparr>)"
  unfolding decode_crl_Ok_iff verify_iff by blast

text \<open>
  (C22) After any sequence of lists applied at their times to an empty store, an issuer revokes
  exactly the entries of the last of its lists that was not stale when it arrived. The store
  replaces an issuer's set, it does not accumulate.
\<close>

theorem revoked_after_updates:
  "is_revoked (fold (\<lambda>(c, t) s. snd (revocation_apply s c t)) cs RevocationStore_init) i h \<longleftrightarrow>
     (case filter (\<lambda>(c, t). crl_issuer_hid8 c = i \<and> \<not> crl_stale c t) (rev cs) of
        [] \<Rightarrow> False | (c, t) # _ \<Rightarrow> h \<in> set (crl_revoked c))"
  using crl.updates_revokes [of cs i h] by (simp add: crl.updates_def)

end
