(* ===== verification/TrustChain.thy ===== *)
theory TrustChain
  imports Revocation
begin

text \<open>
  \<open>src/trust_chain.cpp\<close> and \<open>include/v2xpki/trust_chain.hpp\<close>: the certificate store, certificate
  signatures, chain validation and the certificate builders. \<open>cert_store\<close> is the interface of the
  store. \<open>trust_path\<close> is the abstract specification of chain validation, an inductive definition of
  a path of verified, valid, unrevoked certificates ending in a self-signed one; \<open>validate_chain\<close>
  decides exactly the paths of one or two issuers.
\<close>

section \<open>The store\<close>

record TrustChain =
  tc_certs :: "(hid8, CertInfo) rbt"

definition TrustChain_init :: TrustChain where
  "TrustChain_init = \<lparr>tc_certs = RBT.empty\<rparr>"

definition add_cert :: "CertInfo \<Rightarrow> TrustChain \<Rightarrow> TrustChain" where
  "add_cert ci tc = tc\<lparr>tc_certs := RBT.insert (ci_hashed_id_8 ci) ci (tc_certs tc)\<rparr>"

definition find_by_hashed_id_8 :: "TrustChain \<Rightarrow> hid8 \<Rightarrow> CertInfo option" where
  "find_by_hashed_id_8 tc h = RBT.lookup (tc_certs tc) h"

definition tc_size :: "TrustChain \<Rightarrow> nat" where
  "tc_size tc = length (RBT.entries (tc_certs tc))"

text \<open>\<open>label.find(prefix) == 0\<close>, over the map in its order.\<close>

definition get_by_prefix :: "TrustChain \<Rightarrow> string \<Rightarrow> CertInfo list" where
  "get_by_prefix tc pre =
     filter (\<lambda>ci. take (length pre) (ci_label ci) = pre) (map snd (RBT.entries (tc_certs tc)))"

definition get_rcas :: "TrustChain \<Rightarrow> CertInfo list" where "get_rcas tc = get_by_prefix tc ''rca_''"
definition get_aas :: "TrustChain \<Rightarrow> CertInfo list" where "get_aas tc = get_by_prefix tc ''aa_''"
definition get_eas :: "TrustChain \<Rightarrow> CertInfo list" where "get_eas tc = get_by_prefix tc ''ea_''"
definition get_tlms :: "TrustChain \<Rightarrow> CertInfo list" where "get_tlms tc = get_by_prefix tc ''tlm_''"

section \<open>Loading a directory\<close>

text \<open>
  What the file system shows of a directory is an argument, exceptions included. Reading a file
  through an \<open>ifstream\<close>: it does not open, or its content is read, or an iterator over the buffer throws
  (a read error, or a directory that was opened). An entry of \<open>fs::directory_iterator\<close> has its file name,
  the answer of \<open>is_regular_file\<close>, which may throw (\<open>None\<close>), and what reading it does. A path is no directory,
  or \<open>is_directory\<close> throws, or the iterator gives entries, in the order of the file system, and then ends
  or throws (\<open>False\<close>); an iterator that throws when it is made is the case without entries.
\<close>

datatype file_reading = Unopened | Content bytes | Read_throws

record dir_entry =
  de_name :: string
  de_regular :: "bool option"
  de_content :: file_reading

datatype listing = Not_directory | Is_directory_throws | Directory (ls_entries: "dir_entry list") (ls_ends: bool)

text \<open>
  \<open>path::extension\<close> and \<open>path::stem\<close> of a file name: the part from the last dot, unless there is
  none, it is the first character, or the name is \<open>.\<close> or \<open>..\<close>.
\<close>

definition last_dot :: "string \<Rightarrow> nat option" where
  "last_dot name =
     (if CHR ''.'' \<in> set name
      then Some (length name - 1 - length (takeWhile (\<lambda>c. c \<noteq> CHR ''.'') (rev name)))
      else None)"

definition path_extension :: "string \<Rightarrow> string" where
  "path_extension name =
     (if name = ''.'' \<or> name = ''..'' then []
      else case last_dot name of None \<Rightarrow> [] | Some i \<Rightarrow> if i = 0 then [] else drop i name)"

definition path_stem :: "string \<Rightarrow> string" where
  "path_stem name =
     (if name = ''.'' \<or> name = ''..'' then name
      else case last_dot name of None \<Rightarrow> name | Some i \<Rightarrow> if i = 0 then name else take i name)"

text \<open>
  The body of the loop: \<open>None\<close> is an exception, \<open>Some None\<close> a \<open>continue\<close>, otherwise the certificate that
  the entry contributes.
\<close>

definition load_entry :: "env \<Rightarrow> dir_entry \<Rightarrow> CertInfo option option" where
  "load_entry E entry =
     (case de_regular entry of None \<Rightarrow> None | Some regular \<Rightarrow>
      if \<not> regular then Some None
      else if path_extension (de_name entry) \<noteq> ''.cert'' then Some None
      else case de_content entry of Unopened \<Rightarrow> Some None | Read_throws \<Rightarrow> None | Content raw \<Rightarrow>
        if raw = [] then Some None
        else let ci = from_coer E raw in
          if sb_empty (ci_cert_bytes ci) then Some None
          else Some (Some (ci\<lparr>ci_label := path_stem (de_name entry)\<rparr>)))"

text \<open>\<open>ends\<close> is whether the iterator reaches its end after the entries; \<open>None\<close> is an exception.\<close>

primrec load_entries :: "env \<Rightarrow> dir_entry list \<Rightarrow> bool \<Rightarrow> bool \<Rightarrow> TrustChain \<Rightarrow> (bool \<times> TrustChain) option" where
  "load_entries E [] ends loaded_any tc = (if ends then Some (loaded_any, tc) else None)"
| "load_entries E (e # es) ends loaded_any tc =
     (case load_entry E e of
        None \<Rightarrow> None
      | Some None \<Rightarrow> load_entries E es ends loaded_any tc
      | Some (Some ci) \<Rightarrow> load_entries E es ends True (add_cert ci tc))"

text \<open>
  An exception leaves the certificates added so far in the store; the only caller is a constructor,
  whose object is then never made, so that the model gives \<open>None\<close>.
\<close>

definition load_from_directory :: "env \<Rightarrow> listing \<Rightarrow> TrustChain \<Rightarrow> (bool \<times> TrustChain) option" where
  "load_from_directory E listing tc =
     (case listing of
        Not_directory \<Rightarrow> Some (False, tc)
      | Is_directory_throws \<Rightarrow> None
      | Directory es ends \<Rightarrow> load_entries E es ends False tc)"

section \<open>Validation\<close>

text \<open>\<open>rv\<close> is the store \<open>revocation_\<close> points to, \<open>None\<close> for the null pointer.\<close>

definition is_revoked_by_issuer :: "RevocationStore option \<Rightarrow> CertInfo \<Rightarrow> CertInfo \<Rightarrow> bool" where
  "is_revoked_by_issuer rv cert issuer =
     (case rv of None \<Rightarrow> False | Some st \<Rightarrow> is_revoked st (ci_hashed_id_8 issuer) (ci_hashed_id_8 cert))"

definition sig_hash :: "env \<Rightarrow> SigHash \<Rightarrow> bytes \<Rightarrow> bytes" where
  "sig_hash E h data = (if h = Sha384 then hash_sha384 E data else hash_sha256 E data)"

definition verify_cert_signature :: "env \<Rightarrow> CertInfo \<Rightarrow> CertInfo \<Rightarrow> bool" where
  "verify_cert_signature E cert issuer =
     (let slen = scalar_len (ci_curve issuer) in
      if sb_empty (ci_tbs_bytes cert) \<or> sb_size (ci_signature_r cert) \<noteq> slen \<or>
         sb_size (ci_signature_s cert) \<noteq> slen then False
      else if sb_empty (ci_public_key issuer) then False
      else let signer_input = (if ci_is_self_signed cert then [] else to_vector (ci_cert_bytes issuer));
               digest = double_hash (sig_hash E (ci_issuer_hash cert))
                          (to_vector (ci_tbs_bytes cert)) signer_input
           in ecdsa_verify_digest E (to_vector (ci_public_key issuer)) digest
                \<lparr>sig_r_sb = ci_signature_r cert, sig_s_sb = ci_signature_s cert\<rparr> (ci_curve issuer))"

definition validate_chain ::
  "env \<Rightarrow> TrustChain \<Rightarrow> RevocationStore option \<Rightarrow> CertInfo \<Rightarrow> int \<Rightarrow> bool" where
  "validate_chain E tc rv at_cert now_tai =
     (if ci_is_self_signed at_cert then False
      else if \<not> valid_at at_cert now_tai then False
      else case find_by_hashed_id_8 tc (ci_issuer_hash_id_8 at_cert) of None \<Rightarrow> False | Some aa_cert \<Rightarrow>
      if \<not> valid_at aa_cert now_tai then False
      else if \<not> verify_cert_signature E at_cert aa_cert then False
      else if is_revoked_by_issuer rv at_cert aa_cert then False
      else if ci_is_self_signed aa_cert then
        (if is_revoked_by_issuer rv aa_cert aa_cert then False
         else verify_cert_signature E aa_cert aa_cert)
      else case find_by_hashed_id_8 tc (ci_issuer_hash_id_8 aa_cert) of None \<Rightarrow> False | Some rca_cert \<Rightarrow>
      if \<not> valid_at rca_cert now_tai then False
      else if \<not> verify_cert_signature E aa_cert rca_cert then False
      else if is_revoked_by_issuer rv aa_cert rca_cert then False
      else if \<not> ci_is_self_signed rca_cert then False
      else if is_revoked_by_issuer rv rca_cert rca_cert then False
      else verify_cert_signature E rca_cert rca_cert)"

section \<open>Certificate builders (\<open>cert_utils\<close>)\<close>

definition build_tbs_struct ::
  "string \<Rightarrow> bytes \<Rightarrow> bool \<Rightarrow> u32 \<Rightarrow> u16 \<Rightarrow> ToBeSignedCertificate option" where
  "build_tbs_struct name pub is_ca start_time duration_years =
     (if length pub \<noteq> kP256PublicKeyLen then None
      else Some
       \<lparr>tbs_id = Some (CertId_name name), tbs_cracaId = [0, 0, 0], tbs_crlSeries = 0,
        tbs_validityPeriod = Some \<lparr>vp_start = start_time, vp_duration = Some (Dur_years duration_years)\<rparr>,
        tbs_appPermissions = None, tbs_certIssuePermissions = (if is_ca then Some [] else None),
        tbs_encryptionKey = None,
        tbs_verifyKeyIndicator = Some (VKI_verificationKey (Some (PVK_ecdsaNistP256 (Some
          (P256_uncompressed (octet_set (drop 1 pub) kP256ScalarLen)
             (octet_set (drop kP256CompressedLen pub) kP256ScalarLen)))))),
        tbs_rest = []\<rparr>)"

text \<open>\<open>encode_tbs_uper\<close> fills the same structure and encodes it with UPER.\<close>

definition encode_tbs_uper :: "env \<Rightarrow> string \<Rightarrow> bytes \<Rightarrow> bool \<Rightarrow> u32 \<Rightarrow> u16 \<Rightarrow> bytes" where
  "encode_tbs_uper E name pub is_ca start_time duration_years =
     (case build_tbs_struct name pub is_ca start_time duration_years of
        None \<Rightarrow> []
      | Some tbs \<Rightarrow> encode_uper (asn_DEF_ToBeSignedCertificate E) tbs)"

definition cert_struct ::
  "ToBeSignedCertificate \<Rightarrow> Signature \<Rightarrow> hid8 \<Rightarrow> bool \<Rightarrow> CertificateBase" where
  "cert_struct tbs sig issuer_hid8 self_signed =
     \<lparr>cb_version = kIeee1609Dot2Version, cb_type = CT_explicit,
      cb_issuer = Some (if self_signed then Issuer_self HA_sha256
                        else Issuer_sha256AndDigest (octet_set issuer_hid8 kHashedId8Len)),
      cb_toBeSigned = Some tbs,
      cb_signature = Some (Sig_ecdsaNistP256 (Some
        \<lparr>rSig256 = Some (P256_x_only (octet_set (sb_data (sig_r_sb sig)) kP256ScalarLen)),
         sSig256 = octet_set (sb_data (sig_s_sb sig)) kP256ScalarLen\<rparr>))\<rparr>"

definition build_signed_cert ::
  "env \<Rightarrow> nat \<Rightarrow> string \<Rightarrow> bytes \<Rightarrow> bytes \<Rightarrow> hid8 \<Rightarrow> bool \<Rightarrow> bool \<Rightarrow> bytes \<Rightarrow> CertInfo option" where
  "build_signed_cert E w name subject_public_key issuer_private_key issuer_hid8 is_ca self_signed
     issuer_cert_bytes =
     (if length subject_public_key \<noteq> kP256PublicKeyLen then None
      else case build_tbs_struct name subject_public_key is_ca 0 30 of None \<Rightarrow> None | Some tbs \<Rightarrow>
      let tbs_coer = coer_encode (asn_DEF_ToBeSignedCertificate E) tbs in
      if tbs_coer = [] then None
      else let signer_input = (if self_signed then [] else issuer_cert_bytes);
               digest = double_hash (hash_sha256 E) tbs_coer signer_input in
      (case ecdsa_sign_digest E w issuer_private_key digest NistP256 of None \<Rightarrow> None | Some sig \<Rightarrow>
        let cert_bytes = coer_encode (asn_DEF_CertificateBase E)
              (cert_struct tbs sig issuer_hid8 self_signed) in
        if cert_bytes = [] then None
        else case sb_from kP384PublicKeyLen subject_public_key of None \<Rightarrow> None | Some pk \<Rightarrow>
        (case sb_from kMaxCoerMessageLen cert_bytes of None \<Rightarrow> None | Some cb \<Rightarrow>
        (case sb_from kMaxCoerMessageLen tbs_coer of None \<Rightarrow> None | Some tb \<Rightarrow>
          Some ((CertInfo_init (uninit E 8))
            \<lparr>ci_cert_bytes := cb, ci_hashed_id_8 := compute_hid8 E cert_bytes, ci_public_key := pk,
             ci_is_self_signed := self_signed, ci_tbs_bytes := tb, ci_signature_r := sig_r_sb sig,
             ci_signature_s := sig_s_sb sig, ci_validity_start := 0,
             ci_validity_duration_seconds := 30 * kYearSeconds, ci_label := name,
             ci_issuer_hash_id_8 := (if self_signed then replicate 8 0 else issuer_hid8)\<rparr>)))))"

definition build_root_cert :: "env \<Rightarrow> nat \<Rightarrow> string \<Rightarrow> bytes \<Rightarrow> bytes \<Rightarrow> CertInfo option" where
  "build_root_cert E w name pub priv =
     build_signed_cert E w name pub priv (replicate 8 0) True True []"

section \<open>The interface of the store\<close>

locale cert_store =
  fixes empty_store :: 's
    and add :: "'c \<Rightarrow> 's \<Rightarrow> 's"
    and find :: "'s \<Rightarrow> 'k \<Rightarrow> 'c option"
    and key :: "'c \<Rightarrow> 'k"
  assumes find_empty: "find empty_store k = None"
    and find_add: "find (add c s) k = (if k = key c then Some c else find s k)"
begin

lemma find_add_same [simp]: "find (add c s) (key c) = Some c"
  by (simp add: find_add)

lemma find_add_other: "k \<noteq> key c \<Longrightarrow> find (add c s) k = find s k"
  by (simp add: find_add)

text \<open>What a store filled from a list answers: the last certificate with the key.\<close>

lemma find_adds:
  "find (fold add cs s) k = (case filter (\<lambda>c. key c = k) (rev cs) of [] \<Rightarrow> find s k | c # _ \<Rightarrow> Some c)"
proof (induction cs rule: rev_induct)
  case Nil
  then show ?case by simp
next
  case (snoc c cs)
  then show ?case by (simp add: find_add)
qed

lemma find_adds_cases:
  "find (fold add cs s) k = Some c \<Longrightarrow> find s k = Some c \<or> (c \<in> set cs \<and> key c = k)"
proof (induction cs rule: rev_induct)
  case Nil
  then show ?case by simp
next
  case (snoc d cs)
  then show ?case by (auto simp: find_add split: if_splits)
qed

text \<open>Every stored certificate is stored under its own key, whatever the history.\<close>

lemma find_adds_key: "find (fold add cs empty_store) k = Some c \<Longrightarrow> key c = k \<and> c \<in> set cs"
  using find_adds_cases [of cs empty_store k c] by (simp add: find_empty)

end

interpretation store: cert_store TrustChain_init add_cert find_by_hashed_id_8 ci_hashed_id_8
  by unfold_locales (simp_all add: TrustChain_init_def add_cert_def find_by_hashed_id_8_def)

section \<open>Loading\<close>

text \<open>
  Loading is the accumulation of the usable entries in listing order, and it reports whether
  there was one; it throws exactly when an entry does or the walk does not reach its end.
\<close>

definition loaded_certs :: "env \<Rightarrow> dir_entry list \<Rightarrow> CertInfo list" where
  "loaded_certs E es = List.map_filter (\<lambda>e. case load_entry E e of None \<Rightarrow> None | Some r \<Rightarrow> r) es"

lemma loaded_certs_simps [simp]:
  "loaded_certs E [] = []"
  "loaded_certs E (e # es) = (case load_entry E e of Some (Some ci) \<Rightarrow> ci # loaded_certs E es | _ \<Rightarrow> loaded_certs E es)"
  by (simp_all add: loaded_certs_def map_filter_simps split: option.split)

lemma loaded_certs_iff: "ci \<in> set (loaded_certs E es) \<longleftrightarrow> (\<exists>e \<in> set es. load_entry E e = Some (Some ci))"
  by (induction es) (auto split: option.splits)

lemma load_entries_fold:
  "load_entries E es ends b tc =
     (if ends \<and> list_all (\<lambda>e. load_entry E e \<noteq> None) es
      then Some (b \<or> loaded_certs E es \<noteq> [], fold add_cert (loaded_certs E es) tc) else None)"
  by (induction es arbitrary: b tc) (auto split: option.splits)

lemma load_from_directory_SomeD:
  "load_from_directory E listing tc = Some (b, tc') \<Longrightarrow>
   tc' = fold add_cert (case listing of Directory es ends \<Rightarrow> loaded_certs E es | _ \<Rightarrow> []) tc"
  by (auto simp: load_from_directory_def load_entries_fold split: listing.splits if_splits)

lemma load_entry_SomeD:
  "load_entry E e = Some (Some ci) \<Longrightarrow>
   de_regular e = Some True \<and> path_extension (de_name e) = ''.cert'' \<and> ci_label ci = path_stem (de_name e) \<and>
   (\<exists>raw. de_content e = Content raw \<and> raw \<noteq> [] \<and> to_vector (ci_cert_bytes ci) = raw \<and>
      ci_hashed_id_8 ci = compute_hid8 E raw)"
  by (auto simp: load_entry_def Let_def unwind split: file_reading.splits if_splits dest!: from_coer_bytes)

section \<open>Chain validation against its specification\<close>

text \<open>One certificate vouched for by an issuer: signed by it and not on its revocation list.\<close>

definition vouched :: "env \<Rightarrow> RevocationStore option \<Rightarrow> CertInfo \<Rightarrow> CertInfo \<Rightarrow> bool" where
  "vouched E rv cert issuer \<longleftrightarrow>
     verify_cert_signature E cert issuer \<and> \<not> is_revoked_by_issuer rv cert issuer"

inductive trust_path ::
  "env \<Rightarrow> TrustChain \<Rightarrow> RevocationStore option \<Rightarrow> int \<Rightarrow> nat \<Rightarrow> CertInfo \<Rightarrow> bool"
  for E tc rv now where
  anchor: "ci_is_self_signed c \<Longrightarrow> valid_at c now \<Longrightarrow> vouched E rv c c \<Longrightarrow> trust_path E tc rv now 0 c"
| issued: "\<not> ci_is_self_signed c \<Longrightarrow> valid_at c now \<Longrightarrow>
    find_by_hashed_id_8 tc (ci_issuer_hash_id_8 c) = Some i \<Longrightarrow> vouched E rv c i \<Longrightarrow>
    trust_path E tc rv now n i \<Longrightarrow> trust_path E tc rv now (Suc n) c"

inductive_simps trust_path_0: "trust_path E tc rv now 0 c"
inductive_simps trust_path_Suc: "trust_path E tc rv now (Suc n) c"

lemma trust_path_valid: "trust_path E tc rv now n c \<Longrightarrow> valid_at c now"
  by (induction rule: trust_path.induct) auto

lemma trust_path_self_signed: "trust_path E tc rv now n c \<Longrightarrow> ci_is_self_signed c \<longleftrightarrow> n = 0"
  by (induction rule: trust_path.induct) auto

lemma validate_chain_trust_path:
  "validate_chain E tc rv c now \<longleftrightarrow> trust_path E tc rv now 1 c \<or> trust_path E tc rv now 2 c"
proof -
  have "trust_path E tc rv now 2 c \<longleftrightarrow>
      \<not> ci_is_self_signed c \<and> valid_at c now \<and>
      (\<exists>i. find_by_hashed_id_8 tc (ci_issuer_hash_id_8 c) = Some i \<and> vouched E rv c i \<and>
         trust_path E tc rv now 1 i)"
    by (simp add: numeral_2_eq_2 trust_path_Suc)
  then show ?thesis
    by (auto simp: validate_chain_def unwind vouched_def trust_path_0 trust_path_Suc)
qed

text \<open>The length of a path is determined by the certificate.\<close>

lemma trust_path_unique:
  "trust_path E tc rv now n c \<Longrightarrow> trust_path E tc rv now m c \<Longrightarrow> n = m"
proof (induction arbitrary: m rule: trust_path.induct)
  case (anchor c)
  then show ?case using trust_path_self_signed by blast
next
  case (issued c i n)
  then obtain k where "m = Suc k" using trust_path_self_signed by (cases m) auto
  with issued show ?case by (auto simp: trust_path_Suc)
qed

text \<open>
  What a change of the store or of the revocation list can do to a validated chain: a new
  certificate under an identifier that was not in use keeps every path, and a larger revocation
  list can only cut paths.
\<close>

lemma trust_path_add_cert:
  assumes "trust_path E tc rv now n c" "find_by_hashed_id_8 tc (ci_hashed_id_8 new) = None"
  shows "trust_path E (add_cert new tc) rv now n c"
  using assms(1)
proof (induction rule: trust_path.induct)
  case (anchor c)
  then show ?case by (rule trust_path.anchor)
next
  case (issued c i n)
  then have "ci_issuer_hash_id_8 c \<noteq> ci_hashed_id_8 new" using assms(2) by auto
  with issued show ?case by (intro trust_path.issued) (simp_all add: store.find_add)
qed

lemma trust_path_revocation_mono:
  assumes "trust_path E tc rv' now n c"
    and "\<And>a b. is_revoked_by_issuer rv a b \<Longrightarrow> is_revoked_by_issuer rv' a b"
  shows "trust_path E tc rv now n c"
proof -
  have "vouched E rv a b" if "vouched E rv' a b" for a b
    using that assms(2) by (auto simp: vouched_def)
  with assms(1) show ?thesis by induction (auto intro: trust_path.intros)
qed

section \<open>Built certificates\<close>

lemma build_signed_cert_SomeE:
  assumes "build_signed_cert E w name pub priv ihid is_ca self icb = Some c"
  obtains tbs sig cb where
    "length pub = kP256PublicKeyLen" "build_tbs_struct name pub is_ca 0 30 = Some tbs"
    "ecdsa_sign_digest E w priv (double_hash (hash_sha256 E)
       (coer_encode (asn_DEF_ToBeSignedCertificate E) tbs) (if self then [] else icb)) NistP256 = Some sig"
    "cb = coer_encode (asn_DEF_CertificateBase E) (cert_struct tbs sig ihid self)" "cb \<noteq> []"
    "coer_encode (asn_DEF_ToBeSignedCertificate E) tbs \<noteq> []"
    "to_vector (ci_cert_bytes c) = cb" "ci_hashed_id_8 c = compute_hid8 E cb"
    "sb_from kP384PublicKeyLen pub = Some (ci_public_key c)" "ci_curve c = NistP256"
    "ci_issuer_hash c = Sha256" "ci_is_self_signed c = self"
    "sb_from kMaxCoerMessageLen (coer_encode (asn_DEF_ToBeSignedCertificate E) tbs) = Some (ci_tbs_bytes c)"
    "ci_signature_r c = sig_r_sb sig" "ci_signature_s c = sig_s_sb sig" "ci_validity_start c = 0"
    "ci_validity_duration_seconds c = 30 * kYearSeconds" "ci_label c = name"
    "ci_issuer_hash_id_8 c = (if self then replicate 8 0 else ihid)"
    "sb_from kMaxCoerMessageLen cb = Some (ci_cert_bytes c)"
  using assms by (auto simp: build_signed_cert_def Let_def unwind CertInfo_init_def)

lemma Signature_collapse [simp]: "\<lparr>sig_r_sb = sig_r_sb sig, sig_s_sb = sig_s_sb sig\<rparr> = sig"
  by (cases sig) simp

lemma sb_size_sig:
  assumes "ecdsa_sign_digest E w priv dg c = Some sig"
  shows "sb_size (sig_r_sb sig) = scalar_len c" "sb_size (sig_s_sb sig) = scalar_len c"
  using assms
  by (auto simp: ecdsa_sign_digest_def extract_rs_from_der_def Let_def sb_from_ptr_def sb_size_def unwind
      split: prod.splits)

text \<open>
  A certificate built with the private key of an issuer verifies under that issuer, whether the
  issuer's key is kept uncompressed or compressed.
\<close>

lemma build_signed_cert_verifies:
  assumes ok: "openssl_ok E" and kp: "is_keypair E NistP256 priv ipub"
    and b: "build_signed_cert E w name pub priv ihid is_ca self icb = Some c"
    and curve: "ci_curve issuer = NistP256"
    and key: "to_vector (ci_public_key issuer) \<in> {ipub, compress_sec1 32 ipub}"
    and ne: "\<not> sb_empty (ci_public_key issuer)"
    and bytes: "self \<or> to_vector (ci_cert_bytes issuer) = icb"
  shows "verify_cert_signature E c issuer"
  using b
proof (rule build_signed_cert_SomeE)
  fix tbs sig cb
  let ?tb = "coer_encode (asn_DEF_ToBeSignedCertificate E) tbs"
  let ?dg = "double_hash (hash_sha256 E) ?tb (if self then [] else icb)"
  assume s: "ecdsa_sign_digest E w priv ?dg NistP256 = Some sig"
    and f: "ci_issuer_hash c = Sha256" "ci_is_self_signed c = self" "?tb \<noteq> []"
      "sb_from kMaxCoerMessageLen ?tb = Some (ci_tbs_bytes c)"
      "ci_signature_r c = sig_r_sb sig" "ci_signature_s c = sig_s_sb sig"
  have "ecdsa_verify_digest E (to_vector (ci_public_key issuer)) ?dg sig NistP256"
    using sign_then_verify [OF ok kp s] key by (auto simp: size_simps)
  moreover have "sig_hash E Sha256 = hash_sha256 E"
    by (simp add: sig_hash_def fun_eq_iff)
  ultimately show ?thesis
    using f ne curve bytes sb_size_sig [OF s] by (auto simp: verify_cert_signature_def Let_def)
qed

text \<open>
  The bytes of a built certificate parse back to the certificate: every field is recovered, apart
  from the label, which is not in the encoding, and the issuer field of a self-signed one.
\<close>

lemma sb_data_sig:
  assumes "ecdsa_sign_digest E w priv dg NistP256 = Some sig"
  shows "take 32 (sb_data (sig_r_sb sig)) = to_vector (sig_r_sb sig)"
    "take 32 (sb_data (sig_s_sb sig)) = to_vector (sig_s_sb sig)"
  using sb_size_sig [OF assms] by (simp_all add: to_vector_def sb_size_def size_simps)

lemma extract_sig_cert_struct:
  assumes "ecdsa_sign_digest E w priv dg NistP256 = Some sig"
  shows "extract_sig (cb_signature (cert_struct tbs sig h b)) =
    Some \<lparr>rs_r = to_vector (sig_r_sb sig), rs_s = to_vector (sig_s_sb sig), rs_curve = NistP256\<rparr>"
  using sign_digest_sizes [OF assms] sb_data_sig [OF assms]
  by (simp add: cert_struct_def octet_set_def octet_bytes_def size_simps)

lemma from_coer_build_signed_cert:
  assumes b: "build_signed_cert E w name pub priv ihid is_ca self icb = Some c"
    and hd: "pub ! 0 = 0x04" and len: "length ihid = 8"
    and rt: "\<And>tbs sig. codec_roundtrip (asn_DEF_CertificateBase E) (cert_struct tbs sig ihid self)"
  defines "p \<equiv> from_coer E (to_vector (ci_cert_bytes c))"
  shows "ci_cert_bytes p = ci_cert_bytes c" "ci_hashed_id_8 p = ci_hashed_id_8 c"
    "ci_public_key p = ci_public_key c" "ci_curve p = ci_curve c"
    "ci_is_self_signed p = ci_is_self_signed c" "ci_issuer_hash p = ci_issuer_hash c"
    "ci_tbs_bytes p = ci_tbs_bytes c"
    "to_vector (ci_signature_r p) = to_vector (ci_signature_r c)"
    "to_vector (ci_signature_s p) = to_vector (ci_signature_s c)"
    "ci_validity_start p = ci_validity_start c"
    "ci_validity_duration_seconds p = ci_validity_duration_seconds c"
    "\<not> self \<Longrightarrow> ci_issuer_hash_id_8 p = ci_issuer_hash_id_8 c"
    "sb_empty (ci_encryption_key p)" "ci_enc_curve p = NistP256"
proof -
  from b obtain tbs sig cb where f:
    "length pub = kP256PublicKeyLen" "build_tbs_struct name pub is_ca 0 30 = Some tbs"
    "ecdsa_sign_digest E w priv (double_hash (hash_sha256 E)
       (coer_encode (asn_DEF_ToBeSignedCertificate E) tbs) (if self then [] else icb)) NistP256 = Some sig"
    "cb = coer_encode (asn_DEF_CertificateBase E) (cert_struct tbs sig ihid self)" "cb \<noteq> []"
    "to_vector (ci_cert_bytes c) = cb" "ci_hashed_id_8 c = compute_hid8 E cb"
    "sb_from kP384PublicKeyLen pub = Some (ci_public_key c)" "ci_curve c = NistP256"
    "ci_issuer_hash c = Sha256" "ci_is_self_signed c = self"
    "sb_from kMaxCoerMessageLen (coer_encode (asn_DEF_ToBeSignedCertificate E) tbs) = Some (ci_tbs_bytes c)"
    "ci_signature_r c = sig_r_sb sig" "ci_signature_s c = sig_s_sb sig" "ci_validity_start c = 0"
    "ci_validity_duration_seconds c = 30 * kYearSeconds"
    "ci_issuer_hash_id_8 c = (if self then replicate 8 0 else ihid)"
    "sb_from kMaxCoerMessageLen cb = Some (ci_cert_bytes c)"
    by (rule build_signed_cert_SomeE)
  let ?s = "cert_struct tbs sig ihid self"
  have dec: "coer_decode (asn_DEF_CertificateBase E) cb = Some ?s"
    unfolding f(4) by (rule coer_decode_encode [OF rt]) (use f(4,5) in simp)
  then have p: "p = from_struct E ?s cb" using f(6) by (simp add: p_def from_coer_def)
  have pk: "to_sec1 (Some (P256_uncompressed (octet_set (drop 1 pub) kP256ScalarLen)
      (octet_set (drop kP256CompressedLen pub) kP256ScalarLen))) = pub"
    using to_sec1_from_sec1_uncompressed [of pub] f(1) hd
    by (simp add: from_sec1_uncompressed_def size_simps)
  have tbs: "tbs_verifyKeyIndicator tbs = Some (VKI_verificationKey (Some (PVK_ecdsaNistP256 (Some
      (P256_uncompressed (octet_set (drop 1 pub) kP256ScalarLen)
        (octet_set (drop kP256CompressedLen pub) kP256ScalarLen))))))"
    "tbs_encryptionKey tbs = None"
    "tbs_validityPeriod tbs = Some \<lparr>vp_start = 0, vp_duration = Some (Dur_years 30)\<rparr>"
    using f(2) by (auto simp: build_tbs_struct_def unwind)
  obtain sr where sr: "sb_from kP384ScalarLen (to_vector (sig_r_sb sig)) = Some sr"
    using sign_digest_sizes [OF f(3)] sb_from_fits by (metis scalar_len_le)
  obtain ss where ss: "sb_from kP384ScalarLen (to_vector (sig_s_sb sig)) = Some ss"
    using sign_digest_sizes [OF f(3)] sb_from_fits by (metis scalar_len_le)
  have steps: "parse_vki tbs ci = ci\<lparr>ci_public_key := ci_public_key c, ci_curve := NistP256\<rparr>"
    "parse_encryption_key tbs ci = ci"
    "parse_validity tbs ci =
       ci\<lparr>ci_validity_start := 0, ci_validity_duration_seconds := 30 * kYearSeconds\<rparr>"
    "parse_tbs_bytes E tbs ci = ci\<lparr>ci_tbs_bytes := ci_tbs_bytes c\<rparr>"
    "parse_signature (cb_signature ?s) ci = ci\<lparr>ci_signature_r := sr, ci_signature_s := ss\<rparr>" for ci
    using f pk sr ss extract_sig_cert_struct [OF f(3)]
    by (simp_all add: parse_vki_def parse_encryption_key_def parse_validity_def parse_tbs_bytes_def
        parse_signature_def set_public_key_def tbs del: to_sec1.simps)
  have issuer: "parse_issuer (cb_issuer ?s) ci = (if self then ci\<lparr>ci_is_self_signed := True\<rparr>
      else ci\<lparr>ci_is_self_signed := False, ci_issuer_hash_id_8 := ihid\<rparr>)" for ci
    using len by (simp add: cert_struct_def copy_hid8_def size_simps)
  have tb: "cb_toBeSigned ?s = Some tbs" by (simp add: cert_struct_def)
  have p: "p = parse_signature (cb_signature ?s) (parse_tbs E (Some tbs) (parse_issuer (cb_issuer ?s)
      ((CertInfo_init (uninit E 8))\<lparr>ci_cert_bytes := ci_cert_bytes c,
         ci_hashed_id_8 := ci_hashed_id_8 c\<rparr>)))"
    using p f(7,18) dec by (simp add: from_struct_def Let_def tb compute_hid8_def)
  note unf = p parse_tbs_def steps issuer CertInfo_init_def
  show "ci_cert_bytes p = ci_cert_bytes c" "ci_hashed_id_8 p = ci_hashed_id_8 c"
    "ci_public_key p = ci_public_key c" "ci_tbs_bytes p = ci_tbs_bytes c"
    by (simp_all add: unf)
  show "ci_curve p = ci_curve c" "ci_is_self_signed p = ci_is_self_signed c"
    "ci_issuer_hash p = ci_issuer_hash c" "ci_validity_start p = ci_validity_start c"
    "ci_validity_duration_seconds p = ci_validity_duration_seconds c"
    using f by (simp_all add: unf)
  show "to_vector (ci_signature_r p) = to_vector (ci_signature_r c)"
    "to_vector (ci_signature_s p) = to_vector (ci_signature_s c)"
    using f(13,14) sr ss by (simp_all add: unf)
  show "sb_empty (ci_encryption_key p)" "ci_enc_curve p = NistP256" by (simp_all add: unf)
  have "ci_issuer_hash_id_8 p = (if self then uninit E 8 else ihid)" by (simp add: unf)
  then show "ci_issuer_hash_id_8 p = ci_issuer_hash_id_8 c" if "\<not> self"
    using that f(17) by simp
qed

section \<open>Properties\<close>

text \<open>
  (C1) Chain validation decides its specification: it accepts a certificate exactly when there is
  a path of one or two issuers, each found in the store under the identifier the certificate
  names, each signature verified, each certificate inside its validity and not revoked by its
  issuer, that ends in a self-signed certificate which also satisfies all of this.
\<close>

theorem validate_chain_iff_trust_path:
  "validate_chain E tc rv c now \<longleftrightarrow> trust_path E tc rv now 1 c \<or> trust_path E tc rv now 2 c"
  by (rule validate_chain_trust_path)

text \<open>
  A certificate built with the private key of an issuer verifies under that issuer, when the
  issuer's public key is the other half of the pair and, unless it is self-signed, the issuer's
  bytes are those the signature was made over.
\<close>

theorem built_certificate_verifies:
  assumes "openssl_ok E" "is_keypair E NistP256 priv ipub"
    and "build_signed_cert E w name pub priv ihid is_ca self icb = Some c"
    and "ci_curve issuer = NistP256" "\<not> sb_empty (ci_public_key issuer)"
    and "to_vector (ci_public_key issuer) = ipub"
    and "self \<or> to_vector (ci_cert_bytes issuer) = icb"
  shows "verify_cert_signature E c issuer"
  using build_signed_cert_verifies [OF assms(1,2,3,4) _ assms(5,7)] assms(6) by simp

text \<open>An instance: a self-signed root of the example environment.\<close>

definition toy_cert_env :: env where
  "toy_cert_env = toy_env\<lparr>asn_DEF_ToBeSignedCertificate := const_codec [7],
     asn_DEF_CertificateBase := const_codec [9]\<rparr>"

lemma toy_cert_keypair: "is_keypair toy_cert_env NistP256 (nat_be 32 5) (toy_pub 32 5)"
  using toy_keypair [of 5 NistP256] by (simp add: toy_cert_env_def size_simps)

lemma toy_root_exists: "\<exists>c. build_root_cert toy_cert_env 0 ''root'' (toy_pub 32 5) (nat_be 32 5) = Some c"
proof -
  have len: "length (toy_pub 32 5) = 65" by (simp add: toy_pub_def)
  have "length (double_hash (hash_sha256 toy_env) [7] []) = 32"
    by (simp add: double_hash_def hash_sha256_def toy_env_def)
  then obtain sig where "ecdsa_sign_digest toy_env 0 (nat_be 32 5)
      (double_hash (hash_sha256 toy_env) [7] []) NistP256 = Some sig"
    using toy_signs [of 5 NistP256 _ 0] by (auto simp: size_simps)
  then show ?thesis
    using len
    by (simp add: build_root_cert_def build_signed_cert_def build_tbs_struct_def Let_def size_simps
        toy_cert_env_def coer_encode_def sb_from_def sb_from_ptr_def)
qed

theorem built_certificate_verifies_witness:
  "\<exists>c. build_root_cert toy_cert_env 0 ''root'' (toy_pub 32 5) (nat_be 32 5) = Some c \<and>
     verify_cert_signature toy_cert_env c c"
proof -
  obtain c where c: "build_root_cert toy_cert_env 0 ''root'' (toy_pub 32 5) (nat_be 32 5) = Some c"
    using toy_root_exists by blast
  have ok: "openssl_ok toy_cert_env" by (simp add: toy_cert_env_def toy_openssl)
  have b: "build_signed_cert toy_cert_env 0 ''root'' (toy_pub 32 5) (nat_be 32 5) (replicate 8 0) True True [] = Some c"
    using c by (simp add: build_root_cert_def)
  have f: "ci_curve c = NistP256 \<and> sb_from kP384PublicKeyLen (toy_pub 32 5) = Some (ci_public_key c)"
    by (rule build_signed_cert_SomeE [OF b]) simp
  then have "to_vector (ci_public_key c) = toy_pub 32 5" "\<not> sb_empty (ci_public_key c)"
    by (auto simp: toy_pub_def)
  then have "verify_cert_signature toy_cert_env c c"
    using built_certificate_verifies [OF ok toy_cert_keypair b] f by simp
  with c show ?thesis by blast
qed

text \<open>
  Loading a directory adds, in listing order, the certificate of every regular \<open>.cert\<close> file
  that can be read and parsed, labelled with the stem of its name, and reports whether there was
  one; a path that is no directory changes nothing; and an exception of the file system is passed on.
\<close>

theorem load_from_directory_adds:
  "load_from_directory E listing tc =
     (case listing of
        Not_directory \<Rightarrow> Some (False, tc)
      | Is_directory_throws \<Rightarrow> None
      | Directory es ends \<Rightarrow>
          if ends \<and> list_all (\<lambda>e. load_entry E e \<noteq> None) es
          then Some (loaded_certs E es \<noteq> [], fold add_cert (loaded_certs E es) tc) else None)"
  by (simp add: load_from_directory_def load_entries_fold split: listing.split)

end
