(* ===== verification/SignedEnvelope.thy ===== *)
theory SignedEnvelope
  imports TrustChain
begin

text \<open>
  \<open>src/internal/signed_envelope.cpp\<close>: building signed messages. The main lemmas are that the ASN.1
  signature node gives back the signature and curve it was built from (with the exception the code
  names, NIST P-384), and that a message built here unwraps and verifies in \<open>SignedMessage\<close>.
\<close>

section \<open>Building\<close>

text \<open>\<open>now_us\<close> is the system clock in microseconds since the Unix epoch.\<close>

definition current_generation_time :: "int \<Rightarrow> u64" where
  "current_generation_time now_us = word_of_int (unix_to_tai_micros now_us)"

definition build_asn_signature :: "Signature \<Rightarrow> Curve \<Rightarrow> AsnSignature" where
  "build_asn_signature sig curve =
     (let slen = scalar_len curve in
      if is_p256_size curve then
        let ecdsa = \<lparr>rSig256 = Some (P256_x_only (octet_set (sb_data (sig_r_sb sig)) slen)),
                     sSig256 = octet_set (sb_data (sig_s_sb sig)) slen\<rparr> in
        if curve = BrainpoolP256r1 then Sig_ecdsaBrainpoolP256r1 (Some ecdsa)
        else Sig_ecdsaNistP256 (Some ecdsa)
      else
        let ecdsa = \<lparr>rSig384 = Some (P384_x_only (octet_set (sb_data (sig_r_sb sig)) slen)),
                     sSig384 = octet_set (sb_data (sig_s_sb sig)) slen\<rparr> in
        Sig_ecdsaBrainpoolP384r1 (Some ecdsa))"

definition signed_wrapper :: "ToBeSignedData \<Rightarrow> Signature \<Rightarrow> bytes \<Rightarrow> hid8 \<Rightarrow> Curve \<Rightarrow> Ieee1609Dot2Data" where
  "signed_wrapper tbs sig signer_cert_bytes signer_hid8 curve =
     Ieee1609Dot2Data kIeee1609Dot2Version (Some (signedData (Some
       (SignedData (if is_p256_size curve then HA_sha256 else HA_sha384) (Some tbs)
          (Some (if signer_cert_bytes = [] then Signer_self
                 else Signer_digest (octet_set signer_hid8 kHashedId8Len)))
          (Some (build_asn_signature sig curve))))))"

definition finalize_signed_data ::
  "env \<Rightarrow> nat \<Rightarrow> ToBeSignedData \<Rightarrow> bytes \<Rightarrow> bytes \<Rightarrow> hid8 \<Rightarrow> Curve \<Rightarrow> bytes" where
  "finalize_signed_data E w tbs priv signer_cert_bytes signer_hid8 curve =
     (let tbs_bytes = coer_encode (asn_DEF_ToBeSignedData E) tbs in
      if tbs_bytes = [] then []
      else let e = double_hash (\<lambda>d. hash_for_curve E d curve) tbs_bytes signer_cert_bytes in
      (case ecdsa_sign_digest E w priv e curve of None \<Rightarrow> [] | Some sig \<Rightarrow>
         coer_encode (asn_DEF_Ieee1609Dot2Data E)
           (signed_wrapper tbs sig signer_cert_bytes signer_hid8 curve)))"

definition scr_header :: "int \<Rightarrow> HeaderInfo" where
  "scr_header now_us =
     \<lparr>hi_psid = word_of_int kPsidScr, hi_generationTime = Some (current_generation_time now_us),
      hi_rest = []\<rparr>"

definition make_unsecured_tbs :: "int \<Rightarrow> bytes \<Rightarrow> ToBeSignedData" where
  "make_unsecured_tbs now_us payload_bytes =
     ToBeSignedData
       (Some (SignedDataPayload (Some (Ieee1609Dot2Data kIeee1609Dot2Version
          (Some (unsecuredData (octet_set payload_bytes (length payload_bytes)))))) None))
       (Some (scr_header now_us))"

definition build_self_signed :: "env \<Rightarrow> nat \<Rightarrow> int \<Rightarrow> bytes \<Rightarrow> bytes \<Rightarrow> Curve \<Rightarrow> bytes" where
  "build_self_signed E w now_us payload_bytes priv curve =
     finalize_signed_data E w (make_unsecured_tbs now_us payload_bytes) priv [] (replicate 8 0) curve"

definition build_signed_by_cert ::
  "env \<Rightarrow> nat \<Rightarrow> int \<Rightarrow> bytes \<Rightarrow> CertInfo \<Rightarrow> bytes \<Rightarrow> Curve \<Rightarrow> bytes" where
  "build_signed_by_cert E w now_us payload_bytes signer_cert priv curve =
     finalize_signed_data E w (make_unsecured_tbs now_us payload_bytes) priv
       (to_vector (ci_cert_bytes signer_cert)) (ci_hashed_id_8 signer_cert) curve"

definition external_tbs :: "int \<Rightarrow> bytes \<Rightarrow> Curve \<Rightarrow> ToBeSignedData" where
  "external_tbs now_us ext_data_hash curve =
     ToBeSignedData
       (Some (SignedDataPayload None
          (Some (if is_p256_size curve
                 then sha256HashedData (octet_set ext_data_hash (length ext_data_hash))
                 else sha384HashedData (octet_set ext_data_hash (length ext_data_hash))))))
       (Some (scr_header now_us))"

definition build_external_payload ::
  "env \<Rightarrow> nat \<Rightarrow> int \<Rightarrow> bytes \<Rightarrow> CertInfo \<Rightarrow> bytes \<Rightarrow> Curve \<Rightarrow> bytes" where
  "build_external_payload E w now_us ext_data_hash ec_cert ec_priv curve =
     finalize_signed_data E w (external_tbs now_us ext_data_hash curve) ec_priv
       (to_vector (ci_cert_bytes ec_cert)) (ci_hashed_id_8 ec_cert) curve"

section \<open>Facts\<close>

text \<open>The curve a reader finds in a signature node built for a curve.\<close>

definition node_curve :: "Curve \<Rightarrow> Curve" where
  "node_curve c = (if c = NistP384 then BrainpoolP384r1 else c)"

lemma scalar_len_node_curve [simp]: "scalar_len (node_curve c) = scalar_len c"
  by (simp add: node_curve_def)

lemma extract_sig_build_asn_signature:
  assumes "sb_size (sig_r_sb sig) = scalar_len c" "sb_size (sig_s_sb sig) = scalar_len c"
    and "length (to_vector (sig_r_sb sig)) = scalar_len c" "length (to_vector (sig_s_sb sig)) = scalar_len c"
  shows "extract_sig (Some (build_asn_signature sig c)) =
    Some \<lparr>rs_r = to_vector (sig_r_sb sig), rs_s = to_vector (sig_s_sb sig), rs_curve = node_curve c\<rparr>"
  using assms
  by (cases c) (simp_all add: build_asn_signature_def Let_def is_p256_size_def octet_set_def octet_bytes_def
      to_vector_def sb_size_def node_curve_def)

lemma extract_sig_of_signed:
  assumes "ecdsa_sign_digest E w priv dg c = Some sig"
  shows "extract_sig (Some (build_asn_signature sig c)) =
    Some \<lparr>rs_r = to_vector (sig_r_sb sig), rs_s = to_vector (sig_s_sb sig), rs_curve = node_curve c\<rparr>"
  using sb_size_sig [OF assms] sign_digest_sizes [OF assms]
  by (intro extract_sig_build_asn_signature) auto

lemma finalize_nonemptyE:
  assumes "finalize_signed_data E w tbs priv scb hid c \<noteq> []"
  obtains sig where "coer_encode (asn_DEF_ToBeSignedData E) tbs \<noteq> []"
    "ecdsa_sign_digest E w priv (double_hash (\<lambda>d. hash_for_curve E d c)
       (coer_encode (asn_DEF_ToBeSignedData E) tbs) scb) c = Some sig"
    "finalize_signed_data E w tbs priv scb hid c =
       coer_encode (asn_DEF_Ieee1609Dot2Data E) (signed_wrapper tbs sig scb hid c)"
  using assms by (auto simp: finalize_signed_data_def Let_def split: if_splits option.splits)

text \<open>The generated codec round-trips every signed message (for the value at hand).\<close>

definition message_codec_ok :: "env \<Rightarrow> bool" where
  "message_codec_ok E \<longleftrightarrow> (\<forall>x. codec_roundtrip (asn_DEF_Ieee1609Dot2Data E) x)"

lemma unsecured_payload_make [simp]:
  "tbsd_payload (make_unsecured_tbs now p) = Some (SignedDataPayload (Some (Ieee1609Dot2Data kIeee1609Dot2Version
      (Some (unsecuredData p)))) None)"
  by (simp add: make_unsecured_tbs_def octet_set_def)

text \<open>What unwrapping gives for a message built with a payload.\<close>

lemma unwrap_finalize:
  assumes rt: "message_codec_ok E" and p: "p \<noteq> []" and hid: "length hid = 8"
    and sg: "ecdsa_sign_digest E w priv dg c = Some sig"
    and ne: "coer_encode (asn_DEF_Ieee1609Dot2Data E)
               (signed_wrapper (make_unsecured_tbs now p) sig scb hid c) \<noteq> []"
  shows "unwrap E (coer_encode (asn_DEF_Ieee1609Dot2Data E)
            (signed_wrapper (make_unsecured_tbs now p) sig scb hid c)) =
    Some \<lparr>sm_payload_coer = p,
          sm_tbs_coer = coer_encode (asn_DEF_ToBeSignedData E) (make_unsecured_tbs now p),
          sm_signer_hid8 = (if scb = [] then replicate 8 0 else hid),
          sm_sig_r = to_vector (sig_r_sb sig), sm_sig_s = to_vector (sig_s_sb sig),
          sm_sig_curve = node_curve c, sm_has_signer_digest = (scb \<noteq> [])\<rparr>"
proof -
  let ?wr = "signed_wrapper (make_unsecured_tbs now p) sig scb hid c"
  have "decode_with_basic_fallback (asn_DEF_Ieee1609Dot2Data E)
      (coer_encode (asn_DEF_Ieee1609Dot2Data E) ?wr) = Some ?wr"
    using rt ne by (intro fallback_decode_encode) (simp_all add: message_codec_ok_def)
  then show ?thesis
    using p hid extract_sig_of_signed [OF sg]
    by (simp add: unwrap_def signed_wrapper_def unsecured_payload_def message_of_def Let_def
        read_signer_def read_signature_def SignedMessage_init_def octet_bytes_def octet_set_def size_simps)
qed

text \<open>
  A message built with the private key of a certificate unwraps to its payload and verifies under
  the public key of the pair with the certificate's bytes, for every curve but NIST P-384.
\<close>

lemma built_message_verifies:
  assumes ok: "openssl_ok E" "message_codec_ok E" and kp: "is_keypair E c priv pub"
    and p: "p \<noteq> []" and hid: "scb \<noteq> [] \<Longrightarrow> hid = compute_hid8 E scb" "length hid = 8"
    and c: "c \<noteq> NistP384"
    and b: "finalize_signed_data E w (make_unsecured_tbs now p) priv scb hid c \<noteq> []"
    and key: "key \<in> {pub, compress_sec1 (scalar_len c) pub}"
  shows "\<exists>m. unwrap E (finalize_signed_data E w (make_unsecured_tbs now p) priv scb hid c) = Some m \<and>
    sm_payload_coer m = p \<and> sm_has_signer_digest m = (scb \<noteq> []) \<and>
    sm_signer_hid8 m = (if scb = [] then replicate 8 0 else hid) \<and> verify E m key scb"
  using b
proof (rule finalize_nonemptyE)
  fix sig
  let ?tb = "coer_encode (asn_DEF_ToBeSignedData E) (make_unsecured_tbs now p)"
  let ?wr = "signed_wrapper (make_unsecured_tbs now p) sig scb hid c"
  assume tb: "?tb \<noteq> []"
    and sg: "ecdsa_sign_digest E w priv (double_hash (\<lambda>d. hash_for_curve E d c) ?tb scb) c = Some sig"
    and fin: "finalize_signed_data E w (make_unsecured_tbs now p) priv scb hid c =
      coer_encode (asn_DEF_Ieee1609Dot2Data E) ?wr"
  note sizes = sign_digest_sizes [OF sg]
  obtain r where r: "sb_from kP384ScalarLen (to_vector (sig_r_sb sig)) = Some r"
    using sizes sb_from_fits by (metis scalar_len_le)
  obtain s where s: "sb_from kP384ScalarLen (to_vector (sig_s_sb sig)) = Some s"
    using sizes sb_from_fits by (metis scalar_len_le)
  have "ecdsa_verify_digest E key (double_hash (\<lambda>d. hash_for_curve E d c) ?tb scb) sig c"
    using sign_then_verify [OF ok(1) kp sg] key by auto
  then have ver: "ecdsa_verify_digest E key (double_hash (\<lambda>d. hash_for_curve E d c) ?tb scb)
      \<lparr>sig_r_sb = r, sig_s_sb = s\<rparr> c"
    using r s ecdsa_verify_digest_bytes [of sig "\<lparr>sig_r_sb = r, sig_s_sb = s\<rparr>"] by simp
  have key_ne: "key \<noteq> []"
  proof -
    have "length pub = pubkey_len c" using kp by (auto elim: is_keypairE)
    then have "pub \<noteq> []" by (auto simp: pubkey_len_scalar)
    then show ?thesis using key by (auto simp: compress_sec1_def)
  qed
  have nc: "node_curve c = c" using c by (simp add: node_curve_def)
  have "coer_encode (asn_DEF_Ieee1609Dot2Data E) ?wr \<noteq> []" using b fin by simp
  from unwrap_finalize [OF ok(2) p hid(2) sg this] show ?thesis
    using tb sizes r s ver hid(1) key_ne nc unfolding fin by (simp add: verify_iff)
qed

section \<open>Properties\<close>

text \<open>
  The signature node built for a signature that the library made is read back with the same
  scalars, and with the same curve except that NIST P-384 signatures are labelled Brainpool P-384.
\<close>

theorem signature_node_roundtrip:
  "case ecdsa_sign_digest E w priv dg c of
     None \<Rightarrow> True
   | Some sig \<Rightarrow> extract_sig (Some (build_asn_signature sig c)) =
       Some \<lparr>rs_r = to_vector (sig_r_sb sig), rs_s = to_vector (sig_s_sb sig),
             rs_curve = (if c = NistP384 then BrainpoolP384r1 else c)\<rparr>"
  using extract_sig_of_signed [of E w priv dg c] by (auto simp: node_curve_def split: option.split)

end
