(* ===== verification/EncryptedMessage.thy ===== *)
theory EncryptedMessage
  imports SignedEnvelope
begin

text \<open>
  \<open>src/internal/encrypted_data.cpp\<close> and \<open>src/internal/request_hash.hpp\<close>: the encrypted envelope of a
  request, the decryption and verification of a response, and the request correlation check.
\<close>

section \<open>Building\<close>

definition build_encrypted_data :: "EciesEncryptResult \<Rightarrow> CertInfo \<Rightarrow> Curve \<Rightarrow> Ieee1609Dot2Data" where
  "build_encrypted_data ecies recipient_cert curve =
     (let ecies_k = \<lparr>ek_v = from_sec1 (ephemeral_pubkey ecies),
                     ek_c = octet_set (encrypted_key ecies) (length (encrypted_key ecies)),
                     ek_t = octet_set (tag_kdf ecies) (length (tag_kdf ecies))\<rparr>;
          enc_key = (if curve = BrainpoolP256r1 \<or> curve = BrainpoolP384r1
                     then EDEK_eciesBrainpoolP256r1 (Some ecies_k)
                     else EDEK_eciesNistP256 (Some ecies_k));
          pk_ri = \<lparr>pk_recipientId = octet_set (ci_hashed_id_8 recipient_cert) kHashedId8Len,
                   pk_encKey = Some enc_key\<rparr>;
          ct_tag = ecies_ciphertext ecies @ tag_ccm ecies;
          ccm = \<lparr>ccm_nonce = octet_set (nonce_ccm ecies) (length (nonce_ccm ecies)),
                 ccm_ccmCiphertext = octet_set ct_tag (length ct_tag)\<rparr>
      in Ieee1609Dot2Data kIeee1609Dot2Version (Some (encryptedData (Some
           \<lparr>ed_recipients = Some [certRecipInfo (Some pk_ri)],
            ed_ciphertext = Some (aes128ccm (Some ccm))\<rparr>))))"

section \<open>Decrypting a response\<close>

text \<open>The key and curve a recipient entry selects; \<open>None\<close> for a null or foreign alternative.\<close>

fun ecies_key_of :: "EncryptedDataEncryptionKey \<Rightarrow> (EciesP256EncryptedKey \<times> Curve) option" where
  "ecies_key_of (EDEK_eciesNistP256 (Some k)) = Some (k, NistP256)"
| "ecies_key_of (EDEK_eciesBrainpoolP256r1 (Some k)) = Some (k, BrainpoolP256r1)"
| "ecies_key_of _ = None"

definition decrypt_cert_recipient ::
  "env \<Rightarrow> PKRecipientInfo \<Rightarrow> bytes \<Rightarrow> bytes \<Rightarrow> bytes \<Rightarrow> bytes \<Rightarrow> bytes option" where
  "decrypt_cert_recipient E pk_ri priv nonce ciphertext tag =
     (case pk_encKey pk_ri of None \<Rightarrow> None | Some enc_key \<Rightarrow>
      (case ecies_key_of enc_key of None \<Rightarrow> None | Some (ecies_key, ecies_curve) \<Rightarrow>
        if ek_v ecies_key = None then None
        else let eph = to_sec1 (ek_v ecies_key) in
        if eph = [] then None
        else ecies_decrypt E priv
          \<lparr>ephemeral_pubkey = eph, encrypted_key = octet_bytes (ek_c ecies_key),
           tag_kdf = octet_bytes (ek_t ecies_key), nonce_ccm = nonce, ecies_ciphertext = ciphertext,
           tag_ccm = tag, aes_key = []\<rparr> [] ecies_curve))"

definition ccm_of_ciphertext :: "SymmetricCiphertext option \<Rightarrow> One28BitCcmCiphertext option" where
  "ccm_of_ciphertext ct = (case ct of Some (aes128ccm ccm) \<Rightarrow> ccm | _ \<Rightarrow> None)"

definition first_recipient :: "EncryptedData \<Rightarrow> RecipientInfo option" where
  "first_recipient enc =
     (case ed_recipients enc of Some (ri # _) \<Rightarrow> Some ri | _ \<Rightarrow> None)"

definition decrypt_encrypted_content :: "env \<Rightarrow> EncryptedData option \<Rightarrow> bytes \<Rightarrow> bytes \<Rightarrow> bytes option" where
  "decrypt_encrypted_content E enc priv request_aes_key =
     (case enc of None \<Rightarrow> None | Some ed \<Rightarrow>
      (case first_recipient ed of None \<Rightarrow> None | Some ri0 \<Rightarrow>
      (case ccm_of_ciphertext (ed_ciphertext ed) of None \<Rightarrow> None | Some ccm \<Rightarrow>
        let nonce = octet_bytes (ccm_nonce ccm);
            ct_with_tag = octet_bytes (ccm_ccmCiphertext ccm) in
        if length ct_with_tag < kAesCcmTagLen then None
        else let ciphertext = take (length ct_with_tag - kAesCcmTagLen) ct_with_tag;
                 tag = drop (length ct_with_tag - kAesCcmTagLen) ct_with_tag in
        (case ri0 of
           pskRecipInfo _ \<Rightarrow>
             if request_aes_key \<noteq> [] then aes_128_ccm_decrypt E request_aes_key nonce ciphertext tag
             else None
         | certRecipInfo (Some pk_ri) \<Rightarrow> decrypt_cert_recipient E pk_ri priv nonce ciphertext tag
         | _ \<Rightarrow> None))))"

text \<open>Dropping the version and CHOICE tag of the \<open>EtsiTs102941Data\<close> in front of the response.\<close>

definition strip_etsi_prefix :: "byte \<Rightarrow> bytes \<Rightarrow> bytes" where
  "strip_etsi_prefix tag inner_bytes =
     (if length inner_bytes > 2 \<and> inner_bytes ! 0 = 0x01 \<and> inner_bytes ! 1 = tag
      then drop 2 inner_bytes else inner_bytes)"

definition encrypted_content :: "Ieee1609Dot2Data \<Rightarrow> EncryptedData option option" where
  "encrypted_content outer =
     (case data_content outer of Some (encryptedData ed) \<Rightarrow> Some ed | _ \<Rightarrow> None)"

definition decrypt_and_unwrap :: "env \<Rightarrow> bytes \<Rightarrow> bytes \<Rightarrow> bytes \<Rightarrow> byte \<Rightarrow> CertInfo \<Rightarrow> bytes Result" where
  "decrypt_and_unwrap E response_bytes priv request_aes_key etsi_response_tag signer_cert =
     (case coer_decode (asn_DEF_Ieee1609Dot2Data E) response_bytes of None \<Rightarrow> Inl Decode | Some outer \<Rightarrow>
      (case encrypted_content outer of None \<Rightarrow> Inl Decode | Some ed \<Rightarrow>
      (case decrypt_encrypted_content E ed priv request_aes_key of None \<Rightarrow> Inl Crypto | Some plaintext \<Rightarrow>
      (case unwrap E plaintext of None \<Rightarrow> Inl Decode | Some signed_inner \<Rightarrow>
        if \<not> verify E signed_inner (to_vector (ci_public_key signer_cert))
               (to_vector (ci_cert_bytes signer_cert))
        then Inl SignatureInvalid
        else Inr (strip_etsi_prefix etsi_response_tag (sm_payload_coer signed_inner))))))"

section \<open>The request hash\<close>

definition request_hash_matches :: "env \<Rightarrow> bytes \<Rightarrow> StaticBytes \<Rightarrow> bool" where
  "request_hash_matches E request_bytes response_hash =
     (if request_bytes = [] \<or> sb_size response_hash \<noteq> 16 then False
      else let digest = hash_sha256 E request_bytes in
        if length digest < 16 then False
        else to_vector response_hash = take (length (to_vector response_hash)) digest)"

section \<open>Facts\<close>

lemma compress_sec1_P256:
  assumes "length pk = 65"
  shows "compress_sec1 32 pk = (if pk ! 64 AND 1 \<noteq> 0 then 0x03 else 0x02) # take 32 (drop 1 pk)"
proof -
  have "last pk = pk ! 64" using assms by (subst last_conv_nth) auto
  then show ?thesis by (simp add: compress_sec1_def)
qed

text \<open>
  The envelope built for a recipient opens with the recipient's private key: the message carries
  the ephemeral key compressed and the content key wrapped, and decryption recovers the plaintext.
\<close>

lemma decrypt_build_encrypted:
  assumes ok: "openssl_ok E" "ccm_ok E" and kp: "is_keypair E c priv pub" and c: "is_p256_size c"
    and enc: "ecies_encrypt E w pub pt [] c = Some ecies"
    and ed: "encrypted_content (build_encrypted_data ecies rc c) = Some ed"
  shows "decrypt_encrypted_content E ed priv aes = Some pt"
proof -
  note sizes = ecies_encrypt_sizes [OF ok enc]
  let ?eph = "ephemeral_pubkey ecies"
  have len: "length ?eph = kP256PublicKeyLen" and sl: "scalar_len c = 32"
    using sizes(1) c by (auto simp: is_p256_size_def size_simps)
  obtain p where p: "from_sec1 ?eph = Some p"
    and v: "to_sec1 (Some p) = compress_sec1 32 ?eph"
    using to_sec1_from_sec1 [OF len] compress_sec1_P256 [of ?eph] len by (auto simp: size_simps)
  have ne: "compress_sec1 32 ?eph \<noteq> []" by (simp add: compress_sec1_def)
  have "ecies_decrypt E priv (ecies\<lparr>ephemeral_pubkey := compress_sec1 32 ?eph\<rparr>) [] c = Some pt"
    using ecies_decrypt_encrypt [OF ok kp enc] sl by simp
  then have dec: "ecies_decrypt E priv
      \<lparr>ephemeral_pubkey = compress_sec1 32 ?eph, encrypted_key = encrypted_key ecies,
       tag_kdf = tag_kdf ecies, nonce_ccm = nonce_ccm ecies, ecies_ciphertext = ecies_ciphertext ecies,
       tag_ccm = tag_ccm ecies, aes_key = []\<rparr> [] c = Some pt"
    by (simp add: ecies_decrypt_def cong: option.case_cong if_cong)
  from c have "c = NistP256 \<or> c = BrainpoolP256r1" by (simp add: is_p256_size_def)
  then show ?thesis
    using ed p v ne dec sizes(6)
    by (auto simp: build_encrypted_data_def Let_def encrypted_content_def decrypt_encrypted_content_def
        first_recipient_def ccm_of_ciphertext_def decrypt_cert_recipient_def octet_set_def
        octet_bytes_def)
qed

text \<open>
  An accepted response was decrypted, is a signed message that verifies under the signer's key
  and certificate, and is that message's payload with at most the two prefix bytes dropped.
\<close>

lemma decrypt_and_unwrap_Ok_iff:
  "decrypt_and_unwrap E resp priv aes tag signer = Inr inner \<longleftrightarrow>
     (\<exists>outer ed pt m. coer_decode (asn_DEF_Ieee1609Dot2Data E) resp = Some outer \<and>
        encrypted_content outer = Some ed \<and> decrypt_encrypted_content E ed priv aes = Some pt \<and>
        unwrap E pt = Some m \<and>
        verify E m (to_vector (ci_public_key signer)) (to_vector (ci_cert_bytes signer)) \<and>
        inner = strip_etsi_prefix tag (sm_payload_coer m))"
  by (auto simp: decrypt_and_unwrap_def unwind)

lemma request_hash_matches_iff:
  assumes "wf_sb 16 h"
  shows "request_hash_matches E req h \<longleftrightarrow>
    req \<noteq> [] \<and> 16 \<le> length (hash_sha256 E req) \<and> to_vector h = take 16 (hash_sha256 E req)"
proof -
  have "length (to_vector h) = sb_size h" using assms by (rule wf_sb_length)
  then show ?thesis by (auto simp: request_hash_matches_def Let_def)
qed

lemma strip_etsi_prefix_added: "rest \<noteq> [] \<Longrightarrow> strip_etsi_prefix t (0x01 # t # rest) = rest"
  by (cases rest) (simp_all add: strip_etsi_prefix_def)

end
