(* ===== verification/EcRequest.thy ===== *)
theory EcRequest
  imports EncryptedMessage
begin

text \<open>
  \<open>src/ec_request.cpp\<close>: the enrolment request (record, validator, assembler, encoder) and the
  decoder of its response. The lemmas give the validator's acceptance set, the exact value of the
  requested duration (including where the 16-bit conversion wraps), the view the Enrolment
  Authority has of an encoded request, and what an accepted response guarantees.
\<close>

section \<open>Record, validator, assembler\<close>

text \<open>The bytes of a \<open>std::string\<close>.\<close>

definition string_bytes :: "string \<Rightarrow> bytes" where
  "string_bytes s = map (\<lambda>c. of_char c) s"

text \<open>\<open>secs\<close> is the time point in whole seconds since the Unix epoch.\<close>

definition unix_to_tai32 :: "int \<Rightarrow> u32" where
  "unix_to_tai32 secs = (let tai = unix_to_tai_seconds secs in if tai < 0 then 0 else word_of_int tai)"

record EcRecord =
  ecr_canonical_public_key :: StaticBytes
  ecr_ea_hashed_id_8 :: hid8
  ecr_requested_psids :: "int list"
  ecr_validity_period_days :: int
  ecr_curve :: Curve
  ecr_its_id :: string

text \<open>\<open>None\<close> is acceptance, \<open>Some\<close> the text the failing branch stores in \<open>err\<close>.\<close>

definition validate_ec_record :: "EcRecord \<Rightarrow> string option" where
  "validate_ec_record rec =
     (if sb_size (ecr_canonical_public_key rec) \<noteq> pubkey_len (ecr_curve rec) \<or>
         sb_at (ecr_canonical_public_key rec) 0 \<noteq> Some 0x04
      then Some ''canonical_public_key must be uncompressed (0x04 prefix, correct size for curve)''
      else if length (ecr_requested_psids rec) \<noteq> 1 \<or> ecr_requested_psids rec ! 0 \<noteq> kPsidScr
      then Some (''EC requested_psids must be exactly {kPsidScr} (TS 103 097 '' @ [CHR 0xC2, CHR 0xA7] @
                 ''7.2.2); application PSIDs belong on the AT'')
      else if ecr_validity_period_days rec \<le> 0 \<or> ecr_validity_period_days rec > 3650
      then Some ''validity_period_days must be 1-3650''
      else None)"

record EcRequestDescription =
  ecd_its_id :: string
  ecd_verification_key :: StaticBytes
  ecd_psids :: "int list"
  ecd_validity_start :: u32
  ecd_validity_duration_hours :: u16
  ecd_ea_hid8 :: hid8
  ecd_curve :: Curve

definition assemble_ec_request :: "EcRecord \<Rightarrow> int \<Rightarrow> EcRequestDescription" where
  "assemble_ec_request rec now =
     \<lparr>ecd_its_id = (if ecr_its_id rec = [] then ''v2xpki-its-s'' else ecr_its_id rec),
      ecd_verification_key = ecr_canonical_public_key rec, ecd_psids = ecr_requested_psids rec,
      ecd_validity_start = unix_to_tai32 now,
      ecd_validity_duration_hours = word_of_int (ecr_validity_period_days rec * 24),
      ecd_ea_hid8 = ecr_ea_hashed_id_8 rec, ecd_curve = ecr_curve rec\<rparr>"

section \<open>Encoder\<close>

fun verification_key_node :: "Curve \<Rightarrow> bytes \<Rightarrow> PublicVerificationKey" where
  "verification_key_node BrainpoolP256r1 vk = PVK_ecdsaBrainpoolP256r1 (from_sec1 vk)"
| "verification_key_node BrainpoolP384r1 vk = PVK_ecdsaBrainpoolP384r1 (from_sec1_384 vk)"
| "verification_key_node _ vk = PVK_ecdsaNistP256 (from_sec1 vk)"

definition subject_attributes :: "u32 \<Rightarrow> u16 \<Rightarrow> int list \<Rightarrow> CertificateSubjectAttributes" where
  "subject_attributes start hours psids =
     \<lparr>csa_validityPeriod = Some \<lparr>vp_start = start, vp_duration = Some (Dur_hours hours)\<rparr>,
      csa_appPermissions = Some (map (\<lambda>psid. \<lparr>ps_psid = word_of_int psid, ps_ssp = None\<rparr>) psids),
      csa_rest = []\<rparr>"

text \<open>\<open>CertificateFormat_ts103097v131\<close>.\<close>

definition ts103097v131 :: nat where "ts103097v131 = 1"

definition inner_ec_request :: "EcRequestDescription \<Rightarrow> InnerEcRequest" where
  "inner_ec_request desc =
     \<lparr>ier_itsId = octet_set (string_bytes (ecd_its_id desc)) (length (ecd_its_id desc)),
      ier_certificateFormat = ts103097v131,
      ier_publicKeys = Some \<lparr>pks_verificationKey =
          Some (verification_key_node (ecd_curve desc) (to_vector (ecd_verification_key desc))),
        pks_encryptionKey = None\<rparr>,
      ier_requestedSubjectAttributes = Some (subject_attributes (ecd_validity_start desc)
        (ecd_validity_duration_hours desc) (ecd_psids desc))\<rparr>"

text \<open>The encryption key of a recipient, its verification key when it has none.\<close>

definition recipient_enc_key :: "CertInfo \<Rightarrow> bytes" where
  "recipient_enc_key cert =
     (if sb_empty (ci_encryption_key cert) then to_vector (ci_public_key cert)
      else to_vector (ci_encryption_key cert))"

text \<open>\<open>P1\<close> of TS 102 941 B.2.\<close>

definition recipient_p1 :: "env \<Rightarrow> CertInfo \<Rightarrow> bytes" where
  "recipient_p1 E cert = hash_sha256 E (to_vector (ci_cert_bytes cert))"

record EcRequestResult =
  req_encoded :: StaticBytes
  req_aes_key :: StaticBytes

text \<open>
  The tail both encoders share: the outer envelope is encoded and both parts are copied to fixed
  buffers.
\<close>

definition finish_request :: "env \<Rightarrow> EciesEncryptResult \<Rightarrow> CertInfo \<Rightarrow> EcRequestResult Result" where
  "finish_request E ecies cert =
     (let final_bytes = coer_encode (asn_DEF_Ieee1609Dot2Data E)
            (build_encrypted_data ecies cert (ci_enc_curve cert)) in
      if final_bytes = [] then Inl Encode
      else case sb_from kMaxCoerMessageLen final_bytes of None \<Rightarrow> Inl Encode | Some encoded \<Rightarrow>
      (case sb_from kAesKeyLen (aes_key ecies) of None \<Rightarrow> Inl Crypto | Some k \<Rightarrow>
         Inr \<lparr>req_encoded = encoded, req_aes_key = k\<rparr>))"

text \<open>
  Seeds: \<open>w\<close> and \<open>w + 1\<close> for the two signatures, from \<open>w + 2\<close> for ECIES; \<open>t1\<close> and \<open>t2\<close> are the clock
  readings of the two signed envelopes.
\<close>

definition encode_ec_request ::
  "env \<Rightarrow> nat \<Rightarrow> int \<Rightarrow> int \<Rightarrow> EcRequestDescription \<Rightarrow> CertInfo \<Rightarrow> bytes \<Rightarrow> EcRequestResult Result" where
  "encode_ec_request E w t1 t2 desc ea_cert canonical_priv =
     (let curve = ecd_curve desc;
          inner_bytes = coer_encode (asn_DEF_InnerEcRequest E) (inner_ec_request desc) in
      if inner_bytes = [] then Inl Encode
      else let pop_signed_bytes = build_self_signed E w t1 inner_bytes canonical_priv curve in
      if pop_signed_bytes = [] then Inl Crypto
      else let etsi_bytes = 0x01 # 0x80 # pop_signed_bytes;
               outer_signed_bytes = build_self_signed E (w + 1) t2 etsi_bytes canonical_priv curve in
      if outer_signed_bytes = [] then Inl Crypto
      else let ea_enc_key = recipient_enc_key ea_cert in
      if length ea_enc_key < 33 then Inl InvalidArgument
      else case ecies_encrypt E (w + 2) ea_enc_key outer_signed_bytes (recipient_p1 E ea_cert)
                  (ci_enc_curve ea_cert) of
        None \<Rightarrow> Inl Crypto
      | Some ecies_result \<Rightarrow> finish_request E ecies_result ea_cert)"

section \<open>Response decoder\<close>

record EcResponse =
  ecs_response_code :: EnrolmentResponseCode
  ecs_request_hash :: StaticBytes
  ecs_certificate :: "CertInfo option"

definition response_certificate :: "env \<Rightarrow> string \<Rightarrow> CertificateBase option \<Rightarrow> CertInfo option" where
  "response_certificate E lbl cert =
     (case cert of None \<Rightarrow> None | Some c \<Rightarrow>
        Some ((from_struct E c (coer_encode (asn_DEF_CertificateBase E) c))\<lparr>ci_label := lbl\<rparr>))"

definition decode_ec_response ::
  "env \<Rightarrow> bytes \<Rightarrow> bytes \<Rightarrow> bytes \<Rightarrow> bytes \<Rightarrow> CertInfo \<Rightarrow> EcResponse Result" where
  "decode_ec_response E response_bytes priv request_aes_key request_bytes signer_cert =
     (case decrypt_and_unwrap E response_bytes priv request_aes_key 0x81 signer_cert of
        Inl e \<Rightarrow> Inl e
      | Inr inner_bytes \<Rightarrow>
      (case coer_decode (asn_DEF_InnerEcResponse E) inner_bytes of None \<Rightarrow> Inl Decode | Some resp \<Rightarrow>
      (case sb_from 16 (octet_bytes (iers_requestHash resp)) of None \<Rightarrow> Inl Decode | Some h \<Rightarrow>
        if \<not> request_hash_matches E request_bytes h then Inl SignatureInvalid
        else Inr \<lparr>ecs_response_code = iers_responseCode resp, ecs_request_hash = h,
                  ecs_certificate = response_certificate E ''ec_response'' (iers_certificate resp)\<rparr>)))"

section \<open>Facts on the record\<close>

lemma take_eq_ConsD: "take n xs = y # ys \<Longrightarrow> xs \<noteq> [] \<and> xs ! 0 = y"
  by (cases xs; cases n) simp_all

lemma validate_ec_record_ok_iff:
  assumes "wf_sb kP384PublicKeyLen (ecr_canonical_public_key rec)"
  shows "validate_ec_record rec = None \<longleftrightarrow>
    (\<exists>xy. to_vector (ecr_canonical_public_key rec) = 0x04 # xy \<and>
       length xy = 2 * scalar_len (ecr_curve rec)) \<and>
    ecr_requested_psids rec = [kPsidScr] \<and>
    ecr_validity_period_days rec \<in> {1..3650}"
proof -
  let ?pk = "ecr_canonical_public_key rec"
  have len: "length (to_vector ?pk) = sb_size ?pk" using assms by (rule wf_sb_length)
  have "(sb_size ?pk = pubkey_len (ecr_curve rec) \<and> sb_at ?pk 0 = Some 4) \<longleftrightarrow>
      (\<exists>xy. to_vector ?pk = 4 # xy \<and> length xy = 2 * scalar_len (ecr_curve rec))" (is "?l \<longleftrightarrow> ?r")
  proof
    assume l: ?l
    then obtain x xy where v: "to_vector ?pk = x # xy"
      using len by (cases "to_vector ?pk") (auto simp: pubkey_len_scalar)
    then have "sb_data ?pk ! 0 = x" by (simp add: to_vector_def take_eq_ConsD)
    then have "x = 4" using l by (auto simp: sb_at_def split: if_splits)
    with v l len show ?r by (auto simp: pubkey_len_scalar)
  next
    assume ?r
    then obtain xy where v: "to_vector ?pk = 4 # xy" "length xy = 2 * scalar_len (ecr_curve rec)" by blast
    then have "sb_data ?pk ! 0 = 4" "sb_data ?pk \<noteq> []" by (auto simp: to_vector_def dest: take_eq_ConsD)
    with v len show ?l by (auto simp: sb_at_def pubkey_len_scalar)
  qed
  moreover have "(length (ecr_requested_psids rec) = 1 \<and> ecr_requested_psids rec ! 0 = kPsidScr) \<longleftrightarrow>
      ecr_requested_psids rec = [kPsidScr]"
    by (auto simp: length_Suc_conv)
  ultimately show ?thesis
    by (auto simp: validate_ec_record_def)
qed

text \<open>
  The requested duration: exact up to 2730 days; from 2731 days, which the validator still
  accepts, the product exceeds 16 bits and the request asks for 65536 hours less.
\<close>

lemma ec_duration_value:
  assumes "0 \<le> d" "d \<le> 3650"
  shows "uint (word_of_int (d * 24) :: u16) = (if d \<le> 2730 then d * 24 else d * 24 - 65536)"
proof -
  have m: "uint (word_of_int (d * 24) :: u16) = (d * 24) mod 65536"
    by (subst uint_word_of_int) simp
  show ?thesis
  proof (cases "d \<le> 2730")
    case True
    then show ?thesis using assms m by simp
  next
    case False
    then have "(d * 24 - 65536) mod 65536 = d * 24 - 65536"
      using assms by (intro mod_pos_pos_trivial) auto
    then have "(d * 24) mod 65536 = d * 24 - 65536"
      by (simp only: minus_mod_self2)
    then show ?thesis using False m by simp
  qed
qed

lemma unix_to_tai32_exact:
  assumes "0 \<le> unix_to_tai_seconds s" "unix_to_tai_seconds s < 2 ^ 32"
  shows "uint (unix_to_tai32 s) = unix_to_tai_seconds s"
  using assms by (simp add: unix_to_tai32_def uint_word_of_int)

section \<open>What the authority sees\<close>

lemma encode_ec_request_OkE:
  assumes "encode_ec_request E w t1 t2 desc ea priv = Inr res"
  obtains inner pop outer ecies where
    "inner = coer_encode (asn_DEF_InnerEcRequest E) (inner_ec_request desc)" "inner \<noteq> []"
    "pop = build_self_signed E w t1 inner priv (ecd_curve desc)" "pop \<noteq> []"
    "outer = build_self_signed E (w + 1) t2 (0x01 # 0x80 # pop) priv (ecd_curve desc)" "outer \<noteq> []"
    "ecies_encrypt E (w + 2) (recipient_enc_key ea) outer (recipient_p1 E ea) (ci_enc_curve ea) = Some ecies"
    "to_vector (req_encoded res) = coer_encode (asn_DEF_Ieee1609Dot2Data E)
       (build_encrypted_data ecies ea (ci_enc_curve ea))" "to_vector (req_encoded res) \<noteq> []"
    "to_vector (req_aes_key res) = aes_key ecies"
  using assms
  by (auto simp: encode_ec_request_def finish_request_def Let_def unwind)

lemma self_signed_roundtrip:
  assumes ok: "openssl_ok E" "message_codec_ok E" and kp: "is_keypair E c priv pub"
    and p: "p \<noteq> []" and c: "c \<noteq> NistP384" and b: "build_self_signed E w t p priv c \<noteq> []"
  shows "\<exists>m. unwrap E (build_self_signed E w t p priv c) = Some m \<and> sm_payload_coer m = p \<and>
    \<not> sm_has_signer_digest m \<and> verify E m pub []"
  using built_message_verifies [OF ok kp p _ _ c, of "[]" "replicate 8 0" w t pub] b
  by (auto simp: build_self_signed_def)

text \<open>
  The Enrolment Authority, with the private half of its encryption key, recovers from the encoded
  request the outer signed message, its payload \<open>01 80\<close> followed by the proof of possession, and
  in that the encoded inner request; both signatures verify under the requester's key, and the
  symmetric key returned to the caller is the one the message carries.
\<close>

lemma ec_request_opens:
  assumes ok: "openssl_ok E" "ccm_ok E" "message_codec_ok E"
    and req: "encode_ec_request E w t1 t2 desc ea priv = Inr res"
    and kp: "is_keypair E (ecd_curve desc) priv pub" and c: "ecd_curve desc \<noteq> NistP384"
    and ea: "is_keypair E (ci_enc_curve ea) ea_priv (recipient_enc_key ea)"
  shows "\<exists>ecies outer pop m1 m2.
    coer_decode (asn_DEF_Ieee1609Dot2Data E) (to_vector (req_encoded res)) =
      Some (build_encrypted_data ecies ea (ci_enc_curve ea)) \<and>
    ecies_decrypt E ea_priv ecies (recipient_p1 E ea) (ci_enc_curve ea) = Some outer \<and>
    unwrap E outer = Some m1 \<and> verify E m1 pub [] \<and> sm_payload_coer m1 = 0x01 # 0x80 # pop \<and>
    unwrap E pop = Some m2 \<and> verify E m2 pub [] \<and>
    sm_payload_coer m2 = coer_encode (asn_DEF_InnerEcRequest E) (inner_ec_request desc) \<and>
    to_vector (req_aes_key res) = aes_key ecies"
  using req
proof (rule encode_ec_request_OkE)
  fix inner pop outer ecies
  assume f: "inner = coer_encode (asn_DEF_InnerEcRequest E) (inner_ec_request desc)" "inner \<noteq> []"
    "pop = build_self_signed E w t1 inner priv (ecd_curve desc)" "pop \<noteq> []"
    "outer = build_self_signed E (w + 1) t2 (0x01 # 0x80 # pop) priv (ecd_curve desc)" "outer \<noteq> []"
    and enc: "ecies_encrypt E (w + 2) (recipient_enc_key ea) outer (recipient_p1 E ea) (ci_enc_curve ea) = Some ecies"
    and bytes: "to_vector (req_encoded res) = coer_encode (asn_DEF_Ieee1609Dot2Data E)
       (build_encrypted_data ecies ea (ci_enc_curve ea))" "to_vector (req_encoded res) \<noteq> []"
    and k: "to_vector (req_aes_key res) = aes_key ecies"
  obtain m2 where "unwrap E pop = Some m2" "verify E m2 pub []" "sm_payload_coer m2 = inner"
    using self_signed_roundtrip [OF ok(1,3) kp f(2) c] f(3,4) by blast
  moreover obtain m1 where "unwrap E outer = Some m1" "verify E m1 pub []"
    "sm_payload_coer m1 = 0x01 # 0x80 # pop"
    using self_signed_roundtrip [OF ok(1,3) kp _ c, of "0x01 # 0x80 # pop" "w + 1" t2] f(5,6) by auto
  moreover have "coer_decode (asn_DEF_Ieee1609Dot2Data E) (to_vector (req_encoded res)) =
      Some (build_encrypted_data ecies ea (ci_enc_curve ea))"
    unfolding bytes(1) using ok(3) bytes by (intro coer_decode_encode) (auto simp: message_codec_ok_def)
  moreover have "ecies_decrypt E ea_priv ecies (recipient_p1 E ea) (ci_enc_curve ea) = Some outer"
    using ecies_decrypt_encrypt [OF ok(1,2) ea enc, of "ephemeral_pubkey ecies"] by simp
  ultimately show ?thesis using k f(1) by blast
qed

section \<open>What an accepted response is\<close>

lemma decode_ec_response_Ok_iff:
  "decode_ec_response E resp priv aes req signer = Inr r \<longleftrightarrow>
     (\<exists>inner ir h. decrypt_and_unwrap E resp priv aes 0x81 signer = Inr inner \<and>
        coer_decode (asn_DEF_InnerEcResponse E) inner = Some ir \<and>
        sb_from 16 (iers_requestHash ir) = Some h \<and>
        req \<noteq> [] \<and> 16 \<le> length (hash_sha256 E req) \<and>
        iers_requestHash ir = take 16 (hash_sha256 E req) \<and>
        r = \<lparr>ecs_response_code = iers_responseCode ir, ecs_request_hash = h,
             ecs_certificate = response_certificate E ''ec_response'' (iers_certificate ir)\<rparr>)"
proof -
  have "decode_ec_response E resp priv aes req signer = Inr r \<longleftrightarrow>
     (\<exists>inner ir h. decrypt_and_unwrap E resp priv aes 0x81 signer = Inr inner \<and>
        coer_decode (asn_DEF_InnerEcResponse E) inner = Some ir \<and>
        sb_from 16 (iers_requestHash ir) = Some h \<and> request_hash_matches E req h \<and>
        r = \<lparr>ecs_response_code = iers_responseCode ir, ecs_request_hash = h,
             ecs_certificate = response_certificate E ''ec_response'' (iers_certificate ir)\<rparr>)"
    by (auto simp: decode_ec_response_def unwind octet_bytes_def split: sum.splits)
  moreover have "request_hash_matches E req h \<longleftrightarrow>
      req \<noteq> [] \<and> 16 \<le> length (hash_sha256 E req) \<and> v = take 16 (hash_sha256 E req)"
    if "sb_from 16 v = Some h" for v h
    using request_hash_matches_iff [OF wf_sb_from [OF that]] sb_from_sizes(1) [OF that] by simp
  ultimately show ?thesis by auto
qed

section \<open>Properties\<close>

text \<open>
  (C15) An enrolment response is accepted exactly when it decrypts, the signed message in it verifies
  under the authority's key and certificate, and the request hash in it is the first 16 bytes of the
  SHA-256 of the request that was sent. The result carries the code and the certificate of the
  message.
\<close>

theorem ec_response_accepts_iff:
  "decode_ec_response E resp priv aes req signer = Inr r \<longleftrightarrow>
     (\<exists>outer ed pt m ir h. coer_decode (asn_DEF_Ieee1609Dot2Data E) resp = Some outer \<and>
        encrypted_content outer = Some ed \<and> decrypt_encrypted_content E ed priv aes = Some pt \<and>
        unwrap E pt = Some m \<and>
        verify E m (to_vector (ci_public_key signer)) (to_vector (ci_cert_bytes signer)) \<and>
        coer_decode (asn_DEF_InnerEcResponse E) (strip_etsi_prefix 0x81 (sm_payload_coer m)) = Some ir \<and>
        req \<noteq> [] \<and> 16 \<le> length (hash_sha256 E req) \<and>
        iers_requestHash ir = take 16 (hash_sha256 E req) \<and> sb_from 16 (iers_requestHash ir) = Some h \<and>
        r = \<lparr>ecs_response_code = iers_responseCode ir, ecs_request_hash = h,
             ecs_certificate = response_certificate E ''ec_response'' (iers_certificate ir)\<rparr>)"
  unfolding decode_ec_response_Ok_iff decrypt_and_unwrap_Ok_iff by blast

text \<open>
  (C37) The duration an accepted enrolment record asks for is its days in hours, for up to 2730 days;
  above, where the validator still accepts up to 3650 days, the 16-bit field wraps and the request
  asks for \<open>65536\<close> hours less.
\<close>

theorem ec_requested_hours:
  assumes "validate_ec_record rec = None"
  shows "uint (ecd_validity_duration_hours (assemble_ec_request rec now)) =
    (if ecr_validity_period_days rec \<le> 2730 then ecr_validity_period_days rec * 24
     else ecr_validity_period_days rec * 24 - 65536)"
proof -
  have "0 \<le> ecr_validity_period_days rec" "ecr_validity_period_days rec \<le> 3650"
    using assms by (auto simp: validate_ec_record_def split: if_splits)
  from ec_duration_value [OF this] show ?thesis by (simp add: assemble_ec_request_def)
qed

text \<open>Witness of (C37): an accepted record for 2731 days asks for eight hours.\<close>

definition long_record :: EcRecord where
  "long_record = \<lparr>ecr_canonical_public_key = \<lparr>sb_data = 0x04 # replicate 96 0, sb_len = 65\<rparr>,
     ecr_ea_hashed_id_8 = replicate 8 0, ecr_requested_psids = [kPsidScr], ecr_validity_period_days = 2731,
     ecr_curve = NistP256, ecr_its_id = []\<rparr>"

lemma long_record_accepted: "validate_ec_record long_record = None"
  by (simp add: validate_ec_record_def long_record_def sb_size_def sb_at_def size_simps)

theorem ec_requested_hours_witness:
  "validate_ec_record long_record = None \<and>
   uint (ecd_validity_duration_hours (assemble_ec_request long_record 0)) = 8"
  using ec_requested_hours [OF long_record_accepted, of 0] long_record_accepted
  by (simp add: long_record_def)

text \<open>
  The validator accepts a record exactly when its key is an uncompressed point of the curve's
  size, its only PSID is the one for certificate requests and its period is 1 to 3650 days.
\<close>

theorem ec_record_accepted_iff:
  assumes "wf_sb kP384PublicKeyLen (ecr_canonical_public_key rec)"
  shows "validate_ec_record rec = None \<longleftrightarrow>
    (\<exists>xy. to_vector (ecr_canonical_public_key rec) = 0x04 # xy \<and>
       length xy = 2 * scalar_len (ecr_curve rec)) \<and>
    ecr_requested_psids rec = [kPsidScr] \<and> ecr_validity_period_days rec \<in> {1..3650}"
  using assms by (rule validate_ec_record_ok_iff)

text \<open>An instance: the same record.\<close>

theorem ec_record_accepted_iff_witness:
  "\<exists>xy. to_vector (ecr_canonical_public_key long_record) = 0x04 # xy \<and>
     length xy = 2 * scalar_len (ecr_curve long_record)"
proof -
  have "wf_sb kP384PublicKeyLen (ecr_canonical_public_key long_record)"
    by (simp add: wf_sb_def long_record_def size_simps)
  from ec_record_accepted_iff [OF this] long_record_accepted show ?thesis by blast
qed

end
