(* ===== verification/AtRequest.thy ===== *)
theory AtRequest
  imports EcRequest
begin

text \<open>
  \<open>src/at_request.cpp\<close>: the authorization request, which carries a signature of the enrolment
  credential encrypted to the Enrolment Authority inside a request encrypted to the Authorization
  Authority, and the decoder of its response.
\<close>

section \<open>Record, validator, assembler\<close>

record AtRecord =
  atr_at_public_key :: StaticBytes
  atr_aa_hashed_id_8 :: hid8
  atr_ea_hashed_id_8 :: hid8
  atr_requested_psids :: "int list"
  atr_validity_period_hours :: int
  atr_curve :: Curve

definition validate_at_record :: "AtRecord \<Rightarrow> string option" where
  "validate_at_record rec =
     (if sb_size (atr_at_public_key rec) \<noteq> pubkey_len (atr_curve rec) \<or>
         sb_at (atr_at_public_key rec) 0 \<noteq> Some 0x04
      then Some ''at_public_key must be uncompressed (0x04 prefix, correct size for curve)''
      else if atr_requested_psids rec = [] then Some ''requested_psids must not be empty''
      else if list_ex (\<lambda>psid. psid < 0) (atr_requested_psids rec)
      then Some ''psid values must be non-negative''
      else if atr_validity_period_hours rec \<le> 0 \<or> atr_validity_period_hours rec > 87600
      then Some ''validity_period_hours must be 1-87600''
      else None)"

record AtRequestDescription =
  atd_verification_key :: StaticBytes
  atd_psids :: "int list"
  atd_validity_start :: u32
  atd_validity_duration_hours :: u16
  atd_aa_hid8 :: hid8
  atd_ea_hid8 :: hid8
  atd_hmac_key :: StaticBytes
  atd_key_tag :: StaticBytes
  atd_curve :: Curve

text \<open>
  The HMAC key is the private half of a fresh P-256 key pair, or 32 zero bytes when the key
  generation fails. Neither conversion to the 32 byte buffer can fail.
\<close>

definition at_hmac_key :: "env \<Rightarrow> nat \<Rightarrow> StaticBytes" where
  "at_hmac_key E w =
     (let src = (case generate_keypair E w NistP256 of
                   Some hmac_kp \<Rightarrow> sb_data (private_key hmac_kp)
                 | None \<Rightarrow> replicate kSha256Len 0)
      in case sb_from_ptr 32 src kP256ScalarLen of Some k \<Rightarrow> k | None \<Rightarrow> sb_default 32)"

definition assemble_at_request :: "env \<Rightarrow> nat \<Rightarrow> AtRecord \<Rightarrow> int \<Rightarrow> AtRequestDescription" where
  "assemble_at_request E w rec now =
     \<lparr>atd_verification_key = atr_at_public_key rec, atd_psids = atr_requested_psids rec,
      atd_validity_start = unix_to_tai32 now,
      atd_validity_duration_hours = word_of_int (min (atr_validity_period_hours rec) 65535),
      atd_aa_hid8 = atr_aa_hashed_id_8 rec, atd_ea_hid8 = atr_ea_hashed_id_8 rec,
      atd_hmac_key = at_hmac_key E w, atd_key_tag = sb_default 16, atd_curve = atr_curve rec\<rparr>"

section \<open>Encoder\<close>

text \<open>
  The first 16 bytes of the MAC; a MAC that fails leaves the uninitialised array.
\<close>

definition at_key_tag :: "env \<Rightarrow> AtRequestDescription \<Rightarrow> bytes \<Rightarrow> bytes" where
  "at_key_tag E desc pvk_oer =
     (let hmac_out = (case HMAC_sha256 E (to_vector (atd_hmac_key desc)) pvk_oer of
                        None \<Rightarrow> uninit E 32 | Some h \<Rightarrow> h)
      in take 16 hmac_out)"

definition shared_at_request :: "AtRequestDescription \<Rightarrow> bytes \<Rightarrow> SharedAtRequest" where
  "shared_at_request desc key_tag =
     \<lparr>sar_eaId = octet_set (atd_ea_hid8 desc) kHashedId8Len, sar_keyTag = octet_set key_tag 16,
      sar_certificateFormat = ts103097v131,
      sar_requestedSubjectAttributes = Some (subject_attributes (atd_validity_start desc)
        (atd_validity_duration_hours desc) (atd_psids desc))\<rparr>"

definition inner_at_request ::
  "AtRequestDescription \<Rightarrow> SharedAtRequest \<Rightarrow> Ieee1609Dot2Data \<Rightarrow> InnerAtRequest" where
  "inner_at_request desc shared enc_ec_sig =
     \<lparr>iar_publicKeys = Some \<lparr>pks_verificationKey =
          Some (verification_key_node (atd_curve desc) (to_vector (atd_verification_key desc))),
        pks_encryptionKey = None\<rparr>,
      iar_hmacKey = octet_set (sb_data (atd_hmac_key desc)) (sb_size (atd_hmac_key desc)),
      iar_sharedAtRequest = Some shared,
      iar_ecSignature = Some (encryptedEcSignature (Some enc_ec_sig))\<rparr>"

text \<open>
  The two halves of \<open>encode_at_request\<close>: the inner request with the encrypted signature of the
  enrolment credential, then the outer signed and encrypted envelope. Seeds \<open>w\<close> for the external
  payload, from \<open>w + 1\<close> for the encryption to the EA, \<open>w + 4\<close> for the outer signature and from
  \<open>w + 5\<close> for the encryption to the AA.
\<close>

definition encode_inner_at ::
  "env \<Rightarrow> nat \<Rightarrow> int \<Rightarrow> AtRequestDescription \<Rightarrow> CertInfo \<Rightarrow> CertInfo \<Rightarrow> bytes \<Rightarrow> bytes Result" where
  "encode_inner_at E w t1 desc ea_cert ec_cert ec_priv =
     (let curve = atd_curve desc;
          pvk = verification_key_node curve (to_vector (atd_verification_key desc));
          pvk_oer = coer_encode (asn_DEF_PublicVerificationKey E) pvk in
      if pvk_oer = [] then Inl Encode
      else let shared = shared_at_request desc (at_key_tag E desc pvk_oer);
               shared_coer = coer_encode (asn_DEF_SharedAtRequest E) shared in
      if shared_coer = [] then Inl Encode
      else let ext_hash = hash_for_curve E shared_coer curve;
               signed_ext_bytes = build_external_payload E w t1 ext_hash ec_cert ec_priv curve in
      if signed_ext_bytes = [] then Inl Crypto
      else let ea_enc_key = recipient_enc_key ea_cert in
      if length ea_enc_key < 33 then Inl InvalidArgument
      else case ecies_encrypt E (w + 1) ea_enc_key signed_ext_bytes (recipient_p1 E ea_cert)
                  (ci_enc_curve ea_cert) of None \<Rightarrow> Inl Crypto | Some ecies_ea \<Rightarrow>
      (case coer_decode (asn_DEF_SharedAtRequest E) shared_coer of None \<Rightarrow> Inl Encode | Some shared_decoded \<Rightarrow>
        let inner_bytes = coer_encode (asn_DEF_InnerAtRequest E)
              (inner_at_request desc shared_decoded
                 (build_encrypted_data ecies_ea ea_cert (ci_enc_curve ea_cert))) in
        if inner_bytes = [] then Inl Encode else Inr inner_bytes))"

definition encode_at_request ::
  "env \<Rightarrow> nat \<Rightarrow> int \<Rightarrow> int \<Rightarrow> AtRequestDescription \<Rightarrow> CertInfo \<Rightarrow> CertInfo \<Rightarrow> CertInfo \<Rightarrow> bytes \<Rightarrow> bytes \<Rightarrow>
   EcRequestResult Result" where
  "encode_at_request E w t1 t2 desc aa_cert ea_cert ec_cert ec_priv at_priv =
     (case encode_inner_at E w t1 desc ea_cert ec_cert ec_priv of
        Inl e \<Rightarrow> Inl e
      | Inr inner_bytes \<Rightarrow>
        let etsi_bytes = 0x01 # 0x82 # inner_bytes;
            outer_signed_bytes = build_self_signed E (w + 4) t2 etsi_bytes at_priv (atd_curve desc) in
        if outer_signed_bytes = [] then Inl Crypto
        else let aa_enc_key = recipient_enc_key aa_cert in
        if length aa_enc_key < 33 then Inl InvalidArgument
        else case ecies_encrypt E (w + 5) aa_enc_key outer_signed_bytes (recipient_p1 E aa_cert)
                    (ci_enc_curve aa_cert) of
          None \<Rightarrow> Inl Crypto
        | Some ecies_aa \<Rightarrow> finish_request E ecies_aa aa_cert)"

section \<open>Response decoder\<close>

record AtResponse =
  ats_response_code :: AuthorizationResponseCode
  ats_request_hash :: StaticBytes
  ats_certificate :: "CertInfo option"

definition decode_at_response ::
  "env \<Rightarrow> bytes \<Rightarrow> bytes \<Rightarrow> bytes \<Rightarrow> bytes \<Rightarrow> CertInfo \<Rightarrow> AtResponse Result" where
  "decode_at_response E response_bytes priv request_aes_key request_bytes signer_cert =
     (case decrypt_and_unwrap E response_bytes priv request_aes_key 0x83 signer_cert of
        Inl e \<Rightarrow> Inl e
      | Inr inner_bytes \<Rightarrow>
      (case coer_decode (asn_DEF_InnerAtResponse E) inner_bytes of None \<Rightarrow> Inl Decode | Some resp \<Rightarrow>
      (case sb_from 16 (octet_bytes (iars_requestHash resp)) of None \<Rightarrow> Inl Decode | Some h \<Rightarrow>
        if \<not> request_hash_matches E request_bytes h then Inl SignatureInvalid
        else Inr \<lparr>ats_response_code = iars_responseCode resp, ats_request_hash = h,
                  ats_certificate = response_certificate E ''at_response'' (iars_certificate resp)\<rparr>)))"

section \<open>Facts\<close>

text \<open>The requested hours: clamped to the 16-bit maximum, so never wrapped.\<close>

lemma at_duration_value:
  assumes "0 \<le> h"
  shows "uint (word_of_int (min h 65535) :: u16) = min h 65535"
  using assms by (subst uint_word_of_int) simp

lemma at_hmac_key_size: "length (to_vector (at_hmac_key E w)) = 32"
proof -
  have "length (to_vector (at_hmac_key E w)) = 32" if "32 \<le> length src"
    "at_hmac_key E w = (case sb_from_ptr 32 src 32 of Some k \<Rightarrow> k | None \<Rightarrow> sb_default 32)" for src
    using that by (simp add: sb_from_ptr_def to_vector_def)
  moreover have "32 \<le> length (sb_data (private_key kp))" if "generate_keypair E w NistP256 = Some kp" for kp
    using generate_keypair_wf [OF that] by (simp add: wf_KeyPair_def wf_sb_def size_simps)
  ultimately show ?thesis
    by (cases "generate_keypair E w NistP256") (auto simp: at_hmac_key_def size_simps)
qed

lemma encode_inner_at_OkE:
  assumes "encode_inner_at E w t1 desc ea ec ec_priv = Inr inner"
  obtains tag shared_coer ext ecies shared' where
    "tag = at_key_tag E desc (coer_encode (asn_DEF_PublicVerificationKey E)
       (verification_key_node (atd_curve desc) (to_vector (atd_verification_key desc))))"
    "shared_coer = coer_encode (asn_DEF_SharedAtRequest E) (shared_at_request desc tag)" "shared_coer \<noteq> []"
    "ext = build_external_payload E w t1 (hash_for_curve E shared_coer (atd_curve desc)) ec ec_priv
       (atd_curve desc)" "ext \<noteq> []"
    "ecies_encrypt E (w + 1) (recipient_enc_key ea) ext (recipient_p1 E ea) (ci_enc_curve ea) = Some ecies"
    "coer_decode (asn_DEF_SharedAtRequest E) shared_coer = Some shared'"
    "inner = coer_encode (asn_DEF_InnerAtRequest E)
       (inner_at_request desc shared' (build_encrypted_data ecies ea (ci_enc_curve ea)))" "inner \<noteq> []"
  using assms by (auto simp: encode_inner_at_def Let_def unwind)

lemma encode_at_request_OkE:
  assumes "encode_at_request E w t1 t2 desc aa ea ec ec_priv at_priv = Inr res"
  obtains inner outer ecies where
    "encode_inner_at E w t1 desc ea ec ec_priv = Inr inner"
    "outer = build_self_signed E (w + 4) t2 (0x01 # 0x82 # inner) at_priv (atd_curve desc)" "outer \<noteq> []"
    "ecies_encrypt E (w + 5) (recipient_enc_key aa) outer (recipient_p1 E aa) (ci_enc_curve aa) = Some ecies"
    "to_vector (req_encoded res) = coer_encode (asn_DEF_Ieee1609Dot2Data E)
       (build_encrypted_data ecies aa (ci_enc_curve aa))" "to_vector (req_encoded res) \<noteq> []"
    "to_vector (req_aes_key res) = aes_key ecies"
  using assms by (auto simp: encode_at_request_def finish_request_def Let_def unwind split: sum.splits)

text \<open>
  Privacy of the request: what the AA opens is a message signed with the new key whose payload
  holds the inner request; what the EA opens inside it is the signed external payload. Stated for
  the AA.
\<close>

lemma at_request_opens:
  assumes ok: "openssl_ok E" "ccm_ok E" "message_codec_ok E"
    and req: "encode_at_request E w t1 t2 desc aa ea ec ec_priv at_priv = Inr res"
    and kp: "is_keypair E (atd_curve desc) at_priv pub" and c: "atd_curve desc \<noteq> NistP384"
    and aa: "is_keypair E (ci_enc_curve aa) aa_priv (recipient_enc_key aa)"
  shows "\<exists>ecies outer inner m.
    coer_decode (asn_DEF_Ieee1609Dot2Data E) (to_vector (req_encoded res)) =
      Some (build_encrypted_data ecies aa (ci_enc_curve aa)) \<and>
    ecies_decrypt E aa_priv ecies (recipient_p1 E aa) (ci_enc_curve aa) = Some outer \<and>
    unwrap E outer = Some m \<and> verify E m pub [] \<and> sm_payload_coer m = 0x01 # 0x82 # inner \<and>
    encode_inner_at E w t1 desc ea ec ec_priv = Inr inner \<and>
    to_vector (req_aes_key res) = aes_key ecies"
  using req
proof (rule encode_at_request_OkE)
  fix inner outer ecies
  assume inner: "encode_inner_at E w t1 desc ea ec ec_priv = Inr inner"
    and outer: "outer = build_self_signed E (w + 4) t2 (0x01 # 0x82 # inner) at_priv (atd_curve desc)"
      "outer \<noteq> []"
    and enc: "ecies_encrypt E (w + 5) (recipient_enc_key aa) outer (recipient_p1 E aa) (ci_enc_curve aa) = Some ecies"
    and bytes: "to_vector (req_encoded res) = coer_encode (asn_DEF_Ieee1609Dot2Data E)
       (build_encrypted_data ecies aa (ci_enc_curve aa))" "to_vector (req_encoded res) \<noteq> []"
    and k: "to_vector (req_aes_key res) = aes_key ecies"
  obtain m where "unwrap E outer = Some m" "verify E m pub []" "sm_payload_coer m = 0x01 # 0x82 # inner"
    using self_signed_roundtrip [OF ok(1,3) kp _ c, of "0x01 # 0x82 # inner" "w + 4" t2] outer by auto
  moreover have "coer_decode (asn_DEF_Ieee1609Dot2Data E) (to_vector (req_encoded res)) =
      Some (build_encrypted_data ecies aa (ci_enc_curve aa))"
    unfolding bytes(1) using ok(3) bytes by (intro coer_decode_encode) (auto simp: message_codec_ok_def)
  moreover have "ecies_decrypt E aa_priv ecies (recipient_p1 E aa) (ci_enc_curve aa) = Some outer"
    using ecies_decrypt_encrypt [OF ok(1,2) aa enc, of "ephemeral_pubkey ecies"] by simp
  ultimately show ?thesis using k inner by blast
qed

lemma decode_at_response_Ok_iff:
  "decode_at_response E resp priv aes req signer = Inr r \<longleftrightarrow>
     (\<exists>inner ir h. decrypt_and_unwrap E resp priv aes 0x83 signer = Inr inner \<and>
        coer_decode (asn_DEF_InnerAtResponse E) inner = Some ir \<and>
        sb_from 16 (iars_requestHash ir) = Some h \<and>
        req \<noteq> [] \<and> 16 \<le> length (hash_sha256 E req) \<and>
        iars_requestHash ir = take 16 (hash_sha256 E req) \<and>
        r = \<lparr>ats_response_code = iars_responseCode ir, ats_request_hash = h,
             ats_certificate = response_certificate E ''at_response'' (iars_certificate ir)\<rparr>)"
proof -
  have "decode_at_response E resp priv aes req signer = Inr r \<longleftrightarrow>
     (\<exists>inner ir h. decrypt_and_unwrap E resp priv aes 0x83 signer = Inr inner \<and>
        coer_decode (asn_DEF_InnerAtResponse E) inner = Some ir \<and>
        sb_from 16 (iars_requestHash ir) = Some h \<and> request_hash_matches E req h \<and>
        r = \<lparr>ats_response_code = iars_responseCode ir, ats_request_hash = h,
             ats_certificate = response_certificate E ''at_response'' (iars_certificate ir)\<rparr>)"
    by (auto simp: decode_at_response_def unwind octet_bytes_def split: sum.splits)
  moreover have "request_hash_matches E req h \<longleftrightarrow>
      req \<noteq> [] \<and> 16 \<le> length (hash_sha256 E req) \<and> v = take 16 (hash_sha256 E req)"
    if "sb_from 16 v = Some h" for v h
    using request_hash_matches_iff [OF wf_sb_from [OF that]] sb_from_sizes(1) [OF that] by simp
  ultimately show ?thesis by auto
qed

section \<open>Properties\<close>

text \<open>
  (C17) An authorization response is accepted exactly when it decrypts, the signed message in it
  verifies under the authority's key and certificate, and the request hash in it is the first 16
  bytes of the SHA-256 of the request that was sent.
\<close>

theorem at_response_accepts_iff:
  "decode_at_response E resp priv aes req signer = Inr r \<longleftrightarrow>
     (\<exists>outer ed pt m ir h. coer_decode (asn_DEF_Ieee1609Dot2Data E) resp = Some outer \<and>
        encrypted_content outer = Some ed \<and> decrypt_encrypted_content E ed priv aes = Some pt \<and>
        unwrap E pt = Some m \<and>
        verify E m (to_vector (ci_public_key signer)) (to_vector (ci_cert_bytes signer)) \<and>
        coer_decode (asn_DEF_InnerAtResponse E) (strip_etsi_prefix 0x83 (sm_payload_coer m)) = Some ir \<and>
        req \<noteq> [] \<and> 16 \<le> length (hash_sha256 E req) \<and>
        iars_requestHash ir = take 16 (hash_sha256 E req) \<and> sb_from 16 (iars_requestHash ir) = Some h \<and>
        r = \<lparr>ats_response_code = iars_responseCode ir, ats_request_hash = h,
             ats_certificate = response_certificate E ''at_response'' (iars_certificate ir)\<rparr>)"
  unfolding decode_at_response_Ok_iff decrypt_and_unwrap_Ok_iff by blast

text \<open>
  The duration an accepted authorization record asks for is its hours, cut off at the largest
  value of the 16-bit field: records above 65535 hours pass the validator but are not honoured.
\<close>

theorem at_requested_hours:
  assumes "validate_at_record rec = None"
  shows "uint (atd_validity_duration_hours (assemble_at_request E w rec now)) =
    min (atr_validity_period_hours rec) 65535"
proof -
  have "0 \<le> atr_validity_period_hours rec"
    using assms by (auto simp: validate_at_record_def split: if_splits)
  from at_duration_value [OF this] show ?thesis by (simp add: assemble_at_request_def Let_def)
qed

text \<open>An instance: ten years of 365 days are asked for as 65535 hours.\<close>

definition long_at_record :: AtRecord where
  "long_at_record = \<lparr>atr_at_public_key = \<lparr>sb_data = 0x04 # replicate 96 0, sb_len = 65\<rparr>,
     atr_aa_hashed_id_8 = replicate 8 0, atr_ea_hashed_id_8 = replicate 8 0, atr_requested_psids = [36],
     atr_validity_period_hours = 87600, atr_curve = NistP256\<rparr>"

theorem at_requested_hours_witness:
  "validate_at_record long_at_record = None \<and>
   uint (atd_validity_duration_hours (assemble_at_request toy_env 0 long_at_record 0)) = 65535"
proof -
  have v: "validate_at_record long_at_record = None"
    by (simp add: validate_at_record_def long_at_record_def sb_size_def sb_at_def size_simps)
  from at_requested_hours [OF v, of toy_env 0 0] v show ?thesis by (simp add: long_at_record_def)
qed

end
