(* ===== verification/Hex.thy ===== *)
theory Hex
  imports AtRequest
begin

text \<open>
  Hexadecimal text: the formatters of \<open>src/trust_list.cpp\<close> (upper case), \<open>src/pki_client.cpp\<close> and
  \<open>tools/pki-provisioner/wire_dump.cpp\<close> (lower case) and \<open>src/cli/io.cpp\<close>, and the readers built on
  \<open>std::stoul\<close> with base 16. The interface \<open>hex_digits\<close> is a choice of the sixteen digits; the round
  trip is proved once for it and holds for both cases.
\<close>

section \<open>Digits\<close>

definition digit_upper :: "nat \<Rightarrow> char" where
  "digit_upper n = (if n < 10 then char_of (48 + n) else char_of (55 + n))"

definition digit_lower :: "nat \<Rightarrow> char" where
  "digit_lower n = (if n < 10 then char_of (48 + n) else char_of (87 + n))"

definition hex_val :: "char \<Rightarrow> nat option" where
  "hex_val c =
     (let n = of_char c :: nat in
      if 48 \<le> n \<and> n \<le> 57 then Some (n - 48)
      else if 65 \<le> n \<and> n \<le> 70 then Some (n - 55)
      else if 97 \<le> n \<and> n \<le> 102 then Some (n - 87)
      else None)"

text \<open>\<open>std::hex\<close> with \<open>setw(2)\<close> and fill \<open>0\<close>, respectively the two nibbles of \<open>d[c >> 4]\<close>, \<open>d[c & 0x0F]\<close>.\<close>

definition hex2 :: "(nat \<Rightarrow> char) \<Rightarrow> byte \<Rightarrow> string" where
  "hex2 digit b = [digit (unat b div 16), digit (unat b mod 16)]"

definition hex_string :: "(nat \<Rightarrow> char) \<Rightarrow> bytes \<Rightarrow> string" where
  "hex_string digit bs = concat (map (hex2 digit) bs)"

definition hid8_hex_upper :: "hid8 \<Rightarrow> string" where
  "hid8_hex_upper hid8 = hex_string digit_upper hid8"

definition hid8_to_hex :: "hid8 \<Rightarrow> string" where
  "hid8_to_hex hid8 = hex_string digit_lower hid8"

definition bytes_to_hex :: "bytes \<Rightarrow> nat \<Rightarrow> string" where
  "bytes_to_hex data len = hex_string digit_upper (take len data)"

definition hid8_hex :: "hid8 \<Rightarrow> string" where
  "hid8_hex h = bytes_to_hex h kHashedId8Len"

definition wire_hex :: "bytes \<Rightarrow> string" where
  "wire_hex b = hex_string digit_lower b"

section \<open>Reading\<close>

text \<open>
  \<open>std::stoul(s, nullptr, 16)\<close>: leading white space, an optional sign, an optional \<open>0x\<close> before a
  digit, then as many digits as there are. No digit, or a value above the range, throws (\<open>None\<close>); a
  minus sign negates modulo \<open>2 ^ 64\<close>.
\<close>

definition is_space :: "char \<Rightarrow> bool" where
  "is_space c = (let n = of_char c :: nat in n = 32 \<or> (9 \<le> n \<and> n \<le> 13))"

definition strip_0x :: "string \<Rightarrow> string" where
  "strip_0x s =
     (case s of z # x # d # r \<Rightarrow>
        if z = CHR ''0'' \<and> (x = CHR ''x'' \<or> x = CHR ''X'') \<and> hex_val d \<noteq> None then d # r else s
      | _ \<Rightarrow> s)"

definition digits_value :: "string \<Rightarrow> nat" where
  "digits_value ds = foldl (\<lambda>v c. 16 * v + (case hex_val c of Some n \<Rightarrow> n | None \<Rightarrow> 0)) 0 ds"

definition stoul16 :: "string \<Rightarrow> u64 option" where
  "stoul16 s =
     (let s1 = dropWhile is_space s;
          neg = (s1 \<noteq> [] \<and> hd s1 = CHR ''-'');
          s2 = (if s1 \<noteq> [] \<and> (hd s1 = CHR ''-'' \<or> hd s1 = CHR ''+'') then tl s1 else s1);
          ds = takeWhile (\<lambda>c. hex_val c \<noteq> None) (strip_0x s2) in
      if ds = [] \<or> digits_value ds \<ge> 2 ^ 64 then None
      else Some (if neg then - of_nat (digits_value ds) else of_nat (digits_value ds)))"

text \<open>The loop over the eight pairs; \<open>None\<close> is the exception caught on the way.\<close>

fun parse_pairs :: "nat \<Rightarrow> string \<Rightarrow> bytes option" where
  "parse_pairs 0 hex = Some []"
| "parse_pairs (Suc n) hex =
     (case stoul16 (take 2 hex) of None \<Rightarrow> None | Some v \<Rightarrow>
      (case parse_pairs n (drop 2 hex) of None \<Rightarrow> None | Some bs \<Rightarrow> Some (ucast v # bs)))"

definition parse_hid8_hex :: "string \<Rightarrow> hid8 option" where
  "parse_hid8_hex hex = (if length hex < 16 then None else parse_pairs 8 hex)"

definition hex_to_hid8 :: "string \<Rightarrow> hid8" where
  "hex_to_hid8 hex =
     (if length hex < 16 then replicate 8 0
      else case parse_pairs 8 hex of None \<Rightarrow> replicate 8 0 | Some h \<Rightarrow> h)"

section \<open>The round trip\<close>

lemma hex_val_not_special:
  assumes "hex_val c = Some n"
  shows "\<not> is_space c" "c \<noteq> CHR ''-''" "c \<noteq> CHR ''+''" "c \<noteq> CHR ''x''" "c \<noteq> CHR ''X''"
  using assms by (auto simp: hex_val_def is_space_def Let_def split: if_splits)

lemma hex_val_less: "hex_val c = Some n \<Longrightarrow> n < 16"
  by (auto simp: hex_val_def Let_def split: if_splits)

lemma stoul16_two_digits:
  assumes "hex_val c = Some a" "hex_val d = Some b"
  shows "stoul16 [c, d] = Some (of_nat (16 * a + b))"
proof -
  have "16 * a + b < 2 ^ 64" using hex_val_less [OF assms(1)] hex_val_less [OF assms(2)] by simp
  then show ?thesis
    using assms hex_val_not_special [OF assms(1)] hex_val_not_special [OF assms(2)]
    by (simp add: stoul16_def Let_def strip_0x_def digits_value_def)
qed

lemma unat_byte: "unat (b :: byte) < 256"
  using unsigned_less [of b, where ?'a = nat] by simp

lemma byte_via_u64: "(ucast (of_nat (unat b) :: u64) :: byte) = b"
  by (rule bit_word_eqI) (simp add: bit_ucast_iff)

locale hex_digits =
  fixes digit :: "nat \<Rightarrow> char"
  assumes digit_val: "n < 16 \<Longrightarrow> hex_val (digit n) = Some n"
begin

lemma stoul16_hex2: "stoul16 (hex2 digit b) = Some (of_nat (unat b))"
proof -
  have "stoul16 (hex2 digit b) = Some (of_nat (16 * (unat b div 16) + unat b mod 16))"
    unfolding hex2_def by (intro stoul16_two_digits digit_val) (use unat_byte [of b] in auto)
  also have "16 * (unat b div 16) + unat b mod 16 = unat b" by simp
  finally show ?thesis .
qed

lemma length_hex2: "length (hex2 digit b) = 2"
  by (simp add: hex2_def)

lemma length_hex_string: "length (hex_string digit bs) = 2 * length bs"
  by (induction bs) (simp_all add: hex_string_def hex2_def)

lemma parse_pairs_hex_string: "parse_pairs (length bs) (hex_string digit bs @ rest) = Some bs"
proof (induction bs)
  case Nil
  then show ?case by simp
next
  case (Cons b bs)
  have "hex_string digit (b # bs) = hex2 digit b @ hex_string digit bs"
    by (simp add: hex_string_def)
  then show ?case using Cons stoul16_hex2 [of b] byte_via_u64 [of b] by (simp add: length_hex2)
qed

lemma parse_hid8_of_hex: "length h = 8 \<Longrightarrow> parse_hid8_hex (hex_string digit h) = Some h"
  using parse_pairs_hex_string [of h "[]"] by (simp add: parse_hid8_hex_def length_hex_string)

lemma parse_hid8_prefix:
  "parse_hid8_hex (hex_string digit h) = (if length h < 8 then None else Some (take 8 h))"
proof (cases "length h < 8")
  case True
  then show ?thesis by (simp add: parse_hid8_hex_def length_hex_string)
next
  case False
  have "hex_string digit h = hex_string digit (take 8 h) @ hex_string digit (drop 8 h)"
    unfolding hex_string_def by (metis append_take_drop_id concat_append map_append)
  then have "parse_pairs 8 (hex_string digit h) = Some (take 8 h)"
    using parse_pairs_hex_string [of "take 8 h" "hex_string digit (drop 8 h)"] False by simp
  then show ?thesis using False by (simp add: parse_hid8_hex_def length_hex_string)
qed

lemma hex_string_inject: "hex_string digit a = hex_string digit b \<Longrightarrow> a = b"
proof -
  assume eq: "hex_string digit a = hex_string digit b"
  then have "length a = length b" using length_hex_string [of a] length_hex_string [of b] by simp
  then show ?thesis
    using parse_pairs_hex_string [of a "[]"] parse_pairs_hex_string [of b "[]"] eq by simp
qed

end

lemma of_char_char_of_small: "n < 256 \<Longrightarrow> (of_char (char_of n) :: nat) = n"
  by simp

interpretation upper: hex_digits digit_upper
  by unfold_locales (auto simp: digit_upper_def hex_val_def Let_def)

interpretation lower: hex_digits digit_lower
  by unfold_locales (auto simp: digit_lower_def hex_val_def Let_def)

lemma parse_pairs_length: "parse_pairs n s = Some bs \<Longrightarrow> length bs = n"
  by (induction n s arbitrary: bs rule: parse_pairs.induct) (auto simp: unwind)

lemma length_hex_to_hid8 [simp]: "length (hex_to_hid8 s) = 8"
  by (auto simp: hex_to_hid8_def split: option.splits dest: parse_pairs_length)

section \<open>Properties\<close>

text \<open>
  The two hexadecimal forms of an identifier are read back as the identifier; a shorter byte
  string is refused.
\<close>

theorem hid8_hex_roundtrip:
  "parse_hid8_hex (hid8_hex_upper h) = (if length h < 8 then None else Some (take 8 h)) \<and>
   parse_hid8_hex (hid8_to_hex h) = (if length h < 8 then None else Some (take 8 h))"
  unfolding hid8_hex_upper_def hid8_to_hex_def
  by (simp add: upper.parse_hid8_prefix lower.parse_hid8_prefix)

end
