(* ===== verification/TrustList.thy ===== *)
theory TrustList
  imports Hex
begin

text \<open>
  \<open>src/trust_list.cpp\<close> and \<open>include/v2xpki/trust_list.hpp\<close>: decoding the ECTL of the Trust List
  Manager and the CTL of a Root CA into a \<open>TrustTopology\<close>.
\<close>

section \<open>Data\<close>

record EaInfo =
  eai_cert :: CertInfo
  eai_aa_access_point :: string
  eai_its_access_point :: string

record AaInfo =
  aai_cert :: CertInfo
  aai_access_point :: string

record DcInfo =
  dci_url :: string
  dci_serves :: "hid8 list"

record TrustTopology =
  topo_tlm :: "CertInfo option"
  topo_rcas :: "CertInfo list"
  topo_eas :: "EaInfo list"
  topo_aas :: "AaInfo list"
  topo_dcs :: "DcInfo list"
  topo_ectl_signature_verified :: bool
  topo_ctl_signature_verified :: bool
  topo_ectl_next_update :: u32
  topo_ctl_next_update :: u32
  topo_ectl_expired :: bool
  topo_ctl_expired :: bool

definition TrustTopology_init :: TrustTopology where
  "TrustTopology_init =
     \<lparr>topo_tlm = None, topo_rcas = [], topo_eas = [], topo_aas = [], topo_dcs = [],
      topo_ectl_signature_verified = False, topo_ctl_signature_verified = False,
      topo_ectl_next_update = 0, topo_ctl_next_update = 0, topo_ectl_expired = False,
      topo_ctl_expired = False\<rparr>"

section \<open>Decoding\<close>

text \<open>\<open>None\<close> is a null string or one without a buffer.\<close>

definition url_from_ia5 :: "string option \<Rightarrow> string" where
  "url_from_ia5 s = (case s of None \<Rightarrow> [] | Some u \<Rightarrow> if u = [] then [] else u)"

definition cert_ptr_to_info :: "env \<Rightarrow> CertificateBase option \<Rightarrow> string \<Rightarrow> CertInfo option" where
  "cert_ptr_to_info E cert lbl =
     (case cert of None \<Rightarrow> None | Some c \<Rightarrow>
        let cert_coer = coer_encode (asn_DEF_EtsiTs103097Certificate E) c in
        if cert_coer = [] then None
        else Some ((from_struct E c cert_coer)\<lparr>ci_label := lbl\<rparr>))"

fun add_ctl_entry :: "env \<Rightarrow> CtlEntry \<Rightarrow> TrustTopology \<Rightarrow> TrustTopology" where
  "add_ctl_entry E (CtlEntry_rca (Some rca)) topo =
     (case cert_ptr_to_info E (selfsignedRootCa rca) ''rca'' of None \<Rightarrow> topo
      | Some ci \<Rightarrow> topo\<lparr>topo_rcas := topo_rcas topo @ [ci]\<rparr>)"
| "add_ctl_entry E (CtlEntry_ea (Some ea)) topo =
     (case cert_ptr_to_info E (eaCertificate ea) ''ea'' of None \<Rightarrow> topo
      | Some ci \<Rightarrow> topo\<lparr>topo_eas := topo_eas topo @
          [\<lparr>eai_cert = ci, eai_aa_access_point = url_from_ia5 (Some (ea_aaAccessPoint ea)),
            eai_its_access_point = url_from_ia5 (ea_itsAccessPoint ea)\<rparr>]\<rparr>)"
| "add_ctl_entry E (CtlEntry_aa (Some aa)) topo =
     (case cert_ptr_to_info E (aaCertificate aa) ''aa'' of None \<Rightarrow> topo
      | Some ci \<Rightarrow> topo\<lparr>topo_aas := topo_aas topo @ [\<lparr>aai_cert = ci, aai_access_point = url_from_ia5 (Some (aa_accessPoint aa))\<rparr>]\<rparr>)"
| "add_ctl_entry E (CtlEntry_dc (Some dc)) topo =
     topo\<lparr>topo_dcs := topo_dcs topo @ [\<lparr>dci_url = url_from_ia5 (Some (dc_entry_url dc)),
        dci_serves = filter (\<lambda>h. length h = kHashedId8Len) (dc_cert dc)\<rparr>]\<rparr>"
| "add_ctl_entry E (CtlEntry_tlm (Some tlm)) topo =
     (case cert_ptr_to_info E (selfSignedTLMCertificate tlm) ''tlm'' of None \<Rightarrow> topo
      | Some ci \<Rightarrow> topo\<lparr>topo_tlm := Some ci\<rparr>)"
| "add_ctl_entry E _ topo = topo"

primrec add_ctl_commands :: "env \<Rightarrow> CtlCommand list \<Rightarrow> TrustTopology \<Rightarrow> TrustTopology" where
  "add_ctl_commands E [] topo = topo"
| "add_ctl_commands E (cmd # cmds) topo =
     (case cmd of
        CtlCommand_add (Some entry) \<Rightarrow> add_ctl_commands E cmds (add_ctl_entry E entry topo)
      | _ \<Rightarrow> add_ctl_commands E cmds topo)"

text \<open>\<open>now_unix\<close> is \<open>time(nullptr)\<close>.\<close>

definition set_next_update :: "int \<Rightarrow> u32 \<Rightarrow> bool \<Rightarrow> TrustTopology \<Rightarrow> TrustTopology" where
  "set_next_update now_unix next_update is_ectl topo =
     (let topo1 = (if is_ectl then topo\<lparr>topo_ectl_next_update := next_update\<rparr>
                   else topo\<lparr>topo_ctl_next_update := next_update\<rparr>) in
      if next_update > 0 \<and> unix_to_tai_seconds now_unix > uint next_update
      then (if is_ectl then topo1\<lparr>topo_ectl_expired := True\<rparr> else topo1\<lparr>topo_ctl_expired := True\<rparr>)
      else topo1)"

definition parse_ctl_entries :: "env \<Rightarrow> int \<Rightarrow> CtlFormat \<Rightarrow> bool \<Rightarrow> TrustTopology \<Rightarrow> TrustTopology" where
  "parse_ctl_entries E now_unix ctl is_ectl topo =
     add_ctl_commands E (ctl_ctlCommands ctl) (set_next_update now_unix (ctl_nextUpdate ctl) is_ectl topo)"

definition extract_ctl_from_etsi_data :: "EtsiTs102941Data \<Rightarrow> bool \<Rightarrow> CtlFormat option" where
  "extract_ctl_from_etsi_data data is_ectl =
     (case etsi_content data of
        Some (certificateTrustListTlm c) \<Rightarrow> if is_ectl then c else None
      | Some (certificateTrustListRca c) \<Rightarrow> if is_ectl then None else c
      | _ \<Rightarrow> None)"

definition decode_ctl_common ::
  "env \<Rightarrow> int \<Rightarrow> bytes \<Rightarrow> bytes \<Rightarrow> bytes \<Rightarrow> bool \<Rightarrow> TrustTopology Result" where
  "decode_ctl_common E now_unix coer verifier_pubkey signer_cert_coer is_ectl =
     (case unwrap E coer of None \<Rightarrow> Inl Decode | Some signed_data \<Rightarrow>
      (case decode_with_basic_fallback (asn_DEF_EtsiTs102941Data E) (sm_payload_coer signed_data) of
         None \<Rightarrow> Inl Decode | Some etsi_data \<Rightarrow>
      (case extract_ctl_from_etsi_data etsi_data is_ectl of None \<Rightarrow> Inl Decode | Some ctl \<Rightarrow>
        let topo = parse_ctl_entries E now_unix ctl is_ectl TrustTopology_init in
        if verifier_pubkey \<noteq> [] \<and> signer_cert_coer \<noteq> [] then
          let verified = verify E signed_data verifier_pubkey signer_cert_coer in
          if is_ectl then Inr (topo\<lparr>topo_ectl_signature_verified := verified\<rparr>)
          else Inr (topo\<lparr>topo_ctl_signature_verified := verified\<rparr>)
        else Inr topo)))"

definition decode_ectl :: "env \<Rightarrow> int \<Rightarrow> bytes \<Rightarrow> bytes \<Rightarrow> bytes \<Rightarrow> TrustTopology Result" where
  "decode_ectl E now_unix coer tlm_pubkey tlm_cert_coer =
     decode_ctl_common E now_unix coer tlm_pubkey tlm_cert_coer True"

definition decode_rca_ctl :: "env \<Rightarrow> int \<Rightarrow> bytes \<Rightarrow> bytes \<Rightarrow> bytes \<Rightarrow> TrustTopology Result" where
  "decode_rca_ctl E now_unix coer rca_pubkey rca_cert_coer =
     decode_ctl_common E now_unix coer rca_pubkey rca_cert_coer False"

section \<open>Facts\<close>

text \<open>The entries never touch the signature flags, nor the expiry fields.\<close>

lemma add_ctl_entry_flags [simp]:
  "topo_ectl_signature_verified (add_ctl_entry E e t) = topo_ectl_signature_verified t"
  "topo_ctl_signature_verified (add_ctl_entry E e t) = topo_ctl_signature_verified t"
  "topo_ectl_expired (add_ctl_entry E e t) = topo_ectl_expired t"
  "topo_ctl_expired (add_ctl_entry E e t) = topo_ctl_expired t"
  "topo_ectl_next_update (add_ctl_entry E e t) = topo_ectl_next_update t"
  "topo_ctl_next_update (add_ctl_entry E e t) = topo_ctl_next_update t"
  by (cases "(E, e, t)" rule: add_ctl_entry.cases; simp split: option.splits)+

lemma add_ctl_commands_flags [simp]:
  "topo_ectl_signature_verified (add_ctl_commands E cs t) = topo_ectl_signature_verified t"
  "topo_ctl_signature_verified (add_ctl_commands E cs t) = topo_ctl_signature_verified t"
  "topo_ectl_expired (add_ctl_commands E cs t) = topo_ectl_expired t"
  "topo_ctl_expired (add_ctl_commands E cs t) = topo_ctl_expired t"
  "topo_ectl_next_update (add_ctl_commands E cs t) = topo_ectl_next_update t"
  "topo_ctl_next_update (add_ctl_commands E cs t) = topo_ctl_next_update t"
  by (induction cs arbitrary: t; simp split: CtlCommand.splits option.splits)+

lemma parse_ctl_entries_flags [simp]:
  "topo_ectl_signature_verified (parse_ctl_entries E now ctl b t) = topo_ectl_signature_verified t"
  "topo_ctl_signature_verified (parse_ctl_entries E now ctl b t) = topo_ctl_signature_verified t"
  by (simp_all add: parse_ctl_entries_def set_next_update_def Let_def)

text \<open>Every certificate a list contributes is parsed from its own encoding, so it is usable or empty.\<close>

lemma cert_ptr_to_info_SomeD:
  "cert_ptr_to_info E c lbl = Some ci \<Longrightarrow>
   \<exists>cert. c = Some cert \<and> ci_label ci = lbl \<and>
     ci = (from_struct E cert (coer_encode (asn_DEF_EtsiTs103097Certificate E) cert))\<lparr>ci_label := lbl\<rparr>"
  by (auto simp: cert_ptr_to_info_def Let_def unwind)

lemma decode_ctl_common_Ok_iff:
  "decode_ctl_common E now coer pk cert is_ectl = Inr topo \<longleftrightarrow>
     (\<exists>m ed ctl. unwrap E coer = Some m \<and>
        decode_with_basic_fallback (asn_DEF_EtsiTs102941Data E) (sm_payload_coer m) = Some ed \<and>
        extract_ctl_from_etsi_data ed is_ectl = Some ctl \<and>
        topo = (let t = parse_ctl_entries E now ctl is_ectl TrustTopology_init;
                    v = (pk \<noteq> [] \<and> cert \<noteq> [] \<and> verify E m pk cert) in
                if is_ectl then t\<lparr>topo_ectl_signature_verified := v\<rparr>
                else t\<lparr>topo_ctl_signature_verified := v\<rparr>))"
proof -
  have flag: "(if b then (if is_ectl then Inr (t\<lparr>topo_ectl_signature_verified := v\<rparr>)
        else Inr (t\<lparr>topo_ctl_signature_verified := v\<rparr>)) else Inr t) = (Inr topo :: TrustTopology Result) \<longleftrightarrow>
      topo = (if is_ectl then t\<lparr>topo_ectl_signature_verified := b \<and> v\<rparr>
        else t\<lparr>topo_ctl_signature_verified := b \<and> v\<rparr>)"
    if "\<not> topo_ectl_signature_verified t" "\<not> topo_ctl_signature_verified t" for b v t
    using that by auto
  have init: "\<not> topo_ectl_signature_verified TrustTopology_init" "\<not> topo_ctl_signature_verified TrustTopology_init"
    by (simp_all add: TrustTopology_init_def)
  show ?thesis
    unfolding decode_ctl_common_def Let_def case_option_Inl_eq_Inr
    by (simp add: flag init)
qed

text \<open>
  A list is reported as verified only if its message verified under the key and certificate that
  were given, so in particular only if both were given.
\<close>

lemma ectl_verified_iff:
  assumes "decode_ectl E now coer pk cert = Inr topo"
  shows "topo_ectl_signature_verified topo \<longleftrightarrow>
    pk \<noteq> [] \<and> cert \<noteq> [] \<and> (\<exists>m. unwrap E coer = Some m \<and> verify E m pk cert)"
  using assms by (auto simp: decode_ectl_def decode_ctl_common_Ok_iff Let_def)

lemma rca_ctl_verified_iff:
  assumes "decode_rca_ctl E now coer pk cert = Inr topo"
  shows "topo_ctl_signature_verified topo \<longleftrightarrow>
    pk \<noteq> [] \<and> cert \<noteq> [] \<and> (\<exists>m. unwrap E coer = Some m \<and> verify E m pk cert)"
  using assms by (auto simp: decode_rca_ctl_def decode_ctl_common_Ok_iff Let_def)

section \<open>Properties\<close>

text \<open>
  A decoded trust list is marked verified exactly when a key and a certificate were given and
  the message verifies under them. A list that does not verify still decodes; only the flag tells.
\<close>

theorem trust_list_flag_iff_verified:
  "(case decode_ectl E now coer pk cert of
      Inl e \<Rightarrow> True
    | Inr t \<Rightarrow> topo_ectl_signature_verified t \<longleftrightarrow>
        pk \<noteq> [] \<and> cert \<noteq> [] \<and> (\<exists>m. unwrap E coer = Some m \<and> verify E m pk cert)) \<and>
   (case decode_rca_ctl E now coer pk cert of
      Inl e \<Rightarrow> True
    | Inr t \<Rightarrow> topo_ctl_signature_verified t \<longleftrightarrow>
        pk \<noteq> [] \<and> cert \<noteq> [] \<and> (\<exists>m. unwrap E coer = Some m \<and> verify E m pk cert))"
  using ectl_verified_iff rca_ctl_verified_iff by (auto split: sum.splits)

end
