(* ===== verification/HttpClient.thy ===== *)
theory HttpClient
  imports TrustList
begin

text \<open>
  \<open>src/http_client.cpp\<close>: the options of a request, the callbacks that collect a response and the
  retry loop. libcurl is outside the sources: what the n-th transfer of a handle delivers is the
  argument \<open>perform\<close> of the loop. The lemmas show how many transfers are made, which one decides
  the result and how long the loop sleeps.
\<close>

section \<open>Data\<close>

datatype CURLcode =
    CURLE_OK | CURLE_COULDNT_CONNECT | CURLE_COULDNT_RESOLVE_HOST | CURLE_COULDNT_RESOLVE_PROXY
  | CURLE_OPERATION_TIMEDOUT | CURLE_GOT_NOTHING | CURLE_SEND_ERROR | CURLE_RECV_ERROR
  | CURLE_PARTIAL_FILE | CURLE_other nat

record HttpResponse =
  status_code :: int
  resp_body :: bytes
  resp_headers :: "(string \<times> string) list"

record HttpClientConfig =
  hc_ca_bundle_path :: string
  hc_timeout :: int
  hc_verify_tls :: bool
  hc_connect_timeout :: int
  hc_max_retries :: u32
  hc_retry_backoff :: int

text \<open>
  One transfer: its result code, the response code libcurl reports and the header lines and body
  blocks handed to the callbacks.
\<close>

record transfer =
  tr_code :: CURLcode
  tr_response_code :: int
  tr_header_lines :: "string list"
  tr_body_blocks :: "bytes list"

section \<open>Callbacks\<close>

definition write_callback :: "bytes \<Rightarrow> bytes \<Rightarrow> bytes" where
  "write_callback blk buf = buf @ blk"

text \<open>\<open>(*headers)[key] = val\<close>: the map as its list of bindings, one per key.\<close>

definition set_header :: "string \<Rightarrow> string \<Rightarrow> (string \<times> string) list \<Rightarrow> (string \<times> string) list" where
  "set_header key val headers = (key, val) # filter (\<lambda>(k, v). k \<noteq> key) headers"

definition trim_value :: "string \<Rightarrow> string" where
  "trim_value val =
     rev (dropWhile (\<lambda>c. c = CHR 0x0D \<or> c = CHR 0x0A)
       (rev (dropWhile (\<lambda>c. c = CHR '' '' \<or> c = CHR 0x09) val)))"

definition header_callback :: "string \<Rightarrow> (string \<times> string) list \<Rightarrow> (string \<times> string) list" where
  "header_callback line headers =
     (if CHR '':'' \<in> set line
      then let key = takeWhile (\<lambda>c. c \<noteq> CHR '':'') line;
               val = drop (length key + 1) line
           in set_header key (trim_value val) headers
      else headers)"

section \<open>Options\<close>

datatype curl_opt =
    CURLOPT_TIMEOUT int | CURLOPT_CONNECTTIMEOUT int | CURLOPT_FOLLOWLOCATION int
  | CURLOPT_MAXREDIRS int | CURLOPT_USERAGENT string | CURLOPT_SSL_VERIFYPEER int
  | CURLOPT_SSL_VERIFYHOST int | CURLOPT_CAINFO string

definition apply_common_opts :: "HttpClientConfig \<Rightarrow> curl_opt list" where
  "apply_common_opts cfg =
     [CURLOPT_TIMEOUT (hc_timeout cfg), CURLOPT_CONNECTTIMEOUT (hc_connect_timeout cfg),
      CURLOPT_FOLLOWLOCATION 1, CURLOPT_MAXREDIRS 10, CURLOPT_USERAGENT ''v2xpki/0.1''] @
     (if hc_verify_tls cfg
      then [CURLOPT_SSL_VERIFYPEER 1, CURLOPT_SSL_VERIFYHOST 2] @
           (if hc_ca_bundle_path cfg \<noteq> [] then [CURLOPT_CAINFO (hc_ca_bundle_path cfg)] else [])
      else [CURLOPT_SSL_VERIFYPEER 0, CURLOPT_SSL_VERIFYHOST 0])"

record http_request =
  rq_url :: string
  rq_post :: "(bytes \<times> string) option"
  rq_opts :: "curl_opt list"

section \<open>The retry loop\<close>

definition is_transient :: "CURLcode \<Rightarrow> bool" where
  "is_transient c \<longleftrightarrow>
     c \<in> {CURLE_COULDNT_CONNECT, CURLE_COULDNT_RESOLVE_HOST, CURLE_COULDNT_RESOLVE_PROXY,
          CURLE_OPERATION_TIMEDOUT, CURLE_GOT_NOTHING, CURLE_SEND_ERROR, CURLE_RECV_ERROR,
          CURLE_PARTIAL_FILE}"

text \<open>The response object after one transfer; it was cleared before.\<close>

definition response_of :: "transfer \<Rightarrow> HttpResponse" where
  "response_of t =
     \<lparr>status_code = (if tr_code t = CURLE_OK then tr_response_code t else 0),
      resp_body = fold write_callback (tr_body_blocks t) [],
      resp_headers = fold header_callback (tr_header_lines t) []\<rparr>"

text \<open>
  The pause before the next attempt: \<open>1u << attempt\<close> is a shift of 32 bits, its product with the backoff
  an \<open>int64_t\<close> count of milliseconds. From the 33rd attempt on the source's shift is undefined (the
  model's gives zero), and a product of \<open>2 ^ 63\<close> or more overflows; \<open>backoff_defined\<close> says that a
  configuration reaches neither.
\<close>

definition backoff :: "HttpClientConfig \<Rightarrow> nat \<Rightarrow> int" where
  "backoff cfg attempt = hc_retry_backoff cfg * uint (push_bit attempt 1 :: u32)"

definition backoff_defined :: "HttpClientConfig \<Rightarrow> bool" where
  "backoff_defined cfg \<longleftrightarrow> unat (hc_max_retries cfg) \<le> 32 \<and> 0 \<le> hc_retry_backoff cfg \<and>
     hc_retry_backoff cfg < 2 ^ 32"

text \<open>\<open>attempt\<close> counts from zero; the list is the pauses between the attempts.\<close>

function perform_from ::
  "HttpClientConfig \<Rightarrow> (nat \<Rightarrow> transfer) \<Rightarrow> nat \<Rightarrow> HttpResponse Result \<times> int list" where
  "perform_from cfg perform attempt =
     (let t = perform attempt; resp = response_of t in
      if tr_code t = CURLE_OK \<and> status_code resp < 500 \<and> status_code resp \<noteq> 429 then (Inr resp, [])
      else if tr_code t \<noteq> CURLE_OK \<and> \<not> is_transient (tr_code t) then (Inl Network, [])
      else if attempt \<ge> unat (hc_max_retries cfg)
      then (if status_code resp \<noteq> 0 then Inr resp else Inl Network, [])
      else let (res, sleeps) = perform_from cfg perform (Suc attempt)
           in (res, backoff cfg attempt # sleeps))"
  by pat_completeness auto
termination
  by (relation "measure (\<lambda>(cfg, perform, attempt). unat (hc_max_retries cfg) - attempt)") auto

declare perform_from.simps [simp del]

definition perform_with_retry ::
  "HttpClientConfig \<Rightarrow> (nat \<Rightarrow> transfer) \<Rightarrow> HttpResponse Result \<times> int list" where
  "perform_with_retry cfg perform = perform_from cfg perform 0"

section \<open>get and post\<close>

text \<open>
  \<open>net\<close> answers a request: \<open>None\<close> when no handle can be created, otherwise what its transfers deliver.
\<close>

type_synonym network = "http_request \<Rightarrow> (nat \<Rightarrow> transfer) option"

definition http_run :: "HttpClientConfig \<Rightarrow> network \<Rightarrow> http_request \<Rightarrow> HttpResponse Result" where
  "http_run cfg net rq =
     (case net rq of None \<Rightarrow> Inl Network | Some perform \<Rightarrow> fst (perform_with_retry cfg perform))"

definition get_request :: "HttpClientConfig \<Rightarrow> string \<Rightarrow> http_request" where
  "get_request cfg url = \<lparr>rq_url = url, rq_post = None, rq_opts = apply_common_opts cfg\<rparr>"

definition post_request :: "HttpClientConfig \<Rightarrow> string \<Rightarrow> bytes \<Rightarrow> string \<Rightarrow> http_request" where
  "post_request cfg url body content_type =
     \<lparr>rq_url = url, rq_post = Some (body, ''Content-Type: '' @ content_type),
      rq_opts = apply_common_opts cfg\<rparr>"

definition http_get :: "HttpClientConfig \<Rightarrow> network \<Rightarrow> string \<Rightarrow> HttpResponse Result" where
  "http_get cfg net url = http_run cfg net (get_request cfg url)"

definition http_post ::
  "HttpClientConfig \<Rightarrow> network \<Rightarrow> string \<Rightarrow> bytes \<Rightarrow> string \<Rightarrow> HttpResponse Result" where
  "http_post cfg net url body content_type = http_run cfg net (post_request cfg url body content_type)"

section \<open>Facts\<close>

lemma fold_write_callback: "fold write_callback bs buf = buf @ concat bs"
  by (induction bs arbitrary: buf) (simp_all add: write_callback_def)

lemma header_keys_distinct:
  "distinct (map fst hs) \<Longrightarrow> distinct (map fst (header_callback l hs))"
  by (auto simp: header_callback_def set_header_def Let_def distinct_map_filter)

text \<open>A transfer after which the loop may try again.\<close>

definition retryable :: "transfer \<Rightarrow> bool" where
  "retryable t \<longleftrightarrow> (if tr_code t = CURLE_OK then 500 \<le> tr_response_code t \<or> tr_response_code t = 429
                   else is_transient (tr_code t))"

text \<open>What the loop returns when a transfer is the last one.\<close>

definition final_result :: "transfer \<Rightarrow> HttpResponse Result" where
  "final_result t =
     (if tr_code t = CURLE_OK \<and> tr_response_code t \<noteq> 0 \<or> tr_code t = CURLE_OK \<and> \<not> retryable t
      then Inr (response_of t) else Inl Network)"

lemma perform_from_step:
  "perform_from cfg perform k =
     (if retryable (perform k) \<and> k < unat (hc_max_retries cfg)
      then map_prod id (Cons (backoff cfg k)) (perform_from cfg perform (Suc k))
      else (final_result (perform k), []))"
  by (subst perform_from.simps)
    (auto simp: retryable_def final_result_def response_of_def Let_def is_transient_def
      split: prod.splits)

lemma perform_from_run:
  assumes "k \<le> n" "\<And>i. k \<le> i \<Longrightarrow> i < n \<Longrightarrow> retryable (perform i)" "n \<le> unat (hc_max_retries cfg)"
    and "\<not> (retryable (perform n) \<and> n < unat (hc_max_retries cfg))"
  shows "perform_from cfg perform k =
    (final_result (perform n), map (backoff cfg) [k..<n])"
  using assms
proof (induction "n - k" arbitrary: k)
  case 0
  then show ?case by (subst perform_from_step) auto
next
  case (Suc m)
  then have "k < n" by simp
  moreover from Suc.hyps(2) have m: "m = n - Suc k" by simp
  have "perform_from cfg perform (Suc k) =
      (final_result (perform n), map (backoff cfg) [Suc k..<n])"
    by (rule Suc.hyps(1) [OF m]) (use Suc.prems \<open>k < n\<close> in auto)
  moreover have "retryable (perform k)" "k < unat (hc_max_retries cfg)" using Suc.prems \<open>k < n\<close> by auto
  ultimately show ?case
    by (subst perform_from_step) (simp add: upt_rec [of k n])
qed

text \<open>
  The attempt that decides: the first that is not retryable, or the last allowed one. All before
  it were retryable, and the sleeps are one per earlier attempt, doubling each time.
\<close>

lemma perform_with_retry_decides:
  "\<exists>n \<le> unat (hc_max_retries cfg). (\<forall>i < n. retryable (perform i)) \<and>
     (n = unat (hc_max_retries cfg) \<or> \<not> retryable (perform n)) \<and>
     perform_with_retry cfg perform =
       (final_result (perform n), map (backoff cfg) [0..<n])"
proof -
  define P where "P n \<longleftrightarrow> n = unat (hc_max_retries cfg) \<or> \<not> retryable (perform n)" for n
  have ex: "P (unat (hc_max_retries cfg))" by (simp add: P_def)
  define n where "n = (LEAST n. P n)"
  have n: "P n" "n \<le> unat (hc_max_retries cfg)"
    unfolding n_def by (rule LeastI [of P, OF ex], rule Least_le [of P, OF ex])
  have below: "retryable (perform i)" if "i < n" for i
    using not_less_Least [of i P] that unfolding n_def P_def by blast
  have "perform_from cfg perform 0 =
      (final_result (perform n), map (backoff cfg) [0..<n])"
    by (rule perform_from_run) (use n below in \<open>auto simp: P_def\<close>)
  then show ?thesis using n below unfolding perform_with_retry_def P_def by blast
qed

lemma backoff_exact:
  assumes "backoff_defined cfg" "i < unat (hc_max_retries cfg)"
  shows "backoff cfg i = hc_retry_backoff cfg * 2 ^ i" "0 \<le> backoff cfg i" "backoff cfg i < 2 ^ 63"
proof -
  have i: "i < 32" using assms by (simp add: backoff_defined_def)
  then have lt: "(2 :: int) ^ i < 2 ^ 32" by (rule power_strict_increasing) simp
  have "uint (2 ^ i :: u32) = uint (word_of_int (2 ^ i) :: u32)" by simp
  also have "\<dots> = 2 ^ i" using lt by (simp only: uint_word_of_int) simp
  finally have "uint (2 ^ i :: u32) = 2 ^ i" .
  then show e: "backoff cfg i = hc_retry_backoff cfg * 2 ^ i"
    by (simp add: backoff_def push_bit_eq_mult)
  have "(2 :: int) ^ i \<le> 2 ^ 31" using i by (intro power_increasing) simp_all
  then have "hc_retry_backoff cfg * 2 ^ i \<le> (2 ^ 32 - 1) * 2 ^ 31"
    using assms(1) by (intro mult_mono) (simp_all add: backoff_defined_def)
  then show "0 \<le> backoff cfg i" "backoff cfg i < 2 ^ 63"
    using assms(1) by (simp_all add: e backoff_defined_def)
qed

lemma sum_sleeps: "sum_list (map (\<lambda>i. b * 2 ^ i) [0..<n]) = b * (2 ^ n - 1 :: int)"
  by (induction n) (simp_all add: algebra_simps)

lemma tls_options:
  "CURLOPT_SSL_VERIFYPEER v \<in> set (apply_common_opts cfg) \<longleftrightarrow> v = (if hc_verify_tls cfg then 1 else 0)"
  "CURLOPT_SSL_VERIFYHOST v \<in> set (apply_common_opts cfg) \<longleftrightarrow> v = (if hc_verify_tls cfg then 2 else 0)"
  "CURLOPT_CAINFO p \<in> set (apply_common_opts cfg) \<longleftrightarrow>
     hc_verify_tls cfg \<and> p \<noteq> [] \<and> p = hc_ca_bundle_path cfg"
  by (auto simp: apply_common_opts_def)

section \<open>Properties\<close>

text \<open>
  (C25) The retry loop ends after at most \<open>max_retries\<close> further transfers. It performs the transfers
  \<open>0 .. n\<close>, where all before the n-th could be retried and the n-th could not or was the last one
  allowed. It returns the outcome of the n-th alone: its response, or \<open>Network\<close> when that transfer failed,
  also when an earlier transfer had brought a response. For a configuration whose shifts and products
  are defined, that is with at most 32 retries and a backoff below \<open>2 ^ 32\<close> milliseconds, the pauses
  double from the backoff, each fits 63 bits, and they are \<open>backoff * (2 ^ n - 1)\<close> milliseconds in all.
\<close>

theorem retry_loop_decides:
  assumes "backoff_defined cfg"
  shows "\<exists>n \<le> unat (hc_max_retries cfg). list_all retryable (map perform [0..<n]) \<and>
     \<not> (n < unat (hc_max_retries cfg) \<and> retryable (perform n)) \<and>
     fst (perform_with_retry cfg perform) = final_result (perform n) \<and>
     snd (perform_with_retry cfg perform) = map (\<lambda>i. hc_retry_backoff cfg * 2 ^ i) [0..<n] \<and>
     list_all (\<lambda>t. 0 \<le> t \<and> t < 2 ^ 63) (snd (perform_with_retry cfg perform)) \<and>
     sum_list (snd (perform_with_retry cfg perform)) = hc_retry_backoff cfg * (2 ^ n - 1)"
proof -
  from perform_with_retry_decides [of cfg perform] obtain n where n: "n \<le> unat (hc_max_retries cfg)"
    "\<forall>i < n. retryable (perform i)" "n = unat (hc_max_retries cfg) \<or> \<not> retryable (perform n)"
    "perform_with_retry cfg perform = (final_result (perform n), map (backoff cfg) [0..<n])"
    by blast
  have b: "backoff cfg i = hc_retry_backoff cfg * 2 ^ i" "0 \<le> backoff cfg i" "backoff cfg i < 2 ^ 63"
    if "i < n" for i using backoff_exact [OF assms, of i] that n(1) by simp_all
  have m: "map (backoff cfg) [0..<n] = map (\<lambda>i. hc_retry_backoff cfg * 2 ^ i) [0..<n]" using b(1) by simp
  have "list_all (\<lambda>t. 0 \<le> t \<and> t < 2 ^ 63) (map (backoff cfg) [0..<n])" using b(2,3) by (simp add: list_all_iff)
  with n m show ?thesis by (intro exI [of _ n]) (auto simp: list_all_iff sum_sleeps)
qed

text \<open>
  Witness of (C25): the default configuration of the client, a server that answers 503 and then does
  not answer in time. The second retry decides, and the response with 503 is lost.
\<close>

definition toy_config :: HttpClientConfig where
  "toy_config = \<lparr>hc_ca_bundle_path = [], hc_timeout = 30, hc_verify_tls = True, hc_connect_timeout = 10,
     hc_max_retries = 2, hc_retry_backoff = 500\<rparr>"

definition toy_transfers :: "nat \<Rightarrow> transfer" where
  "toy_transfers n =
     \<lparr>tr_code = (if n = 0 then CURLE_OK else CURLE_OPERATION_TIMEDOUT), tr_response_code = 503,
      tr_header_lines = [], tr_body_blocks = []\<rparr>"

theorem retry_loop_decides_witness:
  "perform_with_retry toy_config toy_transfers = (Inl Network, [500, 1000])"
proof -
  have d: "backoff_defined toy_config" by (simp add: backoff_defined_def toy_config_def)
  have r: "retryable (toy_transfers i)" for i by (simp add: retryable_def toy_transfers_def is_transient_def)
  obtain n where "n = 2" "fst (perform_with_retry toy_config toy_transfers) = final_result (toy_transfers n)"
    "snd (perform_with_retry toy_config toy_transfers) = map (\<lambda>i. hc_retry_backoff toy_config * 2 ^ i) [0..<n]"
    using retry_loop_decides [OF d, of toy_transfers] r by (auto simp: toy_config_def)
  then show ?thesis
    by (simp add: prod_eq_iff final_result_def toy_transfers_def toy_config_def upt_rec retryable_def is_transient_def)
qed

text \<open>
  The TLS options of every request follow \<open>verify_tls\<close>: peer and host are checked (with the
  configured bundle, if there is one) when it is set and both checks are off when it is not.
\<close>

theorem tls_options_follow_config:
  "{v. CURLOPT_SSL_VERIFYPEER v \<in> set (apply_common_opts cfg)} = {if hc_verify_tls cfg then 1 else 0} \<and>
   {v. CURLOPT_SSL_VERIFYHOST v \<in> set (apply_common_opts cfg)} = {if hc_verify_tls cfg then 2 else 0} \<and>
   {p. CURLOPT_CAINFO p \<in> set (apply_common_opts cfg)} =
     (if hc_verify_tls cfg \<and> hc_ca_bundle_path cfg \<noteq> [] then {hc_ca_bundle_path cfg} else {})"
  by (auto simp: tls_options)

end
