(* ===== verification/KeyStore.thy ===== *)
theory KeyStore
  imports HttpClient
begin

text \<open>
  \<open>include/v2xpki/key_store.hpp\<close> and \<open>src/plaintext_file_key_store.cpp\<close>: key handles, and the key
  store that keeps one PEM file per handle. \<open>key_store\<close> is the contract of the abstract class
  \<open>KeyStore\<close>; \<open>PlaintextFileKeyStore\<close> is shown to meet it for keys whose PEM form round-trips.
\<close>

section \<open>Key handles\<close>

record KeyHandle =
  kh_id :: StaticBytes

definition handle_char_ok :: "char \<Rightarrow> bool" where
  "handle_char_ok c =
     (let n = of_char c :: nat in
      (65 \<le> n \<and> n \<le> 90) \<or> (97 \<le> n \<and> n \<le> 122) \<or> (48 \<le> n \<and> n \<le> 57) \<or> c = CHR ''_'' \<or> c = CHR ''-'')"

definition KeyHandle_from :: "string \<Rightarrow> KeyHandle option" where
  "KeyHandle_from s =
     (if s = [] then None
      else if \<not> list_all handle_char_ok s then None
      else case sb_from_ptr 64 (string_bytes s) (length s) of
        None \<Rightarrow> None | Some sb \<Rightarrow> Some \<lparr>kh_id = sb\<rparr>)"

definition id_str :: "KeyHandle \<Rightarrow> string" where
  "id_str h = map (\<lambda>b. char_of (unat b)) (to_vector (kh_id h))"

section \<open>PEM and the file system\<close>

text \<open>
  The PEM functions of OpenSSL and the key size query, outside the sources. Writing gives whether it
  reports success and the text it hands to the stream. The stream is buffered: how many bytes of the
  text are in the file once \<open>fclose\<close> has run is \<open>fclose_stored\<close>.
\<close>

record pem =
  PEM_write_PrivateKey :: "EVP_PKEY \<Rightarrow> bool \<times> bytes"
  PEM_read_PrivateKey :: "bytes \<Rightarrow> EVP_PKEY option"
  EVP_PKEY_get_bits :: "EVP_PKEY \<Rightarrow> int"
  fclose_stored :: "string \<Rightarrow> bytes \<Rightarrow> nat"

record file_system =
  fs_files :: "string \<Rightarrow> bytes option"
  fs_can_write :: "string \<Rightarrow> bool"

text \<open>\<open>path / name\<close> for a relative name.\<close>

definition path_join :: "string \<Rightarrow> string \<Rightarrow> string" where
  "path_join dir name =
     (if dir = [] then name else if last dir = CHR ''/'' then dir @ name else dir @ ''/'' @ name)"

section \<open>PlaintextFileKeyStore\<close>

definition try_build_pkey :: "env \<Rightarrow> KeyPair \<Rightarrow> string \<Rightarrow> EVP_PKEY option" where
  "try_build_pkey E kp group_name =
     (case BN_bin2bn E (to_vector (private_key kp)) of None \<Rightarrow> None | Some bn_priv \<Rightarrow>
        let pkey = EVP_KEYPAIR group_name bn_priv (to_vector (public_key kp)) in
        if \<not> EVP_PKEY_fromdata E pkey then None else Some pkey)"

definition build_pkey :: "env \<Rightarrow> KeyPair \<Rightarrow> EVP_PKEY option" where
  "build_pkey E kp =
     (if sb_size (public_key kp) = kP384PublicKeyLen \<and> sb_size (private_key kp) = kP384ScalarLen
      then try_build_pkey E kp ''brainpoolP384r1''
      else if sb_size (public_key kp) = kP256PublicKeyLen \<and> sb_size (private_key kp) = kP256ScalarLen
      then (case try_build_pkey E kp ''prime256v1'' of
              Some pkey \<Rightarrow> Some pkey
            | None \<Rightarrow> try_build_pkey E kp ''brainpoolP256r1'')
      else None)"

definition extract_keypair :: "env \<Rightarrow> pem \<Rightarrow> EVP_PKEY \<Rightarrow> KeyPair option" where
  "extract_keypair E P pkey =
     (case EVP_PKEY_get_priv pkey of None \<Rightarrow> None | Some bn_priv \<Rightarrow>
        let slen = (if EVP_PKEY_get_bits P pkey > 256 then kP384ScalarLen else kP256ScalarLen);
            priv_bytes = fill_buffer slen (BN_bn2binpad E bn_priv slen);
            pub_bytes = EVP_PKEY_get_pub pkey in
        (case sb_from kP384PublicKeyLen pub_bytes of None \<Rightarrow> None | Some pub_sb \<Rightarrow>
        (case sb_from kP384ScalarLen priv_bytes of None \<Rightarrow> None | Some priv_sb \<Rightarrow>
           Some \<lparr>public_key = pub_sb, private_key = priv_sb\<rparr>)))"

definition pem_path :: "string \<Rightarrow> KeyHandle \<Rightarrow> string" where
  "pem_path dir handle = path_join dir (id_str handle @ ''.pem'')"

definition load_keypair :: "env \<Rightarrow> pem \<Rightarrow> string \<Rightarrow> file_system \<Rightarrow> KeyHandle \<Rightarrow> KeyPair option" where
  "load_keypair E P dir fs handle =
     (case fs_files fs (pem_path dir handle) of None \<Rightarrow> None | Some content \<Rightarrow>
      (case PEM_read_PrivateKey P content of None \<Rightarrow> None | Some pkey \<Rightarrow> extract_keypair E P pkey))"

text \<open>
  Opening the file for writing truncates it. The result is that of the PEM function; the deleter closes
  the stream afterwards and ignores what \<open>fclose\<close> reports, so that a text that was not flushed in full
  comes with \<open>true\<close> all the same.
\<close>

definition store_keypair ::
  "env \<Rightarrow> pem \<Rightarrow> string \<Rightarrow> file_system \<Rightarrow> KeyHandle \<Rightarrow> KeyPair \<Rightarrow> bool \<times> file_system" where
  "store_keypair E P dir fs handle kp =
     (case build_pkey E kp of None \<Rightarrow> (False, fs) | Some pkey \<Rightarrow>
        let path = pem_path dir handle in
        if \<not> fs_can_write fs path then (False, fs)
        else let (ok, pem_text) = PEM_write_PrivateKey P pkey in
          (ok, fs\<lparr>fs_files := (fs_files fs)(path \<mapsto> take (fclose_stored P path pem_text) pem_text)\<rparr>))"

definition ks_sign :: "env \<Rightarrow> pem \<Rightarrow> string \<Rightarrow> file_system \<Rightarrow> nat \<Rightarrow> KeyHandle \<Rightarrow> bytes \<Rightarrow> Signature option" where
  "ks_sign E P dir fs w handle message =
     (case load_keypair E P dir fs handle of None \<Rightarrow> None | Some kp \<Rightarrow>
        ecdsa_sign E w (to_vector (private_key kp)) message)"

definition derive_shared_secret ::
  "env \<Rightarrow> pem \<Rightarrow> string \<Rightarrow> file_system \<Rightarrow> KeyHandle \<Rightarrow> bytes \<Rightarrow> bytes option" where
  "derive_shared_secret E P dir fs handle peer_public_key =
     (case load_keypair E P dir fs handle of None \<Rightarrow> None | Some kp \<Rightarrow>
        ecdh_derive E (to_vector (private_key kp)) peer_public_key NistP256)"

section \<open>The contract\<close>

text \<open>
  Storing a key under a handle makes it loadable there and leaves every other handle's key alone.
  \<open>good\<close> is what the backend needs of the handle and the key, \<open>same\<close> the equality of keys as callers
  see it.
\<close>

locale key_store =
  fixes load :: "'s \<Rightarrow> 'h \<Rightarrow> 'k option"
    and save :: "'s \<Rightarrow> 'h \<Rightarrow> 'k \<Rightarrow> bool \<times> 's"
    and good :: "'h \<Rightarrow> 'k \<Rightarrow> bool"
    and same :: "'k \<Rightarrow> 'k \<Rightarrow> bool"
    and name :: "'h \<Rightarrow> string"
  assumes load_saved: "save s h k = (True, s') \<Longrightarrow> good h k \<Longrightarrow> \<exists>k'. load s' h = Some k' \<and> same k k'"
    and load_other: "snd (save s h k) = s' \<Longrightarrow> name g \<noteq> name h \<Longrightarrow> load s' g = load s g"
begin

text \<open>Two keys stored under different handles are both there, whatever the order.\<close>

lemma load_two:
  assumes "save s h1 k1 = (True, s1)" "save s1 h2 k2 = (True, s2)" "name h1 \<noteq> name h2"
    "good h1 k1" "good h2 k2"
  shows "(\<exists>k. load s2 h1 = Some k \<and> same k1 k) \<and> (\<exists>k. load s2 h2 = Some k \<and> same k2 k)"
  using load_saved [OF assms(1,4)] load_saved [OF assms(2,5)] load_other [of s1 h2 k2 s2 h1] assms by simp

end

section \<open>Facts\<close>

lemma of_char_less: "(of_char c :: nat) < 256"
  using pos_mod_bound [of 256 "of_char c :: int"] of_char_mod_256 [of c, where ?'a = nat]
  by (metis mod_less_divisor zero_less_numeral)

lemma char_of_byte_of_char [simp]: "char_of (unat (of_char c :: byte)) = c"
proof -
  note n = of_char_less [of c]
  have "unat (of_nat (of_char c :: nat) :: byte) = (of_char c :: nat)"
    using n by (simp add: unsigned_of_nat take_bit_nat_eq_self del: of_nat_of_char)
  then show ?thesis by (simp add: of_nat_of_char)
qed

lemma length_string_bytes [simp]: "length (string_bytes s) = length s"
  by (simp add: string_bytes_def)

text \<open>
  A handle exists exactly for 1 to 64 characters of the allowed set, and it is read back as the
  string it was made from.
\<close>

lemma KeyHandle_from_Some_iff:
  "KeyHandle_from s = Some h \<longleftrightarrow>
     s \<noteq> [] \<and> length s \<le> 64 \<and> list_all handle_char_ok s \<and>
     sb_from 64 (string_bytes s) = Some (kh_id h)"
  by (cases h) (auto simp: KeyHandle_from_def unwind sb_from_def sb_from_ptr_def)

lemma id_str_from: "KeyHandle_from s = Some h \<Longrightarrow> id_str h = s"
proof -
  assume "KeyHandle_from s = Some h"
  then have "to_vector (kh_id h) = string_bytes s" by (auto simp: KeyHandle_from_Some_iff)
  then show ?thesis by (simp add: id_str_def string_bytes_def comp_def)
qed

lemma handle_char_not_path: "handle_char_ok c \<Longrightarrow> c \<noteq> CHR ''/'' \<and> c \<noteq> CHR ''.'' \<and> c \<noteq> CHR 0x00"
  by (auto simp: handle_char_ok_def Let_def)

lemma pem_path_inject: "pem_path dir g = pem_path dir h \<Longrightarrow> id_str g = id_str h"
  by (auto simp: pem_path_def path_join_def split: if_splits)

text \<open>The alphabet of handles, character by character.\<close>

definition handle_alphabet :: string where
  "handle_alphabet = ''ABCDEFGHIJKLMNOPQRSTUVWXYZabcdefghijklmnopqrstuvwxyz0123456789_-''"

lemma handle_alphabet_ranges:
  "map char_of [65..<91 :: nat] = ''ABCDEFGHIJKLMNOPQRSTUVWXYZ''" "map char_of [97..<123 :: nat] = ''abcdefghijklmnopqrstuvwxyz''"
  "map char_of [48..<58 :: nat] = ''0123456789''"
  by code_simp+

lemma of_char_range: "m \<le> (of_char c :: nat) \<and> of_char c < k \<longleftrightarrow> c \<in> set (map char_of [m..<k])" if "k \<le> 256"
proof
  assume "m \<le> (of_char c :: nat) \<and> of_char c < k"
  then have "char_of (of_char c :: nat) \<in> char_of ` {m..<k}" by (intro imageI) simp
  then show "c \<in> set (map char_of [m..<k])" by simp
next
  assume "c \<in> set (map char_of [m..<k])"
  then show "m \<le> (of_char c :: nat) \<and> of_char c < k" using that by auto
qed

lemma handle_char_ok_iff: "handle_char_ok c \<longleftrightarrow> c \<in> set handle_alphabet"
proof -
  have a: "handle_alphabet = map char_of [65..<91 :: nat] @ map char_of [97..<123 :: nat] @ map char_of [48..<58 :: nat] @ ''_-''"
    unfolding handle_alphabet_ranges by (simp add: handle_alphabet_def)
  have "handle_char_ok c \<longleftrightarrow> (65 \<le> (of_char c :: nat) \<and> of_char c < (91 :: nat)) \<or>
      (97 \<le> (of_char c :: nat) \<and> of_char c < (123 :: nat)) \<or> (48 \<le> (of_char c :: nat) \<and> of_char c < (58 :: nat)) \<or>
      c = CHR ''_'' \<or> c = CHR ''-''"
    by (auto simp: handle_char_ok_def Let_def)
  also have "\<dots> \<longleftrightarrow> c \<in> set handle_alphabet"
    unfolding a set_append Un_iff by (subst (1 2 3) of_char_range) simp_all
  finally show ?thesis .
qed

text \<open>What the file backend needs of a key: its PEM form reads back and the scalar fits.\<close>

definition storable :: "env \<Rightarrow> pem \<Rightarrow> KeyPair \<Rightarrow> bool" where
  "storable E P kp \<longleftrightarrow> wf_KeyPair kp \<and>
     (case build_pkey E kp of None \<Rightarrow> False | Some pkey \<Rightarrow>
       PEM_read_PrivateKey P (snd (PEM_write_PrivateKey P pkey)) = Some pkey \<and>
       (EVP_PKEY_get_bits P pkey > 256 \<longleftrightarrow> sb_size (private_key kp) = kP384ScalarLen) \<and>
       (case EVP_PKEY_get_priv pkey of None \<Rightarrow> False | Some d \<Rightarrow>
          BN_bn2binpad E d (sb_size (private_key kp)) = Some (to_vector (private_key kp))))"

text \<open>Closing the file flushes all of the text of the key.\<close>

definition flushed :: "env \<Rightarrow> pem \<Rightarrow> string \<Rightarrow> KeyPair \<Rightarrow> bool" where
  "flushed E P path kp \<longleftrightarrow>
     (case build_pkey E kp of None \<Rightarrow> False | Some pkey \<Rightarrow>
        let pem_text = snd (PEM_write_PrivateKey P pkey) in length pem_text \<le> fclose_stored P path pem_text)"

definition same_keypair :: "KeyPair \<Rightarrow> KeyPair \<Rightarrow> bool" where
  "same_keypair a b \<longleftrightarrow> to_vector (public_key a) = to_vector (public_key b) \<and>
     to_vector (private_key a) = to_vector (private_key b)"

lemma try_build_pkey_Some:
  "try_build_pkey E kp g = Some pkey \<Longrightarrow> EVP_PKEY_get_pub pkey = to_vector (public_key kp)"
  by (auto simp: try_build_pkey_def Let_def unwind)

lemma build_pkey_Some:
  assumes "build_pkey E kp = Some pkey"
  shows "EVP_PKEY_get_pub pkey = to_vector (public_key kp)"
    and "sb_size (private_key kp) \<in> {kP256ScalarLen, kP384ScalarLen}"
  using assms try_build_pkey_Some
  by (auto simp: build_pkey_def split: if_splits option.splits)

lemma extract_storable:
  assumes g: "storable E P kp" and b: "build_pkey E kp = Some pkey"
  shows "\<exists>kp'. extract_keypair E P pkey = Some kp' \<and> same_keypair kp kp'"
proof -
  let ?n = "sb_size (private_key kp)"
  from g b obtain d where d: "EVP_PKEY_get_priv pkey = Some d"
    and pad: "BN_bn2binpad E d ?n = Some (to_vector (private_key kp))"
    and bits: "EVP_PKEY_get_bits P pkey > 256 \<longleftrightarrow> ?n = kP384ScalarLen" and wf: "wf_KeyPair kp"
    by (auto simp: storable_def unwind)
  have n: "(if EVP_PKEY_get_bits P pkey > 256 then kP384ScalarLen else kP256ScalarLen) = ?n"
    using bits build_pkey_Some(2) [OF b] by (auto simp: size_simps)
  have lens: "length (to_vector (public_key kp)) \<le> kP384PublicKeyLen"
    "length (to_vector (private_key kp)) \<le> kP384ScalarLen" "length (to_vector (private_key kp)) = ?n"
    using wf wf_sb_length by (auto simp: wf_KeyPair_def wf_sb_def to_vector_def sb_size_def)
  obtain pb where pb: "sb_from kP384PublicKeyLen (to_vector (public_key kp)) = Some pb"
    using sb_from_fits [OF lens(1)] by blast
  obtain sv where sv: "sb_from kP384ScalarLen (to_vector (private_key kp)) = Some sv"
    using sb_from_fits [OF lens(2)] by blast
  show ?thesis
    using d pad n lens pb sv build_pkey_Some(1) [OF b]
    by (simp add: extract_keypair_def same_keypair_def Let_def)
qed

lemma store_keypair_TrueE:
  assumes "store_keypair E P dir fs h kp = (True, fs')"
  obtains pkey pem_text where "build_pkey E kp = Some pkey" "PEM_write_PrivateKey P pkey = (True, pem_text)"
    "fs' = fs\<lparr>fs_files := (fs_files fs)(pem_path dir h \<mapsto>
       take (fclose_stored P (pem_path dir h) pem_text) pem_text)\<rparr>"
  using assms by (auto simp: store_keypair_def Let_def split: option.splits if_splits prod.splits)

interpretation file_store: key_store "load_keypair E P dir" "store_keypair E P dir"
  "\<lambda>h kp. storable E P kp \<and> flushed E P (pem_path dir h) kp" same_keypair id_str for E P dir
proof unfold_locales
  fix s h k s' g
  show "\<exists>k'. load_keypair E P dir s' h = Some k' \<and> same_keypair k k'"
    if st: "store_keypair E P dir s h k = (True, s')" and g: "storable E P k \<and> flushed E P (pem_path dir h) k"
  proof -
    from st obtain pkey pem_text where b: "build_pkey E k = Some pkey"
      and w: "PEM_write_PrivateKey P pkey = (True, pem_text)"
      and s': "s' = s\<lparr>fs_files := (fs_files s)(pem_path dir h \<mapsto>
         take (fclose_stored P (pem_path dir h) pem_text) pem_text)\<rparr>" by (rule store_keypair_TrueE)
    have "PEM_read_PrivateKey P pem_text = Some pkey" "length pem_text \<le> fclose_stored P (pem_path dir h) pem_text"
      using g b w by (auto simp: storable_def flushed_def)
    then show ?thesis
      using extract_storable [OF conjunct1 [OF g] b] s' by (simp add: load_keypair_def)
  qed
  show "load_keypair E P dir s' g = load_keypair E P dir s g"
    if "snd (store_keypair E P dir s h k) = s'" "id_str g \<noteq> id_str h"
    using that pem_path_inject [of dir g h]
    by (auto simp: store_keypair_def load_keypair_def Let_def split: option.splits if_splits prod.splits)
qed

section \<open>Properties\<close>

text \<open>
  (C23) What a successful store leaves: the file of the handle holds what closing it flushed of the PEM
  text of the key, and every handle with another name still loads what it did. When all of the text
  was flushed, and it reads back as the key, the key is loaded with the same bytes. Success alone does
  not say that it was: the result of \<open>fclose\<close> is ignored.
\<close>

theorem stored_key_loads:
  assumes "storable E P kp" "store_keypair E P dir fs h kp = (True, fs')"
  shows "\<exists>pkey pem_text. let path = pem_path dir h; n = fclose_stored P path pem_text in
    build_pkey E kp = Some pkey \<and> PEM_write_PrivateKey P pkey = (True, pem_text) \<and>
    fs_files fs' path = Some (take n pem_text) \<and>
    (n < length pem_text \<or> (\<exists>kp'. load_keypair E P dir fs' h = Some kp' \<and>
      to_vector (public_key kp') = to_vector (public_key kp) \<and>
      to_vector (private_key kp') = to_vector (private_key kp))) \<and>
    (id_str g = id_str h \<or> load_keypair E P dir fs' g = load_keypair E P dir fs g)"
proof -
  from assms(2) obtain pkey pem_text where w: "build_pkey E kp = Some pkey"
    "PEM_write_PrivateKey P pkey = (True, pem_text)"
    "fs' = fs\<lparr>fs_files := (fs_files fs)(pem_path dir h \<mapsto>
       take (fclose_stored P (pem_path dir h) pem_text) pem_text)\<rparr>" by (rule store_keypair_TrueE)
  have "\<exists>kp'. load_keypair E P dir fs' h = Some kp' \<and> same_keypair kp kp'"
    if "\<not> fclose_stored P (pem_path dir h) pem_text < length pem_text"
    using file_store.load_saved [OF assms(2)] assms(1) that w(1,2) by (auto simp: flushed_def)
  then have l: "fclose_stored P (pem_path dir h) pem_text < length pem_text \<or>
      (\<exists>kp'. load_keypair E P dir fs' h = Some kp' \<and> to_vector (public_key kp') = to_vector (public_key kp) \<and>
        to_vector (private_key kp') = to_vector (private_key kp))"
    unfolding same_keypair_def by metis
  have "fs_files fs' (pem_path dir h) = Some (take (fclose_stored P (pem_path dir h) pem_text) pem_text)"
    using w(3) by simp
  moreover have "id_str g = id_str h \<or> load_keypair E P dir fs' g = load_keypair E P dir fs g"
    using file_store.load_other [of E P dir fs h kp fs' g] assms(2) by auto
  ultimately show ?thesis using w(1,2) l unfolding Let_def by blast
qed

text \<open>Witness of (C23): a P-256 key of the example environment under the handle \<open>ec\<close>.\<close>

definition toy_key :: EVP_PKEY where
  "toy_key = EVP_KEYPAIR ''prime256v1'' 5 (toy_pub 32 5)"

definition toy_pem :: pem where
  "toy_pem = \<lparr>PEM_write_PrivateKey = (\<lambda>k. if k = toy_key then (True, [1]) else (False, [])),
     PEM_read_PrivateKey = (\<lambda>b. if b = [1] then Some toy_key else None), EVP_PKEY_get_bits = (\<lambda>k. 256),
     fclose_stored = (\<lambda>path b. length b)\<rparr>"

definition toy_fs :: file_system where
  "toy_fs = \<lparr>fs_files = Map.empty, fs_can_write = (\<lambda>p. True)\<rparr>"

lemma toy_kp_exists:
  "\<exists>kp. storable toy_env toy_pem kp \<and> build_pkey toy_env kp = Some toy_key \<and>
     to_vector (private_key kp) = nat_be 32 5"
proof -
  have l: "length (toy_pub 32 5) = 65" by (simp add: toy_pub_def)
  obtain pb where pb: "sb_from kP384PublicKeyLen (toy_pub 32 5) = Some pb"
    using sb_from_fits [of "toy_pub 32 5" kP384PublicKeyLen] l by (auto simp: size_simps)
  obtain sv where sv: "sb_from kP384ScalarLen (nat_be 32 5) = Some sv"
    using sb_from_fits [of "nat_be 32 5" kP384ScalarLen] by (auto simp: size_simps)
  let ?kp = "\<lparr>public_key = pb, private_key = sv\<rparr>"
  note d = sb_from_SomeD [OF pb] sb_from_SomeD [OF sv]
  have b: "build_pkey toy_env ?kp = Some toy_key"
    using d l by (simp add: build_pkey_def try_build_pkey_def toy_env_def toy_key_def sb_size_def size_simps
        be_nat_nat_be)
  have "storable toy_env toy_pem ?kp"
    using d l b by (simp add: storable_def wf_KeyPair_def toy_pem_def)
      (simp add: toy_key_def toy_env_def sb_size_def size_simps)
  with b d show ?thesis by (intro exI [of _ ?kp]) simp
qed

theorem stored_key_loads_witness:
  "\<exists>h kp fs' kp'. KeyHandle_from ''ec'' = Some h \<and>
     store_keypair toy_env toy_pem ''keys'' toy_fs h kp = (True, fs') \<and>
     load_keypair toy_env toy_pem ''keys'' fs' h = Some kp' \<and> to_vector (private_key kp') = nat_be 32 5"
proof -
  obtain kp where kp: "storable toy_env toy_pem kp" "build_pkey toy_env kp = Some toy_key"
    "to_vector (private_key kp) = nat_be 32 5" using toy_kp_exists by blast
  obtain h where h: "KeyHandle_from ''ec'' = Some h"
    by (simp add: KeyHandle_from_def handle_char_ok_def Let_def sb_from_ptr_def)
  obtain fs' where st: "store_keypair toy_env toy_pem ''keys'' toy_fs h kp = (True, fs')"
    by (simp add: store_keypair_def kp(2) toy_fs_def toy_pem_def)
  from stored_key_loads [OF kp(1) st, of h] h st kp(3) show ?thesis by (auto simp: Let_def toy_pem_def)
qed

text \<open>
  (C24) A key handle exists exactly for strings of 1 to 64 letters, digits, underscores and hyphens,
  and is read back as the string it was made from; so a handle never holds a path separator, a dot
  or a NUL, and the file it names stays in the key directory.
\<close>

theorem key_handle_is_safe_name:
  "case KeyHandle_from s of
     None \<Rightarrow> \<not> (s \<noteq> [] \<and> length s \<le> 64 \<and> set s \<subseteq> set handle_alphabet)
   | Some h \<Rightarrow> id_str h = s \<and> s \<noteq> [] \<and> length s \<le> 64 \<and> set s \<subseteq> set handle_alphabet \<and>
       set s \<inter> {CHR ''/'', CHR ''.'', CHR 0x00} = {} \<and> pem_path dir h = path_join dir (s @ ''.pem'')"
proof (cases "KeyHandle_from s")
  case None
  then show ?thesis
    using sb_from_fits [of "string_bytes s" 64]
    by (fastforce simp: KeyHandle_from_def sb_from_def not_le [symmetric] list_all_iff handle_char_ok_iff
        split: if_splits option.splits)
next
  case (Some h)
  then have "s \<noteq> []" "length s \<le> 64" "list_all handle_char_ok s"
    by (auto simp: KeyHandle_from_Some_iff)
  moreover from this(3) have "set s \<inter> {CHR ''/'', CHR ''.'', CHR 0x00} = {}"
    using handle_char_not_path by (auto simp: list_all_iff)
  ultimately show ?thesis
    using Some id_str_from [OF Some] by (simp add: pem_path_def list_all_iff handle_char_ok_iff subset_iff)
qed

end
