(* ===== verification/PkiClient.thy ===== *)
theory PkiClient
  imports KeyStore
begin

text \<open>
  \<open>src/pki_client.cpp\<close> and \<open>include/v2xpki/facade.hpp\<close>: the client that ties the components together.
  Its state is the record \<open>PkiClient\<close>; every public operation is a function that returns the result
  and the state after the call. The network, the clock and the random seeds are arguments; the log
  callback, which nothing reads back, is left out. \<open>client_step\<close> is the step relation of all
  operations and \<open>client_inv\<close> an invariant of every reachable state.
\<close>

section \<open>State\<close>

record PkiClientConfig =
  cfg_ea_url :: string
  cfg_aa_url :: string
  cfg_tlm_url :: string
  cfg_ma_url :: string
  cfg_ca_bundle_path :: string
  cfg_trust_dir :: string
  cfg_keystore_dir :: string
  cfg_tlm_hid8 :: string
  cfg_timeout :: int
  cfg_verify_tls :: bool

record PkiClient =
  pc_config :: PkiClientConfig
  pc_http :: HttpClientConfig
  pc_trust :: TrustChain
  pc_files :: file_system
  pc_revocation :: RevocationStore
  pc_topology :: "TrustTopology option"

text \<open>
  The members a constructor initialises. The trust chain's revocation pointer is set once, to the
  client's own store, so the operations pass \<open>Some (pc_revocation c)\<close>.
\<close>

definition PkiClient_members :: "PkiClientConfig \<Rightarrow> file_system \<Rightarrow> TrustChain \<Rightarrow> PkiClient" where
  "PkiClient_members cfg fs tc =
     \<lparr>pc_config = cfg,
      pc_http = \<lparr>hc_ca_bundle_path = cfg_ca_bundle_path cfg, hc_timeout = cfg_timeout cfg,
                 hc_verify_tls = cfg_verify_tls cfg, hc_connect_timeout = 10, hc_max_retries = 2,
                 hc_retry_backoff = 500\<rparr>,
      pc_trust = tc, pc_files = fs, pc_revocation = RevocationStore_init, pc_topology = None\<rparr>"

text \<open>
  The constructor; \<open>listing\<close> is what the trust directory shows. Nobody catches an exception of the
  loading, so that no client is made then (\<open>None\<close>).
\<close>

definition PkiClient_init :: "env \<Rightarrow> PkiClientConfig \<Rightarrow> file_system \<Rightarrow> listing \<Rightarrow> PkiClient option" where
  "PkiClient_init E cfg fs listing =
     (if cfg_trust_dir cfg \<noteq> []
      then case load_from_directory E listing TrustChain_init of None \<Rightarrow> None
           | Some (loaded, tc) \<Rightarrow> Some (PkiClient_members cfg fs tc)
      else Some (PkiClient_members cfg fs TrustChain_init))"

lemma PkiClient_members_simps [simp]:
  "pc_config (PkiClient_members cfg fs tc) = cfg" "pc_trust (PkiClient_members cfg fs tc) = tc"
  "pc_files (PkiClient_members cfg fs tc) = fs" "pc_revocation (PkiClient_members cfg fs tc) = RevocationStore_init"
  "pc_topology (PkiClient_members cfg fs tc) = None"
  by (simp_all add: PkiClient_members_def)

lemma PkiClient_init_SomeD:
  assumes "PkiClient_init E cfg fs listing = Some c"
  shows "c = PkiClient_members cfg fs (fold add_cert
    (if cfg_trust_dir cfg \<noteq> [] then case listing of Directory es ends \<Rightarrow> loaded_certs E es | _ \<Rightarrow> [] else [])
    TrustChain_init)"
  using assms by (auto simp: PkiClient_init_def dest: load_from_directory_SomeD split: if_splits option.splits)

text \<open>The readings of the system clock one request makes, in the order of the calls.\<close>

record clock_readings =
  ck_assemble :: int
  ck_sign1 :: int
  ck_sign2 :: int
  ck_validate :: int

definition current_tai_seconds :: "int \<Rightarrow> int" where
  "current_tai_seconds now_unix = unix_to_tai_seconds now_unix"

section \<open>Helpers\<close>

definition find_dc_url :: "DcInfo list \<Rightarrow> hid8 \<Rightarrow> string \<Rightarrow> string" where
  "find_dc_url dcs h fallback_url =
     (case find (\<lambda>dc. h \<in> set (dci_serves dc)) dcs of
        None \<Rightarrow> fallback_url
      | Some dc \<Rightarrow> let url = dci_url dc in
          if url \<noteq> [] \<and> last url = CHR ''/'' then butlast url else url)"

definition issuer_chain_present :: "TrustChain \<Rightarrow> CertInfo \<Rightarrow> bool" where
  "issuer_chain_present trust cert =
     (case find_by_hashed_id_8 trust (ci_issuer_hash_id_8 cert) of
        None \<Rightarrow> False
      | Some issuer \<Rightarrow>
          if ci_is_self_signed issuer then True
          else find_by_hashed_id_8 trust (ci_issuer_hash_id_8 issuer) \<noteq> None)"

text \<open>The two checks every caller makes of a response: the transport result and status 200.\<close>

definition body_if_200 :: "HttpResponse Result \<Rightarrow> bytes Result" where
  "body_if_200 resp =
     (case resp of Inl e \<Rightarrow> Inl e
      | Inr r \<Rightarrow> if status_code r \<noteq> 200 then Inl HttpStatus else Inr (resp_body r))"

definition client_get :: "PkiClient \<Rightarrow> network \<Rightarrow> string \<Rightarrow> bytes Result" where
  "client_get c net url = body_if_200 (http_get (pc_http c) net url)"

definition client_post :: "PkiClient \<Rightarrow> network \<Rightarrow> string \<Rightarrow> bytes \<Rightarrow> bytes Result" where
  "client_post c net url body =
     body_if_200 (http_post (pc_http c) net url body ''application/x-its-request'')"

definition client_load :: "env \<Rightarrow> pem \<Rightarrow> PkiClient \<Rightarrow> KeyHandle \<Rightarrow> KeyPair option" where
  "client_load E P c handle = load_keypair E P (cfg_keystore_dir (pc_config c)) (pc_files c) handle"

text \<open>The acceptance of a returned certificate: present, chain anchored, chain valid, then stored.\<close>

definition accept_cert ::
  "env \<Rightarrow> PkiClient \<Rightarrow> int \<Rightarrow> string \<Rightarrow> CertInfo option \<Rightarrow> CertInfo Result \<times> PkiClient" where
  "accept_cert E c now_unix lbl certificate =
     (case certificate of None \<Rightarrow> (Inl Protocol, c) | Some ci \<Rightarrow>
        let cert = ci\<lparr>ci_label := lbl\<rparr> in
        if \<not> issuer_chain_present (pc_trust c) cert then (Inl NotFound, c)
        else if \<not> validate_chain E (pc_trust c) (Some (pc_revocation c)) cert (current_tai_seconds now_unix)
        then (Inl SignatureInvalid, c)
        else (Inr cert, c\<lparr>pc_trust := add_cert cert (pc_trust c)\<rparr>))"

section \<open>Enrolment and authorization\<close>

text \<open>\<open>ec_exchange\<close> is the request up to the decoded response; it does not touch the state.\<close>

definition ec_exchange ::
  "env \<Rightarrow> pem \<Rightarrow> network \<Rightarrow> nat \<Rightarrow> clock_readings \<Rightarrow> PkiClient \<Rightarrow> KeyHandle \<Rightarrow> EcRecord \<Rightarrow> EcResponse Result" where
  "ec_exchange E P net w ck c canonical rec =
     (if validate_ec_record rec \<noteq> None then Inl InvalidArgument
      else case client_load E P c canonical of None \<Rightarrow> Inl KeyStoreError | Some kp \<Rightarrow>
      (case find_by_hashed_id_8 (pc_trust c) (ecr_ea_hashed_id_8 rec) of None \<Rightarrow> Inl NotFound | Some ea \<Rightarrow>
        let desc = assemble_ec_request rec (ck_assemble ck); priv = to_vector (private_key kp) in
        (case encode_ec_request E w (ck_sign1 ck) (ck_sign2 ck) desc ea priv of
           Inl e \<Rightarrow> Inl e
         | Inr req \<Rightarrow>
        (case client_post c net (cfg_ea_url (pc_config c)) (to_vector (req_encoded req)) of
           Inl e \<Rightarrow> Inl e
         | Inr body \<Rightarrow>
             decode_ec_response E body priv (to_vector (req_aes_key req)) (to_vector (req_encoded req)) ea))))"

definition request_enrolment_credential ::
  "env \<Rightarrow> pem \<Rightarrow> network \<Rightarrow> nat \<Rightarrow> clock_readings \<Rightarrow> PkiClient \<Rightarrow> KeyHandle \<Rightarrow> EcRecord \<Rightarrow>
   CertInfo Result \<times> PkiClient" where
  "request_enrolment_credential E P net w ck c canonical rec =
     (case ec_exchange E P net w ck c canonical rec of
        Inl e \<Rightarrow> (Inl e, c)
      | Inr resp \<Rightarrow>
          if ecs_response_code resp \<noteq> EnrolmentOk then (Inl Protocol, c)
          else accept_cert E c (ck_validate ck) ''ec'' (ecs_certificate resp))"

definition at_exchange ::
  "env \<Rightarrow> pem \<Rightarrow> network \<Rightarrow> nat \<Rightarrow> clock_readings \<Rightarrow> PkiClient \<Rightarrow> KeyHandle \<Rightarrow> CertInfo \<Rightarrow> KeyHandle \<Rightarrow>
   AtRecord \<Rightarrow> AtResponse Result" where
  "at_exchange E P net w ck c ec_handle ec_cert at_handle rec =
     (if validate_at_record rec \<noteq> None then Inl InvalidArgument
      else case client_load E P c ec_handle of None \<Rightarrow> Inl KeyStoreError | Some kp \<Rightarrow>
      (case find_by_hashed_id_8 (pc_trust c) (atr_aa_hashed_id_8 rec) of None \<Rightarrow> Inl NotFound | Some aa \<Rightarrow>
      (case find_by_hashed_id_8 (pc_trust c) (atr_ea_hashed_id_8 rec) of None \<Rightarrow> Inl NotFound | Some ea \<Rightarrow>
      (case client_load E P c at_handle of None \<Rightarrow> Inl KeyStoreError | Some at_kp \<Rightarrow>
        let desc = (assemble_at_request E w rec (ck_assemble ck))\<lparr>atd_verification_key := public_key at_kp\<rparr>;
            at_priv = to_vector (private_key at_kp) in
        (case encode_at_request E (w + 1) (ck_sign1 ck) (ck_sign2 ck) desc aa ea ec_cert
                (to_vector (private_key kp)) at_priv of
           Inl e \<Rightarrow> Inl e
         | Inr req \<Rightarrow>
        (case client_post c net (cfg_aa_url (pc_config c)) (to_vector (req_encoded req)) of
           Inl e \<Rightarrow> Inl e
         | Inr body \<Rightarrow>
             decode_at_response E body at_priv (to_vector (req_aes_key req)) (to_vector (req_encoded req)) aa))))))"

definition request_authorization_ticket ::
  "env \<Rightarrow> pem \<Rightarrow> network \<Rightarrow> nat \<Rightarrow> clock_readings \<Rightarrow> PkiClient \<Rightarrow> KeyHandle \<Rightarrow> CertInfo \<Rightarrow> KeyHandle \<Rightarrow>
   AtRecord \<Rightarrow> CertInfo Result \<times> PkiClient" where
  "request_authorization_ticket E P net w ck c ec_handle ec_cert at_handle rec =
     (case at_exchange E P net w ck c ec_handle ec_cert at_handle rec of
        Inl e \<Rightarrow> (Inl e, c)
      | Inr resp \<Rightarrow>
          if ats_response_code resp \<noteq> AuthorizationOk then (Inl Protocol, c)
          else accept_cert E c (ck_validate ck) ''at'' (ats_certificate resp))"

section \<open>Certificate fetches\<close>

definition fetch_and_add ::
  "env \<Rightarrow> network \<Rightarrow> PkiClient \<Rightarrow> string \<Rightarrow> string \<Rightarrow> CertInfo Result \<times> PkiClient" where
  "fetch_and_add E net c url lbl =
     (case client_get c net url of Inl e \<Rightarrow> (Inl e, c)
      | Inr body \<Rightarrow>
          let ci = from_coer E body in
          if sb_empty (ci_cert_bytes ci) then (Inl Decode, c)
          else let ci1 = ci\<lparr>ci_label := lbl\<rparr> in (Inr ci1, c\<lparr>pc_trust := add_cert ci1 (pc_trust c)\<rparr>))"

definition fetch_trust_anchor :: "env \<Rightarrow> network \<Rightarrow> PkiClient \<Rightarrow> CertInfo Result \<times> PkiClient" where
  "fetch_trust_anchor E net c =
     fetch_and_add E net c (cfg_tlm_url (pc_config c) @ ''/trustanchor'') ''trustanchor''"

definition fetch_cert_by_name :: "env \<Rightarrow> network \<Rightarrow> PkiClient \<Rightarrow> string \<Rightarrow> CertInfo Result \<times> PkiClient" where
  "fetch_cert_by_name E net c name =
     fetch_and_add E net c (cfg_tlm_url (pc_config c) @ ''/cert/'' @ name) name"

definition fetch_cert_by_hashed_id_8 :: "env \<Rightarrow> network \<Rightarrow> PkiClient \<Rightarrow> hid8 \<Rightarrow> CertInfo Result \<times> PkiClient" where
  "fetch_cert_by_hashed_id_8 E net c h =
     fetch_and_add E net c (cfg_tlm_url (pc_config c) @ ''/lookup/'' @ hid8_to_hex h)
       (''lookup_'' @ hid8_to_hex h)"

section \<open>Trust discovery\<close>

text \<open>
  \<open>nets k\<close> answers the k-th request of the call: the TLM certificate, the ECTL, then one CTL per
  Root CA.
\<close>

definition fetch_tlm :: "env \<Rightarrow> network \<Rightarrow> PkiClient \<Rightarrow> (CertInfo \<times> string) Result" where
  "fetch_tlm E net c =
     (let base_url = cfg_tlm_url (pc_config c); pinned = cfg_tlm_hid8 (pc_config c);
          url = (if pinned \<noteq> [] then base_url @ ''/gettlmcertificate/'' @ pinned else base_url @ ''/tlm'') in
      (case client_get c net url of Inl e \<Rightarrow> Inl e
       | Inr body \<Rightarrow>
           let ci = from_coer E body in
           if sb_empty (ci_cert_bytes ci) then Inl Decode
           else Inr (ci\<lparr>ci_label := ''tlm''\<rparr>,
                     if pinned \<noteq> [] then pinned else hid8_hex_upper (ci_hashed_id_8 ci))))"

text \<open>One turn of the loop over the Root CAs.\<close>

definition discover_rca ::
  "env \<Rightarrow> network \<Rightarrow> int \<Rightarrow> PkiClient \<Rightarrow> CertInfo \<Rightarrow> TrustTopology \<times> TrustChain \<Rightarrow> TrustTopology \<times> TrustChain" where
  "discover_rca E net now_unix c rca st =
     (let (topo, tc) = st;
          dc_url = find_dc_url (topo_dcs topo) (ci_hashed_id_8 rca) (cfg_tlm_url (pc_config c)) in
      (case client_get c net (dc_url @ ''/getctl/'' @ hid8_hex_upper (ci_hashed_id_8 rca)) of
         Inl e \<Rightarrow> (topo, tc)
       | Inr body \<Rightarrow>
      (case decode_rca_ctl E now_unix body (to_vector (ci_public_key rca)) (to_vector (ci_cert_bytes rca)) of
         Inl e \<Rightarrow> (topo\<lparr>topo_ctl_signature_verified := False\<rparr>, tc)
       | Inr ctl_topo \<Rightarrow>
           if \<not> topo_ctl_signature_verified ctl_topo
           then (topo\<lparr>topo_ctl_signature_verified := False\<rparr>, tc)
           else (topo\<lparr>topo_eas := topo_eas topo @ topo_eas ctl_topo,
                      topo_aas := topo_aas topo @ topo_aas ctl_topo,
                      topo_dcs := topo_dcs topo @ topo_dcs ctl_topo\<rparr>,
                 fold add_cert (map aai_cert (topo_aas ctl_topo))
                   (fold add_cert (map eai_cert (topo_eas ctl_topo)) tc)))))"

primrec discover_rcas ::
  "env \<Rightarrow> (nat \<Rightarrow> network) \<Rightarrow> int \<Rightarrow> PkiClient \<Rightarrow> nat \<Rightarrow> CertInfo list \<Rightarrow> TrustTopology \<times> TrustChain \<Rightarrow>
   TrustTopology \<times> TrustChain" where
  "discover_rcas E nets now_unix c k [] st = st"
| "discover_rcas E nets now_unix c k (rca # rcas) st =
     discover_rcas E nets now_unix c (Suc k) rcas (discover_rca E (nets k) now_unix c rca st)"

definition adopt_urls :: "TrustTopology \<Rightarrow> PkiClientConfig \<Rightarrow> PkiClientConfig" where
  "adopt_urls topo cfg =
     (let cfg1 = (case topo_eas topo of [] \<Rightarrow> cfg
                  | ea # _ \<Rightarrow> if eai_its_access_point ea \<noteq> [] then cfg\<lparr>cfg_ea_url := eai_its_access_point ea\<rparr>
                             else cfg)
      in case topo_aas topo of [] \<Rightarrow> cfg1 | aa # _ \<Rightarrow> cfg1\<lparr>cfg_aa_url := aai_access_point aa\<rparr>)"

definition discover_ectl ::
  "env \<Rightarrow> network \<Rightarrow> int \<Rightarrow> PkiClient \<Rightarrow> CertInfo \<Rightarrow> string \<Rightarrow> TrustTopology Result" where
  "discover_ectl E net now_unix c tlm_cert tlm_hid8_hex =
     (case client_get c net (cfg_tlm_url (pc_config c) @ ''/getectl/'' @ tlm_hid8_hex) of
        Inl e \<Rightarrow> Inl e
      | Inr body \<Rightarrow>
     (case decode_ectl E now_unix body (to_vector (ci_public_key tlm_cert)) (to_vector (ci_cert_bytes tlm_cert)) of
        Inl e \<Rightarrow> Inl e
      | Inr ectl_topo \<Rightarrow>
          if \<not> topo_ectl_signature_verified ectl_topo then Inl SignatureInvalid else Inr ectl_topo))"

definition discover_trust ::
  "env \<Rightarrow> (nat \<Rightarrow> network) \<Rightarrow> int \<Rightarrow> PkiClient \<Rightarrow> TrustTopology Result \<times> PkiClient" where
  "discover_trust E nets now_unix c =
     (case fetch_tlm E (nets 0) c of Inl e \<Rightarrow> (Inl e, c)
      | Inr (tlm_cert, tlm_hid8_hex) \<Rightarrow>
        let tc1 = add_cert tlm_cert (pc_trust c) in
        (case discover_ectl E (nets 1) now_unix c tlm_cert tlm_hid8_hex of
           Inl e \<Rightarrow> (Inl e, c\<lparr>pc_trust := tc1\<rparr>)
         | Inr ectl_topo \<Rightarrow>
           let result = ectl_topo\<lparr>topo_tlm := Some tlm_cert, topo_ctl_signature_verified := True\<rparr>;
               tc2 = fold add_cert (topo_rcas result) tc1;
               (final, tc3) = discover_rcas E nets now_unix c 2 (topo_rcas result) (result, tc2) in
           if \<not> topo_ctl_signature_verified final then (Inl SignatureInvalid, c\<lparr>pc_trust := tc3\<rparr>)
           else (Inr final, c\<lparr>pc_trust := tc3, pc_config := adopt_urls final (pc_config c),
                              pc_topology := Some final\<rparr>)))"

section \<open>Revocation\<close>

definition fetch_crl ::
  "env \<Rightarrow> network \<Rightarrow> int \<Rightarrow> PkiClient \<Rightarrow> hid8 \<Rightarrow> CrlContents Result \<times> PkiClient" where
  "fetch_crl E net now_unix c rca_hid8 =
     (let dc_url = (case pc_topology c of
                      Some topo \<Rightarrow> find_dc_url (topo_dcs topo) rca_hid8 (cfg_tlm_url (pc_config c))
                    | None \<Rightarrow> cfg_tlm_url (pc_config c)) in
      (case client_get c net (dc_url @ ''/getcrl/'' @ hid8_hex_upper rca_hid8) of Inl e \<Rightarrow> (Inl e, c)
       | Inr body \<Rightarrow>
      (case find_by_hashed_id_8 (pc_trust c) rca_hid8 of None \<Rightarrow> (Inl NotFound, c) | Some rca \<Rightarrow>
      (case decode_crl E body (to_vector (ci_public_key rca)) (to_vector (ci_cert_bytes rca)) of
         Inl e \<Rightarrow> (Inl e, c)
       | Inr crl \<Rightarrow>
           let (taken, rv) = revocation_apply (pc_revocation c) crl (current_tai_seconds now_unix) in
           if \<not> taken then (Inl Protocol, c\<lparr>pc_revocation := rv\<rparr>)
           else (Inr crl, c\<lparr>pc_revocation := rv\<rparr>)))))"

section \<open>Facts on one operation\<close>

lemma accept_cert_cases:
  "accept_cert E c t lbl cert = (r, c') \<Longrightarrow>
   (\<exists>e. r = Inl e \<and> c' = c) \<or>
   (\<exists>ci. cert = Some ci \<and> r = Inr (ci\<lparr>ci_label := lbl\<rparr>) \<and>
      issuer_chain_present (pc_trust c) (ci\<lparr>ci_label := lbl\<rparr>) \<and>
      validate_chain E (pc_trust c) (Some (pc_revocation c)) (ci\<lparr>ci_label := lbl\<rparr>) (current_tai_seconds t) \<and>
      c' = c\<lparr>pc_trust := add_cert (ci\<lparr>ci_label := lbl\<rparr>) (pc_trust c)\<rparr>)"
  by (auto simp: accept_cert_def Let_def split: option.splits if_splits)

text \<open>
  A credential is returned exactly when the exchange succeeded with code \<open>ok\<close>, the response held a
  certificate, its issuers are in the store and its chain validates against the store before the
  call; and then the only change of the client is that the credential is added.
\<close>

lemma accept_cert_Ok_iff:
  "accept_cert E c t lbl cert = (Inr ci, c') \<longleftrightarrow>
     (\<exists>ci0. cert = Some ci0 \<and> ci = ci0\<lparr>ci_label := lbl\<rparr>) \<and>
     issuer_chain_present (pc_trust c) ci \<and>
     validate_chain E (pc_trust c) (Some (pc_revocation c)) ci (current_tai_seconds t) \<and>
     c' = c\<lparr>pc_trust := add_cert ci (pc_trust c)\<rparr>"
  by (auto simp: accept_cert_def Let_def split: option.splits if_splits)

lemma enrolment_Ok_iff:
  "request_enrolment_credential E P net w ck c h rec = (Inr ci, c') \<longleftrightarrow>
     (\<exists>resp. ec_exchange E P net w ck c h rec = Inr resp \<and> ecs_response_code resp = 0 \<and>
        (\<exists>ci0. ecs_certificate resp = Some ci0 \<and> ci = ci0\<lparr>ci_label := ''ec''\<rparr>)) \<and>
     issuer_chain_present (pc_trust c) ci \<and>
     validate_chain E (pc_trust c) (Some (pc_revocation c)) ci (current_tai_seconds (ck_validate ck)) \<and>
     c' = c\<lparr>pc_trust := add_cert ci (pc_trust c)\<rparr>"
  by (auto simp: request_enrolment_credential_def accept_cert_Ok_iff split: sum.splits)

lemma authorization_Ok_iff:
  "request_authorization_ticket E P net w ck c h ec ah rec = (Inr ci, c') \<longleftrightarrow>
     (\<exists>resp. at_exchange E P net w ck c h ec ah rec = Inr resp \<and> ats_response_code resp = 0 \<and>
        (\<exists>ci0. ats_certificate resp = Some ci0 \<and> ci = ci0\<lparr>ci_label := ''at''\<rparr>)) \<and>
     issuer_chain_present (pc_trust c) ci \<and>
     validate_chain E (pc_trust c) (Some (pc_revocation c)) ci (current_tai_seconds (ck_validate ck)) \<and>
     c' = c\<lparr>pc_trust := add_cert ci (pc_trust c)\<rparr>"
  by (auto simp: request_authorization_ticket_def accept_cert_Ok_iff split: sum.splits)

text \<open>The steps of a successful exchange.\<close>

lemma ec_exchange_Ok_iff:
  "ec_exchange E P net w ck c h rec = Inr resp \<longleftrightarrow>
     (\<exists>kp ea req body.
        validate_ec_record rec = None \<and> client_load E P c h = Some kp \<and>
        find_by_hashed_id_8 (pc_trust c) (ecr_ea_hashed_id_8 rec) = Some ea \<and>
        encode_ec_request E w (ck_sign1 ck) (ck_sign2 ck) (assemble_ec_request rec (ck_assemble ck)) ea
          (to_vector (private_key kp)) = Inr req \<and>
        client_post c net (cfg_ea_url (pc_config c)) (to_vector (req_encoded req)) = Inr body \<and>
        decode_ec_response E body (to_vector (private_key kp)) (to_vector (req_aes_key req))
          (to_vector (req_encoded req)) ea = Inr resp)"
  by (auto simp: ec_exchange_def Let_def split: option.splits sum.splits)

lemma at_exchange_Ok_iff:
  "at_exchange E P net w ck c h ec ah rec = Inr resp \<longleftrightarrow>
     (\<exists>kp aa ea akp req body.
        validate_at_record rec = None \<and> client_load E P c h = Some kp \<and>
        find_by_hashed_id_8 (pc_trust c) (atr_aa_hashed_id_8 rec) = Some aa \<and>
        find_by_hashed_id_8 (pc_trust c) (atr_ea_hashed_id_8 rec) = Some ea \<and>
        client_load E P c ah = Some akp \<and>
        encode_at_request E (w + 1) (ck_sign1 ck) (ck_sign2 ck)
          ((assemble_at_request E w rec (ck_assemble ck))\<lparr>atd_verification_key := public_key akp\<rparr>) aa ea ec
          (to_vector (private_key kp)) (to_vector (private_key akp)) = Inr req \<and>
        client_post c net (cfg_aa_url (pc_config c)) (to_vector (req_encoded req)) = Inr body \<and>
        decode_at_response E body (to_vector (private_key akp)) (to_vector (req_aes_key req))
          (to_vector (req_encoded req)) aa = Inr resp)"
  by (auto simp: at_exchange_def Let_def split: option.splits sum.splits)

lemma enrolment_error_keeps:
  "request_enrolment_credential E P net w ck c h rec = (Inl e, c') \<Longrightarrow> c' = c"
  by (auto simp: request_enrolment_credential_def split: sum.splits if_splits dest: accept_cert_cases)

lemma authorization_error_keeps:
  "request_authorization_ticket E P net w ck c h ec ah rec = (Inl e, c') \<Longrightarrow> c' = c"
  by (auto simp: request_authorization_ticket_def split: sum.splits if_splits dest: accept_cert_cases)

lemma validate_chain_issuers_present:
  "validate_chain E tc rv ci now \<Longrightarrow> issuer_chain_present tc ci"
  by (auto simp: validate_chain_def issuer_chain_present_def unwind split: if_splits)

lemma fetch_and_add_cases:
  "fetch_and_add E net c url lbl = (r, c') \<Longrightarrow>
   (\<exists>e. r = Inl e \<and> c' = c) \<or>
   (\<exists>body. client_get c net url = Inr body \<and> \<not> sb_empty (ci_cert_bytes (from_coer E body)) \<and>
      r = Inr ((from_coer E body)\<lparr>ci_label := lbl\<rparr>) \<and>
      c' = c\<lparr>pc_trust := add_cert ((from_coer E body)\<lparr>ci_label := lbl\<rparr>) (pc_trust c)\<rparr>)"
  by (auto simp: fetch_and_add_def Let_def split: sum.splits if_splits)

text \<open>The state after an operation that either fails or adds the certificate it returns.\<close>

lemma accept_cert_state:
  "snd (accept_cert E c t lbl cert) =
     (case fst (accept_cert E c t lbl cert) of Inl e \<Rightarrow> c | Inr ci \<Rightarrow> c\<lparr>pc_trust := add_cert ci (pc_trust c)\<rparr>)"
  by (simp add: accept_cert_def Let_def split: option.split)

lemma enrolment_state:
  "snd (request_enrolment_credential E P net w ck c h rec) =
     (case fst (request_enrolment_credential E P net w ck c h rec) of
        Inl e \<Rightarrow> c | Inr ci \<Rightarrow> c\<lparr>pc_trust := add_cert ci (pc_trust c)\<rparr>)"
  by (simp add: request_enrolment_credential_def accept_cert_state split: sum.split)

lemma authorization_state:
  "snd (request_authorization_ticket E P net w ck c h ec ah rec) =
     (case fst (request_authorization_ticket E P net w ck c h ec ah rec) of
        Inl e \<Rightarrow> c | Inr ci \<Rightarrow> c\<lparr>pc_trust := add_cert ci (pc_trust c)\<rparr>)"
  by (simp add: request_authorization_ticket_def accept_cert_state split: sum.split)

lemma fetch_and_add_state:
  "snd (fetch_and_add E net c url lbl) =
     (case fst (fetch_and_add E net c url lbl) of
        Inl e \<Rightarrow> c | Inr ci \<Rightarrow> c\<lparr>pc_trust := add_cert ci (pc_trust c)\<rparr>)"
  by (simp add: fetch_and_add_def Let_def split: sum.split)

lemma fetch_crl_Error: "fetch_crl E net now c hid = (Inl e, c') \<Longrightarrow> c' = c"
  by (auto simp: fetch_crl_def revocation_apply_def Let_def split: sum.splits option.splits if_splits)

lemma fetch_crl_Ok:
  "fetch_crl E net now c hid = (Inr crl, c') \<Longrightarrow>
   (\<exists>rca body. find_by_hashed_id_8 (pc_trust c) hid = Some rca \<and>
      decode_crl E body (to_vector (ci_public_key rca)) (to_vector (ci_cert_bytes rca)) = Inr crl) \<and>
   \<not> crl_stale crl (current_tai_seconds now) \<and>
   c' = c\<lparr>pc_revocation := snd (revocation_apply (pc_revocation c) crl (current_tai_seconds now))\<rparr>"
  unfolding fetch_crl_def Let_def
  using crl.update_taken [of "pc_revocation c" crl "current_tai_seconds now"]
  by (auto split: sum.splits option.splits prod.splits if_splits)

lemma decode_crl_issuer: "decode_crl E body pk cert = Inr crl \<Longrightarrow> crl_issuer_hid8 crl = compute_hid8 E cert"
  by (auto simp: decode_crl_Ok_iff)

section \<open>The discovery loop\<close>

text \<open>
  The loop only adds certificates and only from lists that verified: \<open>verified_ctl\<close> is a CTL that
  decoded and verified under a Root CA of the list.
\<close>

definition verified_ctl :: "env \<Rightarrow> int \<Rightarrow> CertInfo \<Rightarrow> TrustTopology \<Rightarrow> bool" where
  "verified_ctl E now rca t \<longleftrightarrow>
     (\<exists>body m. decode_rca_ctl E now body (to_vector (ci_public_key rca)) (to_vector (ci_cert_bytes rca)) = Inr t \<and>
        unwrap E body = Some m \<and> verify E m (to_vector (ci_public_key rca)) (to_vector (ci_cert_bytes rca)))"

text \<open>An ECTL that decoded and verified under the TLM certificate fetched first.\<close>

definition verified_ectl ::
  "env \<Rightarrow> (nat \<Rightarrow> network) \<Rightarrow> int \<Rightarrow> PkiClient \<Rightarrow> CertInfo \<Rightarrow> TrustTopology \<Rightarrow> bool" where
  "verified_ectl E nets now c tlm t \<longleftrightarrow>
     (\<exists>hex body m. fetch_tlm E (nets 0) c = Inr (tlm, hex) \<and>
        decode_ectl E now body (to_vector (ci_public_key tlm)) (to_vector (ci_cert_bytes tlm)) = Inr t \<and>
        unwrap E body = Some m \<and> verify E m (to_vector (ci_public_key tlm)) (to_vector (ci_cert_bytes tlm)))"

definition ctl_cert :: "TrustTopology \<Rightarrow> CertInfo \<Rightarrow> bool" where
  "ctl_cert t ci \<longleftrightarrow> ci \<in> set (map eai_cert (topo_eas t)) \<or> ci \<in> set (map aai_cert (topo_aas t))"

lemma discover_rca_cases:
  assumes "discover_rca E net now c rca (topo, tc) = (topo', tc')"
  shows "(tc' = tc \<and> (topo' = topo \<or> topo' = topo\<lparr>topo_ctl_signature_verified := False\<rparr>)) \<or>
    (\<exists>t. verified_ctl E now rca t \<and>
       topo' = topo\<lparr>topo_eas := topo_eas topo @ topo_eas t, topo_aas := topo_aas topo @ topo_aas t,
                    topo_dcs := topo_dcs topo @ topo_dcs t\<rparr> \<and>
       tc' = fold add_cert (map eai_cert (topo_eas t) @ map aai_cert (topo_aas t)) tc)"
proof -
  let ?pk = "to_vector (ci_public_key rca)" and ?cb = "to_vector (ci_cert_bytes rca)"
  have "verified_ctl E now rca t" if "decode_rca_ctl E now body ?pk ?cb = Inr t"
    "topo_ctl_signature_verified t" for body t
    using that rca_ctl_verified_iff [OF that(1)] unfolding verified_ctl_def by blast
  with assms show ?thesis
    by (auto simp: discover_rca_def Let_def split: sum.splits if_splits)
qed

lemma discover_rcas_keeps:
  "discover_rcas E nets now c k rcas (topo, tc) = (topo', tc') \<Longrightarrow>
   topo_rcas topo' = topo_rcas topo \<and> topo_tlm topo' = topo_tlm topo \<and>
   topo_ectl_signature_verified topo' = topo_ectl_signature_verified topo \<and>
   (topo_ctl_signature_verified topo' \<longrightarrow> topo_ctl_signature_verified topo)"
proof (induction rcas arbitrary: k topo tc)
  case Nil
  then show ?case by simp
next
  case (Cons rca rcas)
  obtain t1 s1 where one: "discover_rca E (nets k) now c rca (topo, tc) = (t1, s1)" by fastforce
  from Cons.IH [of "Suc k" t1 s1] Cons.prems one discover_rca_cases [OF one] show ?case by auto
qed

text \<open>Every certificate the loop adds to the store is an EA or AA of a verified CTL.\<close>

lemma discover_rcas_adds:
  assumes "discover_rcas E nets now c k rcas (topo, tc) = (topo', tc')"
  shows "\<exists>cs. tc' = fold add_cert cs tc \<and>
    (\<forall>ci \<in> set cs. \<exists>rca \<in> set rcas. \<exists>t. verified_ctl E now rca t \<and> ctl_cert t ci)"
  using assms
proof (induction rcas arbitrary: k topo tc)
  case Nil
  then show ?case by (auto intro: exI [of _ "[]"])
next
  case (Cons rca rcas)
  obtain t1 s1 where one: "discover_rca E (nets k) now c rca (topo, tc) = (t1, s1)" by fastforce
  obtain cs1 where cs1: "s1 = fold add_cert cs1 tc"
    "\<forall>ci \<in> set cs1. \<exists>t. verified_ctl E now rca t \<and> ctl_cert t ci"
  proof -
    from discover_rca_cases [OF one] consider "s1 = tc"
      | t where "verified_ctl E now rca t"
          "s1 = fold add_cert (map eai_cert (topo_eas t) @ map aai_cert (topo_aas t)) tc"
      by blast
    then show thesis
    proof cases
      case 1
      then show thesis using that [of "[]"] by simp
    next
      case 2
      then show thesis using that [of "map eai_cert (topo_eas t) @ map aai_cert (topo_aas t)"]
        by (auto simp: ctl_cert_def)
    qed
  qed
  from Cons.prems one have "discover_rcas E nets now c (Suc k) rcas (t1, s1) = (topo', tc')" by simp
  from Cons.IH [OF this] obtain cs2 where "tc' = fold add_cert cs2 s1"
    "\<forall>ci \<in> set cs2. \<exists>rca \<in> set rcas. \<exists>t. verified_ctl E now rca t \<and> ctl_cert t ci" by blast
  then show ?case using cs1 by (intro exI [of _ "cs1 @ cs2"]) auto
qed

text \<open>Every authority of the final topology was in the list it started from or in a verified CTL.\<close>

lemma discover_rcas_lists:
  assumes "discover_rcas E nets now c k rcas (topo, tc) = (topo', tc')"
  shows "set (topo_eas topo') \<subseteq> set (topo_eas topo) \<union>
      {ea. \<exists>rca \<in> set rcas. \<exists>t. verified_ctl E now rca t \<and> ea \<in> set (topo_eas t)} \<and>
    set (topo_aas topo') \<subseteq> set (topo_aas topo) \<union>
      {aa. \<exists>rca \<in> set rcas. \<exists>t. verified_ctl E now rca t \<and> aa \<in> set (topo_aas t)}"
  using assms
proof (induction rcas arbitrary: k topo tc)
  case Nil
  then show ?case by simp
next
  case (Cons rca rcas)
  obtain t1 s1 where one: "discover_rca E (nets k) now c rca (topo, tc) = (t1, s1)" by fastforce
  have "set (topo_eas t1) \<subseteq> set (topo_eas topo) \<union> {ea. \<exists>t. verified_ctl E now rca t \<and> ea \<in> set (topo_eas t)}"
    "set (topo_aas t1) \<subseteq> set (topo_aas topo) \<union> {aa. \<exists>t. verified_ctl E now rca t \<and> aa \<in> set (topo_aas t)}"
    using discover_rca_cases [OF one] by auto
  with Cons.IH [of "Suc k" t1 s1] Cons.prems one show ?case by (simp add: subset_iff) blast
qed

lemma discover_ectl_Ok:
  "discover_ectl E net now c tlm hex = Inr t \<Longrightarrow>
   topo_ectl_signature_verified t \<and>
   (\<exists>body m. decode_ectl E now body (to_vector (ci_public_key tlm)) (to_vector (ci_cert_bytes tlm)) = Inr t \<and>
      unwrap E body = Some m \<and> verify E m (to_vector (ci_public_key tlm)) (to_vector (ci_cert_bytes tlm)))"
  by (auto simp: discover_ectl_def split: sum.splits if_splits dest: ectl_verified_iff)

text \<open>A failed discovery leaves the configuration and the topology as they were.\<close>

lemma discover_error_keeps:
  "discover_trust E nets now c = (Inl e, c') \<Longrightarrow>
   pc_config c' = pc_config c \<and> pc_topology c' = pc_topology c \<and> pc_revocation c' = pc_revocation c \<and>
   pc_files c' = pc_files c \<and> pc_http c' = pc_http c"
  by (auto simp: discover_trust_def Let_def split: sum.splits prod.splits if_splits)

text \<open>A successful discovery.\<close>

lemma discover_Ok:
  assumes "discover_trust E nets now c = (Inr t, c')"
  shows "pc_topology c' = Some t \<and> pc_config c' = adopt_urls t (pc_config c) \<and>
    topo_ectl_signature_verified t \<and> topo_ctl_signature_verified t \<and>
    (\<exists>tlm et. verified_ectl E nets now c tlm et \<and> topo_tlm t = Some tlm \<and> topo_rcas t = topo_rcas et) \<and>
    pc_revocation c' = pc_revocation c \<and> pc_files c' = pc_files c \<and> pc_http c' = pc_http c"
proof -
  from assms obtain tlm hex where tlm: "fetch_tlm E (nets 0) c = Inr (tlm, hex)"
    by (auto simp: discover_trust_def split: sum.splits)
  with assms obtain et where et: "discover_ectl E (nets 1) now c tlm hex = Inr et"
    by (auto simp: discover_trust_def Let_def split: sum.splits)
  let ?r = "et\<lparr>topo_tlm := Some tlm, topo_ctl_signature_verified := True\<rparr>"
  obtain fin tc where loop: "discover_rcas E nets now c 2 (topo_rcas et)
      (?r, fold add_cert (topo_rcas et) (add_cert tlm (pc_trust c))) = (fin, tc)" by fastforce
  have fin: "t = fin" "topo_ctl_signature_verified fin"
    and c': "c' = c\<lparr>pc_trust := tc, pc_config := adopt_urls fin (pc_config c), pc_topology := Some fin\<rparr>"
    using assms tlm et loop by (auto simp: discover_trust_def Let_def split: if_splits)
  have "verified_ectl E nets now c tlm et"
    using discover_ectl_Ok [OF et] tlm unfolding verified_ectl_def by blast
  then show ?thesis using fin c' discover_rcas_keeps [OF loop] discover_ectl_Ok [OF et] by auto
qed

text \<open>Where the authorities of a discovered topology come from.\<close>

lemma discover_Ok_lists:
  assumes "discover_trust E nets now c = (Inr t, c')"
  shows "\<exists>tlm et. verified_ectl E nets now c tlm et \<and> topo_rcas t = topo_rcas et \<and>
    set (topo_eas t) \<subseteq> set (topo_eas et) \<union>
      {ea. \<exists>rca \<in> set (topo_rcas et). \<exists>ct. verified_ctl E now rca ct \<and> ea \<in> set (topo_eas ct)} \<and>
    set (topo_aas t) \<subseteq> set (topo_aas et) \<union>
      {aa. \<exists>rca \<in> set (topo_rcas et). \<exists>ct. verified_ctl E now rca ct \<and> aa \<in> set (topo_aas ct)}"
proof -
  from assms obtain tlm hex where tlm: "fetch_tlm E (nets 0) c = Inr (tlm, hex)"
    by (auto simp: discover_trust_def split: sum.splits)
  with assms obtain et where et: "discover_ectl E (nets 1) now c tlm hex = Inr et"
    by (auto simp: discover_trust_def Let_def split: sum.splits)
  let ?r = "et\<lparr>topo_tlm := Some tlm, topo_ctl_signature_verified := True\<rparr>"
  obtain tc where loop: "discover_rcas E nets now c 2 (topo_rcas et)
      (?r, fold add_cert (topo_rcas et) (add_cert tlm (pc_trust c))) = (t, tc)"
    using assms tlm et by (auto simp: discover_trust_def Let_def split: prod.splits if_splits)
  have "verified_ectl E nets now c tlm et"
    using discover_ectl_Ok [OF et] tlm unfolding verified_ectl_def by blast
  moreover have "topo_rcas t = topo_rcas et" using discover_rcas_keeps [OF loop] by simp
  moreover note discover_rcas_lists [OF loop]
  ultimately show ?thesis by (intro exI [of _ tlm] exI [of _ et]) simp
qed

text \<open>
  When discovery succeeds, in terms of the messages. \<open>genuine_list\<close>: the bytes are a signed message that
  verifies under the key and certificate of its signer and holds the list. \<open>turns_ok\<close>: for every Root CA
  in order, the CTL cannot be fetched, which is tolerated, or it is a genuine list of that Root CA. The
  address asked depends on the distribution centres of the lists before it.
\<close>

definition genuine_list :: "env \<Rightarrow> bytes \<Rightarrow> CertInfo \<Rightarrow> bool \<Rightarrow> CtlFormat \<Rightarrow> bool" where
  "genuine_list E body signer is_ectl ctl \<longleftrightarrow>
     (let pk = to_vector (ci_public_key signer); cert = to_vector (ci_cert_bytes signer) in
      pk \<noteq> [] \<and> cert \<noteq> [] \<and>
      (\<exists>m ed. unwrap E body = Some m \<and> verify E m pk cert \<and>
         decode_with_basic_fallback (asn_DEF_EtsiTs102941Data E) (sm_payload_coer m) = Some ed \<and>
         extract_ctl_from_etsi_data ed is_ectl = Some ctl))"

abbreviation list_entries :: "env \<Rightarrow> int \<Rightarrow> CtlFormat \<Rightarrow> bool \<Rightarrow> TrustTopology" where
  "list_entries E now ctl is_ectl \<equiv> parse_ctl_entries E now ctl is_ectl TrustTopology_init"

primrec turns_ok ::
  "env \<Rightarrow> (nat \<Rightarrow> network) \<Rightarrow> int \<Rightarrow> PkiClient \<Rightarrow> nat \<Rightarrow> CertInfo list \<Rightarrow> DcInfo list \<Rightarrow> bool" where
  "turns_ok E nets now c k [] dcs \<longleftrightarrow> True"
| "turns_ok E nets now c k (rca # rcas) dcs \<longleftrightarrow>
     (case client_get c (nets k) (find_dc_url dcs (ci_hashed_id_8 rca) (cfg_tlm_url (pc_config c)) @ ''/getctl/'' @
         hid8_hex_upper (ci_hashed_id_8 rca)) of
        Inl e \<Rightarrow> turns_ok E nets now c (Suc k) rcas dcs
      | Inr body \<Rightarrow> \<exists>ctl. genuine_list E body rca False ctl \<and>
          turns_ok E nets now c (Suc k) rcas (dcs @ topo_dcs (list_entries E now ctl False)))"

lemma genuine_ectl_iff:
  "decode_ectl E now body (to_vector (ci_public_key s)) (to_vector (ci_cert_bytes s)) = Inr t \<and>
     topo_ectl_signature_verified t \<longleftrightarrow>
   (\<exists>ctl. genuine_list E body s True ctl \<and> t = (list_entries E now ctl True)\<lparr>topo_ectl_signature_verified := True\<rparr>)"
  unfolding decode_ectl_def decode_ctl_common_Ok_iff genuine_list_def Let_def by auto

lemma genuine_ctl_iff:
  "decode_rca_ctl E now body (to_vector (ci_public_key s)) (to_vector (ci_cert_bytes s)) = Inr t \<and>
     topo_ctl_signature_verified t \<longleftrightarrow>
   (\<exists>ctl. genuine_list E body s False ctl \<and> t = (list_entries E now ctl False)\<lparr>topo_ctl_signature_verified := True\<rparr>)"
  unfolding decode_rca_ctl_def decode_ctl_common_Ok_iff genuine_list_def Let_def by auto

lemma genuine_list_unique: "genuine_list E body s b ctl \<Longrightarrow> genuine_list E body s b ctl' \<Longrightarrow> ctl = ctl'"
  by (auto simp: genuine_list_def Let_def)

lemma discover_ectl_Inr_iff:
  "discover_ectl E net now c tlm hex = Inr t \<longleftrightarrow>
     (\<exists>body ctl. client_get c net (cfg_tlm_url (pc_config c) @ ''/getectl/'' @ hex) = Inr body \<and>
        genuine_list E body tlm True ctl \<and>
        t = (list_entries E now ctl True)\<lparr>topo_ectl_signature_verified := True\<rparr>)"
proof -
  have "discover_ectl E net now c tlm hex = Inr t \<longleftrightarrow>
      (\<exists>body. client_get c net (cfg_tlm_url (pc_config c) @ ''/getectl/'' @ hex) = Inr body \<and>
         decode_ectl E now body (to_vector (ci_public_key tlm)) (to_vector (ci_cert_bytes tlm)) = Inr t \<and>
         topo_ectl_signature_verified t)"
    by (auto simp: discover_ectl_def split: sum.splits if_splits)
  then show ?thesis unfolding genuine_ectl_iff by blast
qed

lemma discover_rca_genuine:
  assumes "client_get c net (find_dc_url (topo_dcs topo) (ci_hashed_id_8 rca) (cfg_tlm_url (pc_config c)) @ ''/getctl/'' @
      hid8_hex_upper (ci_hashed_id_8 rca)) = Inr body"
    and "genuine_list E body rca False ctl"
  shows "let t = fst (discover_rca E net now c rca (topo, tc)) in
    topo_dcs t = topo_dcs topo @ topo_dcs (list_entries E now ctl False) \<and>
    topo_ctl_signature_verified t = topo_ctl_signature_verified topo"
proof -
  have "decode_rca_ctl E now body (to_vector (ci_public_key rca)) (to_vector (ci_cert_bytes rca)) =
      Inr ((list_entries E now ctl False)\<lparr>topo_ctl_signature_verified := True\<rparr>)"
    using genuine_ctl_iff assms(2) by blast
  with assms(1) show ?thesis by (simp add: discover_rca_def Let_def)
qed

lemma discover_rca_not_genuine:
  assumes "client_get c net (find_dc_url (topo_dcs topo) (ci_hashed_id_8 rca) (cfg_tlm_url (pc_config c)) @ ''/getctl/'' @
      hid8_hex_upper (ci_hashed_id_8 rca)) = Inr body"
    and "\<nexists>ctl. genuine_list E body rca False ctl"
  shows "\<not> topo_ctl_signature_verified (fst (discover_rca E net now c rca (topo, tc)))"
proof -
  have "\<not> topo_ctl_signature_verified t"
    if "decode_rca_ctl E now body (to_vector (ci_public_key rca)) (to_vector (ci_cert_bytes rca)) = Inr t" for t
    using genuine_ctl_iff [of E now body rca t] assms(2) that by blast
  with assms(1) show ?thesis by (auto simp: discover_rca_def Let_def split: sum.splits)
qed

lemma discover_rcas_turns:
  "topo_ctl_signature_verified (fst (discover_rcas E nets now c k rcas (topo, tc))) \<longleftrightarrow>
     topo_ctl_signature_verified topo \<and> turns_ok E nets now c k rcas (topo_dcs topo)"
proof (induction rcas arbitrary: k topo tc)
  case Nil
  then show ?case by simp
next
  case (Cons rca rcas)
  obtain t1 s1 where one: "discover_rca E (nets k) now c rca (topo, tc) = (t1, s1)" by fastforce
  note step = Cons.IH [of "Suc k" t1 s1]
  show ?case
  proof (cases "client_get c (nets k) (find_dc_url (topo_dcs topo) (ci_hashed_id_8 rca) (cfg_tlm_url (pc_config c)) @
      ''/getctl/'' @ hid8_hex_upper (ci_hashed_id_8 rca))")
    case (Inl e)
    then have "t1 = topo" using one by (simp add: discover_rca_def Let_def)
    with step one Inl show ?thesis by simp
  next
    case (Inr body)
    show ?thesis
    proof (cases "\<exists>ctl. genuine_list E body rca False ctl")
      case True
      then obtain ctl where g: "genuine_list E body rca False ctl" by blast
      have "(\<exists>ctl'. genuine_list E body rca False ctl' \<and> Q ctl') \<longleftrightarrow> Q ctl" for Q
        using g genuine_list_unique by blast
      then show ?thesis using discover_rca_genuine [OF Inr g, of now tc] step one Inr by (simp add: Let_def)
    next
      case False
      then show ?thesis using discover_rca_not_genuine [OF Inr False, of now tc] step one Inr by simp
    qed
  qed
qed

lemma discover_trust_Inr_iff:
  "(\<exists>t c'. discover_trust E nets now c = (Inr t, c')) \<longleftrightarrow>
     (\<exists>tlm hex et. fetch_tlm E (nets 0) c = Inr (tlm, hex) \<and> discover_ectl E (nets 1) now c tlm hex = Inr et \<and>
        topo_ctl_signature_verified (fst (discover_rcas E nets now c 2 (topo_rcas et)
          (et\<lparr>topo_tlm := Some tlm, topo_ctl_signature_verified := True\<rparr>,
           fold add_cert (topo_rcas et) (add_cert tlm (pc_trust c))))))"
  by (auto simp: discover_trust_def Let_def split: sum.splits prod.splits if_splits)

section \<open>The client as a state machine\<close>

text \<open>One step is one public operation, with any network, clock, seeds and arguments.\<close>

inductive client_step :: "env \<Rightarrow> pem \<Rightarrow> PkiClient \<Rightarrow> PkiClient \<Rightarrow> bool" for E P where
  enrol: "request_enrolment_credential E P net w ck c h rec = (r, c') \<Longrightarrow> client_step E P c c'"
| authorize: "request_authorization_ticket E P net w ck c h ec ah arec = (r, c') \<Longrightarrow> client_step E P c c'"
| anchor: "fetch_trust_anchor E net c = (r, c') \<Longrightarrow> client_step E P c c'"
| by_name: "fetch_cert_by_name E net c name = (r, c') \<Longrightarrow> client_step E P c c'"
| by_id: "fetch_cert_by_hashed_id_8 E net c hid = (r, c') \<Longrightarrow> client_step E P c c'"
| discover: "discover_trust E nets now c = (rt, c') \<Longrightarrow> client_step E P c c'"
| crl: "fetch_crl E net now c hid = (rc, c') \<Longrightarrow> client_step E P c c'"
| store: "store_keypair E P (cfg_keystore_dir (pc_config c)) (pc_files c) h kp = (b, fs) \<Longrightarrow>
    client_step E P c (c\<lparr>pc_files := fs\<rparr>)"

inductive reachable :: "env \<Rightarrow> pem \<Rightarrow> PkiClient \<Rightarrow> bool" for E P where
  start: "PkiClient_init E cfg fs listing = Some c \<Longrightarrow> reachable E P c"
| step: "reachable E P c \<Longrightarrow> client_step E P c c' \<Longrightarrow> reachable E P c'"

text \<open>
  An identifier is the last eight bytes of SHA-256 or SHA-384 of the certificate it names, when
  the certificate's bytes are held.
\<close>

definition id_matches :: "env \<Rightarrow> CertInfo \<Rightarrow> bool" where
  "id_matches E ci \<longleftrightarrow> sb_empty (ci_cert_bytes ci) \<or>
     (\<exists>h \<in> {hash_sha256 E, hash_sha384 E}. ci_hashed_id_8 ci = truncate_hid8 (h (to_vector (ci_cert_bytes ci))))"

definition client_inv :: "env \<Rightarrow> PkiClient \<Rightarrow> bool" where
  "client_inv E c \<longleftrightarrow> (\<forall>k ci. find_by_hashed_id_8 (pc_trust c) k = Some ci \<longrightarrow>
     ci_hashed_id_8 ci = k \<and> id_matches E ci)"

lemma id_matches_label [simp]: "id_matches E (ci\<lparr>ci_label := l\<rparr>) = id_matches E ci"
  by (simp add: id_matches_def)

lemma hash_for_curve_cases: "hash_for_curve E d c = hash_sha256 E d \<or> hash_for_curve E d c = hash_sha384 E d"
  by (cases c) simp_all

lemma id_matches_from_struct: "id_matches E (from_struct E cert coer)"
  using hash_for_curve_cases [of E coer "whole_cert_hash_curve (Some cert)"]
  by (auto simp: id_matches_def sb_empty_from_struct_cert_bytes from_struct_cert_bytes
      from_struct_hashed_id_8 compute_hid8_struct_def)

lemma id_matches_from_coer: "id_matches E (from_coer E coer)"
proof -
  have "id_matches E (CertInfo_init a)" for a by (simp add: id_matches_def CertInfo_init_def)
  then show ?thesis by (simp add: from_coer_def id_matches_from_struct split: option.split)
qed

lemma id_matches_cert_ptr: "cert_ptr_to_info E c l = Some ci \<Longrightarrow> id_matches E ci"
  using cert_ptr_to_info_SomeD [of E c l ci] id_matches_from_struct id_matches_label by metis

lemma id_matches_response: "response_certificate E l c = Some ci \<Longrightarrow> id_matches E ci"
  by (auto simp: response_certificate_def unwind id_matches_from_struct)

text \<open>The invariant is kept by adding certificates with matching identifiers.\<close>

lemma client_inv_adds:
  assumes "client_inv E c" "\<And>ci. ci \<in> set cs \<Longrightarrow> id_matches E ci"
    "pc_trust c' = fold add_cert cs (pc_trust c)"
  shows "client_inv E c'"
  unfolding client_inv_def
proof (intro allI impI)
  fix k ci
  assume "find_by_hashed_id_8 (pc_trust c') k = Some ci"
  then have "find_by_hashed_id_8 (fold add_cert cs (pc_trust c)) k = Some ci" by (simp add: assms(3))
  then consider "find_by_hashed_id_8 (pc_trust c) k = Some ci" | "ci \<in> set cs" "ci_hashed_id_8 ci = k"
    using store.find_adds_cases by blast
  then show "ci_hashed_id_8 ci = k \<and> id_matches E ci"
    using assms(1,2) by cases (auto simp: client_inv_def)
qed

lemma client_inv_add:
  "client_inv E c \<Longrightarrow> id_matches E ci \<Longrightarrow> client_inv E (c\<lparr>pc_trust := add_cert ci (pc_trust c)\<rparr>)"
  using client_inv_adds [of E c "[ci]" "c\<lparr>pc_trust := add_cert ci (pc_trust c)\<rparr>"] by simp

lemma client_inv_same: "client_inv E c \<Longrightarrow> pc_trust c' = pc_trust c \<Longrightarrow> client_inv E c'"
  by (simp add: client_inv_def)

text \<open>Every certificate a decoded list holds has a matching identifier.\<close>

definition topo_ids :: "env \<Rightarrow> TrustTopology \<Rightarrow> bool" where
  "topo_ids E t \<longleftrightarrow> list_all (id_matches E) (topo_rcas t) \<and> list_all (\<lambda>e. id_matches E (eai_cert e)) (topo_eas t) \<and>
     list_all (\<lambda>a. id_matches E (aai_cert a)) (topo_aas t)"

lemma topo_ids_add_entry: "topo_ids E t \<Longrightarrow> topo_ids E (add_ctl_entry E e t)"
  by (cases "(E, e, t)" rule: add_ctl_entry.cases)
    (auto simp: topo_ids_def dest: id_matches_cert_ptr split: option.splits)

lemma topo_ids_add_commands: "topo_ids E t \<Longrightarrow> topo_ids E (add_ctl_commands E cs t)"
  by (induction cs arbitrary: t) (auto simp: topo_ids_add_entry split: CtlCommand.splits option.splits)

lemma topo_ids_parse: "topo_ids E t \<Longrightarrow> topo_ids E (parse_ctl_entries E now ctl b t)"
  unfolding parse_ctl_entries_def
  by (rule topo_ids_add_commands) (simp add: topo_ids_def set_next_update_def Let_def)

lemma topo_ids_decode:
  assumes "decode_ctl_common E now coer pk cert b = Inr t"
  shows "topo_ids E t"
proof -
  from assms obtain ctl v where t: "t = (let t = parse_ctl_entries E now ctl b TrustTopology_init in
      if b then t\<lparr>topo_ectl_signature_verified := v\<rparr> else t\<lparr>topo_ctl_signature_verified := v\<rparr>)"
    unfolding decode_ctl_common_Ok_iff Let_def by blast
  have "topo_ids E (parse_ctl_entries E now ctl b TrustTopology_init)"
    by (rule topo_ids_parse) (simp add: topo_ids_def TrustTopology_init_def)
  then show ?thesis by (cases b) (simp_all add: t topo_ids_def Let_def)
qed

lemma ctl_cert_ids: "verified_ctl E now rca t \<Longrightarrow> ctl_cert t ci \<Longrightarrow> id_matches E ci"
  using topo_ids_decode
  by (fastforce simp: verified_ctl_def decode_rca_ctl_def ctl_cert_def topo_ids_def list_all_iff)

text \<open>What discovery adds: the TLM, the Root CAs of the ECTL and certificates of verified CTLs.\<close>

definition discovered :: "env \<Rightarrow> (nat \<Rightarrow> network) \<Rightarrow> int \<Rightarrow> PkiClient \<Rightarrow> CertInfo set" where
  "discovered E nets now c =
     {tlm. \<exists>hex. fetch_tlm E (nets 0) c = Inr (tlm, hex)} \<union>
     {rca. \<exists>tlm t. verified_ectl E nets now c tlm t \<and> rca \<in> set (topo_rcas t)} \<union>
     {ci. \<exists>tlm t rca t'. verified_ectl E nets now c tlm t \<and> rca \<in> set (topo_rcas t) \<and>
        verified_ctl E now rca t' \<and> ctl_cert t' ci}"

lemma discover_trust_adds:
  assumes "discover_trust E nets now c = (r, c')"
  shows "\<exists>cs. pc_trust c' = fold add_cert cs (pc_trust c) \<and> set cs \<subseteq> discovered E nets now c"
proof (cases "fetch_tlm E (nets 0) c")
  case (Inl e)
  with assms show ?thesis by (auto simp: discover_trust_def intro: exI [of _ "[]"])
next
  case (Inr p)
  obtain tlm hex where p: "p = (tlm, hex)" by (cases p)
  have tlm: "tlm \<in> discovered E nets now c" using Inr p by (auto simp: discovered_def)
  show ?thesis
  proof (cases "discover_ectl E (nets 1) now c tlm hex")
    case (Inl e)
    with assms Inr p tlm show ?thesis
      by (auto simp: discover_trust_def Let_def intro!: exI [of _ "[tlm]"])
  next
    case ectl: (Inr t)
    have vt: "verified_ectl E nets now c tlm t"
      using discover_ectl_Ok [OF ectl] Inr p unfolding verified_ectl_def by blast
    let ?r = "t\<lparr>topo_tlm := Some tlm, topo_ctl_signature_verified := True\<rparr>"
    obtain fin tc3 where loop: "discover_rcas E nets now c 2 (topo_rcas t)
        (?r, fold add_cert (topo_rcas t) (add_cert tlm (pc_trust c))) = (fin, tc3)" by fastforce
    from discover_rcas_adds [OF loop] obtain cs where
      cs: "tc3 = fold add_cert cs (fold add_cert (topo_rcas t) (add_cert tlm (pc_trust c)))"
        "\<forall>ci \<in> set cs. \<exists>rca \<in> set (topo_rcas t). \<exists>t'. verified_ctl E now rca t' \<and> ctl_cert t' ci"
      by blast
    have "set cs \<subseteq> discovered E nets now c" "set (topo_rcas t) \<subseteq> discovered E nets now c"
      using cs(2) vt unfolding discovered_def by blast+
    moreover have "pc_trust c' = fold add_cert (tlm # topo_rcas t @ cs) (pc_trust c)"
      using assms Inr p ectl loop cs(1) by (auto simp: discover_trust_def Let_def split: if_splits)
    ultimately show ?thesis using tlm by (intro exI [of _ "tlm # topo_rcas t @ cs"]) auto
  qed
qed

lemma discovered_ids: "ci \<in> discovered E nets now c \<Longrightarrow> id_matches E ci"
proof -
  assume "ci \<in> discovered E nets now c"
  then consider hex where "fetch_tlm E (nets 0) c = Inr (ci, hex)"
    | tlm t where "verified_ectl E nets now c tlm t" "ci \<in> set (topo_rcas t)"
    | rca t' where "verified_ctl E now rca t'" "ctl_cert t' ci"
    unfolding discovered_def by blast
  then show ?thesis
  proof cases
    case 1
    then show ?thesis
      by (auto simp: fetch_tlm_def Let_def id_matches_from_coer split: sum.splits if_splits)
  next
    case 2
    then show ?thesis
      using topo_ids_decode by (fastforce simp: verified_ectl_def decode_ectl_def topo_ids_def list_all_iff)
  next
    case 3
    then show ?thesis by (rule ctl_cert_ids)
  qed
qed

lemma exchange_cert_ids:
  "ec_exchange E P net w ck c h rec = Inr resp \<Longrightarrow> ecs_certificate resp = Some ci \<Longrightarrow> id_matches E ci"
  "at_exchange E P net w ck c h ec ah arec = Inr aresp \<Longrightarrow> ats_certificate aresp = Some ci \<Longrightarrow> id_matches E ci"
  by (auto simp: ec_exchange_def at_exchange_def Let_def unwind decode_ec_response_Ok_iff
      decode_at_response_Ok_iff dest: id_matches_response split: sum.splits)

lemma client_step_inv:
  assumes "client_step E P c c'" "client_inv E c"
  shows "client_inv E c'"
  using assms
proof (induction rule: client_step.induct)
  case (enrol net w ck c h rec r c')
  then show ?case
    by (cases r) (auto dest: enrolment_error_keeps exchange_cert_ids simp: enrolment_Ok_iff
        intro!: client_inv_add)
next
  case (authorize net w ck c h ec ah arec r c')
  then show ?case
    by (cases r) (auto dest: authorization_error_keeps exchange_cert_ids simp: authorization_Ok_iff
        intro!: client_inv_add)
next
  case (anchor net c r c')
  then show ?case
    unfolding fetch_trust_anchor_def
    by (auto dest!: fetch_and_add_cases simp: id_matches_from_coer intro!: client_inv_add)
next
  case (by_name net c name r c')
  then show ?case
    unfolding fetch_cert_by_name_def
    by (auto dest!: fetch_and_add_cases simp: id_matches_from_coer intro!: client_inv_add)
next
  case (by_id net c hid r c')
  then show ?case
    unfolding fetch_cert_by_hashed_id_8_def
    by (auto dest!: fetch_and_add_cases simp: id_matches_from_coer intro!: client_inv_add)
next
  case (discover nets now c rt c')
  from discover_trust_adds [OF discover(1)] obtain cs where
    "pc_trust c' = fold add_cert cs (pc_trust c)" "set cs \<subseteq> discovered E nets now c" by blast
  then show ?case using client_inv_adds [OF discover(2)] discovered_ids by blast
next
  case (crl net now c hid rc c')
  then show ?case
    by (auto simp: fetch_crl_def Let_def split: sum.splits option.splits prod.splits if_splits
        intro: client_inv_same)
next
  case (store c h kp b fs)
  then show ?case by (auto intro: client_inv_same)
qed

lemma load_entry_parsed:
  "load_entry E e = Some (Some ci) \<Longrightarrow> \<exists>raw l. ci = (from_coer E raw)\<lparr>ci_label := l\<rparr>"
  by (cases "de_regular e"; cases "de_content e") (auto simp: load_entry_def Let_def split: if_splits)

lemma load_ids: "ci \<in> set (loaded_certs E es) \<Longrightarrow> id_matches E ci"
  using load_entry_parsed [of E _ ci] by (fastforce simp: loaded_certs_iff id_matches_from_coer)

lemma listing_ids: "ci \<in> set (case l of Directory es ends \<Rightarrow> loaded_certs E es | _ \<Rightarrow> []) \<Longrightarrow> id_matches E ci"
  by (cases l) (simp_all add: load_ids)

lemma init_loads:
  assumes "PkiClient_init E cfg fs l = Some c"
  shows "\<exists>cs. pc_trust c = fold add_cert cs TrustChain_init \<and> (\<forall>ci \<in> set cs. id_matches E ci)"
proof (cases "cfg_trust_dir cfg = []")
  case True
  then show ?thesis using assms by (intro exI [of _ "[]"]) (auto simp: PkiClient_init_def)
next
  case False
  then show ?thesis
    using PkiClient_init_SomeD [OF assms] listing_ids [of _ E l]
    by (intro exI [of _ "case l of Directory es ends \<Rightarrow> loaded_certs E es | _ \<Rightarrow> []"]) simp
qed

lemma reachable_inv: "reachable E P c \<Longrightarrow> client_inv E c"
proof (induction rule: reachable.induct)
  case (start cfg fs listing c)
  have base: "client_inv E (c\<lparr>pc_trust := TrustChain_init\<rparr>)" for c
    by (simp add: client_inv_def store.find_empty)
  from start obtain cs where "pc_trust c = fold add_cert cs TrustChain_init" "\<forall>ci \<in> set cs. id_matches E ci"
    using init_loads by blast
  then show ?case using client_inv_adds [OF base [of c], of cs c] by simp
next
  case (step c c')
  then show ?case by (blast intro: client_step_inv)
qed

section \<open>Properties\<close>

text \<open>
  (C3) An enrolment credential is returned exactly when: the record passes its validator; the key of
  the handle loads; the Enrolment Authority is in the store; the request encodes; the server answers
  with status 200; the answer decrypts, verifies under the authority and names this request; its code
  is \<open>ok\<close> and it holds a certificate; and this certificate has a trust path over the store as it was
  before the call. The client is then changed only by the addition of the certificate.
\<close>

theorem enrolment_accepts_iff:
  "request_enrolment_credential E P net w ck c h rec = (Inr ci, c') \<longleftrightarrow>
     (\<exists>kp ea req body resp ci0.
        validate_ec_record rec = None \<and> client_load E P c h = Some kp \<and>
        find_by_hashed_id_8 (pc_trust c) (ecr_ea_hashed_id_8 rec) = Some ea \<and>
        encode_ec_request E w (ck_sign1 ck) (ck_sign2 ck) (assemble_ec_request rec (ck_assemble ck)) ea
          (to_vector (private_key kp)) = Inr req \<and>
        client_post c net (cfg_ea_url (pc_config c)) (to_vector (req_encoded req)) = Inr body \<and>
        decode_ec_response E body (to_vector (private_key kp)) (to_vector (req_aes_key req))
          (to_vector (req_encoded req)) ea = Inr resp \<and>
        ecs_response_code resp = EnrolmentOk \<and> ecs_certificate resp = Some ci0 \<and>
        ci = ci0\<lparr>ci_label := ''ec''\<rparr>) \<and>
     (let now = current_tai_seconds (ck_validate ck); rv = Some (pc_revocation c) in
        trust_path E (pc_trust c) rv now 1 ci \<or> trust_path E (pc_trust c) rv now 2 ci) \<and>
     c' = c\<lparr>pc_trust := add_cert ci (pc_trust c)\<rparr>"
  unfolding enrolment_Ok_iff ec_exchange_Ok_iff Let_def validate_chain_trust_path [symmetric]
  using validate_chain_issuers_present by blast

text \<open>
  (C4) An authorization ticket is returned exactly when: the record passes its validator; both keys
  load; both authorities are in the store; the request encodes; the server answers with status 200;
  the answer decrypts, verifies under the Authorization Authority and names this request; its code is
  \<open>ok\<close> and it holds a certificate; and this certificate has a trust path over the store. The client
  is then changed only by the addition of the ticket.
\<close>

theorem authorization_accepts_iff:
  "request_authorization_ticket E P net w ck c h ec ah rec = (Inr ci, c') \<longleftrightarrow>
     (\<exists>kp aa ea akp req body resp ci0.
        validate_at_record rec = None \<and> client_load E P c h = Some kp \<and>
        find_by_hashed_id_8 (pc_trust c) (atr_aa_hashed_id_8 rec) = Some aa \<and>
        find_by_hashed_id_8 (pc_trust c) (atr_ea_hashed_id_8 rec) = Some ea \<and>
        client_load E P c ah = Some akp \<and>
        encode_at_request E (w + 1) (ck_sign1 ck) (ck_sign2 ck)
          ((assemble_at_request E w rec (ck_assemble ck))\<lparr>atd_verification_key := public_key akp\<rparr>) aa ea ec
          (to_vector (private_key kp)) (to_vector (private_key akp)) = Inr req \<and>
        client_post c net (cfg_aa_url (pc_config c)) (to_vector (req_encoded req)) = Inr body \<and>
        decode_at_response E body (to_vector (private_key akp)) (to_vector (req_aes_key req))
          (to_vector (req_encoded req)) aa = Inr resp \<and>
        ats_response_code resp = AuthorizationOk \<and> ats_certificate resp = Some ci0 \<and>
        ci = ci0\<lparr>ci_label := ''at''\<rparr>) \<and>
     (let now = current_tai_seconds (ck_validate ck); rv = Some (pc_revocation c) in
        trust_path E (pc_trust c) rv now 1 ci \<or> trust_path E (pc_trust c) rv now 2 ci) \<and>
     c' = c\<lparr>pc_trust := add_cert ci (pc_trust c)\<rparr>"
  unfolding authorization_Ok_iff at_exchange_Ok_iff Let_def validate_chain_trust_path [symmetric]
  using validate_chain_issuers_present by blast

text \<open>
  (C8) In every state the client can reach from its constructor by any sequence of its operations,
  with any network, clock and random data, a certificate found in the store under an identifier has
  that identifier, and the identifier is the truncated SHA-256 or SHA-384 hash of the certificate's
  own bytes when they are held.
\<close>

theorem reachable_store_consistent:
  assumes "reachable E P c" "find_by_hashed_id_8 (pc_trust c) k = Some ci"
  shows "ci_hashed_id_8 ci = k \<and> (sb_empty (ci_cert_bytes ci) \<or>
    k = truncate_hid8 (hash_sha256 E (to_vector (ci_cert_bytes ci))) \<or>
    k = truncate_hid8 (hash_sha384 E (to_vector (ci_cert_bytes ci))))"
  using reachable_inv [OF assms(1)] assms(2) by (auto simp: client_inv_def id_matches_def)

text \<open>Witness of (C8): a client of the example environment started with one certificate file.\<close>

definition bare_cert :: CertificateBase where
  "bare_cert = \<lparr>cb_version = 3, cb_type = CT_explicit, cb_issuer = None, cb_toBeSigned = None, cb_signature = None\<rparr>"

definition one_cert_env :: env where
  "one_cert_env = toy_env\<lparr>asn_DEF_CertificateBase := single_codec bare_cert [9]\<rparr>"

definition one_cert_client :: PkiClient where
  "one_cert_client = PkiClient_members
     \<lparr>cfg_ea_url = [], cfg_aa_url = [], cfg_tlm_url = [], cfg_ma_url = [], cfg_ca_bundle_path = [],
      cfg_trust_dir = ''trust'', cfg_keystore_dir = [], cfg_tlm_hid8 = [], cfg_timeout = 30,
      cfg_verify_tls = True\<rparr> toy_fs
     (add_cert ((from_coer one_cert_env [9])\<lparr>ci_label := ''root''\<rparr>) TrustChain_init)"

lemma one_cert_init:
  "PkiClient_init one_cert_env (pc_config one_cert_client) toy_fs
     (Directory [\<lparr>de_name = ''root.cert'', de_regular = Some True, de_content = Content [9]\<rparr>] True) = Some one_cert_client"
proof -
  have "\<not> sb_empty (ci_cert_bytes (from_coer one_cert_env [9]))"
    by (simp add: from_coer_usable_iff one_cert_env_def single_codec_def coer_decode_def size_simps)
  then have "load_entry one_cert_env \<lparr>de_name = ''root.cert'', de_regular = Some True, de_content = Content [9]\<rparr> =
      Some (Some ((from_coer one_cert_env [9])\<lparr>ci_label := ''root''\<rparr>))"
    by (simp add: load_entry_def Let_def path_extension_def path_stem_def
        last_dot_def)
  then show ?thesis
    by (simp add: one_cert_client_def PkiClient_init_def load_from_directory_def)
qed

lemma one_cert_found:
  "find_by_hashed_id_8 (pc_trust one_cert_client) (ci_hashed_id_8 (from_coer one_cert_env [9])) =
     Some ((from_coer one_cert_env [9])\<lparr>ci_label := ''root''\<rparr>)"
  by (simp add: one_cert_client_def store.find_add)

theorem reachable_store_consistent_witness:
  "\<exists>k ci. find_by_hashed_id_8 (pc_trust one_cert_client) k = Some ci \<and> ci_hashed_id_8 ci = k"
proof -
  have "reachable one_cert_env toy_pem one_cert_client" by (rule reachable.start [OF one_cert_init])
  from reachable_store_consistent [OF this one_cert_found] one_cert_found show ?thesis by blast
qed

text \<open>
  (C9) What a successful discovery means, and that a failed one changes neither the configuration,
  nor the topology, the revocation store or the key files. On success both signature flags are set,
  the Root CAs are those of a list that verified under the fetched TLM certificate, the topology is
  kept, and the addresses of the authorities are adopted from it.
\<close>

theorem discover_trust_outcome:
  "let (r, c') = discover_trust E nets now c in
     pc_revocation c' = pc_revocation c \<and> pc_files c' = pc_files c \<and> pc_http c' = pc_http c \<and>
     (case r of
        Inl e \<Rightarrow> pc_config c' = pc_config c \<and> pc_topology c' = pc_topology c
      | Inr t \<Rightarrow> pc_topology c' = Some t \<and> pc_config c' = adopt_urls t (pc_config c) \<and>
          topo_ectl_signature_verified t \<and> topo_ctl_signature_verified t \<and>
          (\<exists>tlm et. verified_ectl E nets now c tlm et \<and> topo_tlm t = Some tlm \<and> topo_rcas t = topo_rcas et))"
proof -
  obtain r c' where d: "discover_trust E nets now c = (r, c')" by fastforce
  show ?thesis
  proof (cases r)
    case (Inl e)
    then show ?thesis using discover_error_keeps [of E nets now c e c'] d by simp
  next
    case (Inr t)
    then show ?thesis using discover_Ok [of E nets now c t c'] d by simp
  qed
qed

text \<open>
  (C10) When a discovery succeeds, exactly: the TLM certificate is fetched and parses; the bytes fetched
  from the ECTL address are a message that verifies under its key and certificate and holds a TLM list;
  and for every Root CA of that list in turn, either nothing could be fetched from its CTL address,
  which is tolerated, or the bytes are a message that verifies under this Root CA and holds its list.
\<close>

theorem discovery_succeeds_iff:
  "(\<exists>t c'. discover_trust E nets now c = (Inr t, c')) \<longleftrightarrow>
     (\<exists>tlm hex body ctl. fetch_tlm E (nets 0) c = Inr (tlm, hex) \<and>
        client_get c (nets 1) (cfg_tlm_url (pc_config c) @ ''/getectl/'' @ hex) = Inr body \<and>
        genuine_list E body tlm True ctl \<and>
        turns_ok E nets now c 2 (topo_rcas (list_entries E now ctl True)) (topo_dcs (list_entries E now ctl True)))"
proof
  assume "\<exists>t c'. discover_trust E nets now c = (Inr t, c')"
  then obtain tlm hex et where t: "fetch_tlm E (nets 0) c = Inr (tlm, hex)" "discover_ectl E (nets 1) now c tlm hex = Inr et"
    "turns_ok E nets now c 2 (topo_rcas et) (topo_dcs et)"
    unfolding discover_trust_Inr_iff discover_rcas_turns by auto
  then show "\<exists>tlm hex body ctl. fetch_tlm E (nets 0) c = Inr (tlm, hex) \<and>
      client_get c (nets 1) (cfg_tlm_url (pc_config c) @ ''/getectl/'' @ hex) = Inr body \<and>
      genuine_list E body tlm True ctl \<and>
      turns_ok E nets now c 2 (topo_rcas (list_entries E now ctl True)) (topo_dcs (list_entries E now ctl True))"
    unfolding discover_ectl_Inr_iff by fastforce
next
  assume "\<exists>tlm hex body ctl. fetch_tlm E (nets 0) c = Inr (tlm, hex) \<and>
      client_get c (nets 1) (cfg_tlm_url (pc_config c) @ ''/getectl/'' @ hex) = Inr body \<and>
      genuine_list E body tlm True ctl \<and>
      turns_ok E nets now c 2 (topo_rcas (list_entries E now ctl True)) (topo_dcs (list_entries E now ctl True))"
  then obtain tlm hex ctl where t: "fetch_tlm E (nets 0) c = Inr (tlm, hex)"
    "discover_ectl E (nets 1) now c tlm hex = Inr ((list_entries E now ctl True)\<lparr>topo_ectl_signature_verified := True\<rparr>)"
    "turns_ok E nets now c 2 (topo_rcas (list_entries E now ctl True)) (topo_dcs (list_entries E now ctl True))"
    unfolding discover_ectl_Inr_iff by blast
  show "\<exists>t c'. discover_trust E nets now c = (Inr t, c')"
    unfolding discover_trust_Inr_iff discover_rcas_turns
    by (rule exI, rule exI, rule exI, rule conjI [OF t(1) conjI [OF t(2)]]) (use t(3) in simp)
qed

text \<open>
  (C11) Discovery, whether it succeeds or fails, only adds certificates to the store: the fetched TLM
  certificate, the Root CAs of a list that verified under it, and the EAs and AAs of lists that
  verified under one of these Root CAs.
\<close>

theorem discover_adds_only_verified:
  "\<exists>cs. pc_trust (snd (discover_trust E nets now c)) = fold add_cert cs (pc_trust c) \<and>
     set cs \<subseteq> {tlm. \<exists>hex. fetch_tlm E (nets 0) c = Inr (tlm, hex)} \<union>
       {rca. \<exists>tlm t. verified_ectl E nets now c tlm t \<and> rca \<in> set (topo_rcas t)} \<union>
       {ci. \<exists>tlm t rca t'. verified_ectl E nets now c tlm t \<and> rca \<in> set (topo_rcas t) \<and>
          verified_ctl E now rca t' \<and> ctl_cert t' ci}"
proof -
  obtain r c' where d: "discover_trust E nets now c = (r, c')" by fastforce
  from discover_trust_adds [OF d] show ?thesis by (auto simp: d discovered_def)
qed

text \<open>
  (C12) A revocation list is accepted exactly from a message that decodes and verifies under the Root
  CA with the asked identifier and is not stale; its entries then replace those of that issuer and
  no other issuer's. Every failure leaves the client as it was.
\<close>

theorem fetch_crl_outcome:
  "case fst (fetch_crl E net now c hid) of
     Inl e \<Rightarrow> snd (fetch_crl E net now c hid) = c
   | Inr crl \<Rightarrow>
       (\<exists>rca body. find_by_hashed_id_8 (pc_trust c) hid = Some rca \<and>
          decode_crl E body (to_vector (ci_public_key rca)) (to_vector (ci_cert_bytes rca)) = Inr crl \<and>
          crl_issuer_hid8 crl = compute_hid8 E (to_vector (ci_cert_bytes rca))) \<and>
       \<not> crl_stale crl (current_tai_seconds now) \<and>
       (\<exists>rv. snd (fetch_crl E net now c hid) = c\<lparr>pc_revocation := rv\<rparr> \<and>
          (\<forall>i h. is_revoked rv i h \<longleftrightarrow>
             (if i = crl_issuer_hid8 crl then h \<in> set (crl_revoked crl)
              else is_revoked (pc_revocation c) i h)))"
proof (cases "fetch_crl E net now c hid")
  case (Pair r c')
  show ?thesis
  proof (cases r)
    case (Inl e)
    then show ?thesis using fetch_crl_Error [of E net now c hid e c'] Pair by simp
  next
    case (Inr crl)
    with Pair fetch_crl_Ok [of E net now c hid crl c'] have
      rca: "\<exists>rca body. find_by_hashed_id_8 (pc_trust c) hid = Some rca \<and>
          decode_crl E body (to_vector (ci_public_key rca)) (to_vector (ci_cert_bytes rca)) = Inr crl"
      and st: "\<not> crl_stale crl (current_tai_seconds now)"
      and c': "c' = c\<lparr>pc_revocation := snd (revocation_apply (pc_revocation c) crl (current_tai_seconds now))\<rparr>"
      by blast+
    from rca decode_crl_issuer show ?thesis
      using Pair Inr st c' crl.update_revokes [OF st] by fastforce
  qed
qed

text \<open>
  (C38) Enrolment, authorization and the three certificate fetches change the client only when they
  return a certificate, and then only by adding it to the store: every error leaves the state as it
  was.
\<close>

theorem errors_leave_client_unchanged:
  "snd (request_enrolment_credential E P net w ck c h rec) =
     (case fst (request_enrolment_credential E P net w ck c h rec) of
        Inl e \<Rightarrow> c | Inr ci \<Rightarrow> c\<lparr>pc_trust := add_cert ci (pc_trust c)\<rparr>) \<and>
   snd (request_authorization_ticket E P net w ck c h ec ah arec) =
     (case fst (request_authorization_ticket E P net w ck c h ec ah arec) of
        Inl e \<Rightarrow> c | Inr ci \<Rightarrow> c\<lparr>pc_trust := add_cert ci (pc_trust c)\<rparr>) \<and>
   snd (fetch_trust_anchor E net c) =
     (case fst (fetch_trust_anchor E net c) of
        Inl e \<Rightarrow> c | Inr ci \<Rightarrow> c\<lparr>pc_trust := add_cert ci (pc_trust c)\<rparr>) \<and>
   snd (fetch_cert_by_name E net c name) =
     (case fst (fetch_cert_by_name E net c name) of
        Inl e \<Rightarrow> c | Inr ci \<Rightarrow> c\<lparr>pc_trust := add_cert ci (pc_trust c)\<rparr>) \<and>
   snd (fetch_cert_by_hashed_id_8 E net c hid) =
     (case fst (fetch_cert_by_hashed_id_8 E net c hid) of
        Inl e \<Rightarrow> c | Inr ci \<Rightarrow> c\<lparr>pc_trust := add_cert ci (pc_trust c)\<rparr>)"
  unfolding fetch_trust_anchor_def fetch_cert_by_name_def fetch_cert_by_hashed_id_8_def
  by (intro conjI enrolment_state authorization_state fetch_and_add_state)

end
