(* ===== verification/Platform.thy ===== *)
theory Platform
  imports PkiClient "HOL-Library.Char_ord"
begin

text \<open>
  What the two programs share beyond the library: text output of numbers, the file operations of
  the operating system, the streams of a process and the construction of a client from the state of
  the file system. The operating system is the record \<open>os\<close>, a parameter: it decides which directories
  can be made, what a directory lists, which reads fail and how much of a write reaches a file.
\<close>

section \<open>Text\<close>

definition nl :: string where "nl = [CHR 0x0A]"

text \<open>A quoted string and a quoted key, as the programs put them together (without escaping).\<close>

definition jstr :: "string \<Rightarrow> string" where
  "jstr s = CHR 0x22 # s @ [CHR 0x22]"

definition jkey :: "string \<Rightarrow> string" where
  "jkey k = jstr k @ '':''"

definition jbool :: "bool \<Rightarrow> string" where
  "jbool b = (if b then ''true'' else ''false'')"

text \<open>\<open>std::ostream << n\<close> in decimal.\<close>

fun dec_nat :: "nat \<Rightarrow> string" where
  "dec_nat n = (if n < 10 then [char_of (48 + n)] else dec_nat (n div 10) @ [char_of (48 + n mod 10)])"

declare dec_nat.simps [simp del]

definition dec_int :: "int \<Rightarrow> string" where
  "dec_int i = (if i < 0 then CHR ''-'' # dec_nat (nat (- i)) else dec_nat (nat i))"

text \<open>Elements of a list with a separator: the loops that print it before every element but the first.\<close>

primrec separated :: "string \<Rightarrow> string list \<Rightarrow> string" where
  "separated sep [] = []"
| "separated sep (x # xs) = x @ concat (map (\<lambda>y. sep @ y) xs)"

definition body_to_string :: "bytes \<Rightarrow> string" where
  "body_to_string body = map (\<lambda>b. char_of (unat b)) body"

section \<open>The operating system\<close>

text \<open>
  \<open>os_mkdirs\<close> is \<open>create_directories\<close>: the file system afterwards, \<open>None\<close> when it throws. \<open>os_list\<close> is what
  listing a directory shows, exceptions included. \<open>os_read_throws\<close> tells the paths that open for reading
  but whose content cannot be read, as that of a directory: the stream buffer throws then. \<open>os_good\<close> is the state of an \<open>ofstream\<close> after
  a write, \<open>os_fwrite\<close> the count \<open>fwrite\<close> returns, \<open>os_stored\<close> how many bytes are in the file once it is
  closed (both report before the last buffer is flushed, so they do not decide it), \<open>os_rename\<close> and
  \<open>os_unlink\<close> whether \<open>rename\<close> and \<open>unlink\<close> succeed, and \<open>os_mkdir\<close> the file system after \<open>mkdir\<close>, whose
  result the callers ignore.
\<close>

record os =
  os_mkdirs :: "string \<Rightarrow> file_system \<Rightarrow> file_system option"
  os_list :: "file_system \<Rightarrow> string \<Rightarrow> listing"
  os_read_throws :: "file_system \<Rightarrow> string \<Rightarrow> bool"
  os_good :: "string \<Rightarrow> bytes \<Rightarrow> bool"
  os_fwrite :: "string \<Rightarrow> bytes \<Rightarrow> nat"
  os_stored :: "string \<Rightarrow> bytes \<Rightarrow> nat"
  os_rename :: "string \<Rightarrow> string \<Rightarrow> bool"
  os_unlink :: "string \<Rightarrow> bool"
  os_mkdir :: "string \<Rightarrow> file_system \<Rightarrow> file_system"

text \<open>
  Reading with \<open>istreambuf_iterator\<close>: a path that does not open gives no bytes, a failure of the read itself
  is an exception (\<open>None\<close>).
\<close>

definition read_file :: "os \<Rightarrow> file_system \<Rightarrow> string \<Rightarrow> bytes option" where
  "read_file X fs path =
     (if os_read_throws X fs path then None
      else Some (case fs_files fs path of None \<Rightarrow> [] | Some content \<Rightarrow> content))"

definition write_file :: "os \<Rightarrow> string \<Rightarrow> bytes \<Rightarrow> file_system \<Rightarrow> bool \<times> file_system" where
  "write_file X path data fs =
     (if \<not> fs_can_write fs path then (False, fs)
      else (os_good X path data,
            fs\<lparr>fs_files := (fs_files fs)(path \<mapsto> take (os_stored X path data) data)\<rparr>))"

section \<open>A process\<close>

record process =
  ps_fs :: file_system
  ps_out :: string
  ps_err :: string

text \<open>How a process ends: with an exit code or by an exception nobody catches.\<close>

datatype exit_status = Exit int | Uncaught

definition cout :: "string \<Rightarrow> process \<Rightarrow> process" where
  "cout s w = w\<lparr>ps_out := ps_out w @ s\<rparr>"

definition cerr :: "string \<Rightarrow> process \<Rightarrow> process" where
  "cerr s w = w\<lparr>ps_err := ps_err w @ s\<rparr>"

definition fail :: "string \<Rightarrow> process \<Rightarrow> exit_status \<times> process" where
  "fail s w = (Exit 1, cerr (''error: '' @ s @ nl) w)"

definition save :: "os \<Rightarrow> string \<Rightarrow> bytes \<Rightarrow> process \<Rightarrow> bool \<times> process" where
  "save X path data w = (let (ok, fs) = write_file X path data (ps_fs w) in (ok, w\<lparr>ps_fs := fs\<rparr>))"

definition create_directories :: "os \<Rightarrow> string \<Rightarrow> process \<Rightarrow> process option" where
  "create_directories X dir w =
     (case os_mkdirs X dir (ps_fs w) of None \<Rightarrow> None | Some fs \<Rightarrow> Some (w\<lparr>ps_fs := fs\<rparr>))"

lemma process_simps [simp]:
  "ps_fs (cout s w) = ps_fs w" "ps_err (cout s w) = ps_err w" "ps_out (cout s w) = ps_out w @ s"
  "ps_fs (cerr s w) = ps_fs w" "ps_out (cerr s w) = ps_out w" "ps_err (cerr s w) = ps_err w @ s"
  by (simp_all add: cout_def cerr_def)

lemma fst_fail [simp]: "fst (fail s w) = Exit 1" "ps_fs (snd (fail s w)) = ps_fs w"
  "ps_out (snd (fail s w)) = ps_out w"
  by (simp_all add: fail_def)

lemma save_simps [simp]:
  "ps_out (snd (save X path data w)) = ps_out w" "ps_err (snd (save X path data w)) = ps_err w"
  by (simp_all add: save_def split: prod.split)

lemma read_after_save:
  "fs_can_write (ps_fs w) path \<Longrightarrow>
   fs_files (ps_fs (snd (save X path data w))) path = Some (take (os_stored X path data) data)"
  by (simp add: save_def write_file_def)

lemma save_other:
  "q \<noteq> path \<Longrightarrow> fs_files (ps_fs (snd (save X path data w))) q = fs_files (ps_fs w) q"
  by (simp add: save_def write_file_def)

text \<open>Every write either leaves the file system or puts a prefix of the data into the one file.\<close>

lemma save_cases:
  "snd (save X path data w) = w \<or>
   snd (save X path data w) = w\<lparr>ps_fs := (ps_fs w)\<lparr>fs_files := (fs_files (ps_fs w))(path \<mapsto>
     take (os_stored X path data) data)\<rparr>\<rparr>"
  by (simp add: save_def write_file_def)

section \<open>A client of the library\<close>

text \<open>The constructor of the key store: its directory exists afterwards, unless making it throws.\<close>

definition PlaintextFileKeyStore_new :: "os \<Rightarrow> string \<Rightarrow> file_system \<Rightarrow> file_system option" where
  [simp]: "PlaintextFileKeyStore_new X keystore_dir fs = os_mkdirs X keystore_dir fs"

text \<open>
  The constructor in full: the key store makes its directory first, then the trust directory is
  listed as it is at that moment. \<open>None\<close> stands for an exception of either, which the constructor passes on.
\<close>

definition PkiClient_new :: "os \<Rightarrow> env \<Rightarrow> PkiClientConfig \<Rightarrow> file_system \<Rightarrow> PkiClient option" where
  "PkiClient_new X E cfg fs =
     (case PlaintextFileKeyStore_new X (cfg_keystore_dir cfg) fs of None \<Rightarrow> None
      | Some fs1 \<Rightarrow> PkiClient_init E cfg fs1 (os_list X fs1 (cfg_trust_dir cfg)))"

text \<open>The members of a configuration that a caller does not set.\<close>

definition PkiClientConfig_init :: PkiClientConfig where
  "PkiClientConfig_init =
     \<lparr>cfg_ea_url = [], cfg_aa_url = [], cfg_tlm_url = [], cfg_ma_url = [], cfg_ca_bundle_path = [],
      cfg_trust_dir = [], cfg_keystore_dir = [], cfg_tlm_hid8 = [], cfg_timeout = 30,
      cfg_verify_tls = True\<rparr>"

definition HttpClientConfig_of :: "int \<Rightarrow> HttpClientConfig" where
  "HttpClientConfig_of timeout =
     \<lparr>hc_ca_bundle_path = [], hc_timeout = timeout, hc_verify_tls = True, hc_connect_timeout = 10,
      hc_max_retries = 2, hc_retry_backoff = 500\<rparr>"

lemma PkiClient_new_reachable: "PkiClient_new X E cfg fs = Some c \<Longrightarrow> reachable E P c"
  by (auto simp: PkiClient_new_def intro: reachable.start split: option.splits)

lemma PkiClient_new_SomeD:
  "PkiClient_new X E cfg fs = Some c \<Longrightarrow>
   pc_config c = cfg \<and> pc_revocation c = RevocationStore_init \<and> pc_topology c = None"
  by (auto simp: PkiClient_new_def dest: PkiClient_init_SomeD split: option.splits)

lemma PkiClient_new_files:
  "PkiClient_new X E cfg fs = Some c \<Longrightarrow> os_mkdirs X (cfg_keystore_dir cfg) fs = Some (pc_files c)"
  by (auto simp: PkiClient_new_def dest: PkiClient_init_SomeD split: option.splits)

text \<open>Where the exceptions of the constructor come from.\<close>

lemma PkiClient_new_NoneD:
  "PkiClient_new X E cfg fs = None \<Longrightarrow>
   os_mkdirs X (cfg_keystore_dir cfg) fs = None \<or>
   (\<exists>fs1. os_mkdirs X (cfg_keystore_dir cfg) fs = Some fs1 \<and> cfg_trust_dir cfg \<noteq> [] \<and>
      load_from_directory E (os_list X fs1 (cfg_trust_dir cfg)) TrustChain_init = None)"
  by (auto simp: PkiClient_new_def PkiClient_init_def split: option.splits if_splits)

end
