(* ===== verification/CliArgs.thy ===== *)
theory CliArgs
  imports Platform
begin

text \<open>
  \<open>src/cli/args.cpp\<close>: the command line of the client. \<open>parse_opts\<close> is the loop over the arguments from
  the third on. The lemmas relate it to a printer of option lists: what is printed is read back, in
  whatever order the options come.
\<close>

section \<open>Data\<close>

record Args =
  arg_command :: string
  arg_pki_url :: string
  arg_out_dir :: string
  arg_hid8 :: string
  arg_cert_path :: string
  arg_ea_url :: string
  arg_aa_url :: string
  arg_keystore_dir :: string
  arg_ec_cert :: string
  arg_tlm_cert :: string
  arg_tlm_hid8 :: string
  arg_out :: string
  arg_canonical_key :: string
  arg_canonical_id :: string
  arg_canonical_id_set :: bool
  arg_curve_str :: string
  arg_json :: bool
  arg_discover_mode :: bool

definition Args_init :: Args where
  "Args_init =
     \<lparr>arg_command = [], arg_pki_url = [], arg_out_dir = [], arg_hid8 = [], arg_cert_path = [],
      arg_ea_url = [], arg_aa_url = [], arg_keystore_dir = [], arg_ec_cert = [], arg_tlm_cert = [],
      arg_tlm_hid8 = [], arg_out = [], arg_canonical_key = [], arg_canonical_id = [],
      arg_canonical_id_set = False, arg_curve_str = [], arg_json = False, arg_discover_mode = False\<rparr>"

section \<open>Parsing\<close>

text \<open>The chain of options with a value; \<open>None\<close> is an argument that is none of them.\<close>

definition set_option :: "string \<Rightarrow> string \<Rightarrow> Args \<Rightarrow> Args option" where
  "set_option arg val a =
     (if arg = ''--pki-url'' then Some (a\<lparr>arg_pki_url := val\<rparr>)
      else if arg = ''--out-dir'' then Some (a\<lparr>arg_out_dir := val\<rparr>)
      else if arg = ''--hid8'' then Some (a\<lparr>arg_hid8 := val\<rparr>)
      else if arg = ''--cert-path'' then Some (a\<lparr>arg_cert_path := val\<rparr>)
      else if arg = ''--ea-url'' then Some (a\<lparr>arg_ea_url := val\<rparr>)
      else if arg = ''--aa-url'' then Some (a\<lparr>arg_aa_url := val\<rparr>)
      else if arg = ''--keystore-dir'' then Some (a\<lparr>arg_keystore_dir := val\<rparr>)
      else if arg = ''--ec-cert'' then Some (a\<lparr>arg_ec_cert := val\<rparr>)
      else if arg = ''--tlm-cert'' then Some (a\<lparr>arg_tlm_cert := val\<rparr>)
      else if arg = ''--tlm-hid8'' then Some (a\<lparr>arg_tlm_hid8 := val\<rparr>)
      else if arg = ''--out'' then Some (a\<lparr>arg_out := val\<rparr>)
      else if arg = ''--canonical-key'' then Some (a\<lparr>arg_canonical_key := val\<rparr>)
      else if arg = ''--canonical-id'' then Some (a\<lparr>arg_canonical_id := val, arg_canonical_id_set := True\<rparr>)
      else if arg = ''--curve'' then Some (a\<lparr>arg_curve_str := val\<rparr>)
      else None)"

fun parse_opts :: "string list \<Rightarrow> Args \<Rightarrow> Args" where
  "parse_opts [] a = a"
| "parse_opts [arg] a =
     (if arg = ''--json'' then a\<lparr>arg_json := True\<rparr>
      else if arg = ''--discover'' then a\<lparr>arg_discover_mode := True\<rparr>
      else a)"
| "parse_opts (arg # val # rest) a =
     (if arg = ''--json'' then parse_opts (val # rest) (a\<lparr>arg_json := True\<rparr>)
      else if arg = ''--discover'' then parse_opts (val # rest) (a\<lparr>arg_discover_mode := True\<rparr>)
      else case set_option arg val a of
        None \<Rightarrow> parse_opts (val # rest) a
      | Some a' \<Rightarrow> parse_opts rest a')"

text \<open>\<open>argv\<close> is the whole argument vector, the program name included.\<close>

definition parse_args :: "string list \<Rightarrow> Args" where
  "parse_args argv =
     (case argv of prog # cmd # rest \<Rightarrow> parse_opts rest (Args_init\<lparr>arg_command := cmd\<rparr>) | _ \<Rightarrow> Args_init)"

definition parse_curve :: "string \<Rightarrow> Curve" where
  "parse_curve s =
     (if s = ''brainpool-p256r1'' \<or> s = ''brainpoolP256r1'' then BrainpoolP256r1
      else if s = ''brainpool-p384r1'' \<or> s = ''brainpoolP384r1'' then BrainpoolP384r1
      else NistP256)"

section \<open>Usage\<close>

text \<open>\<open>std::left << std::setw(n)\<close>.\<close>

definition pad_right :: "nat \<Rightarrow> string \<Rightarrow> string" where
  "pad_right n s = s @ replicate (n - length s) (CHR '' '')"

text \<open>\<open>cmds\<close> are the names and help texts of the command table.\<close>

definition usage :: "string \<Rightarrow> (string \<times> string) list \<Rightarrow> string" where
  "usage prog cmds =
     ''Usage: '' @ prog @ '' <command> [options]'' @ nl @ nl @ ''Commands:'' @ nl @
     concat (map (\<lambda>(name, help). ''  '' @ pad_right 15 name @ help @ nl) cmds) @
     nl @ ''Common options:'' @ nl @
     ''  --pki-url URL        Base URL of PKI server'' @ nl @
     ''  --json               Machine-readable JSON output'' @ nl @
     ''  --out-dir DIR        Output directory for certs'' @ nl @
     ''  --hid8 HEX           HashedId8 in hex (16 chars)'' @ nl @
     ''  --tlm-hid8 HEX       Pinned TLM HashedId8 (hex uppercase)'' @ nl @
     ''  --cert-path PATH     Path to cert file (COER)'' @ nl @
     ''  --ea-url URL         EA POST endpoint'' @ nl @
     ''  --aa-url URL         AA POST endpoint'' @ nl @
     ''  --keystore-dir DIR   Key storage directory'' @ nl @
     ''  --tlm-cert PATH      TLM cert for ECTL verification'' @ nl @
     ''  --out PATH           Output file path'' @ nl @
     ''  --canonical-key ID   Key handle ID for canonical key'' @ nl @
     ''  --canonical-id STR   ITS-S canonical identifier (1-64 bytes, default: v2xpki-its-s)'' @ nl @
     ''  --ec-cert PATH       EC cert file for AT request'' @ nl @
     ''  --curve NAME         Curve: nist-p256, brainpool-p256r1, brainpool-p384r1'' @ nl @
     ''  --discover           Use CCMS discovery for EA/AA URLs'' @ nl"

section \<open>Printing and reading back\<close>

text \<open>One argument group of a command line: a flag or an option with its value.\<close>

definition options :: "(string \<times> (Args \<Rightarrow> string)) list" where
  "options =
     [(''--pki-url'', arg_pki_url),
      (''--out-dir'', arg_out_dir),
      (''--hid8'', arg_hid8),
      (''--cert-path'', arg_cert_path),
      (''--ea-url'', arg_ea_url),
      (''--aa-url'', arg_aa_url),
      (''--keystore-dir'', arg_keystore_dir),
      (''--ec-cert'', arg_ec_cert),
      (''--tlm-cert'', arg_tlm_cert),
      (''--tlm-hid8'', arg_tlm_hid8),
      (''--out'', arg_out),
      (''--canonical-key'', arg_canonical_key),
      (''--curve'', arg_curve_str)]"

definition print_args :: "Args \<Rightarrow> string list" where
  "print_args a =
     concat (map (\<lambda>(name, get). [name, get a]) options) @
     (if arg_canonical_id_set a then [''--canonical-id'', arg_canonical_id a] else []) @
     (if arg_json a then [''--json''] else []) @ (if arg_discover_mode a then [''--discover''] else [])"

lemma parse_opts_flag:
  "parse_opts (''--json'' # rest) a = parse_opts rest (a\<lparr>arg_json := True\<rparr>)"
  "parse_opts (''--discover'' # rest) a = parse_opts rest (a\<lparr>arg_discover_mode := True\<rparr>)"
  by (cases rest; simp)+

text \<open>An option with a value is taken together with it, whatever the value looks like.\<close>

lemma parse_opts_option:
  assumes "set_option arg val a = Some a'" "arg \<noteq> ''--json''" "arg \<noteq> ''--discover''"
  shows "parse_opts (arg # val # rest) a = parse_opts rest a'"
  using assms by simp

lemma parse_opts_unknown:
  assumes "\<And>val. set_option arg val a = None" "arg \<noteq> ''--json''" "arg \<noteq> ''--discover''"
  shows "parse_opts (arg # rest) a = parse_opts rest a"
  using assms by (cases rest) simp_all

lemma parse_print_options:
  "parse_opts (concat (map (\<lambda>(name, get). [name, get a]) options) @ rest) b =
     parse_opts rest (b\<lparr>arg_pki_url := arg_pki_url a, arg_out_dir := arg_out_dir a, arg_hid8 := arg_hid8 a,
      arg_cert_path := arg_cert_path a, arg_ea_url := arg_ea_url a, arg_aa_url := arg_aa_url a,
      arg_keystore_dir := arg_keystore_dir a, arg_ec_cert := arg_ec_cert a, arg_tlm_cert :=
      arg_tlm_cert a, arg_tlm_hid8 := arg_tlm_hid8 a, arg_out := arg_out a, arg_canonical_key :=
      arg_canonical_key a, arg_curve_str := arg_curve_str a\<rparr>)"
  by (simp add: options_def set_option_def)

lemma parse_print_flags:
  "parse_opts ((if arg_canonical_id_set a then [''--canonical-id'', arg_canonical_id a] else []) @
      (if arg_json a then [''--json''] else []) @ (if arg_discover_mode a then [''--discover''] else [])) b =
    b\<lparr>arg_canonical_id := (if arg_canonical_id_set a then arg_canonical_id a else arg_canonical_id b),
      arg_canonical_id_set := arg_canonical_id_set a \<or> arg_canonical_id_set b,
      arg_json := arg_json a \<or> arg_json b, arg_discover_mode := arg_discover_mode a \<or> arg_discover_mode b\<rparr>"
  by (simp add: set_option_def)

lemma parse_print_args:
  assumes "arg_canonical_id_set a \<or> arg_canonical_id a = []"
  shows "parse_args (prog # arg_command a # print_args a) = a"
  using assms unfolding parse_args_def print_args_def list.case parse_print_options parse_print_flags
  by (cases a) (auto simp: Args_init_def)

section \<open>Properties\<close>

text \<open>
  Options printed as arguments are read back: parsing the command line of any options gives
  the same options, whatever their values look like, also values that begin with hyphens. The one
  condition is that a canonical identifier that was not given on the command line is empty.
\<close>

theorem args_roundtrip:
  assumes "arg_canonical_id_set a \<or> arg_canonical_id a = []"
  shows "parse_args (prog # arg_command a # print_args a) = a"
  by (rule parse_print_args [OF assms])

text \<open>An instance: an enrolment whose key name looks like an option.\<close>

theorem args_roundtrip_witness:
  "let a = Args_init\<lparr>arg_command := ''enrol'', arg_canonical_key := ''--json'', arg_canonical_id := ''s'',
     arg_canonical_id_set := True\<rparr>
   in (arg_canonical_id_set a \<or> arg_canonical_id a = []) \<and> parse_args (''cli'' # ''enrol'' # print_args a) = a"
  using args_roundtrip [of "Args_init\<lparr>arg_command := ''enrol'', arg_canonical_key := ''--json'',
    arg_canonical_id := ''s'', arg_canonical_id_set := True\<rparr>" "''cli''"]
  by (simp add: Let_def)

end
