(* ===== verification/CliIo.thy ===== *)
theory CliIo
  imports CliArgs
begin

text \<open>
  \<open>src/cli/io.cpp\<close>: the summary of a certificate the command line tool shows. Hexadecimal text is in
  \<open>Hex\<close>, reading and writing files in \<open>Platform\<close>.
\<close>

record CertSummary =
  cs_hid8 :: hid8
  cs_issuer_hid8 :: hid8
  cs_self_signed :: bool
  cs_psids :: "int list"
  cs_size_bytes :: nat
  cs_valid :: bool

definition CertSummary_init :: CertSummary where
  "CertSummary_init =
     \<lparr>cs_hid8 = replicate 8 0, cs_issuer_hid8 = replicate 8 0, cs_self_signed = False, cs_psids = [],
      cs_size_bytes = 0, cs_valid = False\<rparr>"

definition summary_issuer :: "IssuerIdentifier option \<Rightarrow> CertSummary \<Rightarrow> CertSummary" where
  "summary_issuer issuer s =
     (case issuer of
        Some (Issuer_self h) \<Rightarrow> s\<lparr>cs_self_signed := True\<rparr>
      | Some (Issuer_sha256AndDigest d) \<Rightarrow> if length d = 8 then s\<lparr>cs_issuer_hid8 := d\<rparr> else s
      | _ \<Rightarrow> s)"

definition summary_psids :: "ToBeSignedCertificate option \<Rightarrow> int list" where
  "summary_psids tbs =
     (case tbs of None \<Rightarrow> [] | Some t \<Rightarrow>
        (case tbs_appPermissions t of None \<Rightarrow> [] | Some perms \<Rightarrow> map (\<lambda>p. sint (ps_psid p)) perms))"

definition parse_cert_summary :: "env \<Rightarrow> bytes \<Rightarrow> CertSummary" where
  "parse_cert_summary E coer =
     (let s = CertSummary_init\<lparr>cs_size_bytes := length coer\<rparr> in
      (case oer_decode_canonical (asn_DEF_CertificateBase E) coer of None \<Rightarrow> s
       | Some cert \<Rightarrow>
           let s1 = s\<lparr>cs_valid := True, cs_hid8 := compute_hid8 E coer\<rparr>;
               s2 = summary_issuer (cb_issuer cert) s1 in
           s2\<lparr>cs_psids := summary_psids (cb_toBeSigned cert)\<rparr>))"

definition print_cert_summary :: "CertSummary \<Rightarrow> bool \<Rightarrow> string" where
  "print_cert_summary s json =
     (if json then
        ''{'' @ jkey ''hid8'' @ jstr (hid8_hex (cs_hid8 s)) @ '','' @
        jkey ''issuer_hid8'' @ jstr (hid8_hex (cs_issuer_hid8 s)) @ '','' @
        jkey ''self_signed'' @ jbool (cs_self_signed s) @ '','' @
        jkey ''size'' @ dec_nat (cs_size_bytes s) @ '','' @
        jkey ''psids'' @ ''['' @ separated '','' (map dec_int (cs_psids s)) @ '']}'' @ nl
      else
        ''  HID8:           '' @ hid8_hex (cs_hid8 s) @ nl @
        (if cs_self_signed s then ''  Issuer:         self-signed'' @ nl
         else ''  Issuer HID8:    '' @ hid8_hex (cs_issuer_hid8 s) @ nl) @
        ''  Size:           '' @ dec_nat (cs_size_bytes s) @ '' bytes'' @ nl @
        (if cs_psids s \<noteq> [] then ''  PSIDs:          '' @ separated '', '' (map dec_int (cs_psids s)) @ nl
         else []))"

section \<open>Facts\<close>

text \<open>
  The summary agrees with the parser of the library where both look at the same member: a summary
  is valid exactly when the certificate decodes, and its identifier is the library's.
\<close>

lemma summary_valid_iff:
  "cs_valid (parse_cert_summary E coer) \<longleftrightarrow> oer_decode_canonical (asn_DEF_CertificateBase E) coer \<noteq> None"
  by (auto simp: parse_cert_summary_def CertSummary_init_def summary_issuer_def Let_def
      split: option.splits IssuerIdentifier.splits)

lemma summary_hid8:
  "cs_hid8 (parse_cert_summary E coer) =
     (if cs_valid (parse_cert_summary E coer) then compute_hid8 E coer else replicate 8 0)"
  by (auto simp: parse_cert_summary_def CertSummary_init_def summary_issuer_def Let_def
      split: option.splits IssuerIdentifier.splits)

text \<open>The reader of identifiers here and the one of the library differ only in how failure shows.\<close>

lemma hex_to_hid8_parse:
  "hex_to_hid8 s = (case parse_hid8_hex s of None \<Rightarrow> replicate 8 0 | Some h \<Rightarrow> h)"
  by (simp add: hex_to_hid8_def parse_hid8_hex_def)

lemma hex_to_hid8_hid8_hex: "length h = 8 \<Longrightarrow> hex_to_hid8 (hid8_hex h) = h"
  by (simp add: hex_to_hid8_parse hid8_hex_def bytes_to_hex_def size_simps upper.parse_hid8_of_hex)

end
