(* ===== verification/CliCommands.thy ===== *)
theory CliCommands
  imports CliIo
begin

text \<open>
  \<open>src/cli/commands.cpp\<close> and \<open>src/main.cpp\<close>: the commands of the client. A command maps the process to
  its exit status and the process after it; what it prints and writes is in the process. Everything
  outside is the record \<open>machine\<close>: the operating system, the libraries, the answers to the requests of
  the command in their order, the clock, the random seed and the version text of the build. The
  diagnostics of the discovery, which go to the error stream through the log callback, are left out;
  the command's own messages are in.
\<close>

record machine =
  mc_os :: os
  mc_env :: env
  mc_pem :: pem
  mc_nets :: "nat \<Rightarrow> network"
  mc_clock :: clock_readings
  mc_time :: int
  mc_seed :: nat
  mc_version :: string

type_synonym command = "machine \<Rightarrow> Args \<Rightarrow> process \<Rightarrow> exit_status \<times> process"

section \<open>Paths\<close>

definition trust_dir :: "Args \<Rightarrow> string" where
  "trust_dir a = path_join (arg_keystore_dir a) ''trust''"

definition canonical_id_path :: "Args \<Rightarrow> string" where
  "canonical_id_path a = path_join (arg_keystore_dir a) ''canonical.id''"

text \<open>Where the credential is read from.\<close>

definition ec_cert_path :: "Args \<Rightarrow> string" where
  "ec_cert_path a = (if arg_ec_cert a = [] then arg_keystore_dir a @ ''/ec.cert'' else arg_ec_cert a)"

text \<open>The directory of the client that only discovers.\<close>

definition discover_dir :: "Args \<Rightarrow> string" where
  "discover_dir a = (if arg_keystore_dir a = [] then ''/tmp/pki-discover'' else arg_keystore_dir a)"

section \<open>Requests\<close>

definition cli_get :: "machine \<Rightarrow> nat \<Rightarrow> string \<Rightarrow> HttpResponse Result" where
  "cli_get m k url = http_get (HttpClientConfig_of 15) (mc_nets m k) url"

text \<open>The body of an answer with status 200, otherwise the message the command prints.\<close>

definition fetched :: "string \<Rightarrow> HttpResponse Result \<Rightarrow> string + bytes" where
  "fetched what resp =
     (case resp of
        Inl e \<Rightarrow> Inl (what @ '': '' @ Error_to_string e)
      | Inr r \<Rightarrow> if status_code r \<noteq> 200 then Inl (what @ '' (HTTP '' @ dec_int (status_code r) @ '')'')
                else Inr (resp_body r))"

text \<open>The same where the transport error is printed as status 0.\<close>

definition fetched_status :: "string \<Rightarrow> HttpResponse Result \<Rightarrow> string + bytes" where
  "fetched_status what resp =
     (case resp of
        Inl e \<Rightarrow> Inl (what @ '' (HTTP 0)'')
      | Inr r \<Rightarrow> if status_code r \<noteq> 200 then Inl (what @ '' (HTTP '' @ dec_int (status_code r) @ '')'')
                else Inr (resp_body r))"

section \<open>healthz, version, info\<close>

definition show_endpoint :: "string \<Rightarrow> command" where
  "show_endpoint endpoint m a w =
     (if arg_pki_url a = [] then fail ''--pki-url required'' w
      else case cli_get m 0 (arg_pki_url a @ endpoint) of
        Inl e \<Rightarrow> fail (''request failed: '' @ Error_to_string e) w
      | Inr r \<Rightarrow>
          if status_code r \<noteq> 200 then fail (''HTTP '' @ dec_int (status_code r)) w
          else (Exit 0, cout (body_to_string (resp_body r) @ nl) w))"

definition cmd_healthz :: command where
  "cmd_healthz = show_endpoint ''/healthz''"

definition cmd_version :: command where
  "cmd_version = show_endpoint ''/version''"

definition cmd_info :: command where
  "cmd_info m a w =
     (Exit 0, cout
        (if arg_json a then
           ''{'' @ jkey ''name'' @ jstr ''v2x-pki-client'' @ '','' @ jkey ''version'' @ jstr (mc_version m) @ '','' @
           jkey ''crypto'' @ jstr ''NIST P-256 / brainpoolP256r1 / brainpoolP384r1'' @ '','' @
           jkey ''encoding'' @ jstr ''COER (TS 103 097 v1.3.1)'' @ '','' @
           jkey ''specs'' @ jstr ''TS 102 941 v2.2.1 / IEEE 1609.2'' @ '','' @
           jkey ''keystore'' @ jstr ''plaintext (DEV)'' @ ''}'' @ nl
         else
           ''v2x-pki-client v'' @ mc_version m @ nl @
           ''  Crypto:    NIST P-256 / brainpoolP256r1 / brainpoolP384r1'' @ nl @
           ''  Encoding:  COER (TS 103 097 v1.3.1)'' @ nl @
           ''  Specs:     TS 102 941 v2.2.1 / IEEE 1609.2'' @ nl @
           ''  KeyStore:  plaintext (DEV ONLY)'' @ nl) w)"

section \<open>fetch-trust\<close>

record FetchItem =
  fi_endpoint :: string
  fi_filename :: string
  fi_label :: string

definition fetch_items :: "FetchItem list" where
  "fetch_items =
     [\<lparr>fi_endpoint = ''/trustanchor'', fi_filename = ''rca.cert'', fi_label = ''RCA''\<rparr>,
      \<lparr>fi_endpoint = ''/tlm'', fi_filename = ''tlm.cert'', fi_label = ''TLM''\<rparr>,
      \<lparr>fi_endpoint = ''/ma'', fi_filename = ''ma.cert'', fi_label = ''MA''\<rparr>]"

text \<open>One turn of the loop: whether it counts as an error, and the process after it.\<close>

definition fetch_item :: "machine \<Rightarrow> Args \<Rightarrow> nat \<Rightarrow> FetchItem \<Rightarrow> process \<Rightarrow> bool \<times> process" where
  "fetch_item m a k item w =
     (case fetched (''failed to fetch '' @ fi_label item) (cli_get m k (arg_pki_url a @ fi_endpoint item)) of
        Inl msg \<Rightarrow> (True, snd (fail msg w))
      | Inr body \<Rightarrow>
          let path = path_join (arg_out_dir a) (fi_filename item); (ok, w1) = save (mc_os m) path body w in
          if \<not> ok then (True, snd (fail (''failed to write '' @ path) w1))
          else let summary = parse_cert_summary (mc_env m) body in
            (False, cout
              (if arg_json a then
                 ''{'' @ jkey ''cert'' @ jstr (fi_label item) @ '','' @ jkey ''file'' @ jstr path @ '','' @
                 jkey ''size'' @ dec_nat (length body) @ '','' @
                 jkey ''hid8'' @ jstr (hid8_hex (cs_hid8 summary)) @ ''}'' @ nl
               else
                 fi_label item @ '' -> '' @ path @ '' ('' @ dec_nat (length body) @ ''B)'' @ nl @
                 (if cs_valid summary then print_cert_summary summary False else [])) w1))"

primrec fetch_loop :: "machine \<Rightarrow> Args \<Rightarrow> nat \<Rightarrow> FetchItem list \<Rightarrow> process \<Rightarrow> nat \<times> process" where
  "fetch_loop m a k [] w = (0, w)"
| "fetch_loop m a k (item # items) w =
     (let (err, w1) = fetch_item m a k item w; (errors, w2) = fetch_loop m a (Suc k) items w1 in
      (if err then Suc errors else errors, w2))"

definition cmd_fetch_trust :: command where
  "cmd_fetch_trust m a w =
     (if arg_pki_url a = [] \<or> arg_out_dir a = [] then fail ''--pki-url and --out-dir required'' w
      else case create_directories (mc_os m) (arg_out_dir a) w of None \<Rightarrow> (Uncaught, w)
      | Some w1 \<Rightarrow>
          let (errors, w2) = fetch_loop m a 0 fetch_items w1 in
          (Exit (if errors > 0 then 1 else 0), w2))"

section \<open>lookup-cert, verify-hid8\<close>

definition cmd_lookup_cert :: command where
  "cmd_lookup_cert m a w =
     (if arg_pki_url a = [] \<or> arg_hid8 a = [] then fail ''--pki-url and --hid8 required'' w
      else case fetched ''lookup failed'' (cli_get m 0 (arg_pki_url a @ ''/lookup/'' @ arg_hid8 a)) of
        Inl msg \<Rightarrow> fail msg w
      | Inr body \<Rightarrow>
          let summary = parse_cert_summary (mc_env m) body in
          if \<not> cs_valid summary then fail ''failed to parse cert COER'' w
          else (Exit 0, cout
            (if arg_json a then print_cert_summary summary True
             else ''Cert lookup '' @ arg_hid8 a @ '':'' @ nl @ print_cert_summary summary False) w))"

definition cmd_verify_hid8 :: command where
  "cmd_verify_hid8 m a w =
     (if arg_cert_path a = [] then fail ''--cert-path required'' w
      else (case read_file (mc_os m) (ps_fs w) (arg_cert_path a) of None \<Rightarrow> (Uncaught, w) | Some data \<Rightarrow>
      if data = [] then fail (''cannot read '' @ arg_cert_path a) w
      else let h = compute_hid8 (mc_env m) data; summary = parse_cert_summary (mc_env m) data in
        (Exit 0, cout
          (if arg_json a then
             ''{'' @ jkey ''file'' @ jstr (arg_cert_path a) @ '','' @ jkey ''size'' @ dec_nat (length data) @ '','' @
             jkey ''hid8'' @ jstr (hid8_hex h) @ '','' @ jkey ''valid'' @ jbool (cs_valid summary) @ ''}'' @ nl
           else
             ''File:   '' @ arg_cert_path a @ '' ('' @ dec_nat (length data) @ ''B)'' @ nl @
             ''HID8:   '' @ hid8_hex h @ nl @
             ''Valid:  '' @ (if cs_valid summary then ''yes'' else ''no'') @ nl @
             (if cs_valid summary then print_cert_summary summary False else [])) w)))"

section \<open>fetch-ectl\<close>

text \<open>
  The TLM certificate of \<open>--tlm-cert\<close>: none asked for, the message of a failure, or the certificate;
  \<open>None\<close> when reading the file throws.
\<close>

definition load_tlm :: "machine \<Rightarrow> Args \<Rightarrow> process \<Rightarrow> (string + CertInfo option) option" where
  "load_tlm m a w =
     (if arg_tlm_cert a = [] then Some (Inr None)
      else (case read_file (mc_os m) (ps_fs w) (arg_tlm_cert a) of None \<Rightarrow> None | Some tlm_bytes \<Rightarrow>
      if tlm_bytes = [] then Some (Inl (''cannot read TLM cert from '' @ arg_tlm_cert a))
      else let tlm = from_coer (mc_env m) tlm_bytes in
      if sb_empty (ci_cert_bytes tlm) then Some (Inl (''TLM cert at '' @ arg_tlm_cert a @ '' does not decode''))
      else Some (Inr (Some tlm))))"

definition ectl_report :: "Args \<Rightarrow> bytes \<Rightarrow> bool \<Rightarrow> TrustTopology \<Rightarrow> string" where
  "ectl_report a body verified topo =
     (if arg_json a then
        ''{'' @ jkey ''size'' @ dec_nat (length body) @ '','' @ jkey ''verified'' @ jbool verified @ '','' @
        jkey ''rcas'' @ dec_nat (length (topo_rcas topo)) @ '','' @ jkey ''eas'' @ dec_nat (length (topo_eas topo)) @
        '','' @ jkey ''aas'' @ dec_nat (length (topo_aas topo)) @ '','' @
        jkey ''dcs'' @ dec_nat (length (topo_dcs topo)) @ '','' @
        jkey ''next_update'' @ dec_nat (unat (topo_ectl_next_update topo)) @ '','' @
        jkey ''expired'' @ jbool (topo_ectl_expired topo) @ ''}'' @ nl
      else
        ''ECTL ('' @ dec_nat (length body) @ ''B)'' @ nl @
        ''  Verified:  '' @ (if verified then ''yes'' else ''no (no --tlm-cert given)'') @ nl @
        ''  RCAs:      '' @ dec_nat (length (topo_rcas topo)) @ nl @
        ''  EAs:       '' @ dec_nat (length (topo_eas topo)) @ nl @
        ''  AAs:       '' @ dec_nat (length (topo_aas topo)) @ nl @
        ''  DCs:       '' @ dec_nat (length (topo_dcs topo)) @ nl @
        ''  Expired:   '' @ (if topo_ectl_expired topo then ''yes'' else ''no'') @ nl)"

definition cmd_fetch_ectl :: command where
  "cmd_fetch_ectl m a w =
     (if arg_pki_url a = [] then fail ''--pki-url required'' w
      else let ectl_url = (if arg_tlm_hid8 a = [] then arg_pki_url a @ ''/getectl''
                           else arg_pki_url a @ ''/getectl/'' @ arg_tlm_hid8 a) in
      (case fetched ''failed to fetch ECTL'' (cli_get m 0 ectl_url) of Inl msg \<Rightarrow> fail msg w | Inr body \<Rightarrow>
      (case load_tlm m a w of None \<Rightarrow> (Uncaught, w) | Some loaded \<Rightarrow>
      (case loaded of Inl msg \<Rightarrow> fail msg w | Inr tlm \<Rightarrow>
        let (pk, cert) = (case tlm of None \<Rightarrow> ([], [])
              | Some ci \<Rightarrow> (to_vector (ci_public_key ci), to_vector (ci_cert_bytes ci))) in
        (case decode_ectl (mc_env m) (mc_time m) body pk cert of
           Inl e \<Rightarrow> fail (''failed to decode ECTL: '' @ Error_to_string e) w
         | Inr topo \<Rightarrow>
             let verified = (tlm \<noteq> None \<and> topo_ectl_signature_verified topo) in
             if tlm \<noteq> None \<and> \<not> verified
             then fail (''ECTL signature verification failed against '' @ arg_tlm_cert a) w
             else let w1 = cout (ectl_report a body verified topo) w in
               if arg_out a \<noteq> [] then
                 let w2 = snd (save (mc_os m) (arg_out a) body w1) in
                 (Exit 0, if \<not> arg_json a then cout (''  Saved:     '' @ arg_out a @ nl) w2 else w2)
               else (Exit 0, w1))))))"

section \<open>discover\<close>

definition discover_json :: "TrustTopology \<Rightarrow> string" where
  "discover_json topo =
     ''{'' @ jkey ''status'' @ jstr ''ok'' @
     (case topo_tlm topo of None \<Rightarrow> []
      | Some tlm \<Rightarrow> '','' @ jkey ''tlm_hid8'' @ jstr (hid8_hex_upper (ci_hashed_id_8 tlm))) @
     '','' @ jkey ''rcas'' @ ''['' @
     separated '','' (map (\<lambda>rca. jstr (hid8_hex_upper (ci_hashed_id_8 rca))) (topo_rcas topo)) @
     ''],'' @ jkey ''eas'' @ ''['' @
     separated '','' (map (\<lambda>ea. ''{'' @ jkey ''hid8'' @ jstr (hid8_hex_upper (ci_hashed_id_8 (eai_cert ea))) @
       '','' @ jkey ''its_access_point'' @ jstr (eai_its_access_point ea) @
       '','' @ jkey ''aa_access_point'' @ jstr (eai_aa_access_point ea) @ ''}'') (topo_eas topo)) @
     ''],'' @ jkey ''aas'' @ ''['' @
     separated '','' (map (\<lambda>aa. ''{'' @ jkey ''hid8'' @ jstr (hid8_hex_upper (ci_hashed_id_8 (aai_cert aa))) @
       '','' @ jkey ''access_point'' @ jstr (aai_access_point aa) @ ''}'') (topo_aas topo)) @
     ''],'' @ jkey ''dcs'' @ ''['' @
     separated '','' (map (\<lambda>dc. ''{'' @ jkey ''url'' @ jstr (dci_url dc) @ ''}'') (topo_dcs topo)) @
     ''],'' @ jkey ''ectl_sig_verified'' @ jbool (topo_ectl_signature_verified topo) @
     '','' @ jkey ''ctl_sig_verified'' @ jbool (topo_ctl_signature_verified topo) @ ''}'' @ nl"

definition yes_no :: "bool \<Rightarrow> string" where
  "yes_no b = (if b then ''yes'' else ''no'')"

definition discover_text :: "TrustTopology \<Rightarrow> string" where
  "discover_text topo =
     ''=== CCMS Trust Topology ==='' @ nl @ nl @
     (case topo_tlm topo of None \<Rightarrow> []
      | Some tlm \<Rightarrow> ''TLM:'' @ nl @ ''  HID8:    '' @ hid8_hex_upper (ci_hashed_id_8 tlm) @ nl @
          ''  Self:    '' @ yes_no (ci_is_self_signed tlm) @ nl @
          ''  PubKey:  '' @ (if sb_size (ci_public_key tlm) = kP256PublicKeyLen then ''ok (65B)'' else ''missing'') @
          nl @ nl) @
     ''RCA(s): '' @ dec_nat (length (topo_rcas topo)) @ nl @
     concat (map (\<lambda>rca. ''  HID8:    '' @ hid8_hex_upper (ci_hashed_id_8 rca) @ nl @
       ''  Self:    '' @ yes_no (ci_is_self_signed rca) @ nl) (topo_rcas topo)) @ nl @
     ''EA(s): '' @ dec_nat (length (topo_eas topo)) @ nl @
     concat (map (\<lambda>ea. ''  HID8:             '' @ hid8_hex_upper (ci_hashed_id_8 (eai_cert ea)) @ nl @
       ''  its_access_point: '' @ eai_its_access_point ea @ nl @
       ''  aa_access_point:  '' @ eai_aa_access_point ea @ nl) (topo_eas topo)) @ nl @
     ''AA(s): '' @ dec_nat (length (topo_aas topo)) @ nl @
     concat (map (\<lambda>aa. ''  HID8:         '' @ hid8_hex_upper (ci_hashed_id_8 (aai_cert aa)) @ nl @
       ''  access_point: '' @ aai_access_point aa @ nl) (topo_aas topo)) @ nl @
     ''DC(s): '' @ dec_nat (length (topo_dcs topo)) @ nl @
     concat (map (\<lambda>dc. ''  url:    '' @ dci_url dc @ nl @
       ''  serves: '' @ separated '', '' (map hid8_hex_upper (dci_serves dc)) @ nl) (topo_dcs topo)) @ nl @
     ''Signature verification:'' @ nl @
     ''  ECTL (TLM): '' @ (if topo_ectl_signature_verified topo then ''VERIFIED'' else ''not verified'') @ nl @
     ''  CTL  (RCA): '' @ (if topo_ctl_signature_verified topo then ''VERIFIED'' else ''not verified'') @ nl"

definition cmd_discover :: command where
  "cmd_discover m a w =
     (if arg_pki_url a = [] then fail ''--pki-url required'' w
      else let ks_dir = discover_dir a in
      (case create_directories (mc_os m) ks_dir w of None \<Rightarrow> (Uncaught, w) | Some w1 \<Rightarrow>
        let cfg = PkiClientConfig_init\<lparr>cfg_tlm_url := arg_pki_url a, cfg_tlm_hid8 := arg_tlm_hid8 a,
              cfg_keystore_dir := ks_dir, cfg_timeout := 15, cfg_verify_tls := True\<rparr> in
        (case PkiClient_new (mc_os m) (mc_env m) cfg (ps_fs w1) of None \<Rightarrow> (Uncaught, w1) | Some client \<Rightarrow>
          let w2 = w1\<lparr>ps_fs := pc_files client\<rparr> in
          (case fst (discover_trust (mc_env m) (mc_nets m) (mc_time m) client) of
             Inl e \<Rightarrow> fail (''trust discovery failed: '' @ Error_to_string e) w2
           | Inr topo \<Rightarrow>
               (Exit 0, cout (if arg_json a then discover_json topo else discover_text topo) w2)))))"

section \<open>How a command ends\<close>

text \<open>
  A command is refused with exit code 1 and an error message at the end of the error stream;
  ends by an exception; or ends well, as the command's own predicate says. Where an exception comes from
  is told on the files as they are when it is raised: a directory of the command cannot be made, the
  content of a file it reads cannot be read, or loading the trust directory throws.
\<close>

definition err_grows :: "process \<Rightarrow> process \<Rightarrow> bool" where
  "err_grows w w' \<longleftrightarrow> (\<exists>notes. ps_err w' = ps_err w @ notes)"

definition refused :: "process \<Rightarrow> exit_status \<times> process \<Rightarrow> bool" where
  "refused w res \<longleftrightarrow> fst res = Exit 1 \<and>
     (\<exists>notes msg. ps_err (snd res) = ps_err w @ notes @ ''error: '' @ msg @ nl)"

definition made_dirs :: "Args \<Rightarrow> string set" where
  "made_dirs a = {arg_out_dir a, arg_keystore_dir a, discover_dir a, trust_dir a}"

definition read_paths :: "Args \<Rightarrow> string set" where
  "read_paths a = {arg_cert_path a, arg_tlm_cert a, canonical_id_path a, ec_cert_path a}"

definition raises :: "machine \<Rightarrow> Args \<Rightarrow> file_system \<Rightarrow> bool" where
  "raises m a fs \<longleftrightarrow>
     (\<exists>dir \<in> made_dirs a. os_mkdirs (mc_os m) dir fs = None) \<or>
     (\<exists>path \<in> read_paths a. read_file (mc_os m) fs path = None) \<or>
     (\<exists>fs1. os_mkdirs (mc_os m) (arg_keystore_dir a) fs = Some fs1 \<and>
        load_from_directory (mc_env m) (os_list (mc_os m) fs1 (trust_dir a)) TrustChain_init = None)"

definition thrown :: "machine \<Rightarrow> Args \<Rightarrow> exit_status \<times> process \<Rightarrow> bool" where
  "thrown m a res \<longleftrightarrow> fst res = Uncaught \<and> raises m a (ps_fs (snd res))"

definition ends ::
  "machine \<Rightarrow> Args \<Rightarrow> process \<Rightarrow> (exit_status \<times> process \<Rightarrow> bool) \<Rightarrow> exit_status \<times> process \<Rightarrow> bool" where
  "ends m a w good res \<longleftrightarrow> refused w res \<or> thrown m a res \<or> good res"

lemma err_grows_simps [simp]:
  "err_grows w w" "err_grows w (w'\<lparr>ps_fs := fs\<rparr>) = err_grows w w'" "err_grows w (cout s w') = err_grows w w'"
  by (simp_all add: err_grows_def)

lemma err_grows_cerr [simp, intro]: "err_grows w w' \<Longrightarrow> err_grows w (cerr s w')"
  by (auto simp: err_grows_def)

lemma ends_good: "good res \<Longrightarrow> ends m a w good res"
  by (simp add: ends_def)

lemma refusedI: "ps_err w' = ps_err w @ ns @ ''error: '' @ msg @ nl \<Longrightarrow> refused w (Exit 1, w')"
  unfolding refused_def fst_conv snd_conv by blast

lemma ends_fail: "err_grows w w' \<Longrightarrow> ends m a w good (fail msg w')"
proof -
  assume "err_grows w w'"
  then obtain ns where "ps_err w' = ps_err w @ ns" by (auto simp: err_grows_def)
  then have "ps_err (snd (fail msg w')) = ps_err w @ ns @ ''error: '' @ msg @ nl" by (simp add: fail_def)
  then have "refused w (fail msg w')" unfolding refused_def by (intro conjI exI) simp_all
  then show ?thesis by (simp add: ends_def)
qed

lemma ends_if: "(b \<Longrightarrow> ends m a w good x) \<Longrightarrow> (\<not> b \<Longrightarrow> ends m a w good y) \<Longrightarrow> ends m a w good (if b then x else y)"
  by simp

lemma ends_sum:
  "err_grows w w' \<Longrightarrow> (\<And>y. r = Inr y \<Longrightarrow> ends m a w good (k y)) \<Longrightarrow>
   ends m a w good (case r of Inl e \<Rightarrow> fail (msg e) w' | Inr y \<Rightarrow> k y)"
  by (cases r) (auto intro: ends_fail)

lemma ends_option:
  "err_grows w w' \<Longrightarrow> (\<And>y. r = Some y \<Longrightarrow> ends m a w good (k y)) \<Longrightarrow>
   ends m a w good (case r of None \<Rightarrow> fail msg w' | Some y \<Rightarrow> k y)"
  by (cases r) (auto intro: ends_fail)

lemma ends_prod: "(\<And>x y. p = (x, y) \<Longrightarrow> ends m a w good (k x y)) \<Longrightarrow> ends m a w good (case p of (x, y) \<Rightarrow> k x y)"
  by (cases p) simp

lemma ends_uncaught: "raises m a (ps_fs w') \<Longrightarrow> ends m a w good (Uncaught, w')"
  by (simp add: ends_def thrown_def)

lemma raises_create: "create_directories (mc_os m) dir w = None \<Longrightarrow> dir \<in> made_dirs a \<Longrightarrow> raises m a (ps_fs w)"
  by (auto simp: create_directories_def raises_def split: option.splits)

lemma raises_read: "read_file (mc_os m) fs path = None \<Longrightarrow> path \<in> read_paths a \<Longrightarrow> raises m a fs"
  by (auto simp: raises_def)

lemma raises_new:
  "PkiClient_new (mc_os m) (mc_env m) cfg fs = None \<Longrightarrow> cfg_keystore_dir cfg \<in> made_dirs a \<Longrightarrow>
   cfg_trust_dir cfg = [] \<or> cfg_trust_dir cfg = trust_dir a \<and> cfg_keystore_dir cfg = arg_keystore_dir a \<Longrightarrow>
   raises m a fs"
  by (drule PkiClient_new_NoneD) (auto simp: raises_def)

lemma ends_read:
  assumes "path \<in> read_paths a" "\<And>d. read_file (mc_os m) (ps_fs w') path = Some d \<Longrightarrow> ends m a w good (k d)"
  shows "ends m a w good (case read_file (mc_os m) (ps_fs w') path of None \<Rightarrow> (Uncaught, w') | Some d \<Rightarrow> k d)"
  using assms by (cases "read_file (mc_os m) (ps_fs w') path") (auto intro: ends_uncaught raises_read)

lemma ends_create:
  assumes "dir \<in> made_dirs a" "err_grows w w'" "\<And>w1. err_grows w w1 \<Longrightarrow> ends m a w good (k w1)"
  shows "ends m a w good (case create_directories (mc_os m) dir w' of None \<Rightarrow> (Uncaught, w') | Some w1 \<Rightarrow> k w1)"
proof (cases "create_directories (mc_os m) dir w'")
  case None
  then show ?thesis using assms(1) by (auto intro: ends_uncaught raises_create)
next
  case (Some w1)
  then have "err_grows w w1" using assms(2) by (auto simp: create_directories_def split: option.splits)
  then show ?thesis using assms(3) Some by simp
qed

text \<open>
  The contract of a command: it ends in one of these ways, and ending well is exit code 0. What every
  caller may rely on follows: an exception only from the sources above, no exit code but 0 and 1, and
  something on the error stream with exit code 1.
\<close>

definition sound_exit :: "machine \<Rightarrow> Args \<Rightarrow> process \<Rightarrow> exit_status \<times> process \<Rightarrow> bool" where
  "sound_exit m a w res \<longleftrightarrow>
     (case fst res of
        Uncaught \<Rightarrow> raises m a (ps_fs (snd res))
      | Exit c \<Rightarrow> c = 0 \<or> c = 1 \<and> (\<exists>s. s \<noteq> [] \<and> ps_err (snd res) = ps_err w @ s))"

locale cli_command =
  fixes cmd :: command
    and good :: "machine \<Rightarrow> Args \<Rightarrow> process \<Rightarrow> exit_status \<times> process \<Rightarrow> bool"
  assumes cmd_ends: "ends m a w (good m a w) (cmd m a w)"
    and good_exit: "good m a w res \<Longrightarrow> fst res = Exit 0"
begin

lemma status: "sound_exit m a w (cmd m a w)"
proof -
  consider "refused w (cmd m a w)" | "thrown m a (cmd m a w)" | "good m a w (cmd m a w)"
    using cmd_ends [of m a w] by (auto simp: ends_def)
  then show ?thesis
  proof cases
    case 1
    then obtain ns msg where "fst (cmd m a w) = Exit 1" "ps_err (snd (cmd m a w)) = ps_err w @ ns @ ''error: '' @ msg @ nl"
      unfolding refused_def by blast
    then show ?thesis unfolding sound_exit_def by simp
  next
    case 2
    then show ?thesis unfolding sound_exit_def thrown_def by simp
  next
    case 3
    then show ?thesis using good_exit by (simp add: sound_exit_def)
  qed
qed

lemma zero_only_good: "fst (cmd m a w) = Exit 0 \<Longrightarrow> good m a w (cmd m a w)"
  using cmd_ends [of m a w] by (auto simp: ends_def refused_def thrown_def)

end

definition exits_0 :: "machine \<Rightarrow> Args \<Rightarrow> process \<Rightarrow> exit_status \<times> process \<Rightarrow> bool" where
  "exits_0 m a w res \<longleftrightarrow> fst res = Exit 0"

lemma exits_0_pair [simp]: "exits_0 m a w (Exit 0, w')"
  by (simp add: exits_0_def)

lemma show_endpoint_ends: "ends m a w (exits_0 m a w) (show_endpoint e m a w)"
  unfolding show_endpoint_def by (intro ends_if ends_fail ends_sum ends_good) simp_all

interpretation healthz: cli_command cmd_healthz exits_0
  by unfold_locales (simp add: cmd_healthz_def show_endpoint_ends, simp add: exits_0_def)

interpretation version: cli_command cmd_version exits_0
  by unfold_locales (simp add: cmd_version_def show_endpoint_ends, simp add: exits_0_def)

interpretation info: cli_command cmd_info exits_0
  by unfold_locales (simp add: cmd_info_def ends_good, simp add: exits_0_def)

interpretation lookup_cert: cli_command cmd_lookup_cert exits_0
proof unfold_locales
  show "ends m a w (exits_0 m a w) (cmd_lookup_cert m a w)" for m a w
    unfolding cmd_lookup_cert_def Let_def by (intro ends_if ends_fail ends_sum ends_good) simp_all
qed (simp add: exits_0_def)

interpretation verify_hid8: cli_command cmd_verify_hid8 exits_0
proof unfold_locales
  show "ends m a w (exits_0 m a w) (cmd_verify_hid8 m a w)" for m a w
    unfolding cmd_verify_hid8_def Let_def by (intro ends_if ends_read ends_fail ends_good) (simp_all add: read_paths_def)
qed (simp add: exits_0_def)

text \<open>Discovery: with exit code 0 the topology that was printed is the one the client discovered.\<close>

definition topology_shown :: "machine \<Rightarrow> Args \<Rightarrow> process \<Rightarrow> exit_status \<times> process \<Rightarrow> bool" where
  "topology_shown m a w res \<longleftrightarrow> fst res = Exit 0 \<and>
     (\<exists>cfg fs client topo. PkiClient_new (mc_os m) (mc_env m) cfg fs = Some client \<and>
        cfg_tlm_url cfg = arg_pki_url a \<and> cfg_tlm_hid8 cfg = arg_tlm_hid8 a \<and>
        fst (discover_trust (mc_env m) (mc_nets m) (mc_time m) client) = Inr topo \<and>
        ps_out (snd res) = ps_out w @ (if arg_json a then discover_json topo else discover_text topo))"

lemma create_directories_out: "create_directories X dir w = Some w' \<Longrightarrow> ps_out w' = ps_out w \<and> ps_err w' = ps_err w"
  by (auto simp: create_directories_def split: option.splits)

interpretation discover: cli_command cmd_discover topology_shown
proof unfold_locales
  fix m :: machine and a :: Args and w :: process
  define ks where "ks = discover_dir a"
  define cfg where "cfg = PkiClientConfig_init\<lparr>cfg_tlm_url := arg_pki_url a, cfg_tlm_hid8 := arg_tlm_hid8 a,
              cfg_keystore_dir := ks, cfg_timeout := 15, cfg_verify_tls := True\<rparr>"
  have k: "ks \<in> made_dirs a" by (simp add: ks_def made_dirs_def)
  have ck: "cfg_keystore_dir cfg = ks" "cfg_trust_dir cfg = []"
    by (simp add: cfg_def) (simp add: cfg_def PkiClientConfig_init_def)
  have e: "cmd_discover m a w =
      (if arg_pki_url a = [] then fail ''--pki-url required'' w
       else case create_directories (mc_os m) ks w of None \<Rightarrow> (Uncaught, w) | Some w1 \<Rightarrow>
        (case PkiClient_new (mc_os m) (mc_env m) cfg (ps_fs w1) of None \<Rightarrow> (Uncaught, w1) | Some client \<Rightarrow>
          (case fst (discover_trust (mc_env m) (mc_nets m) (mc_time m) client) of
             Inl e \<Rightarrow> fail (''trust discovery failed: '' @ Error_to_string e) (w1\<lparr>ps_fs := pc_files client\<rparr>)
           | Inr topo \<Rightarrow> (Exit 0, cout (if arg_json a then discover_json topo else discover_text topo)
               (w1\<lparr>ps_fs := pc_files client\<rparr>)))))"
    unfolding cmd_discover_def Let_def ks_def [symmetric] cfg_def [symmetric] ..
  show "ends m a w (topology_shown m a w) (cmd_discover m a w)"
  proof (cases "create_directories (mc_os m) ks w")
    case None
    then have "ends m a w (topology_shown m a w) (Uncaught, w)"
      by (intro ends_uncaught raises_create [OF _ k])
    then show ?thesis using None by (simp add: e ends_fail)
  next
    case d: (Some w1)
    note o = create_directories_out [OF d]
    have g: "err_grows w w1" using o by (simp add: err_grows_def)
    show ?thesis
    proof (cases "PkiClient_new (mc_os m) (mc_env m) cfg (ps_fs w1)")
      case None
      then have "ends m a w (topology_shown m a w) (Uncaught, w1)"
        by (intro ends_uncaught raises_new [where cfg = cfg]) (simp_all add: ck k)
      then show ?thesis using None d by (simp add: e ends_fail)
    next
      case c: (Some client)
      let ?w2 = "w1\<lparr>ps_fs := pc_files client\<rparr>"
      have cf: "cfg_tlm_url cfg = arg_pki_url a" "cfg_tlm_hid8 cfg = arg_tlm_hid8 a" by (simp_all add: cfg_def)
      show ?thesis
      proof (cases "fst (discover_trust (mc_env m) (mc_nets m) (mc_time m) client)")
        case (Inl x)
        then show ?thesis using c d g by (simp add: e ends_fail)
      next
        case (Inr topo)
        let ?res = "(Exit 0, cout (if arg_json a then discover_json topo else discover_text topo) ?w2)"
        have "topology_shown m a w ?res"
          unfolding topology_shown_def using c cf Inr o by fastforce
        then show ?thesis using c d Inr by (simp add: e ends_fail ends_good)
      qed
    qed
  qed
qed (simp add: topology_shown_def)

text \<open>\<open>fetch-trust\<close> goes on after an error, but then its exit code is 1 and the last message is an error.\<close>

lemma fetch_item_err:
  assumes "fetch_item m a k item w = (err, w')"
  shows "if err then \<exists>msg. ps_err w' = ps_err w @ ''error: '' @ msg @ nl else ps_err w' = ps_err w"
proof (cases "fetched (''failed to fetch '' @ fi_label item) (cli_get m k (arg_pki_url a @ fi_endpoint item))")
  case (Inl msg)
  then show ?thesis using assms by (auto simp: fetch_item_def fail_def)
next
  case (Inr body)
  let ?path = "path_join (arg_out_dir a) (fi_filename item)"
  obtain ok w1 where sv: "save (mc_os m) ?path body w = (ok, w1)" by fastforce
  then have "ps_err w1 = ps_err w" using save_simps(2) [of "mc_os m" ?path body w] by simp
  then show ?thesis using assms Inr sv by (auto simp: fetch_item_def fail_def Let_def split: if_splits)
qed

lemma fetch_loop_err:
  "fetch_loop m a k items w = (n, w') \<Longrightarrow>
   (if n > 0 then \<exists>ns msg. ps_err w' = ps_err w @ ns @ ''error: '' @ msg @ nl else ps_err w' = ps_err w)"
proof (induction items arbitrary: k w n w')
  case Nil
  then show ?case by simp
next
  case (Cons item items)
  obtain err w1 where i: "fetch_item m a k item w = (err, w1)" by fastforce
  obtain n2 w2 where l: "fetch_loop m a (Suc k) items w1 = (n2, w2)" by fastforce
  have n: "n = (if err then Suc n2 else n2)" "w' = w2" using Cons.prems i l by simp_all
  note fi = fetch_item_err [OF i] and fl = Cons.IH [OF l]
  show ?case
  proof (cases "n2 > 0")
    case True
    then obtain ns msg where "ps_err w2 = ps_err w1 @ ns @ ''error: '' @ msg @ nl" using fl by auto
    moreover from fi obtain ns' where "ps_err w1 = ps_err w @ ns'" by (cases err) auto
    ultimately have "ps_err w' = ps_err w @ (ns' @ ns) @ ''error: '' @ msg @ nl" using n by simp
    then show ?thesis using n True by (metis less_Suc_eq_0_disj gr0_conv_Suc)
  next
    case False
    then have e: "ps_err w2 = ps_err w1" using fl by simp
    show ?thesis
    proof (cases err)
      case True
      with fi obtain msg where "ps_err w1 = ps_err w @ ''error: '' @ msg @ nl" by auto
      then have "ps_err w' = ps_err w @ [] @ ''error: '' @ msg @ nl" using e n by simp
      then show ?thesis using n True by (metis zero_less_Suc)
    next
      case False
      then show ?thesis using fi e n \<open>\<not> n2 > 0\<close> by simp
    qed
  qed
qed

interpretation fetch_trust: cli_command cmd_fetch_trust exits_0
proof unfold_locales
  fix m :: machine and a :: Args and w :: process
  have l: "ends m a w (exits_0 m a w) (case fetch_loop m a 0 fetch_items w1 of (errors, w2) \<Rightarrow>
      (Exit (if errors > 0 then 1 else 0), w2))" if g: "err_grows w w1" for w1
  proof -
    obtain n w2 where f: "fetch_loop m a 0 fetch_items w1 = (n, w2)" by fastforce
    obtain ns where ns: "ps_err w1 = ps_err w @ ns" using g by (auto simp: err_grows_def)
    show ?thesis
    proof (cases "n > 0")
      case True
      with fetch_loop_err [OF f] obtain ns2 msg where
        "ps_err w2 = ps_err w @ (ns @ ns2) @ ''error: '' @ msg @ nl" using ns by auto
      then have "refused w (Exit 1, w2)" by (rule refusedI)
      then show ?thesis using f True by (simp add: ends_def)
    next
      case False
      then show ?thesis using f by (simp add: ends_good)
    qed
  qed
  show "ends m a w (exits_0 m a w) (cmd_fetch_trust m a w)"
    unfolding cmd_fetch_trust_def Let_def by (intro ends_if ends_fail ends_create l) (simp_all add: made_dirs_def)
qed (simp add: exits_0_def)

section \<open>fetch-ectl reports what it verified\<close>

text \<open>
  A list that was shown: it came with status 200 and decoded; with \<open>--tlm-cert\<close> the TLM certificate was
  read and parsed and the signature verified under it, and only then does the report say so.
\<close>

definition ectl_shown :: "machine \<Rightarrow> Args \<Rightarrow> process \<Rightarrow> exit_status \<times> process \<Rightarrow> bool" where
  "ectl_shown m a w res \<longleftrightarrow> fst res = Exit 0 \<and>
     (\<exists>body topo pk cert rest.
        decode_ectl (mc_env m) (mc_time m) body pk cert = Inr topo \<and>
        ps_out (snd res) = ps_out w @ ectl_report a body (arg_tlm_cert a \<noteq> []) topo @ rest \<and>
        (if arg_tlm_cert a = [] then pk = [] \<and> cert = []
         else \<exists>data tlm. read_file (mc_os m) (ps_fs w) (arg_tlm_cert a) = Some data \<and>
           tlm = from_coer (mc_env m) data \<and> \<not> sb_empty (ci_cert_bytes tlm) \<and> pk = to_vector (ci_public_key tlm) \<and>
           cert = to_vector (ci_cert_bytes tlm) \<and> topo_ectl_signature_verified topo))"

lemma load_tlm_cases:
  "load_tlm m a w = Some (Inr tlm) \<Longrightarrow>
   (if arg_tlm_cert a = [] then tlm = None
    else \<exists>data ci. read_file (mc_os m) (ps_fs w) (arg_tlm_cert a) = Some data \<and>
      tlm = Some ci \<and> ci = from_coer (mc_env m) data \<and>
      \<not> sb_empty (ci_cert_bytes ci))"
  by (auto simp: load_tlm_def Let_def split: if_splits option.splits)

lemma ectl_shownI:
  assumes t: "load_tlm m a w = Some (Inr tlm)"
    and pc: "(pk, cert) = (case tlm of None \<Rightarrow> ([], []) | Some ci \<Rightarrow> (to_vector (ci_public_key ci), to_vector (ci_cert_bytes ci)))"
    and d: "decode_ectl (mc_env m) (mc_time m) body pk cert = Inr topo"
    and v: "\<not> (tlm \<noteq> None \<and> \<not> (tlm \<noteq> None \<and> topo_ectl_signature_verified topo))"
    and o: "\<exists>rest. ps_out w' = ps_out w @ ectl_report a body (tlm \<noteq> None \<and> topo_ectl_signature_verified topo) topo @ rest"
  shows "ectl_shown m a w (Exit 0, w')"
proof (cases "arg_tlm_cert a = []")
  case True
  with load_tlm_cases [OF t] have "tlm = None" by simp
  with True d o pc show ?thesis unfolding ectl_shown_def by auto
next
  case False
  with load_tlm_cases [OF t] obtain data ci where ci: "tlm = Some ci"
    "read_file (mc_os m) (ps_fs w) (arg_tlm_cert a) = Some data" "ci = from_coer (mc_env m) data" "\<not> sb_empty (ci_cert_bytes ci)" by auto
  with False d o pc v show ?thesis unfolding ectl_shown_def by auto
qed

lemma ends_load_tlm:
  assumes "\<And>r. load_tlm m a w = Some r \<Longrightarrow> ends m a w good (k r)"
  shows "ends m a w good (case load_tlm m a w of None \<Rightarrow> (Uncaught, w) | Some r \<Rightarrow> k r)"
proof (cases "load_tlm m a w")
  case None
  then have "read_file (mc_os m) (ps_fs w) (arg_tlm_cert a) = None"
    by (auto simp: load_tlm_def Let_def split: if_splits option.splits)
  then show ?thesis using None by (simp add: ends_uncaught raises_read read_paths_def)
qed (use assms in simp)

lemma cmd_fetch_ectl_ends: "ends m a w (ectl_shown m a w) (cmd_fetch_ectl m a w)"
  unfolding cmd_fetch_ectl_def Let_def
  by (intro ends_if ends_fail ends_load_tlm ends_sum ends_prod ends_good err_grows_simps;
      (rule ectl_shownI, simp, erule sym, assumption, assumption, simp)?)

interpretation fetch_ectl: cli_command cmd_fetch_ectl ectl_shown
  by unfold_locales (rule cmd_fetch_ectl_ends, simp add: ectl_shown_def)

section \<open>Properties\<close>

text \<open>
  (C28) \<open>fetch-ectl\<close> is refused with exit code 1 and an error message, or it exits with 0 and has printed
  the report of a decoded list, or an exception ends it for which the files give the reason (\<open>raises\<close>: here
  that the content of the \<open>--tlm-cert\<close> file cannot be read). With \<open>--tlm-cert\<close> it exits with 0 only
  if the signature verified under the certificate in that file, and the report claims verification
  exactly in this case.
\<close>

theorem fetch_ectl_outcome:
  "ends m a w (ectl_shown m a w) (cmd_fetch_ectl m a w)"
  by (rule fetch_ectl.cmd_ends)

end
