(* ===== verification/CliEnrol.thy ===== *)
theory CliEnrol
  imports CliCommands
begin

text \<open>
  \<open>cmd_enrol\<close> and \<open>cmd_request_at\<close> of \<open>src/cli/commands.cpp\<close>: the two commands that obtain a credential.
  Each fetches the certificates of the authorities into the trust directory, builds a client on it,
  prepares the keys and hands over to the client. The requests of a command are numbered in the
  order in which it makes them.
\<close>

section \<open>Common parts\<close>

definition say :: "Args \<Rightarrow> string \<Rightarrow> process \<Rightarrow> process" where
  "say a s w = (if arg_json a then w else cout s w)"

definition put :: "machine \<Rightarrow> string \<Rightarrow> bytes \<Rightarrow> process \<Rightarrow> process" where
  "put m path data w = snd (save (mc_os m) path data w)"

definition default_key_id :: "Args \<Rightarrow> string" where
  "default_key_id a = (if arg_canonical_key a = [] then ''canonical'' else arg_canonical_key a)"

text \<open>The report at the end of either command.\<close>

definition report_cert :: "Args \<Rightarrow> string \<Rightarrow> string \<Rightarrow> string \<Rightarrow> hid8 \<Rightarrow> string" where
  "report_cert a key title path h =
     (if arg_json a then
        ''{'' @ jkey ''status'' @ jstr ''ok'' @ '','' @ jkey key @ jstr path @ '','' @
        jkey ''hid8'' @ jstr (hid8_hex h) @ ''}'' @ nl
      else title @ '' cert received -> '' @ path @ nl @ ''  HID8: '' @ hid8_hex h @ nl)"

text \<open>
  The constructor of the client, which leaves the file system with the key store's directory; an
  exception of it is shown on the files it started from.
\<close>

definition with_client ::
  "machine \<Rightarrow> PkiClientConfig \<Rightarrow> process \<Rightarrow> (PkiClient \<Rightarrow> process \<Rightarrow> exit_status \<times> process) \<Rightarrow>
   exit_status \<times> process" where
  "with_client m cfg w k =
     (case PkiClient_new (mc_os m) (mc_env m) cfg (ps_fs w) of
        None \<Rightarrow> (Uncaught, w)
      | Some client \<Rightarrow> k client (w\<lparr>ps_fs := pc_files client\<rparr>))"

text \<open>The client works on the files as they are when it is called.\<close>

definition on_files :: "process \<Rightarrow> PkiClient \<Rightarrow> PkiClient" where
  "on_files w client = client\<lparr>pc_files := ps_fs w\<rparr>"

section \<open>enrol\<close>

definition enrol_config :: "Args \<Rightarrow> PkiClientConfig" where
  "enrol_config a =
     PkiClientConfig_init\<lparr>
       cfg_ea_url := (if arg_ea_url a = [] then arg_pki_url a @ ''/ec-request'' else arg_ea_url a),
       cfg_tlm_url := arg_pki_url a, cfg_trust_dir := trust_dir a, cfg_keystore_dir := arg_keystore_dir a,
       cfg_timeout := 15, cfg_verify_tls := True\<rparr>"

text \<open>The canonical key: loaded, or generated on the curve of \<open>--curve\<close> and stored.\<close>

definition enrol_key :: "machine \<Rightarrow> Args \<Rightarrow> KeyHandle \<Rightarrow> process \<Rightarrow> KeyPair option \<times> process" where
  "enrol_key m a handle w =
     (let curve = parse_curve (arg_curve_str a); key_id = default_key_id a in
      (case load_keypair (mc_env m) (mc_pem m) (arg_keystore_dir a) (ps_fs w) handle of
         Some kp \<Rightarrow> (Some kp, say a (''Canonical key loaded: '' @ key_id @ nl) w)
       | None \<Rightarrow>
      (case generate_keypair (mc_env m) (mc_seed m) curve of
         None \<Rightarrow> (None, w)
       | Some kp \<Rightarrow>
           let fs = snd (store_keypair (mc_env m) (mc_pem m) (arg_keystore_dir a) (ps_fs w) handle kp) in
           (Some kp, say a (''Canonical key generated: '' @ key_id @ '' ('' @ Curve_to_string curve @ '')'' @ nl)
                       (w\<lparr>ps_fs := fs\<rparr>)))))"

definition enrol_record :: "machine \<Rightarrow> Args \<Rightarrow> KeyPair \<Rightarrow> bytes \<Rightarrow> string \<Rightarrow> EcRecord" where
  "enrol_record m a kp ea_body canonical_id =
     \<lparr>ecr_canonical_public_key = public_key kp, ecr_ea_hashed_id_8 = compute_hid8 (mc_env m) ea_body,
      ecr_requested_psids = [kPsidScr], ecr_validity_period_days = 30,
      ecr_curve = parse_curve (arg_curve_str a), ecr_its_id = canonical_id\<rparr>"

definition enrol_canonical_id :: "Args \<Rightarrow> string" where
  "enrol_canonical_id a = (if arg_canonical_id_set a then arg_canonical_id a else ''v2xpki-its-s'')"

text \<open>From the key on: the canonical identifier, the request and the credential.\<close>

definition enrol_request ::
  "machine \<Rightarrow> Args \<Rightarrow> PkiClient \<Rightarrow> bytes \<Rightarrow> KeyHandle \<Rightarrow> KeyPair \<Rightarrow> process \<Rightarrow> exit_status \<times> process" where
  "enrol_request m a client ea_body handle kp w =
     (let w1 = say a (''EA HID8: '' @ hid8_hex (compute_hid8 (mc_env m) ea_body) @ nl) w;
          canonical_id = enrol_canonical_id a in
      if canonical_id = [] \<or> length canonical_id > 64 then fail ''canonical-id must be 1-64 bytes'' w1
      else
        let w2 = put m (canonical_id_path a) (string_bytes canonical_id) w1;
            w3 = say a (''Sending EC request to '' @ cfg_ea_url (pc_config client) @ '' (canonical-id: '' @
                   canonical_id @ '')...'' @ nl) w2 in
        (case fst (request_enrolment_credential (mc_env m) (mc_pem m) (mc_nets m 2) (mc_seed m + 1) (mc_clock m)
                (on_files w3 client) handle (enrol_record m a kp ea_body canonical_id)) of
           Inl e \<Rightarrow> fail (''enrolment request failed: '' @ Error_to_string e) w3
         | Inr cert \<Rightarrow>
             let ec_path = arg_keystore_dir a @ ''/ec.cert''; data = to_vector (ci_cert_bytes cert) in
             (Exit 0, cout (report_cert a ''ec_cert'' ''EC'' ec_path (compute_hid8 (mc_env m) data))
                        (put m ec_path data w3))))"

definition enrol_with ::
  "machine \<Rightarrow> Args \<Rightarrow> bytes \<Rightarrow> PkiClient \<Rightarrow> process \<Rightarrow> exit_status \<times> process" where
  "enrol_with m a ea_body client w =
     (case KeyHandle_from (default_key_id a) of
        None \<Rightarrow> fail ''--canonical-key must be 1-64 chars of [A-Za-z0-9_-]'' w
      | Some handle \<Rightarrow>
          let (key, w1) = enrol_key m a handle w in
          (case key of None \<Rightarrow> fail ''keygen failed'' w1
           | Some kp \<Rightarrow> enrol_request m a client ea_body handle kp w1))"

definition cmd_enrol :: command where
  "cmd_enrol m a w =
     (if arg_pki_url a = [] \<or> arg_keystore_dir a = [] then fail ''--pki-url and --keystore-dir required'' w
      else case create_directories (mc_os m) (arg_keystore_dir a) w of None \<Rightarrow> (Uncaught, w) | Some w1 \<Rightarrow>
      (case create_directories (mc_os m) (trust_dir a) w1 of None \<Rightarrow> (Uncaught, w1) | Some w2 \<Rightarrow>
      (case fetched ''failed to fetch EA cert'' (cli_get m 0 (arg_pki_url a @ ''/cert/ea'')) of
         Inl msg \<Rightarrow> fail msg w2
       | Inr ea_body \<Rightarrow>
           let w3 = say a (''EA cert fetched ('' @ dec_nat (length ea_body) @ ''B)'' @ nl)
                      (put m (trust_dir a @ ''/ea.cert'') ea_body w2) in
      (case fetched_status ''failed to fetch trust anchor'' (cli_get m 1 (arg_pki_url a @ ''/trustanchor'')) of
         Inl msg \<Rightarrow> fail msg w3
       | Inr rca_body \<Rightarrow>
           let w4 = say a (''RCA cert fetched ('' @ dec_nat (length rca_body) @ ''B)'' @ nl)
                      (put m (trust_dir a @ ''/rca.cert'') rca_body w3) in
           with_client m (enrol_config a) w4 (enrol_with m a ea_body)))))"

section \<open>request-at\<close>

definition at_config :: "Args \<Rightarrow> PkiClientConfig" where
  "at_config a =
     PkiClientConfig_init\<lparr>
       cfg_aa_url := (if arg_aa_url a = [] then arg_pki_url a @ ''/at-request'' else arg_aa_url a),
       cfg_tlm_url := arg_pki_url a, cfg_trust_dir := trust_dir a, cfg_keystore_dir := arg_keystore_dir a,
       cfg_timeout := 15, cfg_verify_tls := True\<rparr>"

text \<open>
  The canonical identifier: the option, else the file of an earlier enrolment, else the default. The
  file is read as \<open>read_file\<close> reads, so that this throws (\<open>None\<close>) when it does.
\<close>

definition at_canonical_id :: "machine \<Rightarrow> Args \<Rightarrow> process \<Rightarrow> string option" where
  "at_canonical_id m a w =
     map_option (\<lambda>cid. if cid = [] then ''v2xpki-its-s'' else cid)
       (if arg_canonical_id_set a then Some (arg_canonical_id a)
        else map_option (map (\<lambda>b. char_of (unat b))) (read_file (mc_os m) (ps_fs w) (canonical_id_path a)))"

text \<open>Where the ticket is written to.\<close>

definition at_out_dir :: "Args \<Rightarrow> string" where
  "at_out_dir a = (if arg_out_dir a = [] then arg_keystore_dir a else arg_out_dir a)"

definition at_cert_path :: "Args \<Rightarrow> string" where
  "at_cert_path a = at_out_dir a @ ''/at.cert''"

definition at_ec_info :: "machine \<Rightarrow> bytes \<Rightarrow> StaticBytes \<Rightarrow> KeyPair \<Rightarrow> CertInfo" where
  "at_ec_info m ec_cert_bytes ec_cert_sb kp =
     (CertInfo_init (uninit (mc_env m) 8))\<lparr>ci_cert_bytes := ec_cert_sb,
       ci_curve := ci_curve (from_coer (mc_env m) ec_cert_bytes),
       ci_hashed_id_8 := compute_hid8 (mc_env m) ec_cert_bytes, ci_public_key := public_key kp\<rparr>"

definition at_record :: "machine \<Rightarrow> KeyPair \<Rightarrow> bytes \<Rightarrow> bytes \<Rightarrow> Curve \<Rightarrow> AtRecord" where
  "at_record m at_kp aa_body ea_body curve =
     \<lparr>atr_at_public_key = public_key at_kp, atr_aa_hashed_id_8 = compute_hid8 (mc_env m) aa_body,
      atr_ea_hashed_id_8 = compute_hid8 (mc_env m) ea_body, atr_requested_psids = [36],
      atr_validity_period_hours = 24, atr_curve = curve\<rparr>"

text \<open>The ticket's key, which replaces the one of an earlier call, and the request.\<close>

definition at_request ::
  "machine \<Rightarrow> Args \<Rightarrow> PkiClient \<Rightarrow> KeyHandle \<Rightarrow> CertInfo \<Rightarrow> bytes \<Rightarrow> bytes \<Rightarrow> process \<Rightarrow> exit_status \<times> process" where
  "at_request m a client handle ec_ci aa_body ea_body w =
     (let curve = ci_curve ec_ci;
          w1 = (if arg_curve_str a \<noteq> [] \<and> parse_curve (arg_curve_str a) \<noteq> curve
                then cerr (''warning: --curve overridden by EC cert curve ('' @ Curve_to_string curve @ '')'' @ nl) w
                else w) in
      (case generate_keypair (mc_env m) (mc_seed m) curve of None \<Rightarrow> fail ''AT keygen failed'' w1 | Some at_kp \<Rightarrow>
      (case KeyHandle_from (default_key_id a @ ''-at'') of
         None \<Rightarrow> fail ''--canonical-key too long to derive an AT key handle'' w1
       | Some at_handle \<Rightarrow>
           let fs = snd (store_keypair (mc_env m) (mc_pem m) (arg_keystore_dir a) (ps_fs w1) at_handle at_kp);
               w2 = say a (''Sending AT request to '' @ cfg_aa_url (pc_config client) @ ''...'' @ nl) (w1\<lparr>ps_fs := fs\<rparr>) in
      (case fst (request_authorization_ticket (mc_env m) (mc_pem m) (mc_nets m 3) (mc_seed m + 1) (mc_clock m)
              (on_files w2 client) handle ec_ci at_handle (at_record m at_kp aa_body ea_body curve)) of
         Inl e \<Rightarrow> fail (''AT request failed: '' @ Error_to_string e) w2
       | Inr cert \<Rightarrow>
           let data = to_vector (ci_cert_bytes cert) in
           (Exit 0, cout (report_cert a ''at_cert'' ''AT'' (at_cert_path a) (compute_hid8 (mc_env m) data))
                      (put m (at_cert_path a) data w2))))))"

text \<open>With the client built: the enrolment key and credential, then the answer for the EA certificate.\<close>

definition at_with ::
  "machine \<Rightarrow> Args \<Rightarrow> bytes \<Rightarrow> bytes \<Rightarrow> HttpResponse Result \<Rightarrow> PkiClient \<Rightarrow> process \<Rightarrow> exit_status \<times> process" where
  "at_with m a aa_body ec_cert_bytes ea_resp client w =
     (case KeyHandle_from (default_key_id a) of
        None \<Rightarrow> fail ''--canonical-key must be 1-64 chars of [A-Za-z0-9_-]'' w
      | Some handle \<Rightarrow>
     (case load_keypair (mc_env m) (mc_pem m) (arg_keystore_dir a) (ps_fs w) handle of
        None \<Rightarrow> fail (''cannot load EC key '' @ [CHR 0x27] @ default_key_id a @ [CHR 0x27]) w
      | Some kp \<Rightarrow>
     (case sb_from kMaxCoerMessageLen ec_cert_bytes of
        None \<Rightarrow> fail (''EC cert too large ('' @ dec_nat (length ec_cert_bytes) @ ''B)'') w
      | Some ec_cert_sb \<Rightarrow>
          let ec_ci = at_ec_info m ec_cert_bytes ec_cert_sb kp;
              w1 = say a (''EC cert loaded: '' @ ec_cert_path a @ '' ('' @
                     dec_nat (length ec_cert_bytes) @ ''B, HID8 '' @ hid8_hex (ci_hashed_id_8 ec_ci) @ '')'' @ nl) w in
          (case fetched_status ''failed to fetch EA cert'' ea_resp of
             Inl msg \<Rightarrow> fail msg w1
           | Inr ea_body \<Rightarrow> at_request m a client handle ec_ci aa_body ea_body w1))))"

definition cmd_request_at :: command where
  "cmd_request_at m a w =
     (if arg_pki_url a = [] \<or> arg_keystore_dir a = [] then fail ''--pki-url and --keystore-dir required'' w
      else let ea_resp = cli_get m 1 (arg_pki_url a @ ''/cert/ea'') in
      (case fetched ''failed to fetch AA cert'' (cli_get m 0 (arg_pki_url a @ ''/cert/aa'')) of
         Inl msg \<Rightarrow> fail msg w
       | Inr aa_body \<Rightarrow>
      (case create_directories (mc_os m) (trust_dir a) w of None \<Rightarrow> (Uncaught, w) | Some w1 \<Rightarrow>
        let w2 = put m (trust_dir a @ ''/aa.cert'') aa_body w1 in
      (case fetched_status ''failed to fetch trust anchor'' (cli_get m 2 (arg_pki_url a @ ''/trustanchor'')) of
         Inl msg \<Rightarrow> fail msg w2
       | Inr rca_body \<Rightarrow>
           let w3 = put m (trust_dir a @ ''/rca.cert'') rca_body w2;
               w4 = (case fetched_status [] ea_resp of Inl msg \<Rightarrow> w3
                     | Inr ea_body \<Rightarrow> put m (trust_dir a @ ''/ea.cert'') ea_body w3) in
      (case at_canonical_id m a w4 of None \<Rightarrow> (Uncaught, w4) | Some canonical_id \<Rightarrow>
           if length canonical_id > 64 then fail ''canonical-id must be 1-64 bytes'' w4
           else
             let w5 = say a (''Canonical ID: '' @ canonical_id @ nl) w4 in
      (case read_file (mc_os m) (ps_fs w5) (ec_cert_path a) of None \<Rightarrow> (Uncaught, w5) | Some ec_cert_bytes \<Rightarrow>
             if ec_cert_bytes = [] then fail (''cannot read EC cert from '' @ ec_cert_path a) w5
             else with_client m (at_config a) w5 (at_with m a aa_body ec_cert_bytes ea_resp)))))))"

section \<open>Facts\<close>

lemma say_simps [simp]:
  "ps_fs (say a s w) = ps_fs w" "ps_err (say a s w) = ps_err w"
  by (simp_all add: say_def)

lemma put_simps [simp]: "ps_out (put m path data w) = ps_out w" "ps_err (put m path data w) = ps_err w"
  by (simp_all add: put_def)

lemma err_grows_write [simp]:
  "err_grows w (say a s w') = err_grows w w'" "err_grows w (put m p d w') = err_grows w w'"
  by (simp_all add: err_grows_def)

lemma configs_simps [simp]:
  "cfg_keystore_dir (enrol_config a) = arg_keystore_dir a" "cfg_trust_dir (enrol_config a) = trust_dir a"
  "cfg_keystore_dir (at_config a) = arg_keystore_dir a" "cfg_trust_dir (at_config a) = trust_dir a"
  by (simp_all add: enrol_config_def at_config_def)

lemma raises_config:
  assumes "cfg = enrol_config a \<or> cfg = at_config a" "PkiClient_new (mc_os m) (mc_env m) cfg fs = None"
  shows "raises m a fs"
  by (rule raises_new [OF assms(2)]) (use assms(1) in \<open>auto simp: made_dirs_def\<close>)

lemma ends_with_client:
  assumes "cfg = enrol_config a \<or> cfg = at_config a" "err_grows w w'"
    "\<And>client w1. PkiClient_new (mc_os m) (mc_env m) cfg (ps_fs w') = Some client \<Longrightarrow> err_grows w w1 \<Longrightarrow>
       ends m a w good (k client w1)"
  shows "ends m a w good (with_client m cfg w' k)"
proof (cases "PkiClient_new (mc_os m) (mc_env m) cfg (ps_fs w')")
  case None
  then show ?thesis using assms(1) by (simp add: with_client_def ends_uncaught raises_config)
next
  case (Some client)
  then show ?thesis using assms by (simp add: with_client_def)
qed

lemmas ends_rules = ends_if ends_sum ends_option ends_create ends_with_client ends_fail

lemma load_keypair_files:
  "fs_files fs (pem_path dir h) = fs_files fs' (pem_path dir h) \<Longrightarrow>
   load_keypair E P dir fs h = load_keypair E P dir fs' h"
  by (simp add: load_keypair_def)

text \<open>
  An enrolment: with the key of the handle and the identifier in its file, the request to the
  authority that was fetched succeeded, and the chain is valid for the client's trust store.
\<close>

definition enrolled :: "machine \<Rightarrow> Args \<Rightarrow> exit_status \<times> process \<Rightarrow> bool" where
  "enrolled m a res \<longleftrightarrow>
     (\<exists>fs client handle ea_body kp cert w0 w1.
        PkiClient_new (mc_os m) (mc_env m) (enrol_config a) fs = Some client \<and>
        fetched ''failed to fetch EA cert'' (cli_get m 0 (arg_pki_url a @ ''/cert/ea'')) = Inr ea_body \<and>
        KeyHandle_from (default_key_id a) = Some handle \<and> fst (enrol_key m a handle w0) = Some kp \<and>
        length (enrol_canonical_id a) \<in> {1..64} \<and>
        ps_fs w1 = ps_fs (put m (canonical_id_path a) (string_bytes (enrol_canonical_id a)) (snd (enrol_key m a handle w0))) \<and>
        fst (request_enrolment_credential (mc_env m) (mc_pem m) (mc_nets m 2) (mc_seed m + 1) (mc_clock m)
          (on_files w1 client) handle (enrol_record m a kp ea_body (enrol_canonical_id a))) = Inr cert \<and>
        validate_chain (mc_env m) (pc_trust client) (Some RevocationStore_init) cert
          (current_tai_seconds (ck_validate (mc_clock m))) \<and>
        res = (Exit 0, cout (report_cert a ''ec_cert'' ''EC'' (arg_keystore_dir a @ ''/ec.cert'')
            (compute_hid8 (mc_env m) (to_vector (ci_cert_bytes cert))))
          (put m (arg_keystore_dir a @ ''/ec.cert'') (to_vector (ci_cert_bytes cert)) w1)))"

lemma on_files_simps [simp]:
  "pc_trust (on_files w c) = pc_trust c" "pc_revocation (on_files w c) = pc_revocation c"
  "pc_config (on_files w c) = pc_config c" "pc_files (on_files w c) = ps_fs w"
  by (simp_all add: on_files_def)

lemma enrolment_validated:
  assumes "PkiClient_new X E cfg fs = Some client"
    "fst (request_enrolment_credential E P net s ck (on_files w client) h rec) = Inr cert"
  shows "validate_chain E (pc_trust client) (Some RevocationStore_init) cert (current_tai_seconds (ck_validate ck))"
proof -
  have "request_enrolment_credential E P net s ck (on_files w client) h rec =
      (Inr cert, snd (request_enrolment_credential E P net s ck (on_files w client) h rec))"
    using assms(2) by (simp add: prod_eq_iff)
  then show ?thesis using PkiClient_new_SomeD [OF assms(1)] by (simp add: enrolment_Ok_iff)
qed

lemma authorization_validated:
  assumes "PkiClient_new X E cfg fs = Some client"
    "fst (request_authorization_ticket E P net s ck (on_files w client) h ec ah rec) = Inr cert"
  shows "validate_chain E (pc_trust client) (Some RevocationStore_init) cert (current_tai_seconds (ck_validate ck))"
proof -
  have "request_authorization_ticket E P net s ck (on_files w client) h ec ah rec =
      (Inr cert, snd (request_authorization_ticket E P net s ck (on_files w client) h ec ah rec))"
    using assms(2) by (simp add: prod_eq_iff)
  then show ?thesis using PkiClient_new_SomeD [OF assms(1)] by (simp add: authorization_Ok_iff)
qed

lemma enrol_key_err: "err_grows w w' \<Longrightarrow> err_grows w (snd (enrol_key m a h w'))"
  by (simp add: enrol_key_def Let_def split: option.split)

lemma put_fs_cong: "ps_fs w = ps_fs w' \<Longrightarrow> ps_fs (put m p d w) = ps_fs (put m p d w')"
  by (simp add: put_def save_def split: prod.split)

lemma enrolledI:
  assumes c: "PkiClient_new (mc_os m) (mc_env m) (enrol_config a) fs = Some client"
    and "fetched ''failed to fetch EA cert'' (cli_get m 0 (arg_pki_url a @ ''/cert/ea'')) = Inr ea_body"
    and "KeyHandle_from (default_key_id a) = Some handle" and k: "enrol_key m a handle w0 = (Some kp, w)"
    and "length (enrol_canonical_id a) \<in> {1..64}"
    and r: "fst (request_enrolment_credential (mc_env m) (mc_pem m) (mc_nets m 2) (mc_seed m + 1) (mc_clock m)
          (on_files w1 client) handle (enrol_record m a kp ea_body (enrol_canonical_id a))) = Inr cert"
    and "ps_fs w1 = ps_fs (put m (canonical_id_path a) (string_bytes (enrol_canonical_id a)) w)"
  shows "enrolled m a (Exit 0, cout (report_cert a ''ec_cert'' ''EC'' (arg_keystore_dir a @ ''/ec.cert'')
            (compute_hid8 (mc_env m) (to_vector (ci_cert_bytes cert))))
          (put m (arg_keystore_dir a @ ''/ec.cert'') (to_vector (ci_cert_bytes cert)) w1))"
proof -
  have "fst (enrol_key m a handle w0) = Some kp" "snd (enrol_key m a handle w0) = w" using k by simp_all
  then show ?thesis unfolding enrolled_def using assms enrolment_validated [OF c r] by blast
qed

lemma enrol_request_ends:
  assumes c: "PkiClient_new (mc_os m) (mc_env m) (enrol_config a) fs = Some client"
    and ea: "fetched ''failed to fetch EA cert'' (cli_get m 0 (arg_pki_url a @ ''/cert/ea'')) = Inr ea_body"
    and h: "KeyHandle_from (default_key_id a) = Some handle" and k: "enrol_key m a handle w1 = (Some kp, w)"
    and e: "err_grows w0 w"
  shows "ends m a w0 (enrolled m a) (enrol_request m a client ea_body handle kp w)"
  unfolding enrol_request_def Let_def
proof (intro ends_if ends_fail ends_sum ends_good, goal_cases)
  case (3 cert)
  then have "length (enrol_canonical_id a) \<in> {1..64}" by (auto simp: Suc_le_eq)
  then show ?case by (rule enrolledI [OF c ea h k _ 3(2)]) (simp only: say_simps, rule put_fs_cong, rule say_simps)
qed (use e in simp_all)

lemma enrol_with_ends:
  assumes "PkiClient_new (mc_os m) (mc_env m) (enrol_config a) fs = Some client" "err_grows w0 w"
    "fetched ''failed to fetch EA cert'' (cli_get m 0 (arg_pki_url a @ ''/cert/ea'')) = Inr ea"
  shows "ends m a w0 (enrolled m a) (enrol_with m a ea client w)"
  unfolding enrol_with_def case_prod_unfold Let_def
proof (intro ends_option, goal_cases)
  case (3 handle kp)
  then have "enrol_key m a handle w = (Some kp, snd (enrol_key m a handle w))" by (simp add: prod_eq_iff)
  with 3 show ?case using assms enrol_key_err by (intro enrol_request_ends) simp_all
qed (use assms enrol_key_err in simp_all)

lemma cmd_enrol_ends: "ends m a w (enrolled m a) (cmd_enrol m a w)"
  unfolding cmd_enrol_def Let_def
  by (intro ends_rules) (simp_all add: enrol_with_ends made_dirs_def)

interpretation enrol: cli_command cmd_enrol "\<lambda>m a w. enrolled m a"
  by unfold_locales (rule cmd_enrol_ends, auto simp: enrolled_def)

text \<open>
  The files of a command up to its request: directories are made and the fetched certificates are
  written to the trust directory, nothing else.
\<close>

definition trust_files :: "Args \<Rightarrow> string set" where
  "trust_files a = (\<lambda>name. trust_dir a @ name) ` {''/aa.cert'', ''/ea.cert'', ''/rca.cert''}"

inductive staged :: "machine \<Rightarrow> Args \<Rightarrow> file_system \<Rightarrow> file_system \<Rightarrow> bool" for m a fs0 where
  none: "staged m a fs0 fs0"
| made: "staged m a fs0 fs \<Longrightarrow> os_mkdirs (mc_os m) dir fs = Some fs' \<Longrightarrow> staged m a fs0 fs'"
| wrote: "staged m a fs0 fs \<Longrightarrow> path \<in> trust_files a \<Longrightarrow>
    staged m a fs0 (snd (write_file (mc_os m) path data fs))"

lemma staged_put:
  assumes "staged m a fs0 (ps_fs w)" "name \<in> {''/aa.cert'', ''/ea.cert'', ''/rca.cert''}"
  shows "staged m a fs0 (ps_fs (put m (trust_dir a @ name) data w))"
  using staged.wrote [OF assms(1), of "trust_dir a @ name" data] assms(2)
  by (auto simp: put_def save_def trust_files_def split: prod.split)

lemma staged_create:
  "create_directories (mc_os m) dir w = Some w1 \<Longrightarrow> staged m a fs0 (ps_fs w) \<Longrightarrow> staged m a fs0 (ps_fs w1)"
  by (auto simp: create_directories_def intro: staged.made split: option.splits)

lemma staged_client:
  "PkiClient_new (mc_os m) E cfg (ps_fs w) = Some c \<Longrightarrow> staged m a fs0 (ps_fs w) \<Longrightarrow> staged m a fs0 (pc_files c)"
  by (blast dest: PkiClient_new_files intro: staged.made)

text \<open>
  A ticket: the credential was read from its file and the key of the handle loaded, the ticket's
  key was generated on the curve of the credential and stored, and with them the request succeeded.
\<close>

definition authorized :: "machine \<Rightarrow> Args \<Rightarrow> process \<Rightarrow> exit_status \<times> process \<Rightarrow> bool" where
  "authorized m a w res \<longleftrightarrow>
     (\<exists>fs1 fs2 client handle at_handle kp at_kp ec_bytes ec_sb ec_ci rec cert w1.
        staged m a (ps_fs w) fs1 \<and> staged m a (ps_fs w) fs2 \<and>
        read_file (mc_os m) fs1 (ec_cert_path a) = Some ec_bytes \<and> ec_bytes \<noteq> [] \<and>
        PkiClient_new (mc_os m) (mc_env m) (at_config a) fs1 = Some client \<and>
        KeyHandle_from (default_key_id a) = Some handle \<and>
        load_keypair (mc_env m) (mc_pem m) (arg_keystore_dir a) fs2 handle = Some kp \<and>
        sb_from kMaxCoerMessageLen ec_bytes = Some ec_sb \<and> ec_ci = at_ec_info m ec_bytes ec_sb kp \<and>
        KeyHandle_from (default_key_id a @ ''-at'') = Some at_handle \<and>
        generate_keypair (mc_env m) (mc_seed m) (ci_curve ec_ci) = Some at_kp \<and>
        ps_fs w1 = snd (store_keypair (mc_env m) (mc_pem m) (arg_keystore_dir a) fs2 at_handle at_kp) \<and>
        atr_at_public_key rec = public_key at_kp \<and>
        fst (request_authorization_ticket (mc_env m) (mc_pem m) (mc_nets m 3) (mc_seed m + 1) (mc_clock m)
          (on_files w1 client) handle ec_ci at_handle rec) = Inr cert \<and>
        validate_chain (mc_env m) (pc_trust client) (Some RevocationStore_init) cert
          (current_tai_seconds (ck_validate (mc_clock m))) \<and>
        res = (Exit 0, cout (report_cert a ''at_cert'' ''AT'' (at_cert_path a)
            (compute_hid8 (mc_env m) (to_vector (ci_cert_bytes cert))))
          (put m (at_cert_path a) (to_vector (ci_cert_bytes cert)) w1)))"

lemma at_request_ends:
  assumes c: "PkiClient_new (mc_os m) (mc_env m) (at_config a) fs1 = Some client"
    and f: "staged m a (ps_fs w0) fs1" "staged m a (ps_fs w0) (ps_fs w)"
    and ec: "read_file (mc_os m) fs1 (ec_cert_path a) = Some ec_bytes" "ec_bytes \<noteq> []" "sb_from kMaxCoerMessageLen ec_bytes = Some ec_sb"
    and h: "KeyHandle_from (default_key_id a) = Some handle"
      "load_keypair (mc_env m) (mc_pem m) (arg_keystore_dir a) (ps_fs w) handle = Some kp"
    and e: "err_grows w0 w"
  shows "ends m a w0 (authorized m a w0) (at_request m a client handle (at_ec_info m ec_bytes ec_sb kp) aa ea w)"
  unfolding at_request_def Let_def
proof (intro ends_option ends_sum ends_good, goal_cases)
  case (4 at_kp at_handle cert)
  note v = authorization_validated [OF c 4(3)]
  show ?case
    unfolding authorized_def
    by (rule exI [of _ fs1], rule exI [of _ "ps_fs w"], rule exI [of _ client], rule exI [of _ handle],
        rule exI [of _ at_handle], rule exI [of _ kp], rule exI [of _ at_kp], rule exI [of _ ec_bytes],
        rule exI [of _ ec_sb], intro exI conjI; (rule f c h ec 4 v refl | simp add: ec at_record_def)?)
qed (simp_all add: e)

lemma at_with_ends:
  assumes "PkiClient_new (mc_os m) (mc_env m) (at_config a) fs1 = Some client" "err_grows w0 w"
    "staged m a (ps_fs w0) fs1" "staged m a (ps_fs w0) (ps_fs w)"
    "read_file (mc_os m) fs1 (ec_cert_path a) = Some ec_bytes" "ec_bytes \<noteq> []"
  shows "ends m a w0 (authorized m a w0) (at_with m a aa ec_bytes ea_resp client w)"
  unfolding at_with_def Let_def
  by (intro ends_option ends_sum at_request_ends [OF assms(1)]) (use assms in simp_all)

lemma err_grows_case [simp]:
  "err_grows w w' \<Longrightarrow> err_grows w (case r of Inl e \<Rightarrow> w' | Inr y \<Rightarrow> put m p y w')"
  by (cases r) simp_all

lemma staged_case:
  "staged m a fs0 (ps_fs w) \<Longrightarrow>
   staged m a fs0 (ps_fs (case r of Inl e \<Rightarrow> w | Inr y \<Rightarrow> put m (trust_dir a @ ''/ea.cert'') y w))"
  by (cases r) (simp_all add: staged_put)

lemma ends_create_staged:
  assumes "dir \<in> made_dirs a" "err_grows w w'" "staged m a (ps_fs w) (ps_fs w')"
    "\<And>w1. err_grows w w1 \<Longrightarrow> staged m a (ps_fs w) (ps_fs w1) \<Longrightarrow> ends m a w good (k w1)"
  shows "ends m a w good (case create_directories (mc_os m) dir w' of None \<Rightarrow> (Uncaught, w') | Some w1 \<Rightarrow> k w1)"
proof (cases "create_directories (mc_os m) dir w'")
  case None
  then show ?thesis using assms(1) by (auto intro: ends_uncaught raises_create)
next
  case (Some w1)
  then have "err_grows w w1" using assms(2) by (auto simp: create_directories_def split: option.splits)
  then show ?thesis using assms(4) staged_create [OF Some assms(3)] Some by simp
qed

lemma ends_at_client:
  assumes "err_grows w w'" "staged m a (ps_fs w) (ps_fs w')"
    "read_file (mc_os m) (ps_fs w') (ec_cert_path a) = Some ec_bytes" "ec_bytes \<noteq> []"
  shows "ends m a w (authorized m a w) (with_client m (at_config a) w' (at_with m a aa ec_bytes ea_resp))"
proof (cases "PkiClient_new (mc_os m) (mc_env m) (at_config a) (ps_fs w')")
  case None
  then show ?thesis by (simp add: with_client_def ends_uncaught raises_config [of "at_config a"])
next
  case (Some client)
  then show ?thesis
    using assms staged_client [OF Some assms(2)] by (simp add: with_client_def at_with_ends)
qed

lemma ends_canonical_id:
  assumes "\<And>cid. at_canonical_id m a w' = Some cid \<Longrightarrow> ends m a w good (k cid)"
  shows "ends m a w good (case at_canonical_id m a w' of None \<Rightarrow> (Uncaught, w') | Some cid \<Rightarrow> k cid)"
proof (cases "at_canonical_id m a w'")
  case None
  then have "read_file (mc_os m) (ps_fs w') (canonical_id_path a) = None"
    by (simp add: at_canonical_id_def split: if_splits)
  then show ?thesis using None by (simp add: ends_uncaught raises_read read_paths_def)
qed (use assms in simp)

lemma cmd_request_at_ends: "ends m a w (authorized m a w) (cmd_request_at m a w)"
  unfolding cmd_request_at_def Let_def
  by (intro ends_if ends_fail ends_sum ends_create_staged [where a = a] ends_canonical_id ends_read ends_at_client)
    (simp_all add: staged.none staged_put staged_case made_dirs_def read_paths_def)

interpretation request_at: cli_command cmd_request_at authorized
  by unfold_locales (rule cmd_request_at_ends, auto simp: authorized_def)

section \<open>Properties\<close>

text \<open>
  (C26) \<open>enrol\<close> exits with 0 only after the client, with the key of the given name and an identifier of 1
  to 64 bytes, which is handed to its file, accepted an enrolment credential of the authority that
  was fetched, whose chain is valid for the trust store built from the trust directory; then the
  credential is handed to the file \<open>ec.cert\<close> of the key directory and its identifier is printed. In
  every other case it exits with 1 and an error message, or an exception ends it for which the files
  give the reason (\<open>raises\<close>): a directory cannot be made or loading the trust directory throws.
\<close>

theorem enrol_outcome:
  "ends m a w (enrolled m a) (cmd_enrol m a w)"
  by (rule enrol.cmd_ends)

text \<open>
  \<open>request-at\<close> exits with 0 only after the client accepted a ticket whose chain is valid for the
  trust store; it was requested with the credential read from its file and the loaded key of the given
  name, for a key pair generated on the curve of that credential and stored under its own name, all
  in a file system where up to then only the trust files were written. Then the ticket is handed to
  \<open>at.cert\<close> and its identifier is printed. In every other case it exits with 1 and an error message, or
  an exception ends it for which the files give the reason (\<open>raises\<close>): a directory cannot be made, the
  identifier's file or that of the credential cannot be read, or loading the trust directory throws.
\<close>

theorem request_at_outcome:
  "ends m a w (authorized m a w) (cmd_request_at m a w)"
  by (rule request_at.cmd_ends)

end
