(* ===== verification/CliMain.thy ===== *)
theory CliMain
  imports CliEnrol
begin

text \<open>
  \<open>src/main.cpp\<close>: the command table and the entry point of the client. \<open>argv\<close> holds at least the name
  of the program.
\<close>

definition kCommands :: "(string \<times> command \<times> string) list" where
  "kCommands =
     [(''healthz'', cmd_healthz, ''GET /healthz from PKI server''),
      (''version'', cmd_version, ''GET /version from PKI server''),
      (''info'', cmd_info, ''Show client binary info''),
      (''discover'', cmd_discover, ''CCMS trust discovery (ECTL + CTL)''),
      (''fetch-trust'', cmd_fetch_trust, ''Download trust material (RCA, TLM, MA certs)''),
      (''lookup-cert'', cmd_lookup_cert, ''Lookup cert by HashedId8''),
      (''fetch-ectl'', cmd_fetch_ectl, ''Download and verify ECTL''),
      (''verify-hid8'', cmd_verify_hid8, ''Compute HashedId8 of a local cert file''),
      (''enrol'', cmd_enrol, ''Request Enrolment Credential from EA''),
      (''request-at'', cmd_request_at, ''Request Authorization Ticket from AA'')]"

definition usage_text :: "string list \<Rightarrow> string" where
  "usage_text argv = usage (hd argv) (map (\<lambda>(name, handler, help). (name, help)) kCommands)"

definition cli_main :: "machine \<Rightarrow> string list \<Rightarrow> process \<Rightarrow> exit_status \<times> process" where
  "cli_main m argv w =
     (if length argv < 2 then (Exit 1, cerr (usage_text argv) w)
      else let args = parse_args argv in
        (case find (\<lambda>(name, handler, help). arg_command args = name) kCommands of
           Some (name, handler, help) \<Rightarrow> handler m args w
         | None \<Rightarrow>
             (Exit 1, cerr (usage_text argv)
                (cerr (''error: unknown command '' @ [CHR 0x27] @ arg_command args @ [CHR 0x27] @ nl) w))))"

lemma find_distinct_fst:
  assumes "distinct (map fst xs)" "(k, v) \<in> set xs"
  shows "find (\<lambda>(name, y). k = name) xs = Some (k, v)"
  using assms by (induction xs) (force simp: image_iff)+

lemma kCommands_distinct: "distinct (map fst kCommands)"
  by (simp add: kCommands_def)

text \<open>Every entry of the table is reached by its own name, with the options read from the rest.\<close>

lemma cli_main_dispatches:
  assumes "(cmd, handler, help) \<in> set kCommands"
  shows "cli_main m (prog # cmd # opts) w = handler m (parse_opts opts (Args_init\<lparr>arg_command := cmd\<rparr>)) w"
proof -
  have c: "arg_command (parse_opts opts a) = arg_command a" for a
    by (induction opts a rule: parse_opts.induct) (auto simp: set_option_def split: option.splits if_splits)
  have "find (\<lambda>(name, y). cmd = name) kCommands = Some (cmd, handler, help)"
    by (rule find_distinct_fst [OF kCommands_distinct assms])
  then show ?thesis
    by (simp add: cli_main_def parse_args_def c Let_def case_prod_beta')
qed

text \<open>Every command of the table keeps the contract.\<close>

lemma kCommands_sound: "(cmd, handler, help) \<in> set kCommands \<Longrightarrow> sound_exit m a w (handler m a w)"
  using healthz.status version.status info.status discover.status fetch_trust.status lookup_cert.status
    fetch_ectl.status verify_hid8.status enrol.status request_at.status
  unfolding kCommands_def by (auto simp only: set_simps insert_iff empty_iff prod.inject)

section \<open>Properties\<close>

text \<open>
  (C39) Every run of the client, whatever its arguments, ends with exit code 0, or with exit code 1 and
  a message on the error stream, or with an exception. An exception has its reason in the files as they
  are when it is raised: one of the directories the commands make cannot be made, the content of one of
  the files they read cannot be read, or, with the key store's directory made, loading the certificates of
  the trust directory throws.
\<close>

theorem client_exit_status:
  "case fst (cli_main m argv w) of
     Uncaught \<Rightarrow>
       let a = parse_args argv; X = mc_os m; fs = ps_fs (snd (cli_main m argv w)) in
       (\<exists>dir \<in> {arg_out_dir a, arg_keystore_dir a, discover_dir a, trust_dir a}. os_mkdirs X dir fs = None) \<or>
       (\<exists>path \<in> {arg_cert_path a, arg_tlm_cert a, canonical_id_path a, ec_cert_path a}. read_file X fs path = None) \<or>
       (\<exists>fs1. os_mkdirs X (arg_keystore_dir a) fs = Some fs1 \<and>
          load_from_directory (mc_env m) (os_list X fs1 (trust_dir a)) TrustChain_init = None)
   | Exit c \<Rightarrow> c = 0 \<or> c = 1 \<and> (\<exists>s. s \<noteq> [] \<and> ps_err (snd (cli_main m argv w)) = ps_err w @ s)"
proof -
  have u: "sound_exit m (parse_args argv) w (Exit 1, cerr (usage_text argv) (cerr s w))" for s
    by (auto simp: sound_exit_def usage_text_def usage_def)
  have u0: "sound_exit m (parse_args argv) w (Exit 1, cerr (usage_text argv) w)"
    by (auto simp: sound_exit_def usage_text_def usage_def)
  have "sound_exit m (parse_args argv) w (cli_main m argv w)"
  proof (cases "find (\<lambda>(name, handler, help). arg_command (parse_args argv) = name) kCommands")
    case None
    then show ?thesis using u u0 by (simp add: cli_main_def)
  next
    case (Some e)
    then obtain name handler hlp where e: "e = (name, handler, hlp)" "e \<in> set kCommands"
      by (cases e) (metis find_Some_iff nth_mem)
    then show ?thesis using Some u0 kCommands_sound [of name handler hlp] by (simp add: cli_main_def)
  qed
  then show ?thesis
    unfolding sound_exit_def raises_def made_dirs_def read_paths_def Let_def by (simp split: exit_status.splits)
qed

end
