(* ===== verification/TrustModel.thy ===== *)
theory TrustModel
  imports PkiClient
begin

text \<open>
  What the client promises of the certificates it holds, as a specification over an abstract state:
  the certificates known by identifier and the identifiers each issuer revokes. The specification is
  an event system (a guard and an update for each event); the operations of \<open>PkiClient\<close> refine it, by
  a simulation that is proved once for all runs in the locale \<open>trace_simulation\<close> and interpreted on
  the client. Where a stored certificate can come from, and what a revocation list forbids from then
  on, are proved of the specification and carried over to every run of the client.
\<close>

section \<open>Runs\<close>

text \<open>A run of a labelled step relation, with the labels in order.\<close>

inductive run :: "('e \<Rightarrow> 's \<Rightarrow> 's \<Rightarrow> bool) \<Rightarrow> 's \<Rightarrow> 'e list \<Rightarrow> 's \<Rightarrow> bool" for step where
  run_nil: "run step s [] s"
| run_snoc: "run step s es s' \<Longrightarrow> step e s' s'' \<Longrightarrow> run step s (es @ [e]) s''"

inductive_cases run_NilE: "run step s [] s'"

lemma run_snoc_iff: "run step s (es @ [e]) s'' \<longleftrightarrow> (\<exists>s'. run step s es s' \<and> step e s' s'')"
  by (auto intro: run.intros elim: run.cases)

lemma run_append_iff: "run step s (es @ fs) s'' \<longleftrightarrow> (\<exists>s'. run step s es s' \<and> run step s' fs s'')"
proof (induction fs arbitrary: s'' rule: rev_induct)
  case Nil
  then show ?case by (auto intro: run_nil elim: run_NilE)
next
  case (snoc f fs)
  have "run step s (es @ fs @ [f]) s'' \<longleftrightarrow> (\<exists>s'. run step s (es @ fs) s' \<and> step f s' s'')"
    using run_snoc_iff [of step s "es @ fs" f s''] by simp
  then show ?case by (auto simp: snoc.IH run_snoc_iff)
qed

lemma run_singleton: "run step s [e] s' \<longleftrightarrow> step e s s'"
  using run_snoc_iff [of step s "[]" e s'] by (auto intro: run_nil elim: run_NilE)

lemma run_Cons_iff: "run step s (e # es) s'' \<longleftrightarrow> (\<exists>s'. step e s s' \<and> run step s' es s'')"
  using run_append_iff [of step s "[e]" es s''] by (simp add: run_singleton)

text \<open>
  A simulation: the abstraction of every concrete step is the update of an enabled event. An
  invariant of the events is then an invariant of the concrete runs.
\<close>

locale trace_simulation =
  fixes cstep :: "'e \<Rightarrow> 'c \<Rightarrow> 'c \<Rightarrow> bool"
    and enabled :: "'e \<Rightarrow> 'a \<Rightarrow> bool"
    and effect :: "'e \<Rightarrow> 'a \<Rightarrow> 'a"
    and abstr :: "'c \<Rightarrow> 'a"
  assumes step_enabled: "cstep e c c' \<Longrightarrow> enabled e (abstr c)"
    and step_effect: "cstep e c c' \<Longrightarrow> abstr c' = effect e (abstr c)"
begin

lemma run_effect: "run cstep c es c' \<Longrightarrow> abstr c' = fold effect es (abstr c)"
  by (induction rule: run.induct) (simp_all add: step_effect)

lemma run_refines:
  "run cstep c es c' \<Longrightarrow> run (\<lambda>e s s'. enabled e s \<and> s' = effect e s) (abstr c) es (abstr c')"
  by (induction rule: run.induct) (auto intro: run.intros step_enabled step_effect)

text \<open>Each event was enabled in the state the events before it led to.\<close>

lemma run_enabled: "run cstep c (es @ e # fs) c' \<Longrightarrow> enabled e (fold effect es (abstr c))"
  using run_append_iff [of cstep c "es @ [e]" fs c'] run_effect step_enabled
  by (fastforce simp: run_snoc_iff)

lemma run_invariant:
  assumes "run cstep c es c'" "I (abstr c)"
    and "\<And>e s. I s \<Longrightarrow> enabled e s \<Longrightarrow> e \<in> set es \<Longrightarrow> I (effect e s)"
  shows "I (abstr c')"
  using assms by (induction rule: run.induct) (auto simp: step_effect dest: step_enabled)

end

section \<open>The specification\<close>

record trust_state =
  ts_known :: "hid8 \<rightharpoonup> CertInfo"
  ts_revoked :: "hid8 \<Rightarrow> hid8 set"

text \<open>
  The events. \<open>Fetched\<close> is a certificate taken from the server as it is, \<open>Discovered\<close> the
  certificates a discovery under a TLM certificate added in order, \<open>Issued\<close> a credential accepted at
  a time, \<open>CrlTaken\<close> an accepted revocation list.
\<close>

datatype trust_event =
    Quiet
  | Fetched CertInfo
  | Discovered CertInfo int "CertInfo list"
  | Issued CertInfo int
  | CrlTaken CrlContents int

text \<open>A chain of issuers over the abstract state.\<close>

definition abs_vouched :: "env \<Rightarrow> trust_state \<Rightarrow> CertInfo \<Rightarrow> CertInfo \<Rightarrow> bool" where
  "abs_vouched E s cert issuer \<longleftrightarrow>
     verify_cert_signature E cert issuer \<and> ci_hashed_id_8 cert \<notin> ts_revoked s (ci_hashed_id_8 issuer)"

primrec abs_path :: "env \<Rightarrow> trust_state \<Rightarrow> int \<Rightarrow> nat \<Rightarrow> CertInfo \<Rightarrow> bool" where
  "abs_path E s now 0 c \<longleftrightarrow> ci_is_self_signed c \<and> valid_at c now \<and> abs_vouched E s c c"
| "abs_path E s now (Suc n) c \<longleftrightarrow> \<not> ci_is_self_signed c \<and> valid_at c now \<and>
     (\<exists>i. ts_known s (ci_issuer_hash_id_8 c) = Some i \<and> abs_vouched E s c i \<and> abs_path E s now n i)"

text \<open>A list that verified under the TLM certificate.\<close>

definition signed_ectl :: "env \<Rightarrow> int \<Rightarrow> CertInfo \<Rightarrow> TrustTopology \<Rightarrow> bool" where
  "signed_ectl E now tlm t \<longleftrightarrow>
     (\<exists>body m. decode_ectl E now body (to_vector (ci_public_key tlm)) (to_vector (ci_cert_bytes tlm)) = Inr t \<and>
        unwrap E body = Some m \<and> verify E m (to_vector (ci_public_key tlm)) (to_vector (ci_cert_bytes tlm)))"

text \<open>What a TLM certificate vouches for: itself, its Root CAs, and the authorities they list.\<close>

definition tlm_lists :: "env \<Rightarrow> int \<Rightarrow> CertInfo \<Rightarrow> CertInfo \<Rightarrow> bool" where
  "tlm_lists E now tlm ci \<longleftrightarrow> ci = tlm \<or>
     (\<exists>t. signed_ectl E now tlm t \<and>
        (ci \<in> set (topo_rcas t) \<or> (\<exists>rca \<in> set (topo_rcas t). \<exists>t'. verified_ctl E now rca t' \<and> ctl_cert t' ci)))"

fun event_enabled :: "env \<Rightarrow> trust_event \<Rightarrow> trust_state \<Rightarrow> bool" where
  "event_enabled E Quiet s = True"
| "event_enabled E (Fetched ci) s = id_matches E ci"
| "event_enabled E (Discovered tlm now cs) s = (\<forall>ci \<in> set cs. tlm_lists E now tlm ci \<and> id_matches E ci)"
| "event_enabled E (Issued ci now) s = ((abs_path E s now 1 ci \<or> abs_path E s now 2 ci) \<and> id_matches E ci)"
| "event_enabled E (CrlTaken crl now) s = (\<not> crl_stale crl now \<and>
     (\<exists>hid rca body. ts_known s hid = Some rca \<and> crl_issuer_hid8 crl = compute_hid8 E (to_vector (ci_cert_bytes rca)) \<and>
        decode_crl E body (to_vector (ci_public_key rca)) (to_vector (ci_cert_bytes rca)) = Inr crl))"

definition learn :: "CertInfo \<Rightarrow> trust_state \<Rightarrow> trust_state" where
  "learn ci s = s\<lparr>ts_known := (ts_known s)(ci_hashed_id_8 ci \<mapsto> ci)\<rparr>"

fun event_effect :: "trust_event \<Rightarrow> trust_state \<Rightarrow> trust_state" where
  "event_effect Quiet s = s"
| "event_effect (Fetched ci) s = learn ci s"
| "event_effect (Discovered tlm now cs) s = fold learn cs s"
| "event_effect (Issued ci now) s = learn ci s"
| "event_effect (CrlTaken crl now) s =
     s\<lparr>ts_revoked := (ts_revoked s)(crl_issuer_hid8 crl := set (crl_revoked crl))\<rparr>"

definition trust_step :: "env \<Rightarrow> trust_event \<Rightarrow> trust_state \<Rightarrow> trust_state \<Rightarrow> bool" where
  "trust_step E e s s' \<longleftrightarrow> event_enabled E e s \<and> s' = event_effect e s"

section \<open>The client refines it\<close>

text \<open>What a client's state says of trust.\<close>

definition trust_abs :: "PkiClient \<Rightarrow> trust_state" where
  "trust_abs c = \<lparr>ts_known = find_by_hashed_id_8 (pc_trust c),
     ts_revoked = (\<lambda>i. {h. is_revoked (pc_revocation c) i h})\<rparr>"

text \<open>The event of an operation that returns a certificate or fails.\<close>

definition cert_event :: "(CertInfo \<Rightarrow> trust_event) \<Rightarrow> CertInfo Result \<Rightarrow> trust_event" where
  "cert_event ev r = (case r of Inl e \<Rightarrow> Quiet | Inr ci \<Rightarrow> ev ci)"

text \<open>The operations of the client with the event each is.\<close>

inductive client_event :: "env \<Rightarrow> pem \<Rightarrow> trust_event \<Rightarrow> PkiClient \<Rightarrow> PkiClient \<Rightarrow> bool" for E P where
  enrol: "request_enrolment_credential E P net w ck c h rec = (r, c') \<Longrightarrow>
    client_event E P (cert_event (\<lambda>ci. Issued ci (current_tai_seconds (ck_validate ck))) r) c c'"
| authorize: "request_authorization_ticket E P net w ck c h ec ah arec = (r, c') \<Longrightarrow>
    client_event E P (cert_event (\<lambda>ci. Issued ci (current_tai_seconds (ck_validate ck))) r) c c'"
| anchor: "fetch_trust_anchor E net c = (r, c') \<Longrightarrow> client_event E P (cert_event Fetched r) c c'"
| by_name: "fetch_cert_by_name E net c name = (r, c') \<Longrightarrow> client_event E P (cert_event Fetched r) c c'"
| by_id: "fetch_cert_by_hashed_id_8 E net c hid = (r, c') \<Longrightarrow> client_event E P (cert_event Fetched r) c c'"
| discover_none: "discover_trust E nets now c = (rt, c') \<Longrightarrow> fetch_tlm E (nets 0) c = Inl e \<Longrightarrow>
    client_event E P Quiet c c'"
| discover: "discover_trust E nets now c = (rt, c') \<Longrightarrow> fetch_tlm E (nets 0) c = Inr (tlm, hex) \<Longrightarrow>
    pc_trust c' = fold add_cert cs (pc_trust c) \<Longrightarrow> set cs \<subseteq> discovered E nets now c \<Longrightarrow>
    client_event E P (Discovered tlm now cs) c c'"
| crl_failed: "fetch_crl E net now c hid = (Inl e, c') \<Longrightarrow> client_event E P Quiet c c'"
| crl_taken: "fetch_crl E net now c hid = (Inr crl, c') \<Longrightarrow>
    client_event E P (CrlTaken crl (current_tai_seconds now)) c c'"
| store: "store_keypair E P (cfg_keystore_dir (pc_config c)) (pc_files c) h kp = (b, fs) \<Longrightarrow>
    client_event E P Quiet c (c\<lparr>pc_files := fs\<rparr>)"

lemma abs_path_trust_path:
  "trust_path E (pc_trust c) (Some (pc_revocation c)) now n ci \<longleftrightarrow> abs_path E (trust_abs c) now n ci"
proof (induction n arbitrary: ci)
  case 0
  then show ?case
    by (simp add: trust_path_0 abs_vouched_def vouched_def trust_abs_def is_revoked_by_issuer_def)
next
  case (Suc n)
  then show ?case
    by (simp add: trust_path_Suc abs_vouched_def vouched_def is_revoked_by_issuer_def)
      (simp add: trust_abs_def)
qed

lemma trust_abs_learn:
  "trust_abs (c\<lparr>pc_trust := add_cert ci (pc_trust c)\<rparr>) = learn ci (trust_abs c)"
  by (simp add: trust_abs_def learn_def store.find_add fun_eq_iff)

lemma trust_abs_learns:
  "pc_trust c' = fold add_cert cs (pc_trust c) \<Longrightarrow> pc_revocation c' = pc_revocation c \<Longrightarrow>
   trust_abs c' = fold learn cs (trust_abs c)"
proof (induction cs arbitrary: c' rule: rev_induct)
  case Nil
  then show ?case by (simp add: trust_abs_def)
next
  case (snoc ci cs)
  let ?c = "c'\<lparr>pc_trust := fold add_cert cs (pc_trust c)\<rparr>"
  have "trust_abs c' = trust_abs (?c\<lparr>pc_trust := add_cert ci (pc_trust ?c)\<rparr>)"
    using snoc.prems by (simp add: trust_abs_def)
  then show ?case using snoc.IH [of ?c] snoc.prems(2) by (simp only: trust_abs_learn) simp
qed

lemma trust_abs_same:
  "pc_trust c' = pc_trust c \<Longrightarrow> pc_revocation c' = pc_revocation c \<Longrightarrow> trust_abs c' = trust_abs c"
  by (simp add: trust_abs_def)

lemma discovered_listed:
  assumes "ci \<in> discovered E nets now c" "fetch_tlm E (nets 0) c = Inr (tlm, hex)"
  shows "tlm_lists E now tlm ci"
proof -
  have "tlm' = tlm \<and> signed_ectl E now tlm t" if "verified_ectl E nets now c tlm' t" for tlm' t
    using that assms(2) by (auto simp: verified_ectl_def signed_ectl_def)
  with assms show ?thesis unfolding discovered_def tlm_lists_def by fastforce
qed

lemma discover_keeps_revocation:
  "discover_trust E nets now c = (r, c') \<Longrightarrow> pc_revocation c' = pc_revocation c"
  by (cases r) (simp_all add: discover_error_keeps discover_Ok)

text \<open>The two requests accept a credential under the same conditions.\<close>

lemma issued_event:
  assumes "validate_chain E (pc_trust c) (Some (pc_revocation c)) ci now" "id_matches E ci"
  shows "event_enabled E (Issued ci now) (trust_abs c)"
  using assms by (simp add: validate_chain_trust_path abs_path_trust_path del: One_nat_def)

lemma fetch_event:
  assumes "fetch_and_add E net c url lbl = (r, c')"
  shows "event_enabled E (cert_event Fetched r) (trust_abs c) \<and>
    trust_abs c' = event_effect (cert_event Fetched r) (trust_abs c)"
  using fetch_and_add_cases [OF assms]
  by (auto simp: cert_event_def trust_abs_learn id_matches_from_coer)

lemma enrol_event:
  assumes "request_enrolment_credential E P net w ck c h rec = (r, c')"
  defines "ev \<equiv> cert_event (\<lambda>ci. Issued ci (current_tai_seconds (ck_validate ck))) r"
  shows "event_enabled E ev (trust_abs c) \<and> trust_abs c' = event_effect ev (trust_abs c)"
proof (cases r)
  case (Inl e)
  then show ?thesis using assms enrolment_error_keeps by (fastforce simp: cert_event_def)
next
  case (Inr ci)
  have "id_matches E ci"
    using assms(1) exchange_cert_ids by (auto simp: Inr enrolment_Ok_iff)
  then show ?thesis
    using assms(1) issued_event by (simp add: Inr ev_def cert_event_def enrolment_Ok_iff trust_abs_learn)
qed

lemma authorize_event:
  assumes "request_authorization_ticket E P net w ck c h ec ah arec = (r, c')"
  defines "ev \<equiv> cert_event (\<lambda>ci. Issued ci (current_tai_seconds (ck_validate ck))) r"
  shows "event_enabled E ev (trust_abs c) \<and> trust_abs c' = event_effect ev (trust_abs c)"
proof (cases r)
  case (Inl e)
  then show ?thesis using assms authorization_error_keeps by (fastforce simp: cert_event_def)
next
  case (Inr ci)
  have "id_matches E ci"
    using assms(1) exchange_cert_ids by (auto simp: Inr authorization_Ok_iff)
  then show ?thesis
    using assms(1) issued_event by (simp add: Inr ev_def cert_event_def authorization_Ok_iff trust_abs_learn)
qed

lemma crl_event:
  assumes "fetch_crl E net now c hid = (Inr crl, c')"
  defines "ev \<equiv> CrlTaken crl (current_tai_seconds now)"
  shows "event_enabled E ev (trust_abs c) \<and> trust_abs c' = event_effect ev (trust_abs c)"
proof -
  from fetch_crl_Ok [OF assms(1)] obtain rca body where
    rca: "find_by_hashed_id_8 (pc_trust c) hid = Some rca"
      "decode_crl E body (to_vector (ci_public_key rca)) (to_vector (ci_cert_bytes rca)) = Inr crl"
    and st: "\<not> crl_stale crl (current_tai_seconds now)"
    and c': "c' = c\<lparr>pc_revocation := snd (revocation_apply (pc_revocation c) crl (current_tai_seconds now))\<rparr>"
    by blast
  have "event_enabled E ev (trust_abs c)"
    using rca st decode_crl_issuer [OF rca(2)] by (auto simp: ev_def trust_abs_def)
  moreover have "trust_abs c' = event_effect ev (trust_abs c)"
    by (simp add: c' ev_def trust_abs_def crl.update_revokes [OF st] fun_eq_iff)
  ultimately show ?thesis ..
qed

lemma client_event_sim:
  assumes "client_event E P e c c'"
  shows "event_enabled E e (trust_abs c) \<and> trust_abs c' = event_effect e (trust_abs c)"
  using assms
proof cases
  case (enrol net w ck h rec r)
  then show ?thesis using enrol_event by simp
next
  case (authorize net w ck h ec ah arec r)
  then show ?thesis using authorize_event by simp
next
  case (anchor net r)
  then show ?thesis using fetch_event by (simp add: fetch_trust_anchor_def)
next
  case (by_name net name r)
  then show ?thesis using fetch_event by (simp add: fetch_cert_by_name_def)
next
  case (by_id net hid r)
  then show ?thesis using fetch_event by (simp add: fetch_cert_by_hashed_id_8_def)
next
  case (discover_none nets now rt err)
  then have "c' = c" by (simp add: discover_trust_def)
  then show ?thesis using discover_none(1) by simp
next
  case (discover nets now rt tlm hex cs)
  have "event_enabled E e (trust_abs c)"
    using discover(1,3,5) discovered_listed discovered_ids by fastforce
  then show ?thesis
    using discover(1) trust_abs_learns [OF discover(4) discover_keeps_revocation [OF discover(2)]] by simp
next
  case (crl_failed net now hid err)
  then show ?thesis using fetch_crl_Error by fastforce
next
  case (crl_taken net now hid crl)
  then show ?thesis using crl_event by simp
next
  case (store h kp b fs)
  then show ?thesis by (simp add: trust_abs_def)
qed

interpretation client: trace_simulation "client_event E P" "event_enabled E" event_effect trust_abs for E P
  by unfold_locales (simp_all add: client_event_sim)

text \<open>Nothing the client does is left out: the labelled steps are its steps.\<close>

lemma client_event_total: "client_step E P c c' \<Longrightarrow> \<exists>e. client_event E P e c c'"
proof (induction rule: client_step.induct)
  case (discover nets now c rt c')
  from discover_trust_adds [OF discover] obtain cs where
    "pc_trust c' = fold add_cert cs (pc_trust c)" "set cs \<subseteq> discovered E nets now c" by blast
  then show ?case
    using discover client_event.discover client_event.discover_none
    by (cases "fetch_tlm E (nets 0) c") (auto, blast+)
next
  case (crl net now c hid rc c')
  then show ?case by (cases rc) (auto intro: client_event.crl_failed client_event.crl_taken)
qed (blast intro: client_event.intros)+

lemma client_event_step: "client_event E P e c c' \<Longrightarrow> client_step E P c c'"
  by (induction rule: client_event.induct) (blast intro: client_step.intros)+

text \<open>The reachable states are the ends of the runs from a constructed client.\<close>

lemma reachable_iff_run:
  "reachable E P c' \<longleftrightarrow> (\<exists>cfg fs listing c evs. PkiClient_init E cfg fs listing = Some c \<and> run (client_event E P) c evs c')"
    (is "_ \<longleftrightarrow> ?R c'")
proof
  show "?R c'" if "reachable E P c'"
    using that
  proof (induction rule: reachable.induct)
    case (start cfg fs listing c)
    then show ?case by (blast intro: run_nil)
  next
    case (step c c')
    then show ?case using client_event_total by (blast intro: run_snoc)
  qed
next
  have "reachable E P s'" if "run (client_event E P) s evs s'" "reachable E P s" for s evs s'
    using that by induction (auto intro: reachable.step client_event_step)
  then show "reachable E P c'" if "?R c'"
    using that by (blast intro: reachable.start)
qed

section \<open>Consequences of the specification\<close>

text \<open>Where a known certificate comes from.\<close>

fun event_certs :: "trust_event \<Rightarrow> CertInfo set" where
  "event_certs Quiet = {}"
| "event_certs (Fetched ci) = {ci}"
| "event_certs (Discovered tlm now cs) = set cs"
| "event_certs (Issued ci now) = {ci}"
| "event_certs (CrlTaken crl now) = {}"

lemma known_learns:
  "ts_known (fold learn cs s) k = Some ci \<Longrightarrow> ts_known s k = Some ci \<or> (ci \<in> set cs \<and> ci_hashed_id_8 ci = k)"
  by (induction cs rule: rev_induct) (auto simp: learn_def split: if_splits)

lemma known_event:
  "ts_known (event_effect e s) k = Some ci \<Longrightarrow>
   ts_known s k = Some ci \<or> (ci \<in> event_certs e \<and> ci_hashed_id_8 ci = k)"
  by (cases e) (auto simp: learn_def dest: known_learns split: if_splits)

lemma known_events:
  "ts_known (fold event_effect es s) k = Some ci \<Longrightarrow>
   ts_known s k = Some ci \<or> (ci_hashed_id_8 ci = k \<and> (\<exists>e \<in> set es. ci \<in> event_certs e))"
  by (induction es rule: rev_induct) (auto dest: known_event)

text \<open>A certificate is known under its own identifier.\<close>

definition keyed :: "trust_state \<Rightarrow> bool" where
  "keyed s \<longleftrightarrow> (\<forall>k ci. ts_known s k = Some ci \<longrightarrow> ci_hashed_id_8 ci = k)"

lemma keyed_events: "keyed s \<Longrightarrow> keyed (fold event_effect es s)"
  by (auto simp: keyed_def dest: known_events)

lemma keyed_client: "client_inv E c \<Longrightarrow> keyed (trust_abs c)"
  by (auto simp: keyed_def client_inv_def trust_abs_def)

text \<open>Only another list of the same issuer changes what an issuer revokes.\<close>

fun replaces_list :: "hid8 \<Rightarrow> trust_event \<Rightarrow> bool" where
  "replaces_list i (CrlTaken crl now) = (crl_issuer_hid8 crl = i)"
| "replaces_list i e = False"

lemma learns_revoked [simp]: "ts_revoked (fold learn cs s) = ts_revoked s"
  by (induction cs arbitrary: s) (simp_all add: learn_def)

lemma revoked_event: "\<not> replaces_list i e \<Longrightarrow> ts_revoked (event_effect e s) i = ts_revoked s i"
  by (cases e) (auto simp: learn_def)

lemma revoked_events: "list_all (\<lambda>e. \<not> replaces_list i e) es \<Longrightarrow> ts_revoked (fold event_effect es s) i = ts_revoked s i"
  by (induction es rule: rev_induct) (auto simp: revoked_event)

lemma revoked_after_list:
  "list_all (\<lambda>e. \<not> replaces_list (crl_issuer_hid8 crl) e) es \<Longrightarrow>
   ts_revoked (fold event_effect (pre @ CrlTaken crl t # es) s) (crl_issuer_hid8 crl) = set (crl_revoked crl)"
  by (simp add: revoked_events)

text \<open>A certificate named by a list of the issuer it is checked against.\<close>

definition vouching_id :: "CertInfo \<Rightarrow> hid8" where
  "vouching_id ci = (if ci_is_self_signed ci then ci_hashed_id_8 ci else ci_issuer_hash_id_8 ci)"

definition on_list :: "CrlContents \<Rightarrow> CertInfo \<Rightarrow> bool" where
  "on_list crl ci \<longleftrightarrow> vouching_id ci = crl_issuer_hid8 crl \<and> ci_hashed_id_8 ci \<in> set (crl_revoked crl)"

text \<open>A path in a state whose lists are known: no certificate on it is revoked by its issuer.\<close>

lemma abs_path_not_revoked:
  "keyed s \<Longrightarrow> abs_path E s now n ci \<Longrightarrow> ci_hashed_id_8 ci \<notin> ts_revoked s (vouching_id ci)"
  by (cases n) (auto simp: abs_vouched_def keyed_def vouching_id_def)

lemma abs_path_issuer:
  "abs_path E s now n ci \<Longrightarrow> n \<noteq> 0 \<Longrightarrow>
   \<exists>ca. ts_known s (ci_issuer_hash_id_8 ci) = Some ca \<and> abs_path E s now (n - 1) ca"
  by (cases n) auto

lemma issued_respects_list:
  assumes run: "run (client_event E P) c (pre @ CrlTaken crl t # mid @ Issued ci now # post) c'"
    and inv: "client_inv E c"
    and mid: "list_all (\<lambda>e. \<not> replaces_list (crl_issuer_hid8 crl) e) mid"
  shows "\<not> on_list crl ci \<and>
    (\<exists>c0 ca. run (client_event E P) c (pre @ CrlTaken crl t # mid) c0 \<and>
       find_by_hashed_id_8 (pc_trust c0) (ci_issuer_hash_id_8 ci) = Some ca \<and> \<not> on_list crl ca)"
proof -
  let ?es = "pre @ CrlTaken crl t # mid"
  obtain c0 c1 where c0: "run (client_event E P) c ?es c0" "client_event E P (Issued ci now) c0 c1"
    using run run_append_iff [of "client_event E P" c ?es "Issued ci now # post" c'] by (auto simp: run_Cons_iff)
  have s: "trust_abs c0 = fold event_effect ?es (trust_abs c)" by (rule client.run_effect [OF c0(1)])
  have keyed: "keyed (trust_abs c0)" unfolding s by (intro keyed_events keyed_client [OF inv])
  have rev: "ts_revoked (trust_abs c0) (crl_issuer_hid8 crl) = set (crl_revoked crl)"
    unfolding s by (rule revoked_after_list [OF mid])
  have not: "\<not> on_list crl x" if "abs_path E (trust_abs c0) now n x" for n x
    using abs_path_not_revoked [OF keyed that] rev by (auto simp: on_list_def)
  from client_event_sim [OF c0(2)] obtain n where n: "abs_path E (trust_abs c0) now n ci" "n \<noteq> 0"
    by (auto simp del: abs_path.simps)
  from abs_path_issuer [OF n] obtain ca where
    ca: "find_by_hashed_id_8 (pc_trust c0) (ci_issuer_hash_id_8 ci) = Some ca" "abs_path E (trust_abs c0) now (n - 1) ca"
    by (auto simp: trust_abs_def)
  show ?thesis using not [OF n(1)] not [OF ca(2)] c0(1) ca(1) by blast
qed

end
