(* ===== verification/Exchange.thy ===== *)
theory Exchange
  imports TrustModel
begin

text \<open>
  The exchange with an authority that follows TS 102 941, end to end. The authority is not part of
  the sources; what it sends is specified here with the library's own envelopes: the response is
  signed with the authority's certificate, sealed under the symmetric key of the request, and names
  the request by its hash. The theorems are the converse of the acceptance conditions: such an answer
  is accepted, so the checks of the client do not refuse what they should let through. The
  authorization request is shown to open for both authorities it addresses.
\<close>

section \<open>The answer of an authority\<close>

text \<open>The envelope of a response: one recipient who knows the key, and the sealed bytes.\<close>

definition psk_envelope :: "bytes \<Rightarrow> bytes \<Rightarrow> AesCcmResult \<Rightarrow> Ieee1609Dot2Data" where
  "psk_envelope psk_id nonce ccm =
     Ieee1609Dot2Data kIeee1609Dot2Version (Some (encryptedData (Some
       \<lparr>ed_recipients = Some [pskRecipInfo psk_id],
        ed_ciphertext = Some (aes128ccm (Some \<lparr>ccm_nonce = nonce, ccm_ccmCiphertext = ccm_ct ccm @ ccm_tag ccm\<rparr>))\<rparr>)))"

text \<open>
  The answer with a response: \<open>tag\<close> is the alternative of \<open>EtsiTs102941Data\<close>, \<open>key\<close> the symmetric key
  of the request; \<open>None\<close> when a step fails.
\<close>

definition authority_answer ::
  "env \<Rightarrow> nat \<Rightarrow> int \<Rightarrow> byte \<Rightarrow> bytes \<Rightarrow> bytes \<Rightarrow> bytes \<Rightarrow> bytes \<Rightarrow> CertInfo \<Rightarrow> bytes \<Rightarrow> bytes option" where
  "authority_answer E w t tag psk_id key nonce response cert priv =
     (let signed = build_signed_by_cert E w t (0x01 # tag # response) cert priv (ci_curve cert) in
      if response = [] \<or> signed = [] then None
      else case aes_128_ccm_encrypt E key nonce signed of None \<Rightarrow> None | Some ccm \<Rightarrow>
        let body = coer_encode (asn_DEF_Ieee1609Dot2Data E) (psk_envelope psk_id nonce ccm) in
        if body = [] then None else Some body)"

text \<open>The authority's certificate as the client holds it, and its private key.\<close>

definition authority_key :: "env \<Rightarrow> CertInfo \<Rightarrow> bytes \<Rightarrow> bool" where
  "authority_key E cert priv \<longleftrightarrow> ci_curve cert \<noteq> NistP384 \<and>
     ci_hashed_id_8 cert = compute_hid8 E (to_vector (ci_cert_bytes cert)) \<and>
     (\<exists>pub. is_keypair E (ci_curve cert) priv pub \<and>
        to_vector (ci_public_key cert) \<in> {pub, compress_sec1 (scalar_len (ci_curve cert)) pub})"

lemma authority_answer_SomeE:
  assumes "authority_answer E w t tag psk_id key nonce response cert priv = Some body"
  obtains signed ccm where "response \<noteq> []" "signed \<noteq> []"
    "signed = build_signed_by_cert E w t (0x01 # tag # response) cert priv (ci_curve cert)"
    "aes_128_ccm_encrypt E key nonce signed = Some ccm"
    "body = coer_encode (asn_DEF_Ieee1609Dot2Data E) (psk_envelope psk_id nonce ccm)" "body \<noteq> []"
  using assms by (auto simp: authority_answer_def Let_def split: if_splits option.splits)

lemma ccm_encrypt_decrypt:
  assumes "ccm_ok E" "aes_128_ccm_encrypt E key nonce pt = Some ccm"
  shows "aes_128_ccm_decrypt E key nonce (ccm_ct ccm) (ccm_tag ccm) = Some pt"
    "length (ccm_tag ccm) = kAesCcmTagLen" "key \<noteq> []"
  using assms ccm_okD [OF assms(1)]
  by (auto simp: aes_128_ccm_encrypt_def aes_128_ccm_decrypt_def size_simps split: if_splits option.splits)

text \<open>The answer opens with the key of the request, verifies and gives back the response.\<close>

lemma authority_answer_opens:
  assumes ok: "openssl_ok E" "ccm_ok E" "message_codec_ok E" and key: "authority_key E cert priv"
    and ans: "authority_answer E w t tag psk_id k nonce response cert priv = Some body"
  shows "decrypt_and_unwrap E body any k tag cert = Inr response"
  using ans
proof (rule authority_answer_SomeE)
  fix signed ccm
  assume f: "response \<noteq> []" "signed \<noteq> []"
    "signed = build_signed_by_cert E w t (0x01 # tag # response) cert priv (ci_curve cert)"
    "aes_128_ccm_encrypt E k nonce signed = Some ccm"
    "body = coer_encode (asn_DEF_Ieee1609Dot2Data E) (psk_envelope psk_id nonce ccm)" "body \<noteq> []"
  note ccm = ccm_encrypt_decrypt [OF ok(2) f(4)]
  have "coer_decode (asn_DEF_Ieee1609Dot2Data E) body = Some (psk_envelope psk_id nonce ccm)"
    unfolding f(5) using ok(3) f(5,6) by (intro coer_decode_encode) (auto simp: message_codec_ok_def)
  moreover obtain ed where ed: "encrypted_content (psk_envelope psk_id nonce ccm) = Some ed"
    "decrypt_encrypted_content E ed any k = Some signed"
    using ccm by (simp add: psk_envelope_def encrypted_content_def decrypt_encrypted_content_def
        first_recipient_def ccm_of_ciphertext_def octet_bytes_def Let_def)
  moreover obtain m where "unwrap E signed = Some m" "sm_payload_coer m = 0x01 # tag # response"
    "verify E m (to_vector (ci_public_key cert)) (to_vector (ci_cert_bytes cert))"
  proof -
    from key obtain pub where kp: "is_keypair E (ci_curve cert) priv pub"
      and pub: "to_vector (ci_public_key cert) \<in> {pub, compress_sec1 (scalar_len (ci_curve cert)) pub}"
      and c: "ci_curve cert \<noteq> NistP384"
      and hid: "ci_hashed_id_8 cert = compute_hid8 E (to_vector (ci_cert_bytes cert))"
      by (auto simp: authority_key_def)
    have ne: "finalize_signed_data E w (make_unsecured_tbs t (0x01 # tag # response)) priv
        (to_vector (ci_cert_bytes cert)) (ci_hashed_id_8 cert) (ci_curve cert) \<noteq> []"
      using f(2,3) by (simp add: build_signed_by_cert_def)
    show ?thesis
      using built_message_verifies [OF ok(1,3) kp _ _ _ c ne pub] hid that f(3)
      by (auto simp: build_signed_by_cert_def)
  qed
  ultimately show ?thesis
    using f(1) by (auto simp: decrypt_and_unwrap_def strip_etsi_prefix_def length_Suc_conv neq_Nil_conv)
qed

section \<open>The client accepts it\<close>

text \<open>The responses with a certificate to a request.\<close>

definition ec_grant :: "env \<Rightarrow> bytes \<Rightarrow> CertificateBase \<Rightarrow> InnerEcResponse" where
  "ec_grant E request cert = \<lparr>iers_requestHash = take 16 (hash_sha256 E request),
     iers_responseCode = EnrolmentOk, iers_certificate = Some cert\<rparr>"

definition at_grant :: "env \<Rightarrow> bytes \<Rightarrow> CertificateBase \<Rightarrow> InnerAtResponse" where
  "at_grant E request cert = \<lparr>iars_requestHash = take 16 (hash_sha256 E request),
     iars_responseCode = AuthorizationOk, iars_certificate = Some cert\<rparr>"

text \<open>The certificate of a response as the client reads it.\<close>

definition granted_cert :: "env \<Rightarrow> string \<Rightarrow> CertificateBase \<Rightarrow> CertInfo" where
  "granted_cert E lbl cert = (from_struct E cert (coer_encode (asn_DEF_CertificateBase E) cert))\<lparr>ci_label := lbl\<rparr>"

lemma sha256_prefix:
  assumes "openssl_ok E"
  shows "16 \<le> length (hash_sha256 E d)" "\<exists>h. sb_from 16 (take 16 (hash_sha256 E d)) = Some h"
proof -
  have "length (hash_sha256 E d) = 32" using length_hash_sha256 [OF assms] by (simp add: size_simps)
  then show "16 \<le> length (hash_sha256 E d)" "\<exists>h. sb_from 16 (take 16 (hash_sha256 E d)) = Some h"
    using sb_from_fits [of "take 16 (hash_sha256 E d)" 16] by auto
qed

lemma ec_grant_decodes:
  assumes ok: "openssl_ok E" "ccm_ok E" "message_codec_ok E" and key: "authority_key E ea priv"
    and rt: "codec_roundtrip (asn_DEF_InnerEcResponse E) (ec_grant E request cert)" and req: "request \<noteq> []"
    and ans: "authority_answer E w t 0x81 psk_id k nonce
      (coer_encode (asn_DEF_InnerEcResponse E) (ec_grant E request cert)) ea priv = Some body"
  shows "\<exists>r. decode_ec_response E body any k request ea = Inr r \<and> ecs_response_code r = EnrolmentOk \<and>
    ecs_certificate r = Some (granted_cert E ''ec_response'' cert)"
proof -
  let ?resp = "coer_encode (asn_DEF_InnerEcResponse E) (ec_grant E request cert)"
  have "?resp \<noteq> []" using ans by (rule authority_answer_SomeE)
  then have dec: "coer_decode (asn_DEF_InnerEcResponse E) ?resp = Some (ec_grant E request cert)"
    by (rule coer_decode_encode [OF rt])
  obtain h where "sb_from 16 (take 16 (hash_sha256 E request)) = Some h"
    using sha256_prefix [OF ok(1)] by blast
  then show ?thesis
    using authority_answer_opens [OF ok key ans] dec req sha256_prefix(1) [OF ok(1)]
    by (auto simp: decode_ec_response_Ok_iff ec_grant_def granted_cert_def response_certificate_def)
qed

lemma at_grant_decodes:
  assumes ok: "openssl_ok E" "ccm_ok E" "message_codec_ok E" and key: "authority_key E aa priv"
    and rt: "codec_roundtrip (asn_DEF_InnerAtResponse E) (at_grant E request cert)" and req: "request \<noteq> []"
    and ans: "authority_answer E w t 0x83 psk_id k nonce
      (coer_encode (asn_DEF_InnerAtResponse E) (at_grant E request cert)) aa priv = Some body"
  shows "\<exists>r. decode_at_response E body any k request aa = Inr r \<and> ats_response_code r = AuthorizationOk \<and>
    ats_certificate r = Some (granted_cert E ''at_response'' cert)"
proof -
  let ?resp = "coer_encode (asn_DEF_InnerAtResponse E) (at_grant E request cert)"
  have "?resp \<noteq> []" using ans by (rule authority_answer_SomeE)
  then have dec: "coer_decode (asn_DEF_InnerAtResponse E) ?resp = Some (at_grant E request cert)"
    by (rule coer_decode_encode [OF rt])
  obtain h where "sb_from 16 (take 16 (hash_sha256 E request)) = Some h"
    using sha256_prefix [OF ok(1)] by blast
  then show ?thesis
    using authority_answer_opens [OF ok key ans] dec req sha256_prefix(1) [OF ok(1)]
    by (auto simp: decode_at_response_Ok_iff at_grant_def granted_cert_def response_certificate_def)
qed

text \<open>
  An enrolment with an authority that grants it: the answer is accepted and the credential, with the
  label of an enrolment credential, is returned and stored.
\<close>

lemma enrolment_completes:
  assumes ok: "openssl_ok E" "ccm_ok E" "message_codec_ok E" and key: "authority_key E ea ea_priv"
    and rec: "validate_ec_record rec = None" "client_load E P c h = Some kp"
      "find_by_hashed_id_8 (pc_trust c) (ecr_ea_hashed_id_8 rec) = Some ea"
      "encode_ec_request E w (ck_sign1 ck) (ck_sign2 ck) (assemble_ec_request rec (ck_assemble ck)) ea
        (to_vector (private_key kp)) = Inr req"
    and rt: "codec_roundtrip (asn_DEF_InnerEcResponse E) (ec_grant E (to_vector (req_encoded req)) cert)"
    and ans: "authority_answer E v t 0x81 psk_id (to_vector (req_aes_key req)) nonce
      (coer_encode (asn_DEF_InnerEcResponse E) (ec_grant E (to_vector (req_encoded req)) cert)) ea ea_priv = Some body"
    and net: "client_post c net (cfg_ea_url (pc_config c)) (to_vector (req_encoded req)) = Inr body"
    and chain: "validate_chain E (pc_trust c) (Some (pc_revocation c)) (granted_cert E ''ec'' cert)
      (current_tai_seconds (ck_validate ck))"
  shows "request_enrolment_credential E P net w ck c h rec =
    (Inr (granted_cert E ''ec'' cert), c\<lparr>pc_trust := add_cert (granted_cert E ''ec'' cert) (pc_trust c)\<rparr>)"
proof -
  have "to_vector (req_encoded req) \<noteq> []" using rec(4) by (rule encode_ec_request_OkE)
  from ec_grant_decodes [OF ok key rt this ans] obtain r where
    r: "decode_ec_response E body (to_vector (private_key kp)) (to_vector (req_aes_key req))
        (to_vector (req_encoded req)) ea = Inr r"
      "ecs_response_code r = EnrolmentOk" "ecs_certificate r = Some (granted_cert E ''ec_response'' cert)"
    by blast
  then have "ec_exchange E P net w ck c h rec = Inr r"
    using rec net by (auto simp: ec_exchange_Ok_iff)
  moreover have "granted_cert E ''ec'' cert = (granted_cert E ''ec_response'' cert)\<lparr>ci_label := ''ec''\<rparr>"
    by (simp add: granted_cert_def)
  ultimately show ?thesis
    using r chain validate_chain_issuers_present [OF chain] by (auto simp: enrolment_Ok_iff)
qed

lemma authorization_completes:
  assumes ok: "openssl_ok E" "ccm_ok E" "message_codec_ok E" and key: "authority_key E aa aa_priv"
    and rec: "validate_at_record rec = None" "client_load E P c h = Some kp" "client_load E P c ah = Some akp"
      "find_by_hashed_id_8 (pc_trust c) (atr_aa_hashed_id_8 rec) = Some aa"
      "find_by_hashed_id_8 (pc_trust c) (atr_ea_hashed_id_8 rec) = Some ea"
      "encode_at_request E (w + 1) (ck_sign1 ck) (ck_sign2 ck)
        ((assemble_at_request E w rec (ck_assemble ck))\<lparr>atd_verification_key := public_key akp\<rparr>) aa ea ec
        (to_vector (private_key kp)) (to_vector (private_key akp)) = Inr req"
    and rt: "codec_roundtrip (asn_DEF_InnerAtResponse E) (at_grant E (to_vector (req_encoded req)) cert)"
    and ans: "authority_answer E v t 0x83 psk_id (to_vector (req_aes_key req)) nonce
      (coer_encode (asn_DEF_InnerAtResponse E) (at_grant E (to_vector (req_encoded req)) cert)) aa aa_priv = Some body"
    and net: "client_post c net (cfg_aa_url (pc_config c)) (to_vector (req_encoded req)) = Inr body"
    and chain: "validate_chain E (pc_trust c) (Some (pc_revocation c)) (granted_cert E ''at'' cert)
      (current_tai_seconds (ck_validate ck))"
  shows "request_authorization_ticket E P net w ck c h ec ah rec =
    (Inr (granted_cert E ''at'' cert), c\<lparr>pc_trust := add_cert (granted_cert E ''at'' cert) (pc_trust c)\<rparr>)"
proof -
  have "to_vector (req_encoded req) \<noteq> []" using rec(6) by (rule encode_at_request_OkE)
  from at_grant_decodes [OF ok key rt this ans] obtain r where
    r: "decode_at_response E body (to_vector (private_key akp)) (to_vector (req_aes_key req))
        (to_vector (req_encoded req)) aa = Inr r"
      "ats_response_code r = AuthorizationOk" "ats_certificate r = Some (granted_cert E ''at_response'' cert)"
    by blast
  then have "at_exchange E P net w ck c h ec ah rec = Inr r"
    unfolding at_exchange_Ok_iff using rec net by blast
  moreover have "granted_cert E ''at'' cert = (granted_cert E ''at_response'' cert)\<lparr>ci_label := ''at''\<rparr>"
    by (simp add: granted_cert_def)
  ultimately show ?thesis
    using r chain validate_chain_issuers_present [OF chain] by (auto simp: authorization_Ok_iff)
qed

section \<open>The authorization request as both authorities see it\<close>

text \<open>
  A message with an external payload: it decodes to the structure that was signed and its signature
  verifies under the signer's key.
\<close>

lemma external_payload_verifies:
  assumes ok: "openssl_ok E" "message_codec_ok E" and kp: "is_keypair E c priv pub"
    and b: "build_external_payload E w t h cert priv c \<noteq> []"
  shows "\<exists>sig. coer_decode (asn_DEF_Ieee1609Dot2Data E) (build_external_payload E w t h cert priv c) =
      Some (signed_wrapper (external_tbs t h c) sig (to_vector (ci_cert_bytes cert)) (ci_hashed_id_8 cert) c) \<and>
    ecdsa_verify_digest E pub (double_hash (\<lambda>d. hash_for_curve E d c)
      (coer_encode (asn_DEF_ToBeSignedData E) (external_tbs t h c)) (to_vector (ci_cert_bytes cert))) sig c"
  using b unfolding build_external_payload_def
proof (rule finalize_nonemptyE)
  fix sig
  let ?cb = "to_vector (ci_cert_bytes cert)" and ?hid = "ci_hashed_id_8 cert"
  let ?dg = "double_hash (\<lambda>d. hash_for_curve E d c) (coer_encode (asn_DEF_ToBeSignedData E) (external_tbs t h c)) ?cb"
  assume sg: "ecdsa_sign_digest E w priv ?dg c = Some sig"
    and fin: "finalize_signed_data E w (external_tbs t h c) priv ?cb ?hid c =
      coer_encode (asn_DEF_Ieee1609Dot2Data E) (signed_wrapper (external_tbs t h c) sig ?cb ?hid c)"
  have "coer_decode (asn_DEF_Ieee1609Dot2Data E) (finalize_signed_data E w (external_tbs t h c) priv ?cb ?hid c) =
      Some (signed_wrapper (external_tbs t h c) sig ?cb ?hid c)"
    unfolding fin using ok(2) b fin
    by (intro coer_decode_encode) (auto simp: message_codec_ok_def build_external_payload_def)
  moreover have "ecdsa_verify_digest E pub ?dg sig c" using sign_then_verify [OF ok(1) kp sg] by blast
  ultimately show "\<exists>sig. coer_decode (asn_DEF_Ieee1609Dot2Data E)
      (finalize_signed_data E w (external_tbs t h c) priv ?cb ?hid c) =
      Some (signed_wrapper (external_tbs t h c) sig ?cb ?hid c) \<and> ecdsa_verify_digest E pub ?dg sig c"
    by blast
qed

lemma at_inner_opens:
  assumes ok: "openssl_ok E" "ccm_ok E" "message_codec_ok E"
    and rt: "\<And>x. codec_roundtrip (asn_DEF_SharedAtRequest E) x"
    and inner: "encode_inner_at E w t1 desc ea ec ec_priv = Inr inner"
    and kp: "is_keypair E (atd_curve desc) ec_priv ec_pub"
    and ea: "is_keypair E (ci_enc_curve ea) ea_priv (recipient_enc_key ea)"
  shows "\<exists>tag ecies ext sig. let c = atd_curve desc; shared = shared_at_request desc tag;
      tbs = external_tbs t1 (hash_for_curve E (coer_encode (asn_DEF_SharedAtRequest E) shared) c) c in
    inner = coer_encode (asn_DEF_InnerAtRequest E)
      (inner_at_request desc shared (build_encrypted_data ecies ea (ci_enc_curve ea))) \<and>
    ecies_decrypt E ea_priv ecies (recipient_p1 E ea) (ci_enc_curve ea) = Some ext \<and>
    coer_decode (asn_DEF_Ieee1609Dot2Data E) ext =
      Some (signed_wrapper tbs sig (to_vector (ci_cert_bytes ec)) (ci_hashed_id_8 ec) c) \<and>
    ecdsa_verify_digest E ec_pub (double_hash (\<lambda>d. hash_for_curve E d c)
      (coer_encode (asn_DEF_ToBeSignedData E) tbs) (to_vector (ci_cert_bytes ec))) sig c"
  using inner
proof (rule encode_inner_at_OkE)
  fix tag shared_coer ext ecies shared'
  let ?c = "atd_curve desc"
  assume f: "shared_coer = coer_encode (asn_DEF_SharedAtRequest E) (shared_at_request desc tag)" "shared_coer \<noteq> []"
    "ext = build_external_payload E w t1 (hash_for_curve E shared_coer ?c) ec ec_priv ?c" "ext \<noteq> []"
    "coer_decode (asn_DEF_SharedAtRequest E) shared_coer = Some shared'"
    "inner = coer_encode (asn_DEF_InnerAtRequest E)
       (inner_at_request desc shared' (build_encrypted_data ecies ea (ci_enc_curve ea)))"
    and enc: "ecies_encrypt E (w + 1) (recipient_enc_key ea) ext (recipient_p1 E ea) (ci_enc_curve ea) = Some ecies"
  have "coer_decode (asn_DEF_SharedAtRequest E) shared_coer = Some (shared_at_request desc tag)"
    unfolding f(1) using f(1,2) by (intro coer_decode_encode rt) simp
  then have "shared' = shared_at_request desc tag" using f(5) by simp
  moreover have "ecies_decrypt E ea_priv ecies (recipient_p1 E ea) (ci_enc_curve ea) = Some ext"
    using ecies_decrypt_encrypt [OF ok(1,2) ea enc, of "ephemeral_pubkey ecies"] by simp
  ultimately show ?thesis
    using f external_payload_verifies [OF ok(1,3) kp, of w t1 "hash_for_curve E shared_coer ?c" ec]
    unfolding Let_def by blast
qed

section \<open>Certificates the library builds, encoded and parsed again\<close>

lemma verify_cert_signature_cong:
  assumes "ci_tbs_bytes a = ci_tbs_bytes b" "ci_is_self_signed a = ci_is_self_signed b"
    "ci_issuer_hash a = ci_issuer_hash b"
    "to_vector (ci_signature_r a) = to_vector (ci_signature_r b)" "sb_size (ci_signature_r a) = sb_size (ci_signature_r b)"
    "to_vector (ci_signature_s a) = to_vector (ci_signature_s b)" "sb_size (ci_signature_s a) = sb_size (ci_signature_s b)"
  shows "verify_cert_signature E a issuer = verify_cert_signature E b issuer"
  using assms ecdsa_verify_digest_bytes
    [of "\<lparr>sig_r_sb = ci_signature_r a, sig_s_sb = ci_signature_s a\<rparr>" "\<lparr>sig_r_sb = ci_signature_r b, sig_s_sb = ci_signature_s b\<rparr>"]
  by (simp add: verify_cert_signature_def Let_def)

text \<open>A certificate built for an issuer verifies under it after it was encoded and parsed.\<close>

lemma parsed_built_verifies:
  assumes ok: "openssl_ok E" "array8_ok E" and kp: "is_keypair E NistP256 priv ipub"
    and b: "build_signed_cert E w name pub priv ihid is_ca self icb = Some c"
    and hd: "pub ! 0 = 0x04" "length ihid = 8"
    and rt: "\<And>x. codec_roundtrip (asn_DEF_CertificateBase E) x"
    and issuer: "ci_curve issuer = NistP256" "to_vector (ci_public_key issuer) = ipub"
      "\<not> sb_empty (ci_public_key issuer)" "self \<or> to_vector (ci_cert_bytes issuer) = icb"
  shows "verify_cert_signature E (from_coer E (to_vector (ci_cert_bytes c))) issuer"
proof -
  let ?p = "from_coer E (to_vector (ci_cert_bytes c))"
  note f = from_coer_build_signed_cert [OF b hd rt]
  have built: "verify_cert_signature E c issuer"
    using build_signed_cert_verifies [OF ok(1) kp b issuer(1) _ issuer(3,4)] issuer(2) by simp
  have "wf_CertInfo ?p" by (rule wf_from_coer [OF ok(2)])
  then have wf: "sb_size (ci_signature_r ?p) = length (to_vector (ci_signature_r ?p))"
    "sb_size (ci_signature_s ?p) = length (to_vector (ci_signature_s ?p))"
    using wf_sb_length by (auto simp: wf_CertInfo_def)
  obtain sig dg where sig: "ecdsa_sign_digest E w priv dg NistP256 = Some sig"
    "ci_signature_r c = sig_r_sb sig" "ci_signature_s c = sig_s_sb sig"
    using b by (rule build_signed_cert_SomeE) blast
  have "sb_size (ci_signature_r c) = length (to_vector (ci_signature_r c))"
    "sb_size (ci_signature_s c) = length (to_vector (ci_signature_s c))"
    using sb_size_sig [OF sig(1)] sign_digest_sizes [OF sig(1)] sig by auto
  with f wf have "verify_cert_signature E ?p issuer = verify_cert_signature E c issuer"
    by (intro verify_cert_signature_cong) simp_all
  with built show ?thesis by simp
qed

text \<open>A root and a certificate it issued, both built by the library, form a chain the library accepts.\<close>

lemma built_chain_validates:
  assumes ok: "openssl_ok E" "array8_ok E" and kp: "is_keypair E NistP256 priv rpub"
    and rt: "\<And>x. codec_roundtrip (asn_DEF_CertificateBase E) x"
    and root: "build_root_cert E w1 rname rpub priv = Some r" "rpub ! 0 = 0x04"
    and cert: "build_signed_cert E w2 name pub priv (ci_hashed_id_8 r) is_ca False (to_vector (ci_cert_bytes r)) = Some c"
      "pub ! 0 = 0x04"
  defines "pr \<equiv> from_coer E (to_vector (ci_cert_bytes r))" and "pc \<equiv> from_coer E (to_vector (ci_cert_bytes c))"
  assumes store: "find_by_hashed_id_8 tc (ci_hashed_id_8 pr) = Some (pr\<lparr>ci_label := l\<rparr>)"
    and rev: "\<not> is_revoked_by_issuer rv pc pr" "\<not> is_revoked_by_issuer rv pr pr"
    and now: "0 \<le> now" "now < 30 * 31556952"
  shows "trust_path E tc rv now 1 (pc\<lparr>ci_label := l'\<rparr>)"
proof -
  have rb: "build_signed_cert E w1 rname rpub priv (replicate 8 0) True True [] = Some r"
    using root(1) by (simp add: build_root_cert_def)
  have rh: "ci_hashed_id_8 r = compute_hid8 E (to_vector (ci_cert_bytes r))"
    using rb by (rule build_signed_cert_SomeE) simp
  note fr = from_coer_build_signed_cert [OF rb root(2) _ rt, folded pr_def]
  have len: "length (ci_hashed_id_8 r) = 8" using rh by simp
  note fc = from_coer_build_signed_cert [OF cert(1,2) len rt, folded pc_def]
  obtain rf: "ci_curve r = NistP256" "sb_from kP384PublicKeyLen rpub = Some (ci_public_key r)"
    "ci_is_self_signed r" "ci_validity_start r = 0" "ci_validity_duration_seconds r = 30 * kYearSeconds"
    "length rpub = kP256PublicKeyLen"
    using rb by (rule build_signed_cert_SomeE) auto
  then have "rpub \<noteq> []" by (auto simp: size_simps)
  obtain cf: "\<not> ci_is_self_signed c" "ci_validity_start c = 0" "ci_validity_duration_seconds c = 30 * kYearSeconds"
    "ci_issuer_hash_id_8 c = ci_hashed_id_8 r"
    using cert(1) by (rule build_signed_cert_SomeE) auto
  have issuer: "ci_curve pr = NistP256" "to_vector (ci_public_key pr) = rpub" "\<not> sb_empty (ci_public_key pr)"
    "to_vector (ci_cert_bytes pr) = to_vector (ci_cert_bytes r)"
    using fr rf \<open>rpub \<noteq> []\<close> by simp_all
  have vr: "verify_cert_signature E pr pr"
    unfolding pr_def by (rule parsed_built_verifies [OF ok kp rb root(2) _ rt]) (use issuer in \<open>simp_all add: pr_def\<close>)
  have vc: "verify_cert_signature E pc pr"
    unfolding pc_def by (rule parsed_built_verifies [OF ok kp cert _ rt]) (use issuer rh in simp_all)
  have val: "valid_at ci now" if "ci_validity_start ci = 0" "ci_validity_duration_seconds ci = 30 * kYearSeconds" for ci
    using that now by (simp add: valid_at_def kYearSeconds_def)
  have lbl: "vouched E rv (a\<lparr>ci_label := x\<rparr>) (b\<lparr>ci_label := y\<rparr>) = vouched E rv a b" for a b x y
    by (simp add: vouched_def verify_cert_signature_def is_revoked_by_issuer_def Let_def split: option.split)
  have "trust_path E tc rv now 0 (pr\<lparr>ci_label := l\<rparr>)"
    using fr rf vr rev val by (simp add: trust_path_0 lbl) (simp add: vouched_def)
  moreover have "vouched E rv pc pr" using vc rev by (simp add: vouched_def)
  ultimately have "trust_path E tc rv now (Suc 0) (pc\<lparr>ci_label := l'\<rparr>)"
    using fr fc rf cf store val lbl by (intro trust_path.issued [where i = "pr\<lparr>ci_label := l\<rparr>"]) simp_all
  then show ?thesis by simp
qed

end
