(* ===== verification/ExampleWorld.thy ===== *)
theory ExampleWorld
  imports Exchange
begin

text \<open>
  One concrete world in which the hypotheses of the end-to-end properties hold: an authority that is
  its own root, a device with a key, a credential, a revocation list, and codecs with one entry per
  message of the exchange, over the example cryptography of \<open>ToyEnv\<close>. The messages are built with the
  library's own operations, so the world shows that they fit together.
\<close>

section \<open>An environment with given codecs\<close>

definition no_codecs :: asn_defs where
  "no_codecs = \<lparr>asn_DEF_CertificateBase = no_codec, asn_DEF_EtsiTs103097Certificate = no_codec,
      asn_DEF_ToBeSignedCertificate = no_codec, asn_DEF_Ieee1609Dot2Data = no_codec,
      asn_DEF_ToBeSignedData = no_codec, asn_DEF_PublicVerificationKey = no_codec,
      asn_DEF_InnerEcRequest = no_codec, asn_DEF_InnerEcResponse = no_codec,
      asn_DEF_SharedAtRequest = no_codec, asn_DEF_InnerAtRequest = no_codec,
      asn_DEF_InnerAtResponse = no_codec, asn_DEF_EtsiTs102941Data = no_codec\<rparr>"

definition codec_env :: "asn_defs \<Rightarrow> env" where
  "codec_env D = toy_env\<lparr>asn_DEF_CertificateBase := asn_DEF_CertificateBase D,
      asn_DEF_EtsiTs103097Certificate := asn_DEF_EtsiTs103097Certificate D,
      asn_DEF_ToBeSignedCertificate := asn_DEF_ToBeSignedCertificate D,
      asn_DEF_Ieee1609Dot2Data := asn_DEF_Ieee1609Dot2Data D,
      asn_DEF_ToBeSignedData := asn_DEF_ToBeSignedData D,
      asn_DEF_PublicVerificationKey := asn_DEF_PublicVerificationKey D,
      asn_DEF_InnerEcRequest := asn_DEF_InnerEcRequest D,
      asn_DEF_InnerEcResponse := asn_DEF_InnerEcResponse D,
      asn_DEF_SharedAtRequest := asn_DEF_SharedAtRequest D,
      asn_DEF_InnerAtRequest := asn_DEF_InnerAtRequest D,
      asn_DEF_InnerAtResponse := asn_DEF_InnerAtResponse D,
      asn_DEF_EtsiTs102941Data := asn_DEF_EtsiTs102941Data D\<rparr>"

text \<open>The codecs are the given ones and everything else is the example environment.\<close>

lemma codec_env_codecs [simp]:
  "asn_DEF_CertificateBase (codec_env D) = asn_DEF_CertificateBase D"
  "asn_DEF_ToBeSignedCertificate (codec_env D) = asn_DEF_ToBeSignedCertificate D"
  "asn_DEF_Ieee1609Dot2Data (codec_env D) = asn_DEF_Ieee1609Dot2Data D"
  "asn_DEF_ToBeSignedData (codec_env D) = asn_DEF_ToBeSignedData D"
  "asn_DEF_PublicVerificationKey (codec_env D) = asn_DEF_PublicVerificationKey D"
  "asn_DEF_InnerEcRequest (codec_env D) = asn_DEF_InnerEcRequest D"
  "asn_DEF_InnerEcResponse (codec_env D) = asn_DEF_InnerEcResponse D"
  "asn_DEF_SharedAtRequest (codec_env D) = asn_DEF_SharedAtRequest D"
  "asn_DEF_InnerAtRequest (codec_env D) = asn_DEF_InnerAtRequest D"
  "asn_DEF_InnerAtResponse (codec_env D) = asn_DEF_InnerAtResponse D"
  "asn_DEF_EtsiTs102941Data (codec_env D) = asn_DEF_EtsiTs102941Data D"
  by (simp_all add: codec_env_def)

lemma codec_env_ssl [simp]:
  "EVP_sha256 (codec_env D) = EVP_sha256 toy_env"
  "EVP_sha384 (codec_env D) = EVP_sha384 toy_env"
  "HMAC_sha256 (codec_env D) = HMAC_sha256 toy_env"
  "BN_bin2bn (codec_env D) = BN_bin2bn toy_env"
  "BN_bn2binpad (codec_env D) = BN_bn2binpad toy_env"
  "EC_GROUP_new_by_curve_name (codec_env D) = EC_GROUP_new_by_curve_name toy_env"
  "EC_POINT_mul (codec_env D) = EC_POINT_mul toy_env"
  "EC_POINT_point2oct (codec_env D) = EC_POINT_point2oct toy_env"
  "EC_POINT_oct2point (codec_env D) = EC_POINT_oct2point toy_env"
  "EVP_PKEY_fromdata (codec_env D) = EVP_PKEY_fromdata toy_env"
  "EVP_PKEY_generate (codec_env D) = EVP_PKEY_generate toy_env"
  "EVP_PKEY_sign (codec_env D) = EVP_PKEY_sign toy_env"
  "EVP_PKEY_verify (codec_env D) = EVP_PKEY_verify toy_env"
  "EVP_DigestSign_sha256 (codec_env D) = EVP_DigestSign_sha256 toy_env"
  "EVP_DigestVerify_sha256 (codec_env D) = EVP_DigestVerify_sha256 toy_env"
  "EVP_PKEY_derive (codec_env D) = EVP_PKEY_derive toy_env"
  "d2i_ECDSA_SIG (codec_env D) = d2i_ECDSA_SIG toy_env"
  "i2d_ECDSA_SIG (codec_env D) = i2d_ECDSA_SIG toy_env"
  "aes_ccm_seal (codec_env D) = aes_ccm_seal toy_env"
  "aes_ccm_open (codec_env D) = aes_ccm_open toy_env"
  "RAND_bytes (codec_env D) = RAND_bytes toy_env"
  "uninit (codec_env D) = uninit toy_env"
  by (simp_all add: codec_env_def)

lemma codec_env_ok [simp]: "openssl_ok (codec_env D)" "ccm_ok (codec_env D)" "array8_ok (codec_env D)"
proof -
  show "openssl_ok (codec_env D)" using toy_openssl unfolding ssl_laws by simp
  show "ccm_ok (codec_env D)" using toy_ccm unfolding ssl_laws by simp
  show "array8_ok (codec_env D)" by (simp add: array8_ok_def) (simp add: toy_env_def size_simps)
qed

lemma codec_env_hash [simp]:
  "hash_sha256 (codec_env D) = hash_sha256 toy_env" "hash_sha384 (codec_env D) = hash_sha384 toy_env"
  "hash_for_curve (codec_env D) d c = hash_for_curve toy_env d c"
proof -
  show h: "hash_sha256 (codec_env D) = hash_sha256 toy_env" "hash_sha384 (codec_env D) = hash_sha384 toy_env"
    by (simp_all add: fun_eq_iff hash_sha256_def hash_sha384_def)
  show "hash_for_curve (codec_env D) d c = hash_for_curve toy_env d c" by (cases c) (simp_all add: h)
qed

lemma codec_env_keys [simp]:
  "evp_pkey_from_private (codec_env D) = evp_pkey_from_private toy_env"
  "evp_pkey_from_public (codec_env D) = evp_pkey_from_public toy_env"
  by (simp_all add: fun_eq_iff evp_pkey_from_private_def evp_pkey_from_public_def
      cong: option.case_cong if_cong)

lemma codec_env_crypto [simp]:
  "is_keypair (codec_env D) c priv pub = is_keypair toy_env c priv pub"
  "ecdsa_sign_digest (codec_env D) w priv dg c = ecdsa_sign_digest toy_env w priv dg c"
  "aes_128_ccm_encrypt (codec_env D) k n pt = aes_128_ccm_encrypt toy_env k n pt"
  "generate_keypair (codec_env D) w c = generate_keypair toy_env w c"
  "ecdh_derive (codec_env D) priv pub c = ecdh_derive toy_env priv pub c"
  "kdf2_block (codec_env D) ss p1 j = kdf2_block toy_env ss p1 j"
  by (simp_all add: is_keypair_def ecdsa_sign_digest_def extract_rs_from_der_def aes_128_ccm_encrypt_def
      generate_keypair_def ecdh_derive_def kdf2_block_def cong: option.case_cong if_cong)

lemma codec_env_ecies [simp]: "ecies_encrypt (codec_env D) w pk pt p1 c = ecies_encrypt toy_env w pk pt p1 c"
  by (simp add: ecies_encrypt_def kdf2_ecies [OF codec_env_ok(1)] kdf2_ecies [OF toy_openssl] Let_def
      cong: option.case_cong)

lemma codec_env_load [simp]:
  "client_load (codec_env D) P c h = client_load toy_env P c h"
  "load_keypair (codec_env D) P dir fs h = load_keypair toy_env P dir fs h"
  by (simp_all add: client_load_def load_keypair_def extract_keypair_def Let_def cong: option.case_cong)

section \<open>The example world\<close>

text \<open>
  The device has the key 5 for its credential and 7 for its ticket, the authority the key 6. Every structure to be signed encodes to one byte
  \<open>7\<close>; \<open>ex_sig w d signer\<close> is the signature over it with seed \<open>w\<close>, key \<open>d\<close> and the signer's bytes.
\<close>

definition ex_sig :: "nat \<Rightarrow> nat \<Rightarrow> bytes \<Rightarrow> Signature" where
  "ex_sig w d signer = the (ecdsa_sign_digest toy_env w (nat_be 32 d)
     (double_hash (hash_sha256 toy_env) [7] signer) NistP256)"

lemma ex_sig:
  assumes "d < 256 ^ 32"
  shows "ecdsa_sign_digest toy_env w (nat_be 32 d) (double_hash (hash_sha256 toy_env) [7] signer) NistP256 =
    Some (ex_sig w d signer)"
proof -
  have "length (double_hash (hash_sha256 toy_env) [7] signer) = hash_len NistP256"
    by (simp add: double_hash_def hash_sha256_def toy_env_def size_simps)
  from toy_signs [OF _ this, of d w] assms show ?thesis by (auto simp: ex_sig_def size_simps)
qed

text \<open>The certificates of the authority and of the device; their encodings are the bytes 20, 21 and 22.\<close>

definition ex_tbs :: "string \<Rightarrow> nat \<Rightarrow> bool \<Rightarrow> ToBeSignedCertificate" where
  "ex_tbs name d is_ca = the (build_tbs_struct name (toy_pub 32 d) is_ca 0 30)"

definition ex_hid :: hid8 where "ex_hid = truncate_hid8 (hash_sha256 toy_env [20])"

definition ex_root_struct :: CertificateBase where
  "ex_root_struct = cert_struct (ex_tbs ''ea'' 6 True) (ex_sig 0 6 []) (replicate 8 0) True"

definition ex_cred_struct :: CertificateBase where
  "ex_cred_struct = cert_struct (ex_tbs ''ec'' 5 False) (ex_sig 0 6 [20]) ex_hid False"

definition ex_cred_hid :: hid8 where "ex_cred_hid = truncate_hid8 (hash_sha256 toy_env [21])"

definition ex_ticket_struct :: CertificateBase where
  "ex_ticket_struct = cert_struct (ex_tbs ''at'' 7 False) (ex_sig 0 6 [20]) ex_hid False"

text \<open>The messages: the two signed layers of the request, its envelope, the answer, and a CRL.\<close>

definition ex_enc :: "nat \<Rightarrow> bytes \<Rightarrow> EciesEncryptResult" where
  "ex_enc w pt = the (ecies_encrypt toy_env w (toy_pub 32 6) pt (hash_sha256 toy_env [20]) NistP256)"

definition ex_request :: "nat \<Rightarrow> bytes \<Rightarrow> Ieee1609Dot2Data" where
  "ex_request w pt = build_encrypted_data (ex_enc w pt) ((CertInfo_init [])\<lparr>ci_hashed_id_8 := ex_hid\<rparr>) NistP256"

definition ex_signed :: "bytes \<Rightarrow> nat \<Rightarrow> nat \<Rightarrow> bytes \<Rightarrow> hid8 \<Rightarrow> Ieee1609Dot2Data" where
  "ex_signed payload w d signer hid =
     signed_wrapper (make_unsecured_tbs 0 payload) (ex_sig w d signer) signer hid NistP256"

definition ex_sealed :: "bytes \<Rightarrow> Ieee1609Dot2Data" where
  "ex_sealed content = psk_envelope [] (replicate 12 0) \<lparr>ccm_ct = content, ccm_tag = replicate 16 0\<rparr>"

definition ex_crl :: ToBeSignedCrl where
  "ex_crl = \<lparr>crl_version = 1, crl_thisUpdate = 0, crl_nextUpdate = 0, crl_entries = [replicate 8 1]\<rparr>"

text \<open>
  The authorization request: the record and its description, the part that both authorities see, and
  the message in which the credential signs its hash.
\<close>

definition ex_at_record :: AtRecord where
  "ex_at_record = \<lparr>atr_at_public_key = the (sb_from kP384PublicKeyLen (toy_pub 32 7)), atr_aa_hashed_id_8 = ex_hid,
     atr_ea_hashed_id_8 = ex_hid, atr_requested_psids = [36], atr_validity_period_hours = 24, atr_curve = NistP256\<rparr>"

definition at_desc :: AtRequestDescription where
  "at_desc = assemble_at_request toy_env 8 ex_at_record 0"

definition at_shared :: SharedAtRequest where
  "at_shared = shared_at_request at_desc (at_key_tag toy_env at_desc [12])"

definition at_ext :: Ieee1609Dot2Data where
  "at_ext = signed_wrapper (external_tbs 0 (hash_sha256 toy_env [13]) NistP256) (ex_sig 9 5 [21]) [21]
     ex_cred_hid NistP256"

text \<open>
  The messages with their encodings: the enrolment request, its answer, the revocation list, the
  authorization request and its answer.
\<close>

definition ex_table :: "(Ieee1609Dot2Data \<times> bytes) list" where
  "ex_table =
     [(ex_signed [5] 1 5 [] (replicate 8 0), [1]), (ex_signed [1, 0x80, 1] 2 5 [] (replicate 8 0), [2]),
      (ex_request 3 [2], [3]), (ex_signed [1, 0x81, 8] 0 6 [20] ex_hid, [4]), (ex_sealed [4], [6]),
      (ex_signed [11] 0 6 [20] ex_hid, [10]),
      (at_ext, [30]), (ex_signed [1, 0x82, 14] 13 7 [] (replicate 8 0), [31]), (ex_request 14 [31], [32]),
      (ex_signed [1, 0x83, 15] 0 6 [20] ex_hid, [33]), (ex_sealed [33], [34])]"

definition ex_codecs :: asn_defs where
  "ex_codecs = no_codecs
     \<lparr>asn_DEF_ToBeSignedCertificate := const_codec [7], asn_DEF_ToBeSignedData := const_codec [7],
      asn_DEF_CertificateBase := table_codec [(ex_root_struct, [20]), (ex_cred_struct, [21]), (ex_ticket_struct, [22])],
      asn_DEF_InnerEcRequest := const_codec [5],
      asn_DEF_InnerEcResponse := single_codec (ec_grant toy_env [3] ex_cred_struct) [8],
      asn_DEF_PublicVerificationKey := const_codec [12], asn_DEF_SharedAtRequest := single_codec at_shared [13],
      asn_DEF_InnerAtRequest := const_codec [14],
      asn_DEF_InnerAtResponse := single_codec (at_grant toy_env [32] ex_ticket_struct) [15],
      asn_DEF_EtsiTs102941Data := single_codec
        \<lparr>etsi_version = 1, etsi_content = Some (certificateRevocationList (Some ex_crl))\<rparr> [11],
      asn_DEF_Ieee1609Dot2Data := table_codec ex_table\<rparr>"

definition ex_env :: env where "ex_env = codec_env ex_codecs"

lemmas ex_env_crypto [simp] = codec_env_hash [of ex_codecs, folded ex_env_def]
  codec_env_crypto [of ex_codecs, folded ex_env_def] codec_env_ecies [of ex_codecs, folded ex_env_def]
  codec_env_load [of ex_codecs, folded ex_env_def]

lemma ex_env_ok [simp]: "openssl_ok ex_env" "ccm_ok ex_env" "array8_ok ex_env" "message_codec_ok ex_env"
  by (simp_all add: ex_env_def message_codec_ok_def ex_codecs_def ex_table_def table_codec_roundtrip)

lemma ex_cert_roundtrip: "codec_roundtrip (asn_DEF_CertificateBase ex_env) x"
  by (simp add: ex_env_def ex_codecs_def table_codec_roundtrip)

text \<open>The messages are pairwise different, so each has its own encoding.\<close>

lemma table_codec_encode:
  "(v, b) \<in> set tbl \<Longrightarrow> distinct (map fst tbl) \<Longrightarrow> oer_encode (table_codec tbl) v = Some b"
  by (simp add: table_codec_def)

lemma ex_signed_payload: "p \<noteq> p' \<Longrightarrow> ex_signed p w d s h \<noteq> ex_signed p' w' d' s' h'"
  by (simp add: ex_signed_def signed_wrapper_def make_unsecured_tbs_def octet_set_def)

lemma ex_signed_external: "ex_signed p w d s h \<noteq> at_ext"
  by (simp add: ex_signed_def at_ext_def signed_wrapper_def make_unsecured_tbs_def external_tbs_def)

lemma ex_signed_not_encrypted:
  "ex_signed p w d s h \<noteq> ex_request w' q" "ex_signed p w d s h \<noteq> ex_sealed b" "ex_request w q \<noteq> ex_sealed b"
  "at_ext \<noteq> ex_request w q" "at_ext \<noteq> ex_sealed b" "b \<noteq> b' \<Longrightarrow> ex_sealed b \<noteq> ex_sealed b'"
  by (simp_all add: ex_signed_def at_ext_def signed_wrapper_def ex_request_def ex_sealed_def build_encrypted_data_def
      psk_envelope_def Let_def)

text \<open>The example cipher leaves the plaintext, so encryptions of different messages differ.\<close>

lemma ex_encrypts: "w < 256 ^ 32 \<Longrightarrow> ecies_encrypt toy_env w (toy_pub 32 6) pt (hash_sha256 toy_env [20]) NistP256 = Some (ex_enc w pt)"
  using toy_encrypts [of w NistP256 6 pt "hash_sha256 toy_env [20]"] by (auto simp: ex_enc_def size_simps)

lemma toy_ciphertext:
  "ecies_encrypt toy_env w pk pt p1 c = Some e \<Longrightarrow> ecies_ciphertext e = pt \<and> tag_ccm e = replicate 16 0"
  by (auto simp: ecies_encrypt_def aes_128_ccm_encrypt_def toy_env_def Let_def split: option.splits if_splits)

lemma ex_request_plain:
  assumes "pt \<noteq> pt'" "w < 256 ^ 32" "w' < 256 ^ 32"
  shows "ex_request w pt \<noteq> ex_request w' pt'"
  using assms toy_ciphertext [OF ex_encrypts [OF assms(2), of pt]] toy_ciphertext [OF ex_encrypts [OF assms(3), of pt']]
  by (simp add: ex_request_def build_encrypted_data_def octet_set_def Let_def)

lemmas ex_distinct = ex_signed_payload ex_signed_external ex_signed_external [symmetric] ex_signed_not_encrypted
  ex_signed_not_encrypted [symmetric] ex_request_plain

lemma ex_table_distinct: "distinct (map fst ex_table)"
  by (simp add: ex_table_def ex_distinct)

lemma ex_encode: "(v, b) \<in> set ex_table \<Longrightarrow> coer_encode (asn_DEF_Ieee1609Dot2Data ex_env) v = b"
  using table_codec_encode [OF _ ex_table_distinct, of v b]
  by (simp add: coer_encode_def ex_env_def ex_codecs_def)

lemma ex_messages:
  "coer_encode (asn_DEF_Ieee1609Dot2Data ex_env) (ex_signed [5] 1 5 [] (replicate 8 0)) = [1]"
  "coer_encode (asn_DEF_Ieee1609Dot2Data ex_env) (ex_signed [1, 0x80, 1] 2 5 [] (replicate 8 0)) = [2]"
  "coer_encode (asn_DEF_Ieee1609Dot2Data ex_env) (ex_request 3 [2]) = [3]"
  "coer_encode (asn_DEF_Ieee1609Dot2Data ex_env) (ex_signed [1, 0x81, 8] 0 6 [20] ex_hid) = [4]"
  "coer_encode (asn_DEF_Ieee1609Dot2Data ex_env) (ex_sealed [4]) = [6]"
  "coer_encode (asn_DEF_Ieee1609Dot2Data ex_env) (ex_signed [11] 0 6 [20] ex_hid) = [10]"
  by (rule ex_encode; simp add: ex_table_def)+

lemma at_messages:
  "coer_encode (asn_DEF_Ieee1609Dot2Data ex_env) at_ext = [30]"
  "coer_encode (asn_DEF_Ieee1609Dot2Data ex_env) (ex_signed [1, 0x82, 14] 13 7 [] (replicate 8 0)) = [31]"
  "coer_encode (asn_DEF_Ieee1609Dot2Data ex_env) (ex_request 14 [31]) = [32]"
  "coer_encode (asn_DEF_Ieee1609Dot2Data ex_env) (ex_signed [1, 0x83, 15] 0 6 [20] ex_hid) = [33]"
  "coer_encode (asn_DEF_Ieee1609Dot2Data ex_env) (ex_sealed [33]) = [34]"
  by (rule ex_encode; simp add: ex_table_def)+

lemma ex_certs:
  "coer_encode (asn_DEF_CertificateBase ex_env) ex_root_struct = [20]"
  "coer_encode (asn_DEF_CertificateBase ex_env) ex_cred_struct = [21]"
  "coer_encode (asn_DEF_CertificateBase ex_env) ex_ticket_struct = [22]"
proof -
  have "ex_tbs ''at'' 7 False \<noteq> ex_tbs ''ec'' 5 False"
    using length_toy_pub [of NistP256] by (simp add: ex_tbs_def build_tbs_struct_def size_simps)
  then have "ex_cred_struct \<noteq> ex_root_struct" "ex_ticket_struct \<noteq> ex_root_struct" "ex_ticket_struct \<noteq> ex_cred_struct"
    by (simp_all add: ex_cred_struct_def ex_root_struct_def ex_ticket_struct_def cert_struct_def)
  then show "coer_encode (asn_DEF_CertificateBase ex_env) ex_root_struct = [20]"
    "coer_encode (asn_DEF_CertificateBase ex_env) ex_cred_struct = [21]"
    "coer_encode (asn_DEF_CertificateBase ex_env) ex_ticket_struct = [22]"
    by (simp_all add: coer_encode_def ex_env_def ex_codecs_def table_codec_def)
qed

section \<open>The certificates of the example\<close>

lemma toy_pub_key: "length (toy_pub 32 d) = kP256PublicKeyLen" "toy_pub 32 d ! 0 = 0x04"
  by (simp_all add: toy_pub_def size_simps)

lemma ex_build:
  assumes d: "d < 256 ^ 32" and hid: "length hid = 8"
    and enc: "coer_encode (asn_DEF_CertificateBase ex_env)
      (cert_struct (ex_tbs name p is_ca) (ex_sig w d (if self then [] else icb)) hid self) = [b]"
  shows "\<exists>c. build_signed_cert ex_env w name (toy_pub 32 p) (nat_be 32 d) hid is_ca self icb = Some c \<and>
    to_vector (ci_cert_bytes c) = [b]"
proof -
  obtain tbs where tbs: "build_tbs_struct name (toy_pub 32 p) is_ca 0 30 = Some tbs"
    using toy_pub_key by (simp add: build_tbs_struct_def)
  then have e: "ex_tbs name p is_ca = tbs" by (simp add: ex_tbs_def)
  have t: "coer_encode (asn_DEF_ToBeSignedCertificate ex_env) tbs = [7]"
    by (simp add: coer_encode_def ex_env_def ex_codecs_def)
  have sg: "ecdsa_sign_digest ex_env w (nat_be 32 d)
      (double_hash (hash_sha256 ex_env) [7] (if self then [] else icb)) NistP256 =
      Some (ex_sig w d (if self then [] else icb))"
    by (simp only: ex_env_crypto ex_sig [OF d])
  obtain pk cb tb where "sb_from kP384PublicKeyLen (toy_pub 32 p) = Some pk"
    "sb_from kMaxCoerMessageLen [b] = Some cb" "sb_from kMaxCoerMessageLen [7] = Some tb"
    using sb_from_fits [of "toy_pub 32 p" kP384PublicKeyLen] sb_from_fits [of "[b]" kMaxCoerMessageLen]
      sb_from_fits [of "[7]" kMaxCoerMessageLen] toy_pub_key(1) [of p] by (auto simp: size_simps)
  then show ?thesis
    using toy_pub_key(1) [of p] enc sg
    by (simp add: build_signed_cert_def tbs t e Let_def)
qed

lemma length_ex_hid [simp]: "length ex_hid = 8"
  by (simp add: ex_hid_def)

text \<open>The authority's certificate as the client holds it, the credential and the ticket as it reads them.\<close>

definition ex_root :: CertInfo where "ex_root = (from_coer ex_env [20])\<lparr>ci_label := ''ea''\<rparr>"

definition ex_cred :: CertInfo where "ex_cred = granted_cert ex_env ''ec'' ex_cred_struct"

definition ex_ticket :: CertInfo where "ex_ticket = granted_cert ex_env ''at'' ex_ticket_struct"

lemma ex_decodes:
  "coer_decode (asn_DEF_CertificateBase ex_env) [20] = Some ex_root_struct"
  "coer_decode (asn_DEF_CertificateBase ex_env) [21] = Some ex_cred_struct"
  "coer_decode (asn_DEF_CertificateBase ex_env) [22] = Some ex_ticket_struct"
  using coer_decode_encode [OF ex_cert_roundtrip, of ex_root_struct] coer_decode_encode [OF ex_cert_roundtrip, of ex_cred_struct]
    coer_decode_encode [OF ex_cert_roundtrip, of ex_ticket_struct] ex_certs by simp_all

lemma ex_usable: "b \<in> {20, 21, 22} \<Longrightarrow> \<not> sb_empty (ci_cert_bytes (from_coer ex_env [b]))"
  using ex_decodes by (auto simp: from_coer_usable_iff size_simps)

lemma ex_cred_parsed: "ex_cred = (from_coer ex_env [21])\<lparr>ci_label := ''ec''\<rparr>"
  by (simp add: ex_cred_def granted_cert_def from_coer_def ex_certs ex_decodes)

lemma ex_ticket_parsed: "ex_ticket = (from_coer ex_env [22])\<lparr>ci_label := ''at''\<rparr>"
  by (simp add: ex_ticket_def granted_cert_def from_coer_def ex_certs ex_decodes)

lemma ex_root_built:
  "\<exists>r. build_root_cert ex_env 0 ''ea'' (toy_pub 32 6) (nat_be 32 6) = Some r \<and> to_vector (ci_cert_bytes r) = [20]"
  unfolding build_root_cert_def using ex_certs(1) by (intro ex_build) (simp_all add: ex_root_struct_def)

lemma ex_cred_built:
  "\<exists>c. build_signed_cert ex_env 0 ''ec'' (toy_pub 32 5) (nat_be 32 6) ex_hid False False [20] = Some c \<and>
     to_vector (ci_cert_bytes c) = [21]"
  using ex_certs(2) by (intro ex_build) (simp_all add: ex_cred_struct_def)

lemma ex_ticket_built:
  "\<exists>c. build_signed_cert ex_env 0 ''at'' (toy_pub 32 7) (nat_be 32 6) ex_hid False False [20] = Some c \<and>
     to_vector (ci_cert_bytes c) = [22]"
  using ex_certs(3) by (intro ex_build) (simp_all add: ex_ticket_struct_def)

lemma ex_hash_curve:
  "whole_cert_hash_curve (Some ex_root_struct) = NistP256" "whole_cert_hash_curve (Some ex_cred_struct) = NistP256"
  using toy_pub_key(1) [of 6] toy_pub_key(1) [of 5]
  by (simp_all add: whole_cert_hash_curve_def ex_root_struct_def ex_cred_struct_def cert_struct_def ex_tbs_def
      build_tbs_struct_def)

lemma ex_hid_cred: "compute_hid8 ex_env [21] = ex_cred_hid"
  by (simp add: compute_hid8_def compute_hid8_struct_def ex_cred_hid_def ex_decodes ex_hash_curve)

lemma ex_hid_root: "compute_hid8 ex_env [20] = ex_hid"
  by (simp add: compute_hid8_def compute_hid8_struct_def ex_hid_def ex_decodes ex_hash_curve)

lemma ex_root_fields:
  "ci_hashed_id_8 ex_root = ex_hid" "ci_curve ex_root = NistP256" "to_vector (ci_public_key ex_root) = toy_pub 32 6"
  "to_vector (ci_cert_bytes ex_root) = [20]" "recipient_enc_key ex_root = toy_pub 32 6" "ci_enc_curve ex_root = NistP256"
proof -
  obtain r where r: "build_root_cert ex_env 0 ''ea'' (toy_pub 32 6) (nat_be 32 6) = Some r"
    "to_vector (ci_cert_bytes r) = [20]" using ex_root_built by blast
  have rb: "build_signed_cert ex_env 0 ''ea'' (toy_pub 32 6) (nat_be 32 6) (replicate 8 0) True True [] = Some r"
    using r(1) by (simp add: build_root_cert_def)
  note f = from_coer_build_signed_cert [OF rb toy_pub_key(2) _ ex_cert_roundtrip, unfolded r(2)]
  obtain g: "ci_curve r = NistP256" "sb_from kP384PublicKeyLen (toy_pub 32 6) = Some (ci_public_key r)"
    "ci_hashed_id_8 r = compute_hid8 ex_env (to_vector (ci_cert_bytes r))"
    using rb by (rule build_signed_cert_SomeE) auto
  show "ci_hashed_id_8 ex_root = ex_hid" "ci_curve ex_root = NistP256"
    "to_vector (ci_public_key ex_root) = toy_pub 32 6" "to_vector (ci_cert_bytes ex_root) = [20]"
    "recipient_enc_key ex_root = toy_pub 32 6" "ci_enc_curve ex_root = NistP256"
    using f g r(2) ex_hid_root by (simp_all add: ex_root_def recipient_enc_key_def)
qed

lemma ex_root_key: "authority_key ex_env ex_root (nat_be 32 6)"
  using toy_keypair [of 6 NistP256]
  by (auto simp: authority_key_def ex_root_fields ex_hid_root size_simps)

text \<open>The client, started on a directory with the authority's certificate and a key file.\<close>

definition ex_key :: "nat \<Rightarrow> EVP_PKEY" where
  "ex_key d = EVP_KEYPAIR ''prime256v1'' d (toy_pub 32 d)"

definition ex_pem :: pem where
  "ex_pem = \<lparr>PEM_write_PrivateKey = (\<lambda>k. if k = ex_key 5 then (True, [5]) else if k = ex_key 7 then (True, [7]) else (False, [])),
     PEM_read_PrivateKey = (\<lambda>b. if b = [5] then Some (ex_key 5) else if b = [7] then Some (ex_key 7) else None),
     EVP_PKEY_get_bits = (\<lambda>k. 256), fclose_stored = (\<lambda>path b. length b)\<rparr>"

definition ex_handle :: KeyHandle where "ex_handle = the (KeyHandle_from ''ec'')"

definition ex_config :: PkiClientConfig where
  "ex_config = \<lparr>cfg_ea_url = [], cfg_aa_url = [], cfg_tlm_url = [], cfg_ma_url = [], cfg_ca_bundle_path = [],
      cfg_trust_dir = ''trust'', cfg_keystore_dir = ''keys'', cfg_tlm_hid8 = [], cfg_timeout = 30,
      cfg_verify_tls = True\<rparr>"

definition ex_files :: file_system where
  "ex_files = toy_fs\<lparr>fs_files := [pem_path ''keys'' ex_handle \<mapsto> [5]]\<rparr>"

definition ex_listing :: listing where
  "ex_listing = Directory [\<lparr>de_name = ''ea.cert'', de_regular = Some True, de_content = Content [20]\<rparr>] True"

definition ex_client :: PkiClient where
  "ex_client = PkiClient_members ex_config ex_files (add_cert ex_root TrustChain_init)"

lemma ex_load_root:
  "load_entry ex_env \<lparr>de_name = ''ea.cert'', de_regular = Some True, de_content = Content [20]\<rparr> = Some (Some ex_root)"
  using ex_usable [of 20] by (simp add: load_entry_def Let_def path_extension_def path_stem_def last_dot_def ex_root_def)

lemma ex_client_made: "PkiClient_init ex_env ex_config ex_files ex_listing = Some ex_client"
  by (simp add: ex_client_def PkiClient_init_def ex_listing_def load_from_directory_def ex_load_root)
    (simp add: ex_config_def)

lemma ex_client_store: "pc_trust ex_client = add_cert ex_root TrustChain_init"
  by (simp add: ex_client_def)

text \<open>The keys 5 and 7, in memory and loaded from their files.\<close>

definition ex_keypair :: "nat \<Rightarrow> KeyPair \<Rightarrow> bool" where
  "ex_keypair d kp \<longleftrightarrow> sb_from kP384PublicKeyLen (toy_pub 32 d) = Some (public_key kp) \<and>
     sb_from kP384ScalarLen (nat_be 32 d) = Some (private_key kp)"

lemma ex_keypair_exists: "\<exists>kp. ex_keypair d kp"
proof -
  obtain pb sv where "sb_from kP384PublicKeyLen (toy_pub 32 d) = Some pb" "sb_from kP384ScalarLen (nat_be 32 d) = Some sv"
    using sb_from_fits [of "toy_pub 32 d" kP384PublicKeyLen] sb_from_fits [of "nat_be 32 d" kP384ScalarLen]
      toy_pub_key(1) [of d] by (auto simp: size_simps)
  then show ?thesis by (intro exI [of _ "\<lparr>public_key = pb, private_key = sv\<rparr>"]) (simp add: ex_keypair_def)
qed

lemma ex_keypair_unique: "ex_keypair d kp \<Longrightarrow> ex_keypair d kp' \<Longrightarrow> kp = kp'"
  by (simp add: ex_keypair_def)

lemma ex_keypair_bytes: "ex_keypair d kp \<Longrightarrow> to_vector (private_key kp) = nat_be 32 d"
  "ex_keypair d kp \<Longrightarrow> to_vector (public_key kp) = toy_pub 32 d"
  by (auto simp: ex_keypair_def)

lemma ex_pub_sizes:
  assumes "ex_keypair d kp"
  shows "sb_size (public_key kp) = 65" "sb_at (public_key kp) 0 = Some 0x04"
proof -
  note f = sb_from_SomeD [OF assms [unfolded ex_keypair_def, THEN conjunct1]] toy_pub_key [of d]
  then show "sb_size (public_key kp) = 65" by (simp add: sb_size_def size_simps)
  have "length (sb_data (public_key kp)) = 97" using f by (simp add: wf_sb_def size_simps)
  moreover have "take 65 (sb_data (public_key kp)) = toy_pub 32 d" using f by (auto simp: to_vector_def size_simps)
  then have "take 65 (sb_data (public_key kp)) ! 0 = 4" using f by (simp only:)
  ultimately show "sb_at (public_key kp) 0 = Some 0x04" by (simp add: sb_at_def)
qed

lemma ex_key_loads:
  assumes "fs_files fs (pem_path dir h) = Some b" "(d, b) \<in> {(5, [5]), (7, [7])}"
  shows "\<exists>kp. load_keypair toy_env ex_pem dir fs h = Some kp \<and> ex_keypair d kp"
proof -
  obtain kp where kp: "ex_keypair d kp" using ex_keypair_exists by blast
  have "d < 256" using assms(2) by auto
  then have "extract_keypair toy_env ex_pem (ex_key d) = Some kp"
    using kp by (simp add: extract_keypair_def ex_pem_def ex_key_def toy_env_def size_simps ex_keypair_def)
  then show ?thesis
    using assms kp by (auto simp: load_keypair_def) (simp_all add: ex_pem_def)
qed

lemma ex_client_key: "\<exists>kp. client_load ex_env ex_pem ex_client ex_handle = Some kp \<and> to_vector (private_key kp) = nat_be 32 5"
  using ex_key_loads [of ex_files "''keys''" ex_handle "[5]" 5] ex_keypair_bytes(1)
  by (auto simp: client_load_def ex_client_def ex_config_def ex_files_def)

section \<open>The messages of the example\<close>

lemma ex_finalize:
  assumes "d < 256 ^ 32"
  shows "finalize_signed_data ex_env w (make_unsecured_tbs 0 p) (nat_be 32 d) signer hid NistP256 =
    coer_encode (asn_DEF_Ieee1609Dot2Data ex_env) (ex_signed p w d signer hid)"
proof -
  have "coer_encode (asn_DEF_ToBeSignedData ex_env) t = [7]" for t
    by (simp add: coer_encode_def ex_env_def ex_codecs_def)
  then show ?thesis
    using ex_sig [OF assms, of w signer] by (simp add: finalize_signed_data_def Let_def ex_signed_def)
qed

definition ex_record :: EcRecord where
  "ex_record = long_record\<lparr>ecr_ea_hashed_id_8 := ex_hid\<rparr>"

lemma ex_record_accepted: "validate_ec_record ex_record = None"
  by (simp add: validate_ec_record_def ex_record_def long_record_def sb_size_def sb_at_def size_simps)

lemma ex_root_p1: "recipient_p1 ex_env ex_root = hash_sha256 toy_env [20]"
  by (simp add: recipient_p1_def ex_root_fields)

lemma ex_root_key_long: "\<not> length (toy_pub 32 6) < 33"
  by (simp add: toy_pub_def)

text \<open>The last step of either request: the envelope to the authority.\<close>

lemma ex_finish:
  assumes "coer_encode (asn_DEF_Ieee1609Dot2Data ex_env) (ex_request w pt) = [b]" "w < 256 ^ 32"
  shows "\<exists>req. finish_request ex_env (ex_enc w pt) ex_root = Inr req \<and> to_vector (req_encoded req) = [b] \<and>
    length (to_vector (req_aes_key req)) = 16"
proof -
  have "length (aes_key (ex_enc w pt)) = kAesKeyLen"
    using ecies_encrypt_sizes(7) [OF toy_openssl toy_ccm ex_encrypts [OF assms(2), of pt]] .
  then obtain sb k where "sb_from kMaxCoerMessageLen [b] = Some sb" "sb_from kAesKeyLen (aes_key (ex_enc w pt)) = Some k"
    and "length (aes_key (ex_enc w pt)) = 16"
    using sb_from_fits [of "[b]" kMaxCoerMessageLen] sb_from_fits [of "aes_key (ex_enc w pt)" kAesKeyLen]
    by (auto simp: size_simps)
  moreover have "build_encrypted_data (ex_enc w pt) ex_root NistP256 = ex_request w pt"
    by (simp add: ex_request_def build_encrypted_data_def ex_root_fields Let_def)
  ultimately show ?thesis using assms(1) by (simp add: finish_request_def ex_root_fields Let_def)
qed

lemma ex_request_encodes:
  assumes "ecr_curve rec = NistP256"
  shows "\<exists>req. encode_ec_request ex_env 1 0 0 (assemble_ec_request rec 0) ex_root (nat_be 32 5) = Inr req \<and>
     to_vector (req_encoded req) = [3] \<and> length (to_vector (req_aes_key req)) = 16"
proof -
  let ?desc = "assemble_ec_request rec 0"
  have c: "ecd_curve ?desc = NistP256" using assms by (simp add: assemble_ec_request_def)
  have inner: "coer_encode (asn_DEF_InnerEcRequest ex_env) x = [5]" for x
    by (simp add: coer_encode_def ex_env_def ex_codecs_def)
  have pop: "build_self_signed ex_env 1 0 [5] (nat_be 32 5) NistP256 = [1]"
    using ex_messages(1) by (simp add: build_self_signed_def ex_finalize)
  have out: "build_self_signed ex_env 2 0 [1, 0x80, 1] (nat_be 32 5) NistP256 = [2]"
    using ex_messages(2) by (simp add: build_self_signed_def ex_finalize)
  show ?thesis
    using pop out ex_encrypts [of 3 "[2]"] ex_finish [OF ex_messages(3)] ex_root_key_long
    by (simp add: encode_ec_request_def c inner ex_root_fields ex_root_p1 Let_def numeral_2_eq_2 numeral_3_eq_3)
qed

lemma ex_answer:
  assumes "length key = 16" "resp \<noteq> []"
    "coer_encode (asn_DEF_Ieee1609Dot2Data ex_env) (ex_signed (1 # tag # resp) 0 6 [20] ex_hid) = [b]"
    "coer_encode (asn_DEF_Ieee1609Dot2Data ex_env) (ex_sealed [b]) = [c]"
  shows "authority_answer ex_env 0 0 tag [] key (replicate 12 0) resp ex_root (nat_be 32 6) = Some [c]"
proof -
  have "build_signed_by_cert ex_env 0 0 (1 # tag # resp) ex_root (nat_be 32 6) NistP256 = [b]"
    using assms(3) by (simp add: build_signed_by_cert_def ex_root_fields ex_finalize)
  moreover have "aes_128_ccm_encrypt toy_env key (replicate 12 0) [b] = Some \<lparr>ccm_ct = [b], ccm_tag = replicate 16 0\<rparr>"
    using assms(1) by (simp add: aes_128_ccm_encrypt_def toy_env_def size_simps)
  ultimately show ?thesis
    using assms(2,4) by (simp add: authority_answer_def ex_root_fields Let_def ex_sealed_def)
qed

text \<open>A server that answers every request with the same body.\<close>

definition ex_net :: "bytes \<Rightarrow> network" where
  "ex_net body = (\<lambda>rq. Some (\<lambda>n. \<lparr>tr_code = CURLE_OK, tr_response_code = 200, tr_header_lines = [], tr_body_blocks = [body]\<rparr>))"

lemma ex_net_answers:
  "client_post c (ex_net body) url msg = Inr body" "client_get c (ex_net body) url = Inr body"
  by (simp_all add: client_post_def client_get_def body_if_200_def http_post_def http_get_def http_run_def ex_net_def
      perform_with_retry_def perform_from.simps response_of_def fold_write_callback Let_def)

definition ex_clock :: clock_readings where
  "ex_clock = \<lparr>ck_assemble = 0, ck_sign1 = 0, ck_sign2 = 0, ck_validate = 1100000000\<rparr>"

text \<open>A certificate that the authority issued has a trust path wherever the authority is found and nothing is revoked.\<close>

lemma ex_chain_issued:
  assumes c: "build_signed_cert ex_env 0 name (toy_pub 32 d) (nat_be 32 6) ex_hid False False [20] = Some c"
      "to_vector (ci_cert_bytes c) = [b]"
    and "find_by_hashed_id_8 tc ex_hid = Some ex_root"
    and "\<not> is_revoked_by_issuer rv (from_coer ex_env [b]) ex_root" "\<not> is_revoked_by_issuer rv ex_root ex_root"
  shows "trust_path ex_env tc rv (current_tai_seconds 1100000000) 1 ((from_coer ex_env [b])\<lparr>ci_label := l\<rparr>)"
proof -
  obtain r where r: "build_root_cert ex_env 0 ''ea'' (toy_pub 32 6) (nat_be 32 6) = Some r"
    "to_vector (ci_cert_bytes r) = [20]" using ex_root_built by blast
  have "ci_hashed_id_8 r = compute_hid8 ex_env (to_vector (ci_cert_bytes r))"
    using r(1) unfolding build_root_cert_def by (rule build_signed_cert_SomeE) simp
  then have h: "ci_hashed_id_8 r = ex_hid" using r(2) ex_hid_root by simp
  have k: "is_keypair ex_env NistP256 (nat_be 32 6) (toy_pub 32 6)"
    using toy_keypair [of 6 NistP256] by (simp add: size_simps)
  have rh: "ci_hashed_id_8 (from_coer ex_env [20]) = ex_hid" using ex_root_fields(1) by (simp add: ex_root_def)
  have rev: "\<not> is_revoked_by_issuer rv (from_coer ex_env [b]) (from_coer ex_env [20])"
    "\<not> is_revoked_by_issuer rv (from_coer ex_env [20]) (from_coer ex_env [20])"
    using assms(4,5) by (simp_all add: ex_root_def is_revoked_by_issuer_def split: option.splits)
  show ?thesis
    using built_chain_validates [OF ex_env_ok(1,3) k ex_cert_roundtrip r(1) toy_pub_key(2), of 0 name "toy_pub 32 d" False c tc "''ea''" rv
        "current_tai_seconds 1100000000" l] c assms(3) h r(2) rh rev toy_pub_key(2)
    by (simp add: ex_root_def current_tai_seconds_def unix_to_tai_seconds_def kTaiEpochUnix_def kTaiMinusUtcSeconds_def)
qed

lemma ex_chain:
  assumes "find_by_hashed_id_8 tc ex_hid = Some ex_root"
    and "\<not> is_revoked_by_issuer rv ex_cred ex_root" "\<not> is_revoked_by_issuer rv ex_root ex_root"
  shows "trust_path ex_env tc rv (current_tai_seconds 1100000000) 1 ex_cred"
proof -
  have "\<not> is_revoked_by_issuer rv (from_coer ex_env [21]) ex_root"
    using assms(2) by (simp add: ex_cred_parsed is_revoked_by_issuer_def split: option.splits)
  then show ?thesis
    unfolding ex_cred_parsed using ex_cred_built ex_chain_issued assms(1,3) by blast
qed

lemma ex_found: "find_by_hashed_id_8 (pc_trust ex_client) ex_hid = Some ex_root"
  using ex_root_fields(1) by (simp add: ex_client_store store.find_add)

section \<open>A run of the example: a revocation list, then an enrolment\<close>

definition ex_list :: CrlContents where
  "ex_list = \<lparr>crl_issuer_hid8 = ex_hid, crl_this_update = 0, crl_next_update = 0, crl_revoked = [replicate 8 1]\<rparr>"

definition ex_client1 :: PkiClient where
  "ex_client1 = ex_client\<lparr>pc_revocation := snd (revocation_apply RevocationStore_init ex_list 0)\<rparr>"

lemma ex_list_decodes: "decode_crl ex_env [10] (toy_pub 32 6) [20] = Inr ex_list"
proof -
  let ?b = "finalize_signed_data ex_env 0 (make_unsecured_tbs 0 [11]) (nat_be 32 6) [20] ex_hid NistP256"
  have b: "?b = [10]" using ex_messages(6) by (simp add: ex_finalize)
  have k: "is_keypair ex_env NistP256 (nat_be 32 6) (toy_pub 32 6)"
    using toy_keypair [of 6 NistP256] by (simp add: size_simps)
  obtain m where m: "unwrap ex_env [10] = Some m" "sm_payload_coer m = [11]" "sm_has_signer_digest m"
    "verify ex_env m (toy_pub 32 6) [20]"
    using built_message_verifies [OF ex_env_ok(1,4) k, of "[11]" "[20]" ex_hid 0 0 "toy_pub 32 6"] b ex_hid_root by auto
  have "decode_with_basic_fallback (asn_DEF_EtsiTs102941Data ex_env) [11] =
      Some \<lparr>etsi_version = 1, etsi_content = Some (certificateRevocationList (Some ex_crl))\<rparr>"
    by (simp add: decode_with_basic_fallback_def ex_env_def ex_codecs_def single_codec_def coer_decode_def)
  with m show ?thesis
    using toy_pub_key(1) [of 6] by (auto simp: decode_crl_Ok_iff ex_list_def ex_crl_def ex_hid_root size_simps)
qed

lemma ex_fetch_crl: "fetch_crl ex_env (ex_net [10]) 1072915195 ex_client ex_hid = (Inr ex_list, ex_client1)"
  using ex_list_decodes
  by (simp add: fetch_crl_def ex_net_answers ex_found ex_root_fields ex_client1_def revocation_apply_def ex_list_def Let_def)
    (simp add: ex_client_def)

lemma ex_id_first: "truncate_hid8 (hash_for_curve toy_env [b] c) ! 0 = 0"
  by (cases c; simp add: hash_sha256_def hash_sha384_def)
    (simp_all add: toy_env_def toy_hash_def truncate_hid8_def last_n_def nth_append size_simps)

lemma ex_id_not_listed: "x ! 0 = (0 :: byte) \<Longrightarrow> x \<noteq> replicate 8 1"
  by auto

lemma ex_not_revoked:
  "\<not> is_revoked_by_issuer (Some (pc_revocation ex_client1)) ex_cred ex_root"
  "\<not> is_revoked_by_issuer (Some (pc_revocation ex_client1)) ex_root ex_root"
proof -
  have "ci_hashed_id_8 ex_cred \<noteq> replicate 8 1"
  proof -
    have "\<not> sb_empty (ci_cert_bytes (from_coer ex_env [21]))" by (simp add: ex_usable)
    then have "ci_hashed_id_8 ex_cred = compute_hid8 ex_env [21]" by (simp add: ex_cred_parsed from_coer_bytes)
    then have "ci_hashed_id_8 ex_cred ! 0 = 0"
      by (simp add: compute_hid8_def compute_hid8_struct_def ex_id_first)
    then show ?thesis by (rule ex_id_not_listed)
  qed
  moreover have "ci_hashed_id_8 ex_root \<noteq> replicate 8 1"
  proof -
    have "ex_hid ! 0 = 0" using ex_id_first [of 20 NistP256] by (simp add: ex_hid_def)
    then show ?thesis unfolding ex_root_fields by (rule ex_id_not_listed)
  qed
  moreover have "\<not> crl_stale ex_list 0" by (simp add: crl_stale_def ex_list_def)
  ultimately show "\<not> is_revoked_by_issuer (Some (pc_revocation ex_client1)) ex_cred ex_root"
    "\<not> is_revoked_by_issuer (Some (pc_revocation ex_client1)) ex_root ex_root"
    by (simp_all add: is_revoked_by_issuer_def ex_client1_def crl.update_revokes crl.empty_revokes) (auto simp: ex_list_def)
qed

definition ex_now :: int where "ex_now = current_tai_seconds 1100000000"

lemma ex_chain_accepted:
  "validate_chain ex_env (pc_trust ex_client1) (Some (pc_revocation ex_client1)) ex_cred ex_now"
  using ex_chain [OF _ ex_not_revoked] ex_found
  by (auto simp: validate_chain_trust_path ex_client1_def ex_now_def)

lemma ex_grant_roundtrip: "codec_roundtrip (asn_DEF_InnerEcResponse ex_env) x"
  by (simp add: ex_env_def ex_codecs_def single_codec_roundtrip)

text \<open>Everything an enrolment of the example needs, for any client and record with its authority and key.\<close>

lemma ex_enrolment_ready:
  assumes kp: "to_vector (private_key kp) = nat_be 32 5" and c: "ecr_curve rec = NistP256"
  shows "\<exists>req. encode_ec_request ex_env 1 (ck_sign1 ex_clock) (ck_sign2 ex_clock) (assemble_ec_request rec (ck_assemble ex_clock))
       ex_root (to_vector (private_key kp)) = Inr req \<and> to_vector (req_encoded req) = [3] \<and>
     authority_answer ex_env 0 0 0x81 [] (to_vector (req_aes_key req)) (replicate 12 0)
       (coer_encode (asn_DEF_InnerEcResponse ex_env) (ec_grant ex_env [3] ex_cred_struct)) ex_root (nat_be 32 6) = Some [6]"
proof -
  obtain req where req: "encode_ec_request ex_env 1 0 0 (assemble_ec_request rec 0) ex_root (nat_be 32 5) = Inr req"
    "to_vector (req_encoded req) = [3]" "length (to_vector (req_aes_key req)) = 16"
    using ex_request_encodes [OF c] by blast
  have "ec_grant ex_env [3] ex_cred_struct = ec_grant toy_env [3] ex_cred_struct" by (simp add: ec_grant_def)
  then have "coer_encode (asn_DEF_InnerEcResponse ex_env) (ec_grant ex_env [3] ex_cred_struct) = [8]"
    by (simp add: coer_encode_def ex_env_def ex_codecs_def single_codec_def)
  then show ?thesis using kp req ex_answer [OF req(3) _ ex_messages(4,5)] by (auto simp: ex_clock_def)
qed

lemma ex_client_enrols:
  assumes key: "client_load ex_env ex_pem c h = Some kp" "to_vector (private_key kp) = nat_be 32 5"
    and rec: "validate_ec_record rec = None" "ecr_curve rec = NistP256"
      "find_by_hashed_id_8 (pc_trust c) (ecr_ea_hashed_id_8 rec) = Some ex_root"
    and chain: "validate_chain ex_env (pc_trust c) (Some (pc_revocation c)) ex_cred ex_now"
  shows "request_enrolment_credential ex_env ex_pem (ex_net [6]) 1 ex_clock c h rec =
     (Inr ex_cred, c\<lparr>pc_trust := add_cert ex_cred (pc_trust c)\<rparr>)"
proof -
  obtain req where r: "encode_ec_request ex_env 1 (ck_sign1 ex_clock) (ck_sign2 ex_clock)
       (assemble_ec_request rec (ck_assemble ex_clock)) ex_root (to_vector (private_key kp)) = Inr req"
    "to_vector (req_encoded req) = [3]"
    "authority_answer ex_env 0 0 0x81 [] (to_vector (req_aes_key req)) (replicate 12 0)
       (coer_encode (asn_DEF_InnerEcResponse ex_env) (ec_grant ex_env [3] ex_cred_struct)) ex_root (nat_be 32 6) = Some [6]"
    using ex_enrolment_ready [OF key(2) rec(2)] by blast
  show ?thesis
    unfolding ex_cred_def
    by (rule enrolment_completes [OF ex_env_ok(1,2,4) ex_root_key rec(1) key(1) rec(3) r(1) ex_grant_roundtrip,
          unfolded r(2), OF r(3) ex_net_answers(1)])
      (use chain in \<open>simp add: ex_cred_def ex_clock_def ex_now_def\<close>)
qed

lemma ex_client1_key:
  "\<exists>kp. client_load ex_env ex_pem ex_client1 ex_handle = Some kp \<and> to_vector (private_key kp) = nat_be 32 5"
proof -
  have "client_load ex_env ex_pem ex_client1 ex_handle = client_load ex_env ex_pem ex_client ex_handle"
    by (simp add: client_load_def ex_client1_def)
  then show ?thesis using ex_client_key by simp
qed

lemma ex_record_curve: "ecr_curve ex_record = NistP256"
  by (simp add: ex_record_def long_record_def)

lemma ex_found1: "find_by_hashed_id_8 (pc_trust ex_client1) (ecr_ea_hashed_id_8 ex_record) = Some ex_root"
  using ex_found by (simp add: ex_client1_def ex_record_def)

lemma ex_enrols:
  "request_enrolment_credential ex_env ex_pem (ex_net [6]) 1 ex_clock ex_client1 ex_handle ex_record =
     (Inr ex_cred, ex_client1\<lparr>pc_trust := add_cert ex_cred (pc_trust ex_client1)\<rparr>)"
  using ex_client1_key ex_client_enrols [OF _ _ ex_record_accepted ex_record_curve ex_found1 ex_chain_accepted] by blast

text \<open>The run: the list is taken, then the credential accepted.\<close>

lemma ex_run:
  "\<exists>c. run (client_event ex_env ex_pem) ex_client [CrlTaken ex_list 0, Issued ex_cred ex_now] c \<and>
     find_by_hashed_id_8 (pc_trust c) (ci_hashed_id_8 ex_cred) = Some ex_cred"
proof -
  have "current_tai_seconds 1072915195 = 0"
    by (simp add: current_tai_seconds_def unix_to_tai_seconds_def kTaiEpochUnix_def kTaiMinusUtcSeconds_def)
  then have e1: "client_event ex_env ex_pem (CrlTaken ex_list 0) ex_client ex_client1"
    using client_event.crl_taken [OF ex_fetch_crl] by simp
  have e2: "client_event ex_env ex_pem (Issued ex_cred ex_now) ex_client1
      (ex_client1\<lparr>pc_trust := add_cert ex_cred (pc_trust ex_client1)\<rparr>)"
    using client_event.enrol [OF ex_enrols] by (simp add: cert_event_def ex_now_def ex_clock_def)
  have "run (client_event ex_env ex_pem) ex_client [CrlTaken ex_list 0, Issued ex_cred ex_now]
      (ex_client1\<lparr>pc_trust := add_cert ex_cred (pc_trust ex_client1)\<rparr>)"
    using e1 e2 by (auto simp: run_Cons_iff intro: run_nil)
  moreover have "find_by_hashed_id_8 (pc_trust (ex_client1\<lparr>pc_trust := add_cert ex_cred (pc_trust ex_client1)\<rparr>))
      (ci_hashed_id_8 ex_cred) = Some ex_cred"
    by (simp add: store.find_add)
  ultimately show ?thesis by blast
qed

text \<open>The credential was not in the trust directory.\<close>

lemma ex_cred_not_loaded: "ex_listing = Directory es ends \<Longrightarrow> ex_cred \<notin> set (loaded_certs ex_env es)"
proof -
  have "ci_label ex_cred = ''ec''" by (simp add: ex_cred_parsed)
  moreover have "ci_label ex_root = ''ea''" by (simp add: ex_root_def)
  ultimately have "ex_cred \<noteq> ex_root" by auto
  then show "ex_listing = Directory es ends \<Longrightarrow> ex_cred \<notin> set (loaded_certs ex_env es)"
    by (auto simp: ex_listing_def ex_load_root)
qed

section \<open>An authorization of the example\<close>

text \<open>
  The device asks with a new key, 7, and signs with the key of its credential; the authority of the
  example acts as both authorities.
\<close>

lemma ex_cred_bytes: "to_vector (ci_cert_bytes ex_cred) = [21]" "ci_hashed_id_8 ex_cred = ex_cred_hid"
  using ex_usable [of 21] ex_hid_cred by (simp_all add: ex_cred_parsed from_coer_bytes)

lemma at_codecs:
  "coer_encode (asn_DEF_ToBeSignedData ex_env) t = [7]" "coer_encode (asn_DEF_PublicVerificationKey ex_env) k = [12]"
  "coer_encode (asn_DEF_SharedAtRequest ex_env) at_shared = [13]" "coer_encode (asn_DEF_InnerAtRequest ex_env) r = [14]"
  "coer_decode (asn_DEF_SharedAtRequest ex_env) [13] = Some at_shared"
  by (simp_all add: coer_encode_def coer_decode_def ex_env_def ex_codecs_def single_codec_def)

lemma at_roundtrips:
  "codec_roundtrip (asn_DEF_SharedAtRequest ex_env) x" "codec_roundtrip (asn_DEF_InnerAtResponse ex_env) y"
  by (simp_all add: ex_env_def ex_codecs_def single_codec_roundtrip)

lemma ex_at_assembled:
  "assemble_at_request ex_env 8 ex_at_record 0 = at_desc" "at_key_tag ex_env desc = at_key_tag toy_env desc"
  by (simp_all add: at_desc_def assemble_at_request_def at_hmac_key_def fun_eq_iff at_key_tag_def)
    (simp add: ex_env_def cong: option.case_cong)

lemma at_desc_curve: "atd_curve at_desc = NistP256"
  by (simp add: at_desc_def assemble_at_request_def ex_at_record_def)

lemma ex_at_record_accepted: "validate_at_record ex_at_record = None"
proof -
  obtain kp where kp: "ex_keypair 7 kp" using ex_keypair_exists by blast
  then have r: "ex_at_record = \<lparr>atr_at_public_key = public_key kp, atr_aa_hashed_id_8 = ex_hid,
     atr_ea_hashed_id_8 = ex_hid, atr_requested_psids = [36], atr_validity_period_hours = 24, atr_curve = NistP256\<rparr>"
    by (simp add: ex_at_record_def ex_keypair_def)
  show ?thesis unfolding r using ex_pub_sizes [OF kp] by (simp add: validate_at_record_def size_simps)
qed

lemma at_request_encodes:
  assumes ec: "to_vector (ci_cert_bytes ec) = [21]" "ci_hashed_id_8 ec = ex_cred_hid"
  shows "\<exists>res. encode_at_request ex_env 9 0 0 at_desc ex_root ex_root ec (nat_be 32 5) (nat_be 32 7) = Inr res \<and>
    to_vector (req_encoded res) = [32] \<and> length (to_vector (req_aes_key res)) = 16"
proof -
  have ext: "build_external_payload ex_env 9 0 (hash_sha256 toy_env [13]) ec (nat_be 32 5) NistP256 = [30]"
    using ex_sig [of 5 9 "[21]"] at_messages(1) ec
    by (simp add: build_external_payload_def finalize_signed_data_def at_codecs at_ext_def Let_def)
  have inner: "encode_inner_at ex_env 9 0 at_desc ex_root ec (nat_be 32 5) = Inr [14]"
    using ext ex_root_key_long ex_encrypts [of 10 "[30]"]
    by (simp add: encode_inner_at_def at_desc_curve at_codecs ex_at_assembled at_shared_def [symmetric] ex_root_fields
        ex_root_p1 Let_def)
  have out: "build_self_signed ex_env 13 0 [1, 0x82, 14] (nat_be 32 7) NistP256 = [31]"
    using at_messages(2) by (simp add: build_self_signed_def ex_finalize)
  show ?thesis
    using inner out ex_root_key_long ex_encrypts [of 14 "[31]"] ex_finish [OF at_messages(3)]
    by (simp add: encode_at_request_def at_desc_curve ex_root_fields ex_root_p1 Let_def)
qed

lemma ex_ticket_grant:
  "coer_encode (asn_DEF_InnerAtResponse ex_env) (at_grant ex_env [32] ex_ticket_struct) = [15]"
proof -
  have "at_grant ex_env [32] ex_ticket_struct = at_grant toy_env [32] ex_ticket_struct" by (simp add: at_grant_def)
  then show ?thesis by (simp add: coer_encode_def ex_env_def ex_codecs_def single_codec_def)
qed

text \<open>Any client with the authority and both keys gets the ticket.\<close>

lemma ex_authorization_ready:
  assumes "to_vector (ci_cert_bytes ec) = [21]" "ci_hashed_id_8 ec = ex_cred_hid" "ex_keypair 5 kp" "ex_keypair 7 akp"
  shows "\<exists>req. encode_at_request ex_env (8 + 1) (ck_sign1 ex_clock) (ck_sign2 ex_clock)
      ((assemble_at_request ex_env 8 ex_at_record (ck_assemble ex_clock))\<lparr>atd_verification_key := public_key akp\<rparr>)
      ex_root ex_root ec (to_vector (private_key kp)) (to_vector (private_key akp)) = Inr req \<and>
    to_vector (req_encoded req) = [32] \<and>
    authority_answer ex_env 0 0 0x83 [] (to_vector (req_aes_key req)) (replicate 12 0)
      (coer_encode (asn_DEF_InnerAtResponse ex_env) (at_grant ex_env [32] ex_ticket_struct)) ex_root (nat_be 32 6) = Some [34]"
proof -
  have "at_desc\<lparr>atd_verification_key := public_key akp\<rparr> = at_desc"
    using assms(4) by (simp add: at_desc_def assemble_at_request_def ex_at_record_def ex_keypair_def)
  moreover obtain req where "encode_at_request ex_env 9 0 0 at_desc ex_root ex_root ec (nat_be 32 5) (nat_be 32 7) = Inr req"
    "to_vector (req_encoded req) = [32]" "length (to_vector (req_aes_key req)) = 16"
    using at_request_encodes [OF assms(1,2)] by blast
  ultimately show ?thesis
    using ex_answer [OF _ _ at_messages(4,5)] ex_keypair_bytes(1) [OF assms(3)] ex_keypair_bytes(1) [OF assms(4)]
    by (auto simp: ex_clock_def ex_at_assembled ex_ticket_grant)
qed

lemma ex_client_authorizes:
  assumes key: "client_load ex_env ex_pem c h = Some kp" "ex_keypair 5 kp" "client_load ex_env ex_pem c ah = Some akp" "ex_keypair 7 akp"
    and ec: "to_vector (ci_cert_bytes ec) = [21]" "ci_hashed_id_8 ec = ex_cred_hid"
    and found: "find_by_hashed_id_8 (pc_trust c) ex_hid = Some ex_root"
    and chain: "validate_chain ex_env (pc_trust c) (Some (pc_revocation c)) ex_ticket ex_now"
  shows "request_authorization_ticket ex_env ex_pem (ex_net [34]) 8 ex_clock c h ec ah ex_at_record =
     (Inr ex_ticket, c\<lparr>pc_trust := add_cert ex_ticket (pc_trust c)\<rparr>)"
proof -
  have f: "find_by_hashed_id_8 (pc_trust c) (atr_aa_hashed_id_8 ex_at_record) = Some ex_root"
    "find_by_hashed_id_8 (pc_trust c) (atr_ea_hashed_id_8 ex_at_record) = Some ex_root"
    using found by (simp_all add: ex_at_record_def)
  obtain req where r: "encode_at_request ex_env (8 + 1) (ck_sign1 ex_clock) (ck_sign2 ex_clock)
      ((assemble_at_request ex_env 8 ex_at_record (ck_assemble ex_clock))\<lparr>atd_verification_key := public_key akp\<rparr>)
      ex_root ex_root ec (to_vector (private_key kp)) (to_vector (private_key akp)) = Inr req"
    "to_vector (req_encoded req) = [32]"
    "authority_answer ex_env 0 0 0x83 [] (to_vector (req_aes_key req)) (replicate 12 0)
      (coer_encode (asn_DEF_InnerAtResponse ex_env) (at_grant ex_env [32] ex_ticket_struct)) ex_root (nat_be 32 6) = Some [34]"
    using ex_authorization_ready [OF ec key(2,4)] by blast
  show ?thesis
    unfolding ex_ticket_def
    by (rule authorization_completes [OF ex_env_ok(1,2,4) ex_root_key ex_at_record_accepted key(1,3) f r(1) at_roundtrips(2),
          unfolded r(2), OF r(3) ex_net_answers(1)])
      (use chain in \<open>simp add: ex_ticket_def ex_clock_def ex_now_def\<close>)
qed

text \<open>One such client: the one of the example with the file of the second key.\<close>

definition ex_at_handle :: KeyHandle where "ex_at_handle = the (KeyHandle_from ''ec-at'')"

lemma ex_handles: "KeyHandle_from ''ec'' = Some ex_handle" "KeyHandle_from ''ec-at'' = Some ex_at_handle"
  by (simp_all add: ex_handle_def ex_at_handle_def KeyHandle_from_def handle_char_ok_def Let_def sb_from_ptr_def)

lemma ex_pem_paths: "pem_path ''keys'' ex_handle = ''keys/ec.pem''" "pem_path ''keys'' ex_at_handle = ''keys/ec-at.pem''"
  using id_str_from [OF ex_handles(1)] id_str_from [OF ex_handles(2)] by (simp_all add: pem_path_def path_join_def)

definition ex_client2 :: PkiClient where
  "ex_client2 = ex_client\<lparr>pc_files := ex_files\<lparr>fs_files := (fs_files ex_files)(pem_path ''keys'' ex_at_handle \<mapsto> [7])\<rparr>\<rparr>"

lemma ex_client2_keys:
  "\<exists>kp. client_load ex_env ex_pem ex_client2 ex_handle = Some kp \<and> ex_keypair 5 kp"
  "\<exists>kp. client_load ex_env ex_pem ex_client2 ex_at_handle = Some kp \<and> ex_keypair 7 kp"
  using ex_key_loads [of "pc_files ex_client2" "''keys''" ex_handle "[5]" 5]
    ex_key_loads [of "pc_files ex_client2" "''keys''" ex_at_handle "[7]" 7]
  by (auto simp: client_load_def ex_client2_def ex_client_def ex_config_def ex_files_def ex_pem_paths)

lemma ex_ticket_chain:
  assumes "find_by_hashed_id_8 tc ex_hid = Some ex_root"
  shows "validate_chain ex_env tc (Some RevocationStore_init) ex_ticket ex_now"
proof -
  have "\<not> is_revoked_by_issuer (Some RevocationStore_init) x y" for x y
    by (simp add: is_revoked_by_issuer_def crl.empty_revokes)
  then have "trust_path ex_env tc (Some RevocationStore_init) ex_now 1 ex_ticket"
    unfolding ex_ticket_parsed ex_now_def using ex_ticket_built ex_chain_issued assms by blast
  then show ?thesis by (simp add: validate_chain_trust_path)
qed

lemma ex_client2_store:
  "find_by_hashed_id_8 (pc_trust ex_client2) ex_hid = Some ex_root" "pc_revocation ex_client2 = RevocationStore_init"
  using ex_found by (simp_all add: ex_client2_def ex_client_def)

end
