(* ===== verification/ExampleSession.thy ===== *)
theory ExampleSession
  imports CliEnrol ExampleWorld
begin

text \<open>
  The tool on the example world: \<open>enrol\<close> and then \<open>request-at\<close> on one key directory, both with exit
  code 0. The file system is plain, the first requests of a command fetch the certificate of the
  authority, and its last one gets the authority's answer.
\<close>

section \<open>The machine\<close>

definition ex_trust_names :: "string list" where
  "ex_trust_names = [''aa.cert'', ''rca.cert'', ''ea.cert'']"

definition ex_os :: os where
  "ex_os = \<lparr>os_mkdirs = (\<lambda>dir fs. Some fs),
     os_list = (\<lambda>fs dir. Directory (map (\<lambda>n. \<lparr>de_name = n, de_regular = Some True,
        de_content = (case fs_files fs (dir @ ''/'' @ n) of None \<Rightarrow> Unopened | Some b \<Rightarrow> Content b)\<rparr>)
        (filter (\<lambda>n. fs_files fs (dir @ ''/'' @ n) \<noteq> None) ex_trust_names)) True),
     os_read_throws = (\<lambda>fs path. False),
     os_good = (\<lambda>path data. True), os_fwrite = (\<lambda>path data. length data), os_stored = (\<lambda>path data. length data),
     os_rename = (\<lambda>p q. True), os_unlink = (\<lambda>p. True), os_mkdir = (\<lambda>dir fs. fs)\<rparr>"

text \<open>\<open>n\<close> fetches, then the answer \<open>body\<close>.\<close>

definition ex_machine :: "nat \<Rightarrow> bytes \<Rightarrow> nat \<Rightarrow> machine" where
  "ex_machine n body seed = \<lparr>mc_os = ex_os, mc_env = ex_env, mc_pem = ex_pem,
     mc_nets = (\<lambda>k. if k < n then ex_net [20] else ex_net body), mc_clock = ex_clock, mc_time = 0, mc_seed = seed,
     mc_version = []\<rparr>"

definition ex_args :: Args where
  "ex_args = Args_init\<lparr>arg_pki_url := ''pki'', arg_keystore_dir := ''keys'', arg_canonical_key := ''ec''\<rparr>"

definition ex_start :: process where
  "ex_start = \<lparr>ps_fs = ex_files, ps_out = [], ps_err = []\<rparr>"

lemma ex_fetches:
  assumes "k < n"
  shows "fetched what (cli_get (ex_machine n body seed) k url) = Inr [20]"
    "fetched_status what (cli_get (ex_machine n body seed) k url) = Inr [20]"
  using assms
  by (simp_all add: fetched_def fetched_status_def cli_get_def ex_machine_def http_get_def http_run_def ex_net_def
      perform_with_retry_def perform_from.simps response_of_def fold_write_callback HttpClientConfig_of_def Let_def)

lemma ex_args_values:
  "trust_dir ex_args = ''keys/trust''" "arg_keystore_dir ex_args = ''keys''" "arg_pki_url ex_args = ''pki''"
  "default_key_id ex_args = ''ec''" "canonical_id_path ex_args = ''keys/canonical.id''"
  "enrol_canonical_id ex_args = ''v2xpki-its-s''" "parse_curve [] = NistP256"
  "arg_canonical_id_set ex_args = False" "arg_curve_str ex_args = []" "ec_cert_path ex_args = ''keys/ec.cert''"
  "at_cert_path ex_args = ''keys/at.cert''" "arg_ec_cert ex_args = []"
  by (simp_all add: trust_dir_def ex_args_def Args_init_def path_join_def default_key_id_def canonical_id_path_def
      enrol_canonical_id_def parse_curve_def ec_cert_path_def at_cert_path_def at_out_dir_def)

lemma ex_machine_values:
  "mc_os (ex_machine n body seed) = ex_os" "mc_env (ex_machine n body seed) = ex_env" "mc_pem (ex_machine n body seed) = ex_pem"
  "mc_clock (ex_machine n body seed) = ex_clock" "mc_seed (ex_machine n body seed) = seed"
  "mc_nets (ex_machine n body seed) n = ex_net body"
  by (simp_all add: ex_machine_def)

lemma ex_put: "ps_fs (put (ex_machine n body seed) p d w) = (ps_fs w)\<lparr>fs_files := (fs_files (ps_fs w))(p \<mapsto> d)\<rparr>"
  if "fs_can_write (ps_fs w) = (\<lambda>p. True)"
  using that by (simp add: put_def save_def write_file_def ex_machine_values) (simp add: ex_os_def)

lemma ex_made: "create_directories ex_os dir w = Some w"
  by (simp add: create_directories_def ex_os_def)

lemma ex_read: "read_file ex_os fs path = Some (case fs_files fs path of None \<Rightarrow> [] | Some content \<Rightarrow> content)"
  by (simp add: read_file_def ex_os_def)

section \<open>The client on the trust directory\<close>

lemma ex_load_entry:
  assumes "path_extension name = ''.cert''"
  shows "load_entry ex_env \<lparr>de_name = name, de_regular = Some True, de_content = Content [20]\<rparr> =
    Some (Some (ex_root\<lparr>ci_label := path_stem name\<rparr>))"
  using assms ex_usable [of 20] by (simp add: load_entry_def Let_def ex_root_def)

text \<open>It finds the authority, whose certificate is read last as \<open>ea.cert\<close>.\<close>

lemma ex_tool_client:
  assumes "fs_files fs (cfg_trust_dir cfg @ ''/ea.cert'') = Some [20]" "fs_files fs (cfg_trust_dir cfg @ ''/rca.cert'') = Some [20]"
    "fs_files fs (cfg_trust_dir cfg @ ''/aa.cert'') \<in> {None, Some [20]}" "cfg_trust_dir cfg \<noteq> []"
  obtains tc where "PkiClient_new ex_os ex_env cfg fs = Some (PkiClient_members cfg fs tc)"
    "find_by_hashed_id_8 tc ex_hid = Some ex_root"
proof -
  have e: "ex_root\<lparr>ci_label := ''ea''\<rparr> = ex_root" by (simp add: ex_root_def)
  have n: "os_mkdirs ex_os dir fs = Some fs" for dir by (simp add: ex_os_def)
  have "\<exists>b tc. load_from_directory ex_env (os_list ex_os fs (cfg_trust_dir cfg)) TrustChain_init = Some (b, add_cert ex_root tc)"
    using assms(1,2,3) e by (auto simp: ex_os_def ex_trust_names_def load_from_directory_def ex_load_entry
        path_extension_def path_stem_def last_dot_def)
  then obtain b tc where "load_from_directory ex_env (os_list ex_os fs (cfg_trust_dir cfg)) TrustChain_init = Some (b, add_cert ex_root tc)"
    by blast
  then have "PkiClient_new ex_os ex_env cfg fs = Some (PkiClient_members cfg fs (add_cert ex_root tc))"
    using assms(4) by (simp add: PkiClient_new_def PkiClient_init_def n)
  then show ?thesis using that ex_root_fields(1) by (auto simp: store.find_add)
qed

lemma ex_cred_chain:
  assumes "find_by_hashed_id_8 tc ex_hid = Some ex_root"
  shows "validate_chain ex_env tc (Some RevocationStore_init) ex_cred ex_now"
proof -
  have "\<not> is_revoked_by_issuer (Some RevocationStore_init) x y" for x y
    by (simp add: is_revoked_by_issuer_def crl.empty_revokes)
  then show ?thesis using ex_chain [OF assms] by (auto simp: validate_chain_trust_path ex_now_def)
qed

section \<open>enrol\<close>

text \<open>From the key on, in any state that holds the two certificates and the key file.\<close>

lemma ex_enrol_request:
  assumes files: "fs_files (ps_fs w) ''keys/trust/ea.cert'' = Some [20]" "fs_files (ps_fs w) ''keys/trust/rca.cert'' = Some [20]"
      "fs_files (ps_fs w) ''keys/trust/aa.cert'' = None"
    and key: "fs_files (ps_fs w) ''keys/ec.pem'' = Some [5]" and wr: "fs_can_write (ps_fs w) = (\<lambda>p. True)"
  shows "\<exists>w1. with_client (ex_machine 2 [6] 0) (enrol_config ex_args) w (enrol_with (ex_machine 2 [6] 0) ex_args [20]) = (Exit 0, w1) \<and>
    ps_fs w1 = (ps_fs w)\<lparr>fs_files := (fs_files (ps_fs w))(''keys/canonical.id'' \<mapsto> string_bytes ''v2xpki-its-s'',
      ''keys/ec.cert'' \<mapsto> [21])\<rparr>"
proof -
  let ?m = "ex_machine 2 [6] 0" and ?cfg = "enrol_config ex_args"
  have dir: "cfg_trust_dir ?cfg = ''keys/trust''" "cfg_keystore_dir ?cfg = ''keys''"
    by (simp_all add: enrol_config_def ex_args_values)
  obtain tc where new: "PkiClient_new ex_os ex_env ?cfg (ps_fs w) = Some (PkiClient_members ?cfg (ps_fs w) tc)"
    and t: "find_by_hashed_id_8 tc ex_hid = Some ex_root"
    by (rule ex_tool_client [of "ps_fs w" ?cfg]) (simp_all add: ex_args_values files)
  let ?c = "PkiClient_members ?cfg (ps_fs w) tc"
  obtain kp where kp: "load_keypair toy_env ex_pem ''keys'' (ps_fs w) ex_handle = Some kp" "ex_keypair 5 kp"
    using ex_key_loads [of "ps_fs w" "''keys''" ex_handle "[5]" 5] key by (auto simp: ex_pem_paths)
  let ?rec = "enrol_record ?m ex_args kp [20] (enrol_canonical_id ex_args)"
  have rec: "validate_ec_record ?rec = None" "ecr_curve ?rec = NistP256" "ecr_ea_hashed_id_8 ?rec = ex_hid"
    using ex_pub_sizes [OF kp(2)] ex_hid_root
    by (simp_all add: enrol_record_def ex_args_values ex_machine_values validate_ec_record_def size_simps)
  have ok: "fst (request_enrolment_credential ex_env ex_pem (ex_net [6]) 1 ex_clock (on_files w' ?c) ex_handle ?rec) = Inr ex_cred"
    if "ps_fs w' = (ps_fs w)\<lparr>fs_files := (fs_files (ps_fs w))(''keys/canonical.id'' \<mapsto> d)\<rparr>" for w' d
  proof -
    have "client_load ex_env ex_pem (on_files w' ?c) ex_handle = load_keypair toy_env ex_pem ''keys'' (ps_fs w) ex_handle"
      using that load_keypair_files [of "ps_fs w'" "''keys''" ex_handle "ps_fs w"]
      by (simp add: client_load_def ex_args_values ex_pem_paths)
    then show ?thesis
      using ex_client_enrols [of "on_files w' ?c" ex_handle kp ?rec] kp ex_keypair_bytes(1) [OF kp(2)] rec t ex_cred_chain [OF t]
      by (simp add: PkiClient_members_def)
  qed
  show ?thesis
    using wr kp(1) ok
    by (simp add: with_client_def ex_machine_values new enrol_with_def ex_args_values ex_handles enrol_key_def
        enrol_request_def Let_def ex_put ex_cred_bytes)
qed

lemma ex_enrol_succeeds:
  "\<exists>w1. cmd_enrol (ex_machine 2 [6] 0) ex_args ex_start = (Exit 0, w1) \<and> fs_can_write (ps_fs w1) = (\<lambda>p. True) \<and>
    fs_files (ps_fs w1) ''keys/ec.pem'' = Some [5] \<and> fs_files (ps_fs w1) ''keys/ec.cert'' = Some [21] \<and>
    fs_files (ps_fs w1) ''keys/canonical.id'' = Some (string_bytes ''v2xpki-its-s'')"
proof -
  have start: "fs_can_write (ps_fs ex_start) = (\<lambda>p. True)" "fs_files (ps_fs ex_start) ''keys/ec.pem'' = Some [5]"
    "fs_files (ps_fs ex_start) ''keys/trust/aa.cert'' = None"
    by (simp_all add: ex_start_def ex_files_def toy_fs_def ex_pem_paths)
  let ?m = "ex_machine 2 [6] 0"
  let ?w = "say ex_args (''RCA cert fetched ('' @ dec_nat 1 @ ''B)'' @ nl) (put ?m ''keys/trust/rca.cert'' [20]
    (say ex_args (''EA cert fetched ('' @ dec_nat 1 @ ''B)'' @ nl) (put ?m ''keys/trust/ea.cert'' [20] ex_start)))"
  obtain w1 where w1: "with_client ?m (enrol_config ex_args) ?w (enrol_with ?m ex_args [20]) = (Exit 0, w1)"
    "ps_fs w1 = (ps_fs ?w)\<lparr>fs_files := (fs_files (ps_fs ?w))(''keys/canonical.id'' \<mapsto> string_bytes ''v2xpki-its-s'',
      ''keys/ec.cert'' \<mapsto> [21])\<rparr>"
    using ex_enrol_request [of ?w] start by (auto simp: ex_put)
  have "cmd_enrol ?m ex_args ex_start = (Exit 0, w1)"
    using w1(1) by (simp add: cmd_enrol_def ex_args_values ex_machine_values ex_made ex_fetches Let_def)
  then show ?thesis using w1(2) start by (simp add: ex_put)
qed

section \<open>request-at\<close>

lemma ex_cred_curve: "ci_curve (from_coer ex_env [21]) = NistP256"
proof -
  obtain c where c: "build_signed_cert ex_env 0 ''ec'' (toy_pub 32 5) (nat_be 32 6) ex_hid False False [20] = Some c"
    "to_vector (ci_cert_bytes c) = [21]" using ex_cred_built by blast
  have "ci_curve c = NistP256" using c(1) by (rule build_signed_cert_SomeE)
  then show ?thesis using from_coer_build_signed_cert [OF c(1) toy_pub_key(2) _ ex_cert_roundtrip] c(2) by simp
qed

text \<open>The ticket's key, generated from the seed 7, and its file.\<close>

lemma ex_at_key: "\<exists>kp. generate_keypair toy_env 7 NistP256 = Some kp \<and> ex_keypair 7 kp"
proof -
  obtain kp where "ex_keypair 7 kp" using ex_keypair_exists by blast
  then show ?thesis
    by (simp add: ex_keypair_def generate_keypair_def toy_env_def Let_def size_simps toy_slen_def)
qed

lemma ex_at_key_stored:
  assumes "ex_keypair 7 kp" "fs_can_write fs = (\<lambda>p. True)"
  shows "snd (store_keypair ex_env ex_pem ''keys'' fs ex_at_handle kp) =
    fs\<lparr>fs_files := (fs_files fs)(''keys/ec-at.pem'' \<mapsto> [7])\<rparr>"
proof -
  have "sb_size (private_key kp) = 32"
    using assms(1) by (auto simp: ex_keypair_def)
  moreover have "BN_bin2bn toy_env (nat_be 32 7) = Some 7" by (simp add: toy_env_def be_nat_nat_be)
  moreover have "EVP_PKEY_fromdata toy_env k" for k by (simp add: toy_env_def)
  ultimately have "build_pkey ex_env kp = Some (ex_key 7)"
    using ex_pub_sizes [OF assms(1)] ex_keypair_bytes [OF assms(1)]
    by (simp add: build_pkey_def try_build_pkey_def ex_env_def size_simps ex_key_def)
  moreover have "ex_key 7 \<noteq> ex_key 5" by (simp add: ex_key_def)
  ultimately show ?thesis
    using assms(2) by (simp add: store_keypair_def ex_pem_paths ex_pem_def)
qed

lemma ex_at_request:
  assumes files: "fs_files (ps_fs w) ''keys/trust/ea.cert'' = Some [20]" "fs_files (ps_fs w) ''keys/trust/rca.cert'' = Some [20]"
      "fs_files (ps_fs w) ''keys/trust/aa.cert'' = Some [20]"
    and key: "fs_files (ps_fs w) ''keys/ec.pem'' = Some [5]" and wr: "fs_can_write (ps_fs w) = (\<lambda>p. True)"
    and ea: "fetched_status ''failed to fetch EA cert'' ea_resp = Inr [20]"
  shows "\<exists>w1. with_client (ex_machine 3 [34] 7) (at_config ex_args) w (at_with (ex_machine 3 [34] 7) ex_args [20] [21] ea_resp) =
      (Exit 0, w1) \<and> fs_can_write (ps_fs w1) = (\<lambda>p. True)"
proof -
  let ?m = "ex_machine 3 [34] 7" and ?cfg = "at_config ex_args"
  have dir: "cfg_trust_dir ?cfg = ''keys/trust''" "cfg_keystore_dir ?cfg = ''keys''"
    by (simp_all add: at_config_def ex_args_values)
  obtain tc where new: "PkiClient_new ex_os ex_env ?cfg (ps_fs w) = Some (PkiClient_members ?cfg (ps_fs w) tc)"
    and t: "find_by_hashed_id_8 tc ex_hid = Some ex_root"
    by (rule ex_tool_client [of "ps_fs w" ?cfg]) (simp_all add: ex_args_values files)
  let ?c = "PkiClient_members ?cfg (ps_fs w) tc"
  obtain kp where kp: "load_keypair toy_env ex_pem ''keys'' (ps_fs w) ex_handle = Some kp" "ex_keypair 5 kp"
    using ex_key_loads [of "ps_fs w" "''keys''" ex_handle "[5]" 5] key by (auto simp: ex_pem_paths)
  obtain akp where akp: "generate_keypair toy_env 7 NistP256 = Some akp" "ex_keypair 7 akp" using ex_at_key by blast
  obtain sb where sb: "sb_from kMaxCoerMessageLen [21] = Some sb"
    using sb_from_fits [of "[21]" kMaxCoerMessageLen] by (auto simp: size_simps)
  let ?ec = "at_ec_info ?m [21] sb kp"
  have ec: "to_vector (ci_cert_bytes ?ec) = [21]" "ci_hashed_id_8 ?ec = ex_cred_hid" "ci_curve ?ec = NistP256"
    using sb by (simp_all add: at_ec_info_def ex_machine_values ex_hid_cred ex_cred_curve)
  have rec: "at_record ?m akp [20] [20] NistP256 = ex_at_record"
    using akp(2) by (simp add: at_record_def ex_at_record_def ex_machine_values ex_hid_root ex_keypair_def)
  have ok: "fst (request_authorization_ticket ex_env ex_pem (ex_net [34]) 8 ex_clock (on_files w' ?c) ex_handle ?ec ex_at_handle
      ex_at_record) = Inr ex_ticket"
    if f: "ps_fs w' = (ps_fs w)\<lparr>fs_files := (fs_files (ps_fs w))(''keys/ec-at.pem'' \<mapsto> [7])\<rparr>" for w'
  proof -
    have cfg: "client_load ex_env ex_pem (on_files w' ?c) h = load_keypair toy_env ex_pem ''keys'' (ps_fs w') h" for h
      by (simp add: client_load_def ex_args_values)
    obtain k1 where "client_load ex_env ex_pem (on_files w' ?c) ex_handle = Some k1" "ex_keypair 5 k1"
      using ex_key_loads [of "ps_fs w'" "''keys''" ex_handle "[5]" 5] key f unfolding cfg by (auto simp: ex_pem_paths)
    moreover obtain k2 where "client_load ex_env ex_pem (on_files w' ?c) ex_at_handle = Some k2" "ex_keypair 7 k2"
      using ex_key_loads [of "ps_fs w'" "''keys''" ex_at_handle "[7]" 7] f unfolding cfg by (auto simp: ex_pem_paths)
    ultimately show ?thesis
      using ex_client_authorizes [of "on_files w' ?c" ex_handle k1 ex_at_handle k2 ?ec] ec(1,2) t ex_ticket_chain [OF t]
      by (simp add: PkiClient_members_def)
  qed
  have at: "\<exists>w1. at_request ?m ex_args ?c ex_handle ?ec [20] [20] w' = (Exit 0, w1) \<and> fs_can_write (ps_fs w1) = (\<lambda>p. True)"
    if "ps_fs w' = ps_fs w" for w'
    using that wr akp ok ex_handles(2)
    by (simp add: at_request_def ec(3) ex_machine_values ex_args_values rec ex_at_key_stored Let_def ex_put)
  show ?thesis
    using kp(1) sb at ea
    by (simp add: with_client_def ex_machine_values new at_with_def ex_args_values ex_handles Let_def)
qed

lemma ex_request_at_succeeds:
  assumes "fs_can_write (ps_fs w) = (\<lambda>p. True)" "fs_files (ps_fs w) ''keys/ec.pem'' = Some [5]"
    "fs_files (ps_fs w) ''keys/ec.cert'' = Some [21]" "fs_files (ps_fs w) ''keys/canonical.id'' = Some (string_bytes ''v2xpki-its-s'')"
  shows "\<exists>w2. cmd_request_at (ex_machine 3 [34] 7) ex_args w = (Exit 0, w2) \<and> fs_can_write (ps_fs w2) = (\<lambda>p. True)"
proof -
  have id: "map (\<lambda>b. char_of (unat b)) (string_bytes s) = s" for s
    by (simp add: string_bytes_def comp_def)
  show ?thesis
    using assms ex_fetches [of 0 3] ex_fetches [of 1 3] ex_fetches [of 2 3]
    by (simp add: cmd_request_at_def ex_args_values ex_machine_values ex_made Let_def ex_put at_canonical_id_def ex_read id
        ex_at_request)
qed

end
