(* ===== verification/CliSession.thy ===== *)
theory CliSession
  imports ExampleSession
begin

text \<open>
  Two runs of the tool on one key directory: \<open>enrol\<close>, then \<open>request-at\<close>. The runs share nothing but
  files, so the property is about which file the second run reads and who wrote it last.
\<close>

section \<open>The file system between the runs\<close>

text \<open>What is relied on: making directories changes no file, and a file takes all that is written to it.\<close>

definition plain_files :: "os \<Rightarrow> bool" where
  "plain_files X \<longleftrightarrow>
     (\<forall>dir fs fs'. os_mkdirs X dir fs = Some fs' \<longrightarrow> fs_files fs' = fs_files fs) \<and>
     (\<forall>path data. length data \<le> os_stored X path data)"

text \<open>Up to its request, a command leaves every file outside the trust directory as it was.\<close>

lemma staged_keeps:
  assumes "staged m a fs0 fs" "plain_files (mc_os m)" "q \<notin> trust_files a"
  shows "fs_files fs q = fs_files fs0 q"
  using assms(1)
proof induction
  case (made fs dir fs')
  then show ?case using assms(2) by (auto simp: plain_files_def)
next
  case (wrote fs path data)
  then show ?case using assms(3) by (auto simp: write_file_def)
qed simp

text \<open>The names of the files differ: the credential, a key file and the trust files.\<close>

lemma ec_not_trust: "d @ ''/ec.cert'' \<notin> trust_files a"
  by (auto simp: trust_files_def)

lemma pem_path_suffix: "\<exists>p. pem_path dir h = p @ ''.pem''"
  by (simp add: pem_path_def path_join_def)

lemma pem_not_trust: "pem_path dir h \<notin> trust_files a"
proof -
  obtain p where "pem_path dir h = p @ ''.pem''" using pem_path_suffix by blast
  then show ?thesis by (auto simp: trust_files_def append_eq_append_conv2 append_eq_Cons_conv)
qed

lemma pem_not_ec: "pem_path dir h \<noteq> d @ ''/ec.cert''"
proof -
  obtain p where "pem_path dir h = p @ ''.pem''" using pem_path_suffix by blast
  then show ?thesis by (auto simp: append_eq_append_conv2 append_eq_Cons_conv)
qed

lemma put_writes:
  assumes "plain_files (mc_os m)" "fs_can_write (ps_fs (put m path data w)) path"
  shows "fs_files (ps_fs (put m path data w)) path = Some data"
  using assms by (auto simp: plain_files_def put_def save_def write_file_def split: if_splits)

lemma put_other: "q \<noteq> path \<Longrightarrow> fs_files (ps_fs (put m path data w)) q = fs_files (ps_fs w) q"
  by (simp add: put_def save_other)

section \<open>What each run leaves to the next\<close>

text \<open>An enrolment leaves the accepted credential in its file and the key that signed in its own.\<close>

lemma cmd_enrol_leaves:
  assumes pf: "plain_files (mc_os m)" and r: "cmd_enrol m a w = (Exit 0, w1)"
    and wr: "fs_can_write (ps_fs w1) (arg_keystore_dir a @ ''/ec.cert'')"
  obtains c rec handle kp ec where "KeyHandle_from (default_key_id a) = Some handle"
    "client_load (mc_env m) (mc_pem m) c handle = Some kp"
    "fst (request_enrolment_credential (mc_env m) (mc_pem m) (mc_nets m 2) (mc_seed m + 1) (mc_clock m) c handle rec) =
       Inr ec"
    "fs_files (ps_fs w1) (arg_keystore_dir a @ ''/ec.cert'') = Some (to_vector (ci_cert_bytes ec))"
    "load_keypair (mc_env m) (mc_pem m) (arg_keystore_dir a) (ps_fs w1) handle = Some kp"
proof -
  let ?p = "arg_keystore_dir a @ ''/ec.cert''"
  have "\<not> refused w (cmd_enrol m a w)" "\<not> thrown m a (cmd_enrol m a w)"
    using r by (simp_all add: refused_def thrown_def)
  then have "enrolled m a (Exit 0, w1)" using cmd_enrol_ends [of m a w] r by (simp add: ends_def)
  then obtain fs client handle rec ec w2 where
    c: "PkiClient_new (mc_os m) (mc_env m) (enrol_config a) fs = Some client"
    and h: "KeyHandle_from (default_key_id a) = Some handle"
    and e: "fst (request_enrolment_credential (mc_env m) (mc_pem m) (mc_nets m 2) (mc_seed m + 1) (mc_clock m)
          (on_files w2 client) handle rec) = Inr ec"
    and w1: "ps_fs w1 = ps_fs (put m ?p (to_vector (ci_cert_bytes ec)) w2)"
    unfolding enrolled_def by auto
  have cfg: "cfg_keystore_dir (pc_config client) = arg_keystore_dir a"
    using PkiClient_new_SomeD [OF c] by (simp add: enrol_config_def)
  obtain kp where kp: "client_load (mc_env m) (mc_pem m) (on_files w2 client) handle = Some kp"
    using e by (auto simp: request_enrolment_credential_def ec_exchange_def split: sum.splits if_splits option.splits)
  have "fs_files (ps_fs w1) ?p = Some (to_vector (ci_cert_bytes ec))"
    using put_writes [OF pf] wr by (simp add: w1)
  moreover have "load_keypair (mc_env m) (mc_pem m) (arg_keystore_dir a) (ps_fs w1) handle = Some kp"
  proof -
    have "fs_files (ps_fs w1) (pem_path (arg_keystore_dir a) handle) = fs_files (ps_fs w2) (pem_path (arg_keystore_dir a) handle)"
      unfolding w1 by (rule put_other [OF pem_not_ec])
    from load_keypair_files [OF this] kp show ?thesis by (simp add: client_load_def cfg)
  qed
  ultimately show ?thesis using that h kp e by blast
qed

text \<open>A ticket request works with the credential and the key it finds.\<close>

lemma authorized_uses:
  assumes pf: "plain_files (mc_os m)" and a: "authorized m a w (Exit 0, w2)"
    and wr: "fs_can_write (ps_fs w2) (at_cert_path a)" and d: "arg_ec_cert a = []"
    and ec: "fs_files (ps_fs w) (arg_keystore_dir a @ ''/ec.cert'') = Some data"
    and h: "KeyHandle_from (default_key_id a) = Some handle"
    and kp: "load_keypair (mc_env m) (mc_pem m) (arg_keystore_dir a) (ps_fs w) handle = Some kp"
  obtains c at_handle ec_ci rec ticket where "client_load (mc_env m) (mc_pem m) c handle = Some kp"
    "to_vector (ci_cert_bytes ec_ci) = data" "ci_hashed_id_8 ec_ci = compute_hid8 (mc_env m) data"
    "ci_public_key ec_ci = public_key kp"
    "fst (request_authorization_ticket (mc_env m) (mc_pem m) (mc_nets m 3) (mc_seed m + 1) (mc_clock m) c handle ec_ci
       at_handle rec) = Inr ticket"
    "fs_files (ps_fs w2) (at_cert_path a) = Some (to_vector (ci_cert_bytes ticket))"
proof -
  from a h obtain fs1 fs2 client at_handle kp' at_kp ec_bytes ec_sb rec ticket w1 where
    st: "staged m a (ps_fs w) fs1" "staged m a (ps_fs w) fs2" and b: "read_file (mc_os m) fs1 (ec_cert_path a) = Some ec_bytes"
    and c: "PkiClient_new (mc_os m) (mc_env m) (at_config a) fs1 = Some client"
    and l: "load_keypair (mc_env m) (mc_pem m) (arg_keystore_dir a) fs2 handle = Some kp'"
    and sb: "sb_from kMaxCoerMessageLen ec_bytes = Some ec_sb"
    and ah: "KeyHandle_from (default_key_id a @ ''-at'') = Some at_handle"
    and w1: "ps_fs w1 = snd (store_keypair (mc_env m) (mc_pem m) (arg_keystore_dir a) fs2 at_handle at_kp)"
    and r: "fst (request_authorization_ticket (mc_env m) (mc_pem m) (mc_nets m 3) (mc_seed m + 1) (mc_clock m)
          (on_files w1 client) handle (at_ec_info m ec_bytes ec_sb kp') at_handle rec) = Inr ticket"
    and w2: "ps_fs w2 = ps_fs (put m (at_cert_path a) (to_vector (ci_cert_bytes ticket)) w1)"
    unfolding authorized_def by auto
  have cfg: "cfg_keystore_dir (pc_config client) = arg_keystore_dir a"
    using PkiClient_new_SomeD [OF c] by (simp add: at_config_def)
  have data: "ec_bytes = data"
    using staged_keeps [OF st(1) pf ec_not_trust [of "arg_keystore_dir a"]] ec d b by (simp add: read_file_def ec_cert_path_def split: if_splits)
  have k: "kp' = kp"
    using l kp load_keypair_files [OF staged_keeps [OF st(2) pf pem_not_trust]] by simp
  have "id_str handle \<noteq> id_str at_handle" using id_str_from [OF h] id_str_from [OF ah] by simp
  then have "client_load (mc_env m) (mc_pem m) (on_files w1 client) handle = Some kp"
    using file_store.load_other [OF w1 [symmetric]] l k by (simp add: client_load_def cfg)
  then show ?thesis
    using that [OF _ _ _ _ r] sb put_writes [OF pf] wr by (simp add: at_ec_info_def data k w2)
qed

section \<open>Properties\<close>

text \<open>
  (C27) A ticket is requested with the credential of the last enrolment. When \<open>enrol\<close> succeeded and its
  credential could be written, and later \<open>request-at\<close> succeeds on the same key directory and key name,
  with no other certificate given, then its request used exactly the bytes and the identifier of the
  credential the enrolment accepted and the very key pair that signed the enrolment; and the ticket
  it got is what the ticket file holds, if that can be written.
\<close>

theorem ticket_uses_enrolled_credential:
  assumes "plain_files (mc_os m)" "cmd_enrol m a w = (Exit 0, w1)"
    and "fs_can_write (ps_fs w1) (arg_keystore_dir a @ ''/ec.cert'')"
    and "cmd_request_at m' a' w1 = (Exit 0, w2)" "fs_can_write (ps_fs w2) (at_cert_path a')"
    and "mc_os m' = mc_os m" "mc_env m' = mc_env m" "mc_pem m' = mc_pem m"
    and "arg_keystore_dir a' = arg_keystore_dir a" "default_key_id a' = default_key_id a" "arg_ec_cert a' = []"
  shows "\<exists>c rec handle kp ec c' at_handle ec_ci rec' ticket.
    let E = mc_env m; P = mc_pem m; ec_bytes = to_vector (ci_cert_bytes ec) in
    KeyHandle_from (default_key_id a) = Some handle \<and> client_load E P c handle = Some kp \<and>
    fst (request_enrolment_credential E P (mc_nets m 2) (mc_seed m + 1) (mc_clock m) c handle rec) = Inr ec \<and>
    client_load E P c' handle = Some kp \<and> to_vector (ci_cert_bytes ec_ci) = ec_bytes \<and>
    ci_hashed_id_8 ec_ci = compute_hid8 E ec_bytes \<and> ci_public_key ec_ci = public_key kp \<and>
    fst (request_authorization_ticket E P (mc_nets m' 3) (mc_seed m' + 1) (mc_clock m') c' handle ec_ci at_handle
      rec') = Inr ticket \<and>
    fs_files (ps_fs w2) (at_cert_path a') = Some (to_vector (ci_cert_bytes ticket))"
proof -
  obtain c rec handle kp ec where
    h: "KeyHandle_from (default_key_id a) = Some handle" and kp: "client_load (mc_env m) (mc_pem m) c handle = Some kp"
    and r: "fst (request_enrolment_credential (mc_env m) (mc_pem m) (mc_nets m 2) (mc_seed m + 1) (mc_clock m) c handle rec) =
       Inr ec"
    and f: "fs_files (ps_fs w1) (arg_keystore_dir a @ ''/ec.cert'') = Some (to_vector (ci_cert_bytes ec))"
    and l: "load_keypair (mc_env m) (mc_pem m) (arg_keystore_dir a) (ps_fs w1) handle = Some kp"
    by (rule cmd_enrol_leaves [OF assms(1-3)])
  have at: "plain_files (mc_os m')" "KeyHandle_from (default_key_id a') = Some handle"
    "fs_files (ps_fs w1) (arg_keystore_dir a' @ ''/ec.cert'') = Some (to_vector (ci_cert_bytes ec))"
    "load_keypair (mc_env m') (mc_pem m') (arg_keystore_dir a') (ps_fs w1) handle = Some kp"
    using assms h f l by simp_all
  have ok: "authorized m' a' w1 (Exit 0, w2)"
    using request_at.cmd_ends [of m' a' w1] assms(4) by (auto simp: ends_def refused_def thrown_def)
  obtain c' at_handle ec_ci rec' ticket where "client_load (mc_env m) (mc_pem m) c' handle = Some kp"
    "to_vector (ci_cert_bytes ec_ci) = to_vector (ci_cert_bytes ec)"
    "ci_hashed_id_8 ec_ci = compute_hid8 (mc_env m) (to_vector (ci_cert_bytes ec))" "ci_public_key ec_ci = public_key kp"
    "fst (request_authorization_ticket (mc_env m) (mc_pem m) (mc_nets m' 3) (mc_seed m' + 1) (mc_clock m') c' handle ec_ci
       at_handle rec') = Inr ticket"
    "fs_files (ps_fs w2) (at_cert_path a') = Some (to_vector (ci_cert_bytes ticket))"
    by (rule authorized_uses [OF at(1) ok assms(5,11) at(3,2,4), unfolded assms(7,8)])
  with h kp r show ?thesis unfolding Let_def by blast
qed

text \<open>Witness of (C27): the session of the example, where both commands succeed.\<close>

lemma ex_plain: "plain_files ex_os"
  by (simp add: plain_files_def ex_os_def)

theorem ticket_uses_enrolled_credential_witness:
  "\<exists>w1 w2 c rec handle kp ec c' at_handle ec_ci rec' ticket.
    cmd_enrol (ex_machine 2 [6] 0) ex_args ex_start = (Exit 0, w1) \<and>
    cmd_request_at (ex_machine 3 [34] 7) ex_args w1 = (Exit 0, w2) \<and>
    KeyHandle_from ''ec'' = Some handle \<and> client_load ex_env ex_pem c handle = Some kp \<and>
    fst (request_enrolment_credential ex_env ex_pem (ex_net [6]) 1 ex_clock c handle rec) = Inr ec \<and>
    client_load ex_env ex_pem c' handle = Some kp \<and> to_vector (ci_cert_bytes ec_ci) = to_vector (ci_cert_bytes ec) \<and>
    fst (request_authorization_ticket ex_env ex_pem (ex_net [34]) 8 ex_clock c' handle ec_ci at_handle rec') = Inr ticket \<and>
    fs_files (ps_fs w2) ''keys/at.cert'' = Some (to_vector (ci_cert_bytes ticket))"
proof -
  let ?m = "ex_machine 2 [6] 0" and ?m' = "ex_machine 3 [34] 7"
  obtain w1 where w1: "cmd_enrol ?m ex_args ex_start = (Exit 0, w1)" "fs_can_write (ps_fs w1) = (\<lambda>p. True)"
    "fs_files (ps_fs w1) ''keys/ec.pem'' = Some [5]" "fs_files (ps_fs w1) ''keys/ec.cert'' = Some [21]"
    "fs_files (ps_fs w1) ''keys/canonical.id'' = Some (string_bytes ''v2xpki-its-s'')"
    using ex_enrol_succeeds by blast
  obtain w2 where w2: "cmd_request_at ?m' ex_args w1 = (Exit 0, w2)" "fs_can_write (ps_fs w2) = (\<lambda>p. True)"
    using ex_request_at_succeeds [OF w1(2-5)] by blast
  have h: "plain_files (mc_os ?m)" "fs_can_write (ps_fs w1) (arg_keystore_dir ex_args @ ''/ec.cert'')"
    "fs_can_write (ps_fs w2) (at_cert_path ex_args)" "mc_os ?m' = mc_os ?m" "mc_env ?m' = mc_env ?m" "mc_pem ?m' = mc_pem ?m"
    "7 + 1 = (8 :: nat)" "0 + 1 = (1 :: nat)"
    using ex_plain w1(2) w2(2) by (simp_all add: ex_machine_values)
  from ticket_uses_enrolled_credential [OF h(1) w1(1) h(2) w2(1) h(3-6) refl refl ex_args_values(12)] w1(1) w2(1)
  show ?thesis unfolding Let_def ex_machine_values ex_args_values h(7,8) by blast
qed

end
