(* ===== verification/WireDump.thy ===== *)
theory WireDump
  imports Platform
begin

text \<open>
  \<open>tools/pki-provisioner/wire_dump.cpp\<close>: the record of one provisioning run for conformance tools. The
  object is the record \<open>WireDump\<close>; an empty directory name means that the dump is off. The invariant
  \<open>wd_inv\<close> ties every entry to its bytes. \<open>json_unescape\<close> is a reader of JSON string bodies, written
  for the round trip of the escaping.
\<close>

section \<open>Data\<close>

record Entry =
  en_step :: string
  en_direction :: string
  en_file :: string
  en_note :: string
  en_size :: nat
  en_sha256 :: string
  en_http_status :: int
  en_content_type :: string

record WireDump =
  wd_dir :: string
  wd_with_keys :: bool
  wd_entries :: "Entry list"
  wd_meta :: "(string \<times> string) list"
  wd_blobs :: "bytes list"

definition WireDump_init :: "string \<Rightarrow> bool \<Rightarrow> WireDump" where
  "WireDump_init dir with_keys =
     \<lparr>wd_dir = dir, wd_with_keys = with_keys, wd_entries = [], wd_meta = [], wd_blobs = []\<rparr>"

definition enabled :: "WireDump \<Rightarrow> bool" where
  "enabled d \<longleftrightarrow> wd_dir d \<noteq> []"

section \<open>Recording\<close>

definition dump_record ::
  "env \<Rightarrow> string \<Rightarrow> string \<Rightarrow> bytes \<Rightarrow> string \<Rightarrow> int \<Rightarrow> string \<Rightarrow> WireDump \<Rightarrow> WireDump" where
  "dump_record E step direction data note http_status content_type d =
     (if \<not> enabled d then d
      else d\<lparr>wd_entries := wd_entries d @
               [\<lparr>en_step = step, en_direction = direction, en_file = step @ ''.coer'', en_note = note,
                 en_size = length data, en_sha256 = wire_hex (hash_sha256 E data),
                 en_http_status = http_status, en_content_type = content_type\<rparr>],
             wd_blobs := wd_blobs d @ [data]\<rparr>)"

definition record_key :: "env \<Rightarrow> string \<Rightarrow> bytes \<Rightarrow> string \<Rightarrow> WireDump \<Rightarrow> WireDump" where
  "record_key E name key note d =
     (if \<not> enabled d \<or> \<not> wd_with_keys d then d
      else dump_record E name ''key-material'' key note 0 [] d)"

definition meta :: "string \<Rightarrow> string \<Rightarrow> WireDump \<Rightarrow> WireDump" where
  "meta key val d = (if \<not> enabled d then d else d\<lparr>wd_meta := wd_meta d @ [(key, val)]\<rparr>)"

section \<open>Writing\<close>

definition json_escape_char :: "char \<Rightarrow> string" where
  "json_escape_char c =
     (if c = CHR 0x22 \<or> c = CHR 0x5C then [CHR 0x5C, c]
      else if c = CHR 0x0A then [CHR 0x5C, CHR ''n'']
      else [c])"

definition json_escape :: "string \<Rightarrow> string" where
  "json_escape s = concat (map json_escape_char s)"

definition wire_write_file :: "os \<Rightarrow> string \<Rightarrow> bytes \<Rightarrow> file_system \<Rightarrow> bool \<times> file_system" where
  "wire_write_file X path data fs =
     (if \<not> fs_can_write fs path then (False, fs)
      else (data = [] \<or> os_good X path data,
            fs\<lparr>fs_files := (fs_files fs)(path \<mapsto> take (os_stored X path data) data)\<rparr>))"

text \<open>The loop over the artefacts, which stops at the first that cannot be written.\<close>

primrec write_blobs :: "os \<Rightarrow> string \<Rightarrow> (Entry \<times> bytes) list \<Rightarrow> file_system \<Rightarrow> bool \<times> file_system" where
  "write_blobs X dir [] fs = (True, fs)"
| "write_blobs X dir (eb # ebs) fs =
     (let (ok, fs1) = wire_write_file X (dir @ ''/'' @ en_file (fst eb)) (snd eb) fs in
      if \<not> ok then (False, fs1) else write_blobs X dir ebs fs1)"

definition jpair :: "string \<Rightarrow> string \<Rightarrow> string" where
  "jpair k v = jstr k @ '': '' @ jstr v"

definition manifest_entry :: "Entry \<Rightarrow> string" where
  "manifest_entry e =
     ''    {'' @ jpair ''step'' (en_step e) @ '', '' @ jpair ''direction'' (en_direction e) @ '', '' @
     jpair ''file'' (en_file e) @ '', '' @ jstr ''size'' @ '': '' @ dec_nat (en_size e) @ '', '' @
     jpair ''sha256'' (en_sha256 e) @
     (if en_http_status e \<noteq> 0 then '', '' @ jstr ''http_status'' @ '': '' @ dec_int (en_http_status e) else []) @
     (if en_content_type e \<noteq> [] then '', '' @ jpair ''content_type'' (json_escape (en_content_type e)) else []) @
     (if en_note e \<noteq> [] then '', '' @ jpair ''note'' (json_escape (en_note e)) else []) @ ''}''"

text \<open>Every entry but the last is followed by a comma.\<close>

primrec manifest_entries :: "Entry list \<Rightarrow> string" where
  "manifest_entries [] = []"
| "manifest_entries (e # es) =
     manifest_entry e @ (if es \<noteq> [] then '','' else []) @ nl @ manifest_entries es"

definition manifest_text :: "WireDump \<Rightarrow> string" where
  "manifest_text d =
     ''{'' @ nl @
     concat (map (\<lambda>(k, v). ''  '' @ jpair (json_escape k) (json_escape v) @ '','' @ nl) (wd_meta d)) @
     ''  '' @ jstr ''artefacts'' @ '': ['' @ nl @ manifest_entries (wd_entries d) @ ''  ]'' @ nl @ ''}'' @ nl"

text \<open>\<open>stamp\<close> is the time of the call as text.\<close>

definition flush :: "os \<Rightarrow> string \<Rightarrow> WireDump \<Rightarrow> file_system \<Rightarrow> bool \<times> WireDump \<times> file_system" where
  "flush X stamp d fs =
     (if \<not> enabled d then (True, d, fs)
      else
        let d1 = meta ''dumped_at_utc'' stamp d;
            d2 = (if wd_with_keys d1 then meta ''warning''
                    (''CONTAINS PRIVATE KEY MATERIAL. Disposable test station against a '' @
                     ''testbed; never reuse this station, never publish this directory.'') d1 else d1);
            fs1 = os_mkdir X (wd_dir d2) fs;
            (ok, fs2) = write_blobs X (wd_dir d2) (zip (wd_entries d2) (wd_blobs d2)) fs1 in
        if \<not> ok then (False, d2, fs2)
        else
          let path = wd_dir d2 @ ''/manifest.json''; text = string_bytes (manifest_text d2) in
          if \<not> fs_can_write fs2 path then (False, d2, fs2)
          else
            let fs3 = fs2\<lparr>fs_files := (fs_files fs2)(path \<mapsto> take (os_stored X path text) text)\<rparr> in
            if \<not> os_good X path text then (False, d2, fs3)
            else (True, d2\<lparr>wd_dir := []\<rparr>, fs3))"

section \<open>The invariant\<close>

definition entry_matches :: "env \<Rightarrow> Entry \<Rightarrow> bytes \<Rightarrow> bool" where
  "entry_matches E e b \<longleftrightarrow> en_size e = length b \<and> en_sha256 e = wire_hex (hash_sha256 E b) \<and>
     en_file e = en_step e @ ''.coer''"

definition wd_inv :: "env \<Rightarrow> WireDump \<Rightarrow> bool" where
  "wd_inv E d \<longleftrightarrow> list_all2 (entry_matches E) (wd_entries d) (wd_blobs d)"

text \<open>A bound on what a dump holds: the bytes of the artefacts and the values of the metadata.\<close>

definition holds_only :: "bytes set \<Rightarrow> string set \<Rightarrow> WireDump \<Rightarrow> bool" where
  "holds_only B M d \<longleftrightarrow> set (wd_blobs d) \<subseteq> B \<and> snd ` set (wd_meta d) \<subseteq> M"

lemma enabled_meta [simp]: "enabled (meta k v d) = enabled d" "wd_with_keys (meta k v d) = wd_with_keys d"
  "wd_entries (meta k v d) = wd_entries d" "wd_blobs (meta k v d) = wd_blobs d" "wd_dir (meta k v d) = wd_dir d"
  by (simp_all add: meta_def enabled_def)

lemma enabled_record [simp]:
  "enabled (dump_record E s dir b n h ct d) = enabled d"
  "wd_with_keys (dump_record E s dir b n h ct d) = wd_with_keys d"
  "enabled (record_key E s b n d) = enabled d" "wd_with_keys (record_key E s b n d) = wd_with_keys d"
  by (simp_all add: dump_record_def record_key_def enabled_def)

lemma wd_inv_init [simp]: "wd_inv E (WireDump_init dir wk)"
  by (simp add: wd_inv_def WireDump_init_def)

lemma wd_inv_meta [simp]: "wd_inv E (meta k v d) = wd_inv E d"
  by (simp add: wd_inv_def)

lemma wd_inv_record: "wd_inv E d \<Longrightarrow> wd_inv E (dump_record E s dir b n h ct d)"
  by (auto simp: wd_inv_def dump_record_def entry_matches_def intro!: list_all2_appendI)

lemma wd_inv_record_key: "wd_inv E d \<Longrightarrow> wd_inv E (record_key E s b n d)"
  by (simp add: record_key_def wd_inv_record)

lemma holds_only_record: "holds_only B M d \<Longrightarrow> b \<in> B \<Longrightarrow> holds_only B M (dump_record E s dir b n h ct d)"
  by (auto simp: holds_only_def dump_record_def)

lemma holds_only_meta: "holds_only B M d \<Longrightarrow> v \<in> M \<Longrightarrow> holds_only B M (meta k v d)"
  by (auto simp: holds_only_def meta_def)

lemma holds_only_init: "holds_only B M (WireDump_init dir wk)"
  by (simp add: holds_only_def WireDump_init_def)

lemma record_key_off: "\<not> wd_with_keys d \<Longrightarrow> record_key E s b n d = d"
  by (simp add: record_key_def)

text \<open>\<open>flush\<close> only adds metadata, and turns the dump off when it succeeds.\<close>

lemma flush_cases:
  assumes "flush X stamp d fs = (ok, d', fs')"
  shows "wd_entries d' = wd_entries d \<and> wd_blobs d' = wd_blobs d \<and> wd_with_keys d' = wd_with_keys d \<and>
    (if ok then \<not> enabled d' else enabled d')"
  using assms
  by (auto simp: flush_def Let_def enabled_def meta_def split: if_splits prod.splits)

lemma wd_inv_flush: "flush X stamp d fs = (ok, d', fs') \<Longrightarrow> wd_inv E d \<Longrightarrow> wd_inv E d'"
  using flush_cases [of X stamp d fs ok d' fs'] by (simp add: wd_inv_def)

lemma holds_only_flush:
  assumes "flush X stamp d fs = (ok, d', fs')" "\<not> wd_with_keys d" "stamp \<in> M" "holds_only B M d"
  shows "holds_only B M d'"
proof -
  have "wd_meta d' = (if enabled d then wd_meta d @ [(''dumped_at_utc'', stamp)] else wd_meta d)"
    using assms(1,2) by (auto simp: flush_def Let_def enabled_def meta_def split: if_splits prod.splits)
  then show ?thesis using flush_cases [OF assms(1)] assms(3,4) by (auto simp: holds_only_def)
qed

text \<open>A dump that is off ignores everything.\<close>

lemma disabled_ignores:
  assumes "\<not> enabled d"
  shows "dump_record E s dir b n h ct d = d" "record_key E s b n d = d" "meta k v d = d"
    "flush X stamp d fs = (True, d, fs)"
  using assms by (simp_all add: dump_record_def record_key_def meta_def flush_def)

text \<open>
  What the artefact files hold after the loop: of several entries with one file name the last one
  wins.
\<close>

lemma write_blobs_files:
  "write_blobs X dir ebs fs = (True, fs') \<Longrightarrow>
   fs_files fs' = fs_files fs ++ map_of (rev (map (\<lambda>(e, b). (dir @ ''/'' @ en_file e,
     take (os_stored X (dir @ ''/'' @ en_file e) b) b)) ebs))"
proof (induction ebs arbitrary: fs)
  case Nil
  then show ?case by simp
next
  case (Cons eb ebs)
  obtain e b where eb: "eb = (e, b)" by fastforce
  obtain ok fs1 where w: "wire_write_file X (dir @ ''/'' @ en_file e) b fs = (ok, fs1)" by fastforce
  with Cons.prems eb have r: "write_blobs X dir ebs fs1 = (True, fs')" and ok by (auto split: if_splits)
  with w have f1: "fs_files fs1 = (fs_files fs)(dir @ ''/'' @ en_file e \<mapsto> take (os_stored X (dir @ ''/'' @ en_file e) b) b)"
    by (auto simp: wire_write_file_def split: if_splits)
  show ?case unfolding Cons.IH [OF r] f1 eb by (simp add: map_of_append)
qed

section \<open>Escaping\<close>

text \<open>
  A reader of the body of a JSON string up to the closing quote (RFC 8259): the escapes the dump
  writes are undone, other escapes are not needed here, and an unescaped control character is an
  error.
\<close>

fun json_read :: "string \<Rightarrow> (string \<times> string) option" where
  "json_read [] = None"
| "json_read (c # s) =
     (if c = CHR 0x22 then Some ([], s)
      else if c = CHR 0x5C then
        (case s of [] \<Rightarrow> None
         | e # r \<Rightarrow>
             let c' = (if e = CHR 0x22 \<or> e = CHR 0x5C then Some e
                       else if e = CHR ''n'' then Some (CHR 0x0A) else None) in
             (case c' of None \<Rightarrow> None | Some x \<Rightarrow>
               (case json_read r of None \<Rightarrow> None | Some (t, rest) \<Rightarrow> Some (x # t, rest))))
      else if (of_char c :: nat) < 32 then None
      else (case json_read s of None \<Rightarrow> None | Some (t, rest) \<Rightarrow> Some (c # t, rest)))"

definition json_char_ok :: "char \<Rightarrow> bool" where
  "json_char_ok c \<longleftrightarrow> 32 \<le> (of_char c :: nat) \<or> c = CHR 0x0A"

lemma json_read_escape:
  "json_read (json_escape s @ CHR 0x22 # rest) = (if list_all json_char_ok s then Some (s, rest) else None)"
proof (induction s)
  case Nil
  then show ?case by (simp add: json_escape_def)
next
  case (Cons c s)
  have e: "json_escape (c # s) = json_escape_char c @ json_escape s" by (simp add: json_escape_def)
  show ?case using Cons by (auto simp: e json_escape_char_def json_char_ok_def)
qed

section \<open>Properties\<close>

text \<open>
  The strings of the manifest: a JSON reader reads the escaped form back as the original string
  and stops right after the closing quote, exactly when the string has no control character other
  than the line feed; any other control character makes the manifest malformed.
\<close>

theorem json_escape_roundtrip:
  "json_read (json_escape s @ CHR 0x22 # rest) = (if list_all json_char_ok s then Some (s, rest) else None)"
  by (rule json_read_escape)

end
