(* ===== verification/KeyPem.thy ===== *)
theory KeyPem
  imports WireDump
begin

text \<open>
  \<open>tools/pki-provisioner/key_pem.cpp\<close>: replacing a file by writing a temporary one and renaming it, and
  the private key in SEC1 PEM form. The encoder of OpenSSL is the argument \<open>sec1_pem\<close>.
\<close>

section \<open>Atomic writes\<close>

definition tmp_path :: "string \<Rightarrow> string" where
  "tmp_path path = path @ ''.tmp''"

definition unlink :: "os \<Rightarrow> string \<Rightarrow> file_system \<Rightarrow> file_system" where
  "unlink X path fs = (if os_unlink X path then fs\<lparr>fs_files := (fs_files fs)(path := None)\<rparr> else fs)"

definition rename :: "os \<Rightarrow> string \<Rightarrow> string \<Rightarrow> file_system \<Rightarrow> bool \<times> file_system" where
  "rename X old new fs =
     (if \<not> os_rename X old new then (False, fs)
      else (True, fs\<lparr>fs_files := (fs_files fs)(new := fs_files fs old, old := None)\<rparr>))"

text \<open>
  The result of \<open>fwrite\<close> is compared with the length; \<open>fclose\<close>, which writes the rest of the buffer, is
  not checked, so \<open>os_stored\<close> decides what the file holds.
\<close>

definition atomic_write :: "os \<Rightarrow> string \<Rightarrow> bytes \<Rightarrow> file_system \<Rightarrow> bool \<times> file_system" where
  "atomic_write X path data fs =
     (let tmp = tmp_path path in
      if \<not> fs_can_write fs tmp then (False, fs)
      else
        let fs1 = fs\<lparr>fs_files := (fs_files fs)(tmp \<mapsto> take (os_stored X tmp data) data)\<rparr> in
        if os_fwrite X tmp data \<noteq> length data then (False, unlink X tmp fs1)
        else
          let (ok, fs2) = rename X tmp path fs1 in
          if \<not> ok then (False, unlink X tmp fs2) else (True, fs2))"

section \<open>Keys\<close>

text \<open>\<open>sec1_pem\<close> is \<open>OSSL_ENCODER_to_bio\<close> with the format and structure of the source.\<close>

definition pem_pkey :: "env \<Rightarrow> bytes \<Rightarrow> Curve \<Rightarrow> EVP_PKEY option" where
  "pem_pkey E priv curve =
     (let brainpool = (curve = BrainpoolP256r1);
          nid = (if brainpool then NID_brainpoolP256r1 else NID_X9_62_prime256v1);
          group_name = (if brainpool then ''brainpoolP256r1'' else ''prime256v1'') in
      (case BN_bin2bn E priv of None \<Rightarrow> None | Some bn_priv \<Rightarrow>
        if \<not> EC_GROUP_new_by_curve_name E nid then None
        else case EC_POINT_mul E nid bn_priv of None \<Rightarrow> None | Some pub \<Rightarrow>
          let pub_buf = EC_POINT_point2oct E nid pub in
          if pub_buf = [] then None
          else let pkey = EVP_KEYPAIR group_name bn_priv pub_buf in
            if \<not> EVP_PKEY_fromdata E pkey then None else Some pkey))"

definition atomic_write_key_pem ::
  "os \<Rightarrow> env \<Rightarrow> (EVP_PKEY \<Rightarrow> bytes option) \<Rightarrow> string \<Rightarrow> bytes \<Rightarrow> Curve \<Rightarrow> file_system \<Rightarrow> bool \<times> file_system" where
  "atomic_write_key_pem X E sec1_pem path priv curve fs =
     (case pem_pkey E priv curve of None \<Rightarrow> (False, fs) | Some pkey \<Rightarrow>
      (case sec1_pem pkey of None \<Rightarrow> (False, fs) | Some pem_bytes \<Rightarrow> atomic_write X path pem_bytes fs))"

definition hex8 :: "hid8 \<Rightarrow> string" where
  "hex8 a = hex_string digit_upper (take 8 a)"

section \<open>Facts\<close>

lemma tmp_path_neq [simp]: "tmp_path path \<noteq> path" "path \<noteq> tmp_path path"
  by (simp_all add: tmp_path_def)

text \<open>
  The target changes only when the write reports success, and then it is what reached the temporary
  file; no third file changes.
\<close>

lemma atomic_write_target:
  "atomic_write X path data fs = (ok, fs') \<Longrightarrow>
   fs_files fs' path = (if ok then Some (take (os_stored X (tmp_path path) data) data) else fs_files fs path)"
  by (auto simp: atomic_write_def rename_def unlink_def Let_def split: if_splits prod.splits)

lemma atomic_write_frame:
  "atomic_write X path data fs = (ok, fs') \<Longrightarrow> q \<noteq> path \<Longrightarrow> q \<noteq> tmp_path path \<Longrightarrow> fs_files fs' q = fs_files fs q"
  by (auto simp: atomic_write_def rename_def unlink_def Let_def split: if_splits prod.splits)

lemma atomic_write_tmp:
  "atomic_write X path data fs = (ok, fs') \<Longrightarrow>
   fs_files fs' (tmp_path path) =
     (if \<not> fs_can_write fs (tmp_path path) then fs_files fs (tmp_path path)
      else if ok \<or> os_unlink X (tmp_path path) then None
      else Some (take (os_stored X (tmp_path path) data) data))"
  by (auto simp: atomic_write_def rename_def unlink_def Let_def split: if_splits prod.splits)

lemma atomic_write_can_write [simp]:
  "atomic_write X path data fs = (ok, fs') \<Longrightarrow> fs_can_write fs' = fs_can_write fs"
  by (auto simp: atomic_write_def rename_def unlink_def Let_def split: if_splits prod.splits)

lemma atomic_write_key_pem_target:
  assumes "atomic_write_key_pem X E sec1 path priv curve fs = (ok, fs')"
  shows "if ok then \<exists>pkey pem. pem_pkey E priv curve = Some pkey \<and> sec1 pkey = Some pem \<and>
      fs_files fs' path = Some (take (os_stored X (tmp_path path) pem) pem)
    else fs_files fs' path = fs_files fs path"
  using assms atomic_write_target [of X path _ fs ok fs']
  by (auto simp: atomic_write_key_pem_def split: option.splits if_splits)

lemma atomic_write_key_pem_frame:
  "atomic_write_key_pem X E sec1 path priv curve fs = (ok, fs') \<Longrightarrow> q \<noteq> path \<Longrightarrow> q \<noteq> tmp_path path \<Longrightarrow>
   fs_files fs' q = fs_files fs q"
  by (auto simp: atomic_write_key_pem_def atomic_write_frame split: option.splits)

text \<open>The written key is of the curve it was made on only for the two curves of 256 bits with a group here.\<close>

lemma pem_pkey_group:
  "pem_pkey E priv curve = Some pkey \<Longrightarrow>
   EVP_PKEY_group pkey = (if curve = BrainpoolP256r1 then ''brainpoolP256r1'' else ''prime256v1'')"
  by (auto simp: pem_pkey_def Let_def split: option.splits if_splits)

lemma hex8_upper: "length h = 8 \<Longrightarrow> hex8 h = hid8_hex_upper h"
  by (simp add: hex8_def hid8_hex_upper_def)

section \<open>Properties\<close>

text \<open>
  (C33) Replacing a file: the target is untouched when the write reports failure, and when it
  reports success it holds what reached the temporary file, a prefix of the data; the temporary file
  is then gone, and after a failed write it is left only if it cannot be removed. No other file changes.
\<close>

theorem atomic_write_all_or_nothing:
  "let (ok, fs') = atomic_write X path data fs; tmp = tmp_path path in
     fs_files fs' path = (if ok then Some (take (os_stored X tmp data) data) else fs_files fs path) \<and>
     fs_files fs' tmp =
       (if \<not> fs_can_write fs tmp then fs_files fs tmp
        else if ok \<or> os_unlink X tmp then None else Some (take (os_stored X tmp data) data)) \<and>
     {q. fs_files fs' q = fs_files fs q} \<union> {path, tmp} = UNIV"
proof -
  obtain ok fs' where w: "atomic_write X path data fs = (ok, fs')" by fastforce
  have "{q. fs_files fs' q = fs_files fs q} \<union> {path, tmp_path path} = UNIV"
    using atomic_write_frame [OF w] by blast
  then show ?thesis
    unfolding w Let_def prod.case by (intro conjI atomic_write_target [OF w] atomic_write_tmp [OF w])
qed

text \<open>
  The text forms of an identifier agree across the library, the command line tool and the
  provisioner, and so do the two readers: the three upper-case formatters print the same text, either
  case is read back as the first eight bytes (fewer are refused), and the reader of the command line
  tool is the library's with zeros for a text that the library refuses.
\<close>

theorem hid8_text_forms_agree:
  "hid8_hex h = hid8_hex_upper (take 8 h) \<and> hex8 h = hid8_hex_upper (take 8 h) \<and>
   parse_hid8_hex (hid8_hex_upper h) = (if length h < 8 then None else Some (take 8 h)) \<and>
   parse_hid8_hex (hid8_to_hex h) = (if length h < 8 then None else Some (take 8 h)) \<and>
   hex_to_hid8 s = (case parse_hid8_hex s of None \<Rightarrow> replicate 8 0 | Some h' \<Rightarrow> h')"
proof (intro conjI)
  show "hid8_hex h = hid8_hex_upper (take 8 h)" "hex8 h = hid8_hex_upper (take 8 h)"
    by (simp_all add: hid8_hex_def bytes_to_hex_def hex8_def hid8_hex_upper_def size_simps)
  show "parse_hid8_hex (hid8_hex_upper h) = (if length h < 8 then None else Some (take 8 h))"
    unfolding hid8_hex_upper_def by (rule upper.parse_hid8_prefix)
  show "parse_hid8_hex (hid8_to_hex h) = (if length h < 8 then None else Some (take 8 h))"
    unfolding hid8_to_hex_def by (rule lower.parse_hid8_prefix)
  show "hex_to_hid8 s = (case parse_hid8_hex s of None \<Rightarrow> replicate 8 0 | Some h' \<Rightarrow> h')"
    unfolding hex_to_hid8_def parse_hid8_hex_def by simp
qed

end
