(* ===== verification/ProvisionFlow.thy ===== *)
theory ProvisionFlow
  imports KeyPem
begin

text \<open>
  \<open>tools/pki-provisioner/flow.cpp\<close>: trust discovery, enrolment and ticket rotation of the provisioner.
  An operation returns its result, the wire dump after it and, where it writes files, the file
  system. The messages on the console, which nothing reads back, are left out.
\<close>

section \<open>Data\<close>

record TrustAnchors =
  ta_ea :: CertInfo
  ta_aa :: CertInfo
  ta_rca :: CertInfo
  ta_ec_url :: string
  ta_at_url :: string

record EnrolledEc =
  ee_cert :: CertInfo
  ee_canonical_kp :: KeyPair

text \<open>The last eight bytes of the digest; the source does not check that there are eight.\<close>

definition hid8_of :: "env \<Rightarrow> bytes \<Rightarrow> hid8" where
  "hid8_of E cert_bytes = last_n kHashedId8Len (hash_sha256 E cert_bytes)"

section \<open>Discovery\<close>

text \<open>\<open>None\<close> is the exception of the client's constructor.\<close>

definition discover ::
  "os \<Rightarrow> env \<Rightarrow> (nat \<Rightarrow> network) \<Rightarrow> int \<Rightarrow> string \<Rightarrow> string \<Rightarrow> string \<Rightarrow> file_system \<Rightarrow>
   (TrustAnchors option \<times> file_system) option" where
  "discover X E nets now base_url tlm_hid8 work_dir fs =
     (let cfg = PkiClientConfig_init\<lparr>cfg_tlm_url := base_url, cfg_tlm_hid8 := tlm_hid8,
            cfg_keystore_dir := work_dir, cfg_timeout := 30, cfg_verify_tls := True\<rparr> in
      (case PkiClient_new X E cfg fs of None \<Rightarrow> None | Some client \<Rightarrow>
        Some
         (case fst (discover_trust E nets now client) of
            Inl e \<Rightarrow> None
          | Inr topo \<Rightarrow>
              if \<not> topo_ectl_signature_verified topo \<or> \<not> topo_ctl_signature_verified topo then None
              else (case (topo_eas topo, topo_aas topo, topo_rcas topo) of
                  (ea # _, aa # _, rca # _) \<Rightarrow>
                    let ta = \<lparr>ta_ea = eai_cert ea, ta_aa = aai_cert aa, ta_rca = rca,
                          ta_ec_url = (if eai_its_access_point ea = [] then base_url @ ''/ec-request''
                                       else eai_its_access_point ea),
                          ta_at_url = (if aai_access_point aa = [] then base_url @ ''/at-request''
                                       else aai_access_point aa)\<rparr> in
                    if sb_empty (ci_encryption_key (ta_ea ta)) \<or> sb_empty (ci_encryption_key (ta_aa ta))
                    then None else Some ta
                | _ \<Rightarrow> None),
          pc_files client)))"

definition write_anchors ::
  "os \<Rightarrow> env \<Rightarrow> TrustAnchors \<Rightarrow> string \<Rightarrow> WireDump \<Rightarrow> file_system \<Rightarrow> bool \<times> WireDump \<times> file_system" where
  "write_anchors X E ta output_dir dump fs =
     (let (ok1, fs1) = atomic_write X (output_dir @ ''/AA.coer'') (to_vector (ci_cert_bytes (ta_aa ta))) fs in
      if \<not> ok1 then (False, dump, fs1)
      else
        let (ok2, fs2) = atomic_write X (output_dir @ ''/RCA.coer'') (to_vector (ci_cert_bytes (ta_rca ta))) fs1 in
        if \<not> ok2 then (False, dump, fs2)
        else
          let d1 = dump_record E ''ea_cert'' ''static'' (to_vector (ci_cert_bytes (ta_ea ta))) [] 0 [] dump;
              d2 = dump_record E ''aa_cert'' ''static'' (to_vector (ci_cert_bytes (ta_aa ta))) [] 0 [] d1;
              d3 = dump_record E ''rca_cert'' ''static'' (to_vector (ci_cert_bytes (ta_rca ta))) [] 0 [] d2;
              d4 = meta ''ea_hashed_id_8'' (hex8 (ci_hashed_id_8 (ta_ea ta))) d3;
              d5 = meta ''aa_hashed_id_8'' (hex8 (ci_hashed_id_8 (ta_aa ta))) d4;
              d6 = meta ''rca_hashed_id_8'' (hex8 (ci_hashed_id_8 (ta_rca ta))) d5 in
          (True, d6, fs2))"

section \<open>Headers\<close>

text \<open>\<open>tolower\<close> in the C locale; the map is walked in the order of its keys.\<close>

definition tolower :: "char \<Rightarrow> char" where
  "tolower c = (let n = of_char c :: nat in if 65 \<le> n \<and> n \<le> 90 then char_of (n + 32) else c)"

definition header_of :: "HttpResponse \<Rightarrow> string \<Rightarrow> string" where
  "header_of r name =
     (case find (\<lambda>(k, v). map tolower k = name) (sort_key fst (resp_headers r)) of
        None \<Rightarrow> [] | Some (k, v) \<Rightarrow> v)"

section \<open>Enrolment\<close>

text \<open>The client of the provisioner: no bundle, 30 seconds, TLS verification on.\<close>

definition provisioner_post :: "network \<Rightarrow> string \<Rightarrow> bytes \<Rightarrow> HttpResponse Result" where
  "provisioner_post net url body =
     http_post (HttpClientConfig_of 30) net url body ''application/x-its-request''"

definition enrol_ec ::
  "env \<Rightarrow> network \<Rightarrow> nat \<Rightarrow> clock_readings \<Rightarrow> TrustAnchors \<Rightarrow> int \<Rightarrow> WireDump \<Rightarrow> Curve \<Rightarrow>
   EnrolledEc option \<times> WireDump" where
  "enrol_ec E net s ck ta validity_days dump curve =
     (case generate_keypair E s curve of None \<Rightarrow> (None, dump) | Some kp \<Rightarrow>
        let rec = \<lparr>ecr_canonical_public_key = public_key kp, ecr_ea_hashed_id_8 = ci_hashed_id_8 (ta_ea ta),
              ecr_requested_psids = [kPsidScr], ecr_validity_period_days = validity_days, ecr_curve = curve,
              ecr_its_id = ''v2xpki-its-s''\<rparr>;
            desc = assemble_ec_request rec (ck_assemble ck); priv = to_vector (private_key kp) in
        (case encode_ec_request E (s + 1) (ck_sign1 ck) (ck_sign2 ck) desc (ta_ea ta) priv of
           Inl e \<Rightarrow> (None, dump)
         | Inr req \<Rightarrow>
           let sent = to_vector (req_encoded req); aes = to_vector (req_aes_key req);
               d1 = dump_record E ''ec_request'' ''sent'' sent
                 ''exact bytes POSTed; requestHash = leftmost 16 octets of this sha256'' 0
                 ''application/x-its-request'' dump in
           (case provisioner_post net (ta_ec_url ta) sent of
              Inl e \<Rightarrow> (None, d1)
            | Inr resp \<Rightarrow>
              if status_code resp \<noteq> 200 then (None, d1)
              else
                let d2 = record_key E ''ec_request_aes_key'' aes
                      ''AES-128 key of the EC request; the response reuses it as PSK'' d1;
                    d3 = record_key E ''canonical_private_key'' priv ''station canonical private key (SEC1 scalar)'' d2;
                    d4 = dump_record E ''ec_response'' ''received'' (resp_body resp)
                      ''outer-encrypted; the inner PDU needs the per-request AES key, not dumped''
                      (status_code resp) (header_of resp ''content-type'') d3 in
                (case decode_ec_response E (resp_body resp) priv aes sent (ta_ea ta) of
                   Inl e \<Rightarrow> (None, d4)
                 | Inr r \<Rightarrow>
                   (case (ecs_response_code r = EnrolmentOk, ecs_certificate r) of
                      (True, Some cert) \<Rightarrow>
                        let d5 = dump_record E ''ec_cert'' ''received'' (to_vector (ci_cert_bytes cert))
                              ''issued EC, extracted from ec_response'' 0 [] d4;
                            d6 = meta ''ec_hashed_id_8'' (hex8 (ci_hashed_id_8 cert)) d5;
                            d7 = meta ''curve'' (Curve_to_string (ci_curve cert)) d6 in
                        (Some \<lparr>ee_cert = cert, ee_canonical_kp = kp\<rparr>, d7)
                    | _ \<Rightarrow> (None, d4))))))"

section \<open>Rotation\<close>

text \<open>The request and its answer, up to the certificate.\<close>

definition at_rotation ::
  "env \<Rightarrow> network \<Rightarrow> nat \<Rightarrow> clock_readings \<Rightarrow> TrustAnchors \<Rightarrow> EnrolledEc \<Rightarrow> int list \<Rightarrow> int \<Rightarrow> WireDump \<Rightarrow>
   (CertInfo \<times> KeyPair) option \<times> WireDump" where
  "at_rotation E net s ck ta ec psids validity_hours dump =
     (case generate_keypair E s (ci_curve (ee_cert ec)) of None \<Rightarrow> (None, dump) | Some at_kp \<Rightarrow>
        let rec = \<lparr>atr_at_public_key = public_key at_kp, atr_aa_hashed_id_8 = ci_hashed_id_8 (ta_aa ta),
              atr_ea_hashed_id_8 = ci_hashed_id_8 (ta_ea ta), atr_requested_psids = psids,
              atr_validity_period_hours = validity_hours, atr_curve = ci_curve (ee_cert ec)\<rparr>;
            desc = assemble_at_request E (s + 1) rec (ck_assemble ck);
            at_priv = to_vector (private_key at_kp) in
        (case encode_at_request E (s + 2) (ck_sign1 ck) (ck_sign2 ck) desc (ta_aa ta) (ta_ea ta) (ee_cert ec)
                (to_vector (private_key (ee_canonical_kp ec))) at_priv of
           Inl e \<Rightarrow> (None, dump)
         | Inr req \<Rightarrow>
           let sent = to_vector (req_encoded req); aes = to_vector (req_aes_key req);
               d1 = dump_record E ''at_request'' ''sent'' sent
                 (''exact bytes POSTed; carries the PoP and keyTag; '' @
                  ''requestHash = leftmost 16 of this sha256'') 0 ''application/x-its-request'' dump in
           (case provisioner_post net (ta_at_url ta) sent of
              Inl e \<Rightarrow> (None, d1)
            | Inr resp \<Rightarrow>
              if status_code resp \<noteq> 200 \<or> resp_body resp = [] then (None, d1)
              else
                let d2 = record_key E ''at_request_aes_key'' aes
                      ''AES-128 key of the AT request; the response reuses it as PSK'' d1;
                    d3 = record_key E ''at_private_key'' at_priv ''AT private key (SEC1 scalar)'' d2;
                    d4 = dump_record E ''at_response'' ''received'' (resp_body resp)
                      ''outer-encrypted; the inner PDU needs the per-request AES key, not dumped''
                      (status_code resp) (header_of resp ''content-type'') d3 in
                (case decode_at_response E (resp_body resp) at_priv aes sent (ta_aa ta) of
                   Inl e \<Rightarrow> (None, d4)
                 | Inr r \<Rightarrow>
                   if ats_response_code r \<noteq> AuthorizationOk then (None, d4)
                   else (case ats_certificate r of None \<Rightarrow> (None, d4) | Some cert \<Rightarrow>
                     (Some (cert, at_kp), d4))))))"

text \<open>\<open>rotate_at\<close>: the certificate is put in place first, then its key.\<close>

definition rotate_at ::
  "os \<Rightarrow> env \<Rightarrow> (EVP_PKEY \<Rightarrow> bytes option) \<Rightarrow> network \<Rightarrow> nat \<Rightarrow> clock_readings \<Rightarrow> TrustAnchors \<Rightarrow> EnrolledEc \<Rightarrow>
   int list \<Rightarrow> int \<Rightarrow> string \<Rightarrow> WireDump \<Rightarrow> file_system \<Rightarrow> hid8 option \<times> WireDump \<times> file_system" where
  "rotate_at X E sec1_pem net s ck ta ec psids validity_hours output_dir dump fs =
     (let (issued, d1) = at_rotation E net s ck ta ec psids validity_hours dump in
      (case issued of None \<Rightarrow> (None, d1, fs) | Some (cert, at_kp) \<Rightarrow>
        let cert_bytes = to_vector (ci_cert_bytes cert);
            d2 = dump_record E ''at_cert'' ''received'' cert_bytes ''issued AT, extracted from at_response'' 0 [] d1;
            hid8 = hid8_of E cert_bytes;
            d3 = meta ''at_hashed_id_8'' (hex8 hid8) d2;
            (ok1, fs1) = atomic_write X (output_dir @ ''/AT.coer'') cert_bytes fs in
        if \<not> ok1 then (None, d3, fs1)
        else
          let (ok2, fs2) = atomic_write_key_pem X E sec1_pem (output_dir @ ''/AT.key'')
                (to_vector (private_key at_kp)) (ci_curve (ee_cert ec)) fs1 in
          if \<not> ok2 then (None, d3, fs2) else (Some hid8, d3, fs2)))"

section \<open>Facts\<close>

text \<open>
  Trust anchors: the Root CA is one of a verified ECTL of the TLM, each authority is listed by that ECTL or
  by a verified CTL of one of its Root CAs, and both authorities can be encrypted to and reached.
\<close>

definition discovery_config :: "string \<Rightarrow> string \<Rightarrow> string \<Rightarrow> PkiClientConfig" where
  "discovery_config base_url tlm_hid8 work_dir =
     PkiClientConfig_init\<lparr>cfg_tlm_url := base_url, cfg_tlm_hid8 := tlm_hid8, cfg_keystore_dir := work_dir,
       cfg_timeout := 30, cfg_verify_tls := True\<rparr>"

definition anchored :: "env \<Rightarrow> (nat \<Rightarrow> network) \<Rightarrow> int \<Rightarrow> PkiClient \<Rightarrow> TrustAnchors \<Rightarrow> bool" where
  "anchored E nets now client ta \<longleftrightarrow>
     (\<exists>topo tlm et ea aa. fst (discover_trust E nets now client) = Inr topo \<and>
        verified_ectl E nets now client tlm et \<and> topo_rcas topo = topo_rcas et \<and>
        ta_rca ta = hd (topo_rcas et) \<and> ta_rca ta \<in> set (topo_rcas et) \<and>
        topo_eas topo \<noteq> [] \<and> ea = hd (topo_eas topo) \<and> ta_ea ta = eai_cert ea \<and>
        topo_aas topo \<noteq> [] \<and> aa = hd (topo_aas topo) \<and> ta_aa ta = aai_cert aa \<and>
        (ea \<in> set (topo_eas et) \<or> (\<exists>rca \<in> set (topo_rcas et). \<exists>ct. verified_ctl E now rca ct \<and> ea \<in> set (topo_eas ct))) \<and>
        (aa \<in> set (topo_aas et) \<or> (\<exists>rca \<in> set (topo_rcas et). \<exists>ct. verified_ctl E now rca ct \<and> aa \<in> set (topo_aas ct))) \<and>
        \<not> sb_empty (ci_encryption_key (ta_ea ta)) \<and> \<not> sb_empty (ci_encryption_key (ta_aa ta)) \<and>
        ta_ec_url ta \<noteq> [] \<and> ta_at_url ta \<noteq> [])"

lemma discover_anchored:
  assumes c: "PkiClient_new X E (discovery_config base tlm_hid8 dir) fs = Some client"
    and d: "discover X E nets now base tlm_hid8 dir fs = Some (Some ta, fs')"
  shows "anchored E nets now client ta"
proof -
  obtain r c' where dt: "discover_trust E nets now client = (r, c')" by fastforce
  from c d dt obtain topo where r: "r = Inr topo"
    by (cases r) (simp_all add: discover_def discovery_config_def [symmetric])
  from discover_Ok_lists [of E nets now client topo c'] dt r obtain tlm et
    where et: "verified_ectl E nets now client tlm et" "topo_rcas topo = topo_rcas et"
      and ls: "set (topo_eas topo) \<subseteq> set (topo_eas et) \<union>
        {ea. \<exists>rca \<in> set (topo_rcas et). \<exists>ct. verified_ctl E now rca ct \<and> ea \<in> set (topo_eas ct)}"
      "set (topo_aas topo) \<subseteq> set (topo_aas et) \<union>
        {aa. \<exists>rca \<in> set (topo_rcas et). \<exists>ct. verified_ctl E now rca ct \<and> aa \<in> set (topo_aas ct)}"
    by auto
  obtain ea eas aa aas rca rcas where l: "topo_eas topo = ea # eas" "topo_aas topo = aa # aas"
    "topo_rcas topo = rca # rcas"
    using c d dt r
    by (simp add: discover_def discovery_config_def [symmetric] split: if_splits list.splits)
  with c d dt r have ta: "ta = \<lparr>ta_ea = eai_cert ea, ta_aa = aai_cert aa, ta_rca = rca,
      ta_ec_url = (if eai_its_access_point ea = [] then base @ ''/ec-request'' else eai_its_access_point ea),
      ta_at_url = (if aai_access_point aa = [] then base @ ''/at-request'' else aai_access_point aa)\<rparr>"
    "\<not> sb_empty (ci_encryption_key (eai_cert ea))" "\<not> sb_empty (ci_encryption_key (aai_cert aa))"
    by (simp_all add: discover_def discovery_config_def [symmetric] Let_def split: if_split_asm)
  have "topo_rcas et = rca # rcas" using et l by simp
  moreover have "ea \<in> set (topo_eas et) \<or> (\<exists>rca \<in> set (topo_rcas et). \<exists>ct. verified_ctl E now rca ct \<and> ea \<in> set (topo_eas ct))"
    "aa \<in> set (topo_aas et) \<or> (\<exists>rca \<in> set (topo_rcas et). \<exists>ct. verified_ctl E now rca ct \<and> aa \<in> set (topo_aas ct))"
    using ls l by auto
  ultimately show ?thesis
    using dt r et l ta unfolding anchored_def
    by (intro exI [of _ topo] exI [of _ tlm] exI [of _ et] exI [of _ ea] exI [of _ aa]) simp
qed

text \<open>
  What crosses the wire in an exchange: the request that was posted, the body of the answer to it and the
  certificate decoded from that body.
\<close>

definition ec_sent :: "env \<Rightarrow> nat \<Rightarrow> clock_readings \<Rightarrow> TrustAnchors \<Rightarrow> Curve \<Rightarrow> KeyPair \<Rightarrow> EcRequestResult \<Rightarrow> bool" where
  "ec_sent E s ck ta curve kp req \<longleftrightarrow> generate_keypair E s curve = Some kp \<and>
     (\<exists>desc. encode_ec_request E (s + 1) (ck_sign1 ck) (ck_sign2 ck) desc (ta_ea ta) (to_vector (private_key kp)) = Inr req)"

definition ec_issued :: "env \<Rightarrow> network \<Rightarrow> nat \<Rightarrow> clock_readings \<Rightarrow> TrustAnchors \<Rightarrow> Curve \<Rightarrow> CertInfo \<Rightarrow> bool" where
  "ec_issued E net s ck ta curve cert \<longleftrightarrow>
     (\<exists>kp req resp r. ec_sent E s ck ta curve kp req \<and>
        provisioner_post net (ta_ec_url ta) (to_vector (req_encoded req)) = Inr resp \<and>
        decode_ec_response E (resp_body resp) (to_vector (private_key kp)) (to_vector (req_aes_key req))
          (to_vector (req_encoded req)) (ta_ea ta) = Inr r \<and> ecs_certificate r = Some cert)"

definition ec_traffic :: "env \<Rightarrow> network \<Rightarrow> nat \<Rightarrow> clock_readings \<Rightarrow> TrustAnchors \<Rightarrow> Curve \<Rightarrow> bytes \<Rightarrow> bool" where
  "ec_traffic E net s ck ta curve b \<longleftrightarrow>
     (\<exists>kp req. ec_sent E s ck ta curve kp req \<and>
        (b = to_vector (req_encoded req) \<or>
         (\<exists>resp. provisioner_post net (ta_ec_url ta) (to_vector (req_encoded req)) = Inr resp \<and> b = resp_body resp))) \<or>
     (\<exists>cert. ec_issued E net s ck ta curve cert \<and> b = to_vector (ci_cert_bytes cert))"

definition at_sent :: "env \<Rightarrow> nat \<Rightarrow> clock_readings \<Rightarrow> TrustAnchors \<Rightarrow> EnrolledEc \<Rightarrow> KeyPair \<Rightarrow> EcRequestResult \<Rightarrow> bool" where
  "at_sent E s ck ta ec kp req \<longleftrightarrow> generate_keypair E s (ci_curve (ee_cert ec)) = Some kp \<and>
     (\<exists>desc. encode_at_request E (s + 2) (ck_sign1 ck) (ck_sign2 ck) desc (ta_aa ta) (ta_ea ta) (ee_cert ec)
        (to_vector (private_key (ee_canonical_kp ec))) (to_vector (private_key kp)) = Inr req)"

definition at_issued :: "env \<Rightarrow> network \<Rightarrow> nat \<Rightarrow> clock_readings \<Rightarrow> TrustAnchors \<Rightarrow> EnrolledEc \<Rightarrow> CertInfo \<Rightarrow> bool" where
  "at_issued E net s ck ta ec cert \<longleftrightarrow>
     (\<exists>kp req resp r. at_sent E s ck ta ec kp req \<and>
        provisioner_post net (ta_at_url ta) (to_vector (req_encoded req)) = Inr resp \<and>
        decode_at_response E (resp_body resp) (to_vector (private_key kp)) (to_vector (req_aes_key req))
          (to_vector (req_encoded req)) (ta_aa ta) = Inr r \<and> ats_certificate r = Some cert)"

definition at_traffic :: "env \<Rightarrow> network \<Rightarrow> nat \<Rightarrow> clock_readings \<Rightarrow> TrustAnchors \<Rightarrow> EnrolledEc \<Rightarrow> bytes \<Rightarrow> bool" where
  "at_traffic E net s ck ta ec b \<longleftrightarrow>
     (\<exists>kp req. at_sent E s ck ta ec kp req \<and>
        (b = to_vector (req_encoded req) \<or>
         (\<exists>resp. provisioner_post net (ta_at_url ta) (to_vector (req_encoded req)) = Inr resp \<and> b = resp_body resp))) \<or>
     (\<exists>cert. at_issued E net s ck ta ec cert \<and> b = to_vector (ci_cert_bytes cert))"

lemma ec_sentI:
  "generate_keypair E s curve = Some kp \<Longrightarrow>
   encode_ec_request E (Suc s) (ck_sign1 ck) (ck_sign2 ck) desc (ta_ea ta) (to_vector (private_key kp)) = Inr req \<Longrightarrow>
   ec_sent E s ck ta curve kp req"
  by (auto simp: ec_sent_def)

lemma ec_issuedI:
  "ec_sent E s ck ta curve kp req \<Longrightarrow>
   provisioner_post net (ta_ec_url ta) (to_vector (req_encoded req)) = Inr resp \<Longrightarrow>
   decode_ec_response E (resp_body resp) (to_vector (private_key kp)) (to_vector (req_aes_key req))
     (to_vector (req_encoded req)) (ta_ea ta) = Inr r \<Longrightarrow>
   ecs_certificate r = Some cert \<Longrightarrow> ec_issued E net s ck ta curve cert"
  unfolding ec_issued_def by blast

lemma at_sentI:
  "generate_keypair E s (ci_curve (ee_cert ec)) = Some kp \<Longrightarrow>
   encode_at_request E (Suc (Suc s)) (ck_sign1 ck) (ck_sign2 ck) desc (ta_aa ta) (ta_ea ta) (ee_cert ec)
     (to_vector (private_key (ee_canonical_kp ec))) (to_vector (private_key kp)) = Inr req \<Longrightarrow> at_sent E s ck ta ec kp req"
  by (auto simp: at_sent_def)

text \<open>Without key material, each operation of the flow records only what it exchanged.\<close>

lemma holds_only_anchors:
  assumes "write_anchors X E ta out d fs = (ok, d', fs')" "holds_only B M d"
    and "(\<lambda>c. to_vector (ci_cert_bytes c)) ` {ta_ea ta, ta_aa ta, ta_rca ta} \<subseteq> B"
    and "(\<lambda>c. hex8 (ci_hashed_id_8 c)) ` {ta_ea ta, ta_aa ta, ta_rca ta} \<subseteq> M"
  shows "holds_only B M d'"
  using assms by (auto simp: write_anchors_def Let_def split: prod.splits if_splits
      intro!: holds_only_meta holds_only_record)

lemma holds_only_enrol:
  assumes e: "enrol_ec E net s ck ta days d curve = (r, d')" and d: "\<not> wd_with_keys d" "holds_only B M d"
    and B: "Collect (ec_traffic E net s ck ta curve) \<subseteq> B"
    and M: "(\<lambda>c. hex8 (ci_hashed_id_8 c)) ` Collect (ec_issued E net s ck ta curve) \<subseteq> M" "range Curve_to_string \<subseteq> M"
  shows "holds_only B M d'"
proof -
  have m: "Curve_to_string c \<in> M" for c using M(2) by blast
  have i: "hex8 (ci_hashed_id_8 c) \<in> M" if "ec_issued E net s ck ta curve c" for c using M(1) that by blast
  have b: "x \<in> B" if "ec_traffic E net s ck ta curve x" for x using B that by blast
  have st: "to_vector (req_encoded req) \<in> B" if "ec_sent E s ck ta curve kp req" for kp req
    by (rule b) (use that in \<open>auto simp: ec_traffic_def\<close>)
  have rc: "resp_body resp \<in> B" if "ec_sent E s ck ta curve kp req"
      "provisioner_post net (ta_ec_url ta) (to_vector (req_encoded req)) = Inr resp" for kp req resp
    by (rule b) (use that in \<open>auto simp: ec_traffic_def\<close>)
  have ic: "to_vector (ci_cert_bytes c) \<in> B" if "ec_issued E net s ck ta curve c" for c
    by (rule b) (use that in \<open>auto simp: ec_traffic_def\<close>)
  show ?thesis
    using e d
    by (auto simp: enrol_ec_def Let_def record_key_off intro!: holds_only_meta holds_only_record m
        intro: st rc ic i ec_sentI ec_issuedI split: option.splits sum.splits if_splits bool.splits)
qed

lemma holds_only_rotate:
  assumes e: "rotate_at X E sec1 net s ck ta ec psids hours out d fs = (r, d', fs')"
    and d: "\<not> wd_with_keys d" "holds_only B M d"
    and B: "Collect (at_traffic E net s ck ta ec) \<subseteq> B"
    and M: "(\<lambda>c. hex8 (hid8_of E (to_vector (ci_cert_bytes c)))) ` Collect (at_issued E net s ck ta ec) \<subseteq> M"
  shows "holds_only B M d'"
proof -
  have b: "x \<in> B" if "at_traffic E net s ck ta ec x" for x using B that by blast
  have st: "to_vector (req_encoded req) \<in> B" if "at_sent E s ck ta ec kp req" for kp req
    by (rule b) (use that in \<open>auto simp: at_traffic_def\<close>)
  have rc: "resp_body resp \<in> B" if "at_sent E s ck ta ec kp req"
      "provisioner_post net (ta_at_url ta) (to_vector (req_encoded req)) = Inr resp" for kp req resp
    by (rule b) (use that in \<open>auto simp: at_traffic_def\<close>)
  obtain iss d1 where a: "at_rotation E net s ck ta ec psids hours d = (iss, d1)" by fastforce
  have d1: "holds_only B M d1"
    using a d by (auto simp: at_rotation_def Let_def record_key_off intro!: holds_only_record
        intro: st rc at_sentI split: option.splits sum.splits if_splits)
  have i: "at_issued E net s ck ta ec cert" if "iss = Some (cert, kp)" for cert kp
    using a that unfolding at_issued_def
    by (auto simp: at_rotation_def Let_def split: option.splits sum.splits if_splits; blast intro: at_sentI)
  show ?thesis
  proof (cases iss)
    case None
    then show ?thesis using e a d1 by (simp add: rotate_at_def)
  next
    case (Some ck')
    obtain cert kp where iss: "iss = Some (cert, kp)" using Some by (cases ck') auto
    have t: "at_traffic E net s ck ta ec (to_vector (ci_cert_bytes cert))" using i [OF iss] unfolding at_traffic_def by blast
    have m: "hex8 (hid8_of E (to_vector (ci_cert_bytes cert))) \<in> M" using M i [OF iss] by blast
    show ?thesis
      using e a iss d1 b [OF t] m by (auto simp: rotate_at_def Let_def intro!: holds_only_meta holds_only_record
          split: prod.splits if_splits)
  qed
qed

text \<open>The dump keeps its invariant through every operation of the flow.\<close>

lemma wd_inv_write_anchors:
  "write_anchors X E ta out d fs = (ok, d', fs') \<Longrightarrow> wd_inv E d \<Longrightarrow> wd_inv E d' \<and> wd_with_keys d' = wd_with_keys d"
  by (auto simp: write_anchors_def Let_def wd_inv_record split: prod.splits if_splits)

lemma wd_inv_enrol_ec:
  "enrol_ec E net s ck ta days d curve = (r, d') \<Longrightarrow> wd_inv E d \<Longrightarrow> wd_inv E d' \<and> wd_with_keys d' = wd_with_keys d"
  by (auto simp: enrol_ec_def Let_def wd_inv_record wd_inv_record_key
      split: option.splits sum.splits if_splits bool.splits)

lemma wd_inv_at_rotation:
  "at_rotation E net s ck ta ec psids hours d = (r, d') \<Longrightarrow> wd_inv E d \<Longrightarrow>
   wd_inv E d' \<and> wd_with_keys d' = wd_with_keys d"
  by (auto simp: at_rotation_def Let_def wd_inv_record wd_inv_record_key
      split: option.splits sum.splits if_splits)

lemma wd_inv_rotate_at:
  "rotate_at X E sec1 net s ck ta ec psids hours out d fs = (r, d', fs') \<Longrightarrow> wd_inv E d \<Longrightarrow>
   wd_inv E d' \<and> wd_with_keys d' = wd_with_keys d"
  by (auto simp: rotate_at_def Let_def wd_inv_record split: prod.splits option.splits if_splits
      dest!: wd_inv_at_rotation)

text \<open>
  The files of a rotation. A failure leaves the key file; a success has put the certificate of the
  answer and the private key of the request's key pair in place. \<open>replaceable\<close>: the temporary file opens,
  takes the bytes as far as \<open>fwrite\<close> can tell, and is renamed.
\<close>

definition replaceable :: "os \<Rightarrow> file_system \<Rightarrow> string \<Rightarrow> bytes \<Rightarrow> bool" where
  "replaceable X fs path data \<longleftrightarrow>
     fs_can_write fs (tmp_path path) \<and> os_fwrite X (tmp_path path) data = length data \<and> os_rename X (tmp_path path) path"

lemma rename_fst: "fst (rename X old new fs) = os_rename X old new"
  by (simp add: rename_def)

lemma atomic_write_ok:
  assumes "atomic_write X path data fs = (ok, fs')"
  shows "ok \<longleftrightarrow> replaceable X fs path data"
proof -
  have i: "fst (if b then (False, x) else z) \<longleftrightarrow> \<not> b \<and> fst z" for b and x :: file_system and z by simp
  have "fst (atomic_write X path data fs) \<longleftrightarrow> replaceable X fs path data"
    unfolding atomic_write_def replaceable_def Let_def case_prod_unfold i rename_fst fst_conv by blast
  then show ?thesis using assms by simp
qed

lemma atomic_write_key_pem_ok:
  "atomic_write_key_pem X E sec1 path priv curve fs = (ok, fs') \<Longrightarrow>
   ok \<longleftrightarrow> (\<exists>pkey pem. pem_pkey E priv curve = Some pkey \<and> sec1 pkey = Some pem \<and> replaceable X fs path pem)"
  by (auto simp: atomic_write_key_pem_def atomic_write_ok split: option.splits)

lemma replaceable_after: "atomic_write X p data fs = (ok, fs') \<Longrightarrow> replaceable X fs' q d = replaceable X fs q d"
  by (simp add: replaceable_def)

lemma rotate_at_files:
  assumes "rotate_at X E sec1 net s ck ta ec psids hours out d fs = (r, d', fs')"
  shows "let coer = out @ ''/AT.coer''; key = out @ ''/AT.key'';
      rotated = (\<lambda>cert kp pkey pem. fst (at_rotation E net s ck ta ec psids hours d) = Some (cert, kp) \<and>
        pem_pkey E (to_vector (private_key kp)) (ci_curve (ee_cert ec)) = Some pkey \<and> sec1 pkey = Some pem \<and>
        replaceable X fs coer (to_vector (ci_cert_bytes cert)) \<and> replaceable X fs key pem) in
    case r of
      None \<Rightarrow> fs_files fs' key = fs_files fs key \<and>
        (\<nexists>cert kp pkey pem. rotated cert kp pkey pem)
    | Some h \<Rightarrow> (\<exists>cert kp pkey pem. rotated cert kp pkey pem \<and>
        h = hid8_of E (to_vector (ci_cert_bytes cert)) \<and>
        fs_files fs' coer = Some (let data = to_vector (ci_cert_bytes cert) in take (os_stored X (tmp_path coer) data) data) \<and>
        fs_files fs' key = Some (take (os_stored X (tmp_path key) pem) pem))"
proof -
  obtain iss d1 where a: "at_rotation E net s ck ta ec psids hours d = (iss, d1)" by fastforce
  show ?thesis
  proof (cases iss)
    case None
    then show ?thesis using assms a by (auto simp: rotate_at_def Let_def)
  next
    case (Some ck')
    obtain cert kp where iss: "iss = Some (cert, kp)" using Some by (cases ck') auto
    let ?cb = "to_vector (ci_cert_bytes cert)"
    obtain ok1 fs1 where w1: "atomic_write X (out @ ''/AT.coer'') ?cb fs = (ok1, fs1)" by fastforce
    obtain ok2 fs2 where w2: "atomic_write_key_pem X E sec1 (out @ ''/AT.key'') (to_vector (private_key kp))
        (ci_curve (ee_cert ec)) fs1 = (ok2, fs2)" by fastforce
    have ne: "out @ ''/AT.key'' \<noteq> out @ ''/AT.coer''" "out @ ''/AT.key'' \<noteq> tmp_path (out @ ''/AT.coer'')"
      "out @ ''/AT.coer'' \<noteq> out @ ''/AT.key''" "out @ ''/AT.coer'' \<noteq> tmp_path (out @ ''/AT.key'')"
      by (simp_all add: tmp_path_def)
    have r: "r = (if ok1 \<and> ok2 then Some (hid8_of E ?cb) else None)" "fs' = (if ok1 then fs2 else fs1)"
      using assms a iss w1 w2 by (auto simp: rotate_at_def Let_def split: if_splits)
    have k1: "fs_files fs1 (out @ ''/AT.key'') = fs_files fs (out @ ''/AT.key'')"
      by (rule atomic_write_frame [OF w1 ne(1,2)])
    have k2: "fs_files fs2 (out @ ''/AT.coer'') = fs_files fs1 (out @ ''/AT.coer'')"
      by (rule atomic_write_key_pem_frame [OF w2 ne(3,4)])
    have ok: "ok1 \<longleftrightarrow> replaceable X fs (out @ ''/AT.coer'') ?cb"
      "ok2 \<longleftrightarrow> (\<exists>pkey pem. pem_pkey E (to_vector (private_key kp)) (ci_curve (ee_cert ec)) = Some pkey \<and>
        sec1 pkey = Some pem \<and> replaceable X fs (out @ ''/AT.key'') pem)"
      using atomic_write_ok [OF w1] atomic_write_key_pem_ok [OF w2] replaceable_after [OF w1] by simp_all
    show ?thesis
    proof (cases "ok1 \<and> ok2")
      case True
      then show ?thesis
        using r k1 k2 ok atomic_write_key_pem_target [OF w2] atomic_write_target [OF w1] a iss by (auto simp: Let_def)
    next
      case False
      then show ?thesis
        using r k1 ok atomic_write_key_pem_target [OF w2] a iss by (auto simp: Let_def split: if_splits)
    qed
  qed
qed

text \<open>
  The provisioner's identifier of a certificate is the library's when the library hashes it with
  SHA-256, that is for every signer key of 256 bits.
\<close>

lemma hid8_of_compute_hid8:
  assumes "length (hash_sha256 E cert) \<ge> kHashedId8Len"
    and "hash_for_curve E cert (whole_cert_hash_curve (coer_decode (asn_DEF_CertificateBase E) cert)) =
      hash_sha256 E cert"
  shows "hid8_of E cert = compute_hid8 E cert"
  using assms by (simp add: hid8_of_def compute_hid8_def compute_hid8_struct_def truncate_hid8_def)

section \<open>Properties\<close>

text \<open>
  (C29) The provisioner's discovery: an exception only when the working directory cannot be made;
  otherwise it yields trust anchors only from lists that verified. The Root CA is one of a list that
  verifies under the TLM certificate, each of the two authorities is listed there or in a list that
  verifies under one of these Root CAs, and both have an encryption key and an address.
\<close>

theorem provisioner_anchors_verified:
  "case discover X E nets now base tlm_hid8 dir fs of
     None \<Rightarrow> os_mkdirs X dir fs = None
   | Some (r, fs') \<Rightarrow> os_mkdirs X dir fs = Some fs' \<and>
       (case r of None \<Rightarrow> True
        | Some ta \<Rightarrow> \<exists>client. PkiClient_new X E (discovery_config base tlm_hid8 dir) fs = Some client \<and>
            anchored E nets now client ta)"
proof (cases "PkiClient_new X E (discovery_config base tlm_hid8 dir) fs")
  case None
  then have "os_mkdirs X dir fs = None"
    using PkiClient_new_NoneD [OF None] by (simp add: discovery_config_def PkiClientConfig_init_def)
  then show ?thesis using None by (simp add: discover_def discovery_config_def [symmetric])
next
  case (Some client)
  then obtain r where d: "discover X E nets now base tlm_hid8 dir fs = Some (r, pc_files client)"
    by (simp add: discover_def discovery_config_def [symmetric])
  have "os_mkdirs X dir fs = Some (pc_files client)"
    using PkiClient_new_files [OF Some] by (simp add: discovery_config_def)
  then show ?thesis using d Some discover_anchored [OF Some] by (auto split: option.split)
qed

text \<open>
  (C30) A rotation reports an identifier exactly when the answer brought a certificate, its key has a PEM
  form and both files can be replaced. Then \<open>AT.coer\<close> holds the certificate of the answer and \<open>AT.key\<close> the PEM
  form of the key it was requested for, each with exactly the bytes the system stored of it (all of them
  unless closing the temporary file loses the end, which nobody checks). A rotation that fails never
  touches \<open>AT.key\<close>.
\<close>

theorem rotation_outcome:
  "case rotate_at X E sec1 net s ck ta ec psids hours out d fs of (r, d', fs') \<Rightarrow>
    (let coer = out @ ''/AT.coer''; key = out @ ''/AT.key'';
      rotated = (\<lambda>cert kp pkey pem. fst (at_rotation E net s ck ta ec psids hours d) = Some (cert, kp) \<and>
        pem_pkey E (to_vector (private_key kp)) (ci_curve (ee_cert ec)) = Some pkey \<and> sec1 pkey = Some pem \<and>
        replaceable X fs coer (to_vector (ci_cert_bytes cert)) \<and> replaceable X fs key pem) in
    case r of
      None \<Rightarrow> fs_files fs' key = fs_files fs key \<and>
        (\<nexists>cert kp pkey pem. rotated cert kp pkey pem)
    | Some h \<Rightarrow> (\<exists>cert kp pkey pem. rotated cert kp pkey pem \<and>
        h = hid8_of E (to_vector (ci_cert_bytes cert)) \<and>
        fs_files fs' coer = Some (let data = to_vector (ci_cert_bytes cert) in take (os_stored X (tmp_path coer) data) data) \<and>
        fs_files fs' key = Some (take (os_stored X (tmp_path key) pem) pem)))"
proof -
  obtain r d' fs' where r: "rotate_at X E sec1 net s ck ta ec psids hours out d fs = (r, d', fs')"
    by (metis prod_cases3)
  show ?thesis unfolding r prod.case by (rule rotate_at_files [OF r])
qed

end
