(* ===== verification/ProvisionMain.thy ===== *)
theory ProvisionMain
  imports ProvisionFlow
begin

text \<open>
  \<open>tools/pki-provisioner/main.cpp\<close>: configuration, the rotation loop and the entry point. What comes
  from outside is the record \<open>runtime\<close>: the answers of the network, seeds, clocks and time stamps per
  rotation, and \<open>rt_running k\<close>, the value of \<open>g_running\<close> when it is read the k-th time. The rotation
  loop runs until a signal, so it is a partial function whose value is \<open>None\<close> when it never returns.
  Doubles are their bit patterns; their arithmetic is in \<open>rt_atof\<close> and \<open>rt_sleep\<close>. The messages on the
  console are left out.
\<close>

section \<open>Configuration\<close>

type_synonym double = "64 word"

record Config =
  pv_pki_base_url :: string
  pv_tlm_hid8 :: string
  pv_output_dir :: string
  pv_validity_period_hours :: int
  pv_rotation_ratio :: double
  pv_psids :: "int list"
  pv_ec_validity_days :: int
  pv_oneshot :: bool
  pv_dump_dir :: string
  pv_curve :: Curve
  pv_dump_keys :: bool

text \<open>The member initialisers; \<open>0.8\<close> is the double next to four fifths.\<close>

definition Config_init :: Config where
  "Config_init =
     \<lparr>pv_pki_base_url = ''https://pki.skyv2x.com'', pv_tlm_hid8 = [], pv_output_dir = ''./v3-certs'',
      pv_validity_period_hours = 168, pv_rotation_ratio = 0x3FE999999999999A,
      pv_psids = [36, 37, 137, 138, 139, 140], pv_ec_validity_days = 30, pv_oneshot = False,
      pv_dump_dir = [], pv_curve = NistP256, pv_dump_keys = False\<rparr>"

record runtime =
  rt_os :: os
  rt_env :: env
  rt_sec1_pem :: "EVP_PKEY \<Rightarrow> bytes option"
  rt_getenv :: "string \<Rightarrow> string option"
  rt_atof :: "string \<Rightarrow> double"
  rt_sleep :: "int \<Rightarrow> double \<Rightarrow> int"
  rt_version :: string
  rt_running :: "nat \<Rightarrow> bool"
  rt_time :: int
  rt_discover_nets :: "nat \<Rightarrow> network"
  rt_enrol_net :: network
  rt_enrol_seed :: nat
  rt_enrol_clock :: clock_readings
  rt_rotate_net :: "nat \<Rightarrow> network"
  rt_rotate_seed :: "nat \<Rightarrow> nat"
  rt_rotate_clock :: "nat \<Rightarrow> clock_readings"
  rt_stamp :: "nat \<Rightarrow> string"

definition env_or :: "runtime \<Rightarrow> string \<Rightarrow> string \<Rightarrow> string" where
  "env_or R name def = (case rt_getenv R name of None \<Rightarrow> def | Some v \<Rightarrow> v)"

text \<open>\<open>std::atol\<close>: white space, a sign and the digits that follow, cut off at the range of \<open>long\<close>.\<close>

definition is_digit :: "char \<Rightarrow> bool" where
  "is_digit c \<longleftrightarrow> (let n = of_char c :: nat in 48 \<le> n \<and> n \<le> 57)"

definition atol :: "string \<Rightarrow> int" where
  "atol s =
     (let s1 = dropWhile is_space s;
          neg = (s1 \<noteq> [] \<and> hd s1 = CHR ''-'');
          s2 = (if s1 \<noteq> [] \<and> (hd s1 = CHR ''-'' \<or> hd s1 = CHR ''+'') then tl s1 else s1);
          v = foldl (\<lambda>v c. 10 * v + (of_char c - 48)) 0 (takeWhile is_digit s2) in
      max (- (2 ^ 63)) (min (2 ^ 63 - 1) (if neg then - v else v)))"

definition env_config :: "runtime \<Rightarrow> Config" where
  "env_config R =
     (let cfg = Config_init\<lparr>
            pv_pki_base_url := env_or R ''PKI_BASE_URL'' (pv_pki_base_url Config_init),
            pv_tlm_hid8 := env_or R ''TLM_HID8'' (pv_tlm_hid8 Config_init),
            pv_output_dir := env_or R ''AT_OUTPUT_DIR'' (pv_output_dir Config_init),
            pv_dump_dir := env_or R ''WIRE_DUMP_DIR'' (pv_dump_dir Config_init)\<rparr>;
          cfg1 = (case rt_getenv R ''AT_VALIDITY_HOURS'' of None \<Rightarrow> cfg
                  | Some v \<Rightarrow> cfg\<lparr>pv_validity_period_hours := atol v\<rparr>);
          cfg2 = (case rt_getenv R ''AT_ROTATION_RATIO'' of None \<Rightarrow> cfg1
                  | Some v \<Rightarrow> cfg1\<lparr>pv_rotation_ratio := rt_atof R v\<rparr>) in
      (case rt_getenv R ''EC_VALIDITY_DAYS'' of None \<Rightarrow> cfg2
       | Some v \<Rightarrow> cfg2\<lparr>pv_ec_validity_days := atol v\<rparr>))"

text \<open>An option with a value: not one, the exit code it ends with, or the configuration after it.\<close>

definition prov_option :: "runtime \<Rightarrow> string \<Rightarrow> string \<Rightarrow> Config \<Rightarrow> (int + Config) option" where
  "prov_option R arg val cfg =
     (if arg = ''--url'' \<or> arg = ''-u'' then Some (Inr (cfg\<lparr>pv_pki_base_url := val\<rparr>))
      else if arg = ''--tlm-hid8'' then Some (Inr (cfg\<lparr>pv_tlm_hid8 := val\<rparr>))
      else if arg = ''--dump-dir'' then Some (Inr (cfg\<lparr>pv_dump_dir := val\<rparr>))
      else if arg = ''--curve'' then
        (if val = ''brainpool-p256r1'' then Some (Inr (cfg\<lparr>pv_curve := BrainpoolP256r1\<rparr>))
         else if val \<noteq> ''nist-p256'' then Some (Inl 2) else Some (Inr cfg))
      else if arg = ''--output'' \<or> arg = ''-o'' then Some (Inr (cfg\<lparr>pv_output_dir := val\<rparr>))
      else if arg = ''--validity-hours'' then Some (Inr (cfg\<lparr>pv_validity_period_hours := atol val\<rparr>))
      else if arg = ''--rotation-ratio'' then Some (Inr (cfg\<lparr>pv_rotation_ratio := rt_atof R val\<rparr>))
      else None)"

fun prov_opts :: "runtime \<Rightarrow> string list \<Rightarrow> Config \<Rightarrow> int + Config" where
  "prov_opts R [] cfg = Inr cfg"
| "prov_opts R (arg # rest) cfg =
     (if arg = ''--dump-private-keys-insecure'' then prov_opts R rest (cfg\<lparr>pv_dump_keys := True\<rparr>)
      else if arg = ''--oneshot'' then prov_opts R rest (cfg\<lparr>pv_oneshot := True\<rparr>)
      else if arg = ''--help'' \<or> arg = ''-h'' then Inl 0
      else case rest of [] \<Rightarrow> Inr cfg
      | val # rest' \<Rightarrow>
          (case prov_option R arg val cfg of
             None \<Rightarrow> prov_opts R rest cfg
           | Some (Inl code) \<Rightarrow> Inl code
           | Some (Inr cfg') \<Rightarrow> prov_opts R rest' cfg'))"

declare prov_opts.simps(2) [simp del]

definition parse_config :: "runtime \<Rightarrow> string list \<Rightarrow> int + Config" where
  "parse_config R argv =
     (case prov_opts R (tl argv) (env_config R) of
        Inl code \<Rightarrow> Inl code
      | Inr cfg \<Rightarrow> if pv_dump_keys cfg \<and> pv_dump_dir cfg = [] then Inl 2 else Inr cfg)"

section \<open>The rotation loop\<close>

text \<open>\<open>k\<close> counts the reads of the flag; the result is the count after the loop.\<close>

primrec sleep_interruptible :: "(nat \<Rightarrow> bool) \<Rightarrow> nat \<Rightarrow> nat \<Rightarrow> nat" where
  "sleep_interruptible running k 0 = k"
| "sleep_interruptible running k (Suc seconds) =
     (if running k then sleep_interruptible running (Suc k) seconds else Suc k)"

record loop_state =
  ls_reads :: nat
  ls_rotations :: nat
  ls_dump :: WireDump
  ls_fs :: file_system

text \<open>One turn after the flag was read as set: the exit code if it ends here, and the state.\<close>

definition rotation_turn ::
  "runtime \<Rightarrow> Config \<Rightarrow> TrustAnchors \<Rightarrow> EnrolledEc \<Rightarrow> loop_state \<Rightarrow> int option \<times> loop_state" where
  "rotation_turn R cfg ta ec st =
     (let n = ls_rotations st; k = Suc (ls_reads st);
          (hid8, d1, fs1) = rotate_at (rt_os R) (rt_env R) (rt_sec1_pem R) (rt_rotate_net R n) (rt_rotate_seed R n)
            (rt_rotate_clock R n) ta ec (pv_psids cfg) (pv_validity_period_hours cfg) (pv_output_dir cfg)
            (ls_dump st) (ls_fs st) in
      (case hid8 of
         None \<Rightarrow>
           if pv_oneshot cfg
           then (Some 1, \<lparr>ls_reads = k, ls_rotations = Suc n, ls_dump = d1, ls_fs = fs1\<rparr>)
           else (None, \<lparr>ls_reads = sleep_interruptible (rt_running R) k 60, ls_rotations = Suc n,
                        ls_dump = d1, ls_fs = fs1\<rparr>)
       | Some h \<Rightarrow>
           let (flushed, d2, fs2) = flush (rt_os R) (rt_stamp R n) d1 fs1 in
           if pv_oneshot cfg
           then (Some 0, \<lparr>ls_reads = k, ls_rotations = Suc n, ls_dump = d2, ls_fs = fs2\<rparr>)
           else (None,
             \<lparr>ls_reads = sleep_interruptible (rt_running R) k
                (nat (rt_sleep R (pv_validity_period_hours cfg) (pv_rotation_ratio cfg))),
              ls_rotations = Suc n, ls_dump = d2, ls_fs = fs2\<rparr>)))"

partial_function (option) rotation_loop ::
  "runtime \<Rightarrow> Config \<Rightarrow> TrustAnchors \<Rightarrow> EnrolledEc \<Rightarrow> loop_state \<Rightarrow> (int \<times> loop_state) option" where
  "rotation_loop R cfg ta ec st =
     (if \<not> rt_running R (ls_reads st) then Some (0, st\<lparr>ls_reads := Suc (ls_reads st)\<rparr>)
      else case rotation_turn R cfg ta ec st of
        (Some code, st') \<Rightarrow> Some (code, st')
      | (None, st') \<Rightarrow> rotation_loop R cfg ta ec st')"

section \<open>Entry\<close>

definition provisioner_main ::
  "runtime \<Rightarrow> string list \<Rightarrow> file_system \<Rightarrow> (exit_status \<times> file_system) option" where
  "provisioner_main R argv fs =
     (case parse_config R argv of Inl code \<Rightarrow> Some (Exit code, fs)
      | Inr cfg \<Rightarrow>
        let X = rt_os R; E = rt_env R; fs1 = os_mkdir X (pv_output_dir cfg) fs;
            d1 = meta ''pki_base_url'' (pv_pki_base_url cfg) (WireDump_init (pv_dump_dir cfg) (pv_dump_keys cfg));
            d2 = meta ''client_version'' (rt_version R) d1 in
        (case discover X E (rt_discover_nets R) (rt_time R) (pv_pki_base_url cfg) (pv_tlm_hid8 cfg)
                (pv_output_dir cfg) fs1 of
           None \<Rightarrow> Some (Uncaught, fs1)
         | Some (None, fs2) \<Rightarrow> Some (Exit 1, fs2)
         | Some (Some ta, fs2) \<Rightarrow>
             let (ok, d3, fs3) = write_anchors X E ta (pv_output_dir cfg) d2 fs2 in
             if \<not> ok then Some (Exit 1, fs3)
             else
               let (enrolled, d4) = enrol_ec E (rt_enrol_net R) (rt_enrol_seed R) (rt_enrol_clock R) ta
                     (pv_ec_validity_days cfg) d3 (pv_curve cfg) in
               (case enrolled of None \<Rightarrow> Some (Exit 1, fs3)
                | Some ec \<Rightarrow>
                    map_option (\<lambda>(code, st). (Exit code, ls_fs st))
                      (rotation_loop R cfg ta ec \<lparr>ls_reads = 0, ls_rotations = 0, ls_dump = d4, ls_fs = fs3\<rparr>))))"

section \<open>Facts\<close>

lemma sleep_ge: "k \<le> sleep_interruptible running k n"
proof (induction n arbitrary: k)
  case (Suc n)
  from Suc.IH [of "Suc k"] show ?case by simp
qed simp

text \<open>The sleep reads the flag at most once per second, and once it is cleared only one more time.\<close>

lemma sleep_le: "sleep_interruptible running k n \<le> k + n"
proof (induction n arbitrary: k)
  case (Suc n)
  from Suc.IH [of "Suc k"] show ?case by simp
qed simp

lemma sleep_interrupted: "\<not> running k \<Longrightarrow> sleep_interruptible running k n \<le> Suc k"
  by (cases n) simp_all

lemma rotation_turn_progress:
  assumes "rotation_turn R cfg ta ec st = (r, st')"
  shows "ls_reads st < ls_reads st'" "ls_rotations st' = Suc (ls_rotations st)"
    "pv_oneshot cfg \<longleftrightarrow> r \<noteq> None"
  using assms sleep_ge [of "Suc (ls_reads st)" "rt_running R"]
  by (auto simp: rotation_turn_def Let_def Suc_le_eq split: prod.splits option.splits if_splits)

lemma rotation_turn_code:
  "rotation_turn R cfg ta ec st = (Some code, st') \<Longrightarrow> code = 0 \<or> code = 1"
  by (auto simp: rotation_turn_def Let_def split: prod.splits option.splits if_splits)


text \<open>The loop unfolded once, with the outcome of a turn.\<close>

lemma rotation_loop_stop:
  "\<not> rt_running R (ls_reads st) \<Longrightarrow>
   rotation_loop R cfg ta ec st = Some (0, st\<lparr>ls_reads := Suc (ls_reads st)\<rparr>)"
  by (subst rotation_loop.simps) simp

lemma rotation_loop_turn:
  "rt_running R (ls_reads st) \<Longrightarrow> rotation_turn R cfg ta ec st = (r, st') \<Longrightarrow>
   rotation_loop R cfg ta ec st =
     (case r of Some code \<Rightarrow> Some (code, st') | None \<Rightarrow> rotation_loop R cfg ta ec st')"
  by (subst rotation_loop.simps) (simp split: option.split)

text \<open>Once the flag stays cleared from the T-th read on, the loop returns.\<close>

lemma rotation_loop_returns:
  assumes "\<And>k. T \<le> k \<Longrightarrow> \<not> rt_running R k"
  shows "\<exists>code st'. rotation_loop R cfg ta ec st = Some (code, st') \<and>
    ls_rotations st' \<le> ls_rotations st + (T - ls_reads st) \<and>
    (if pv_oneshot cfg then ls_rotations st' \<le> Suc (ls_rotations st) \<and> code \<in> {0, 1}
     else code = 0 \<and> \<not> rt_running R (ls_reads st' - 1))"
proof (induction "T - ls_reads st" arbitrary: st rule: less_induct)
  case less
  show ?case
  proof (cases "rt_running R (ls_reads st)")
    case False
    then show ?thesis by (simp add: rotation_loop_stop)
  next
    case True
    obtain r st1 where t: "rotation_turn R cfg ta ec st = (r, st1)" by fastforce
    note p = rotation_turn_progress [OF t] and l = rotation_loop_turn [OF True t]
    have T: "ls_reads st < T" using True assms not_le_imp_less by blast
    show ?thesis
    proof (cases r)
      case (Some code)
      then show ?thesis using p l T rotation_turn_code [of R cfg ta ec st code st1] t by auto
    next
      case None
      have "T - ls_reads st1 < T - ls_reads st" using p(1) T by simp
      from less [OF this] obtain code st' where
        "rotation_loop R cfg ta ec st1 = Some (code, st')"
        "ls_rotations st' \<le> ls_rotations st1 + (T - ls_reads st1)"
        "if pv_oneshot cfg then ls_rotations st' \<le> Suc (ls_rotations st1) \<and> code \<in> {0, 1}
         else code = 0 \<and> \<not> rt_running R (ls_reads st' - 1)" by blast
      then show ?thesis using p l T None by auto
    qed
  qed
qed

text \<open>
  The states of the loop, whether it returns or not: those after some number of turns. A loop that returns
  does so in one of them.
\<close>

primrec turns :: "runtime \<Rightarrow> Config \<Rightarrow> TrustAnchors \<Rightarrow> EnrolledEc \<Rightarrow> nat \<Rightarrow> loop_state \<Rightarrow> loop_state" where
  "turns R cfg ta ec 0 st = st"
| "turns R cfg ta ec (Suc n) st = snd (rotation_turn R cfg ta ec (turns R cfg ta ec n st))"

lemma turns_shift: "turns R cfg ta ec (Suc n) st = turns R cfg ta ec n (snd (rotation_turn R cfg ta ec st))"
  by (induction n) simp_all

lemma rotation_loop_turns:
  assumes "rotation_loop R cfg ta ec st = Some (code, st')"
  shows "\<exists>n. ls_dump st' = ls_dump (turns R cfg ta ec n st) \<and> ls_fs st' = ls_fs (turns R cfg ta ec n st)"
proof -
  have "\<exists>n. ls_dump (snd y) = ls_dump (turns R cfg ta ec n st) \<and> ls_fs (snd y) = ls_fs (turns R cfg ta ec n st)"
    if "rotation_loop R cfg ta ec st = Some y" for y st
    using that
  proof (induction rule: rotation_loop.raw_induct [rotated, consumes 1])
    case (1 loop R cfg ta ec st y)
    show ?case
    proof (cases "rt_running R (ls_reads st)")
      case False
      then show ?thesis using 1(2) by (intro exI [of _ 0]) auto
    next
      case True
      obtain r st1 where t: "rotation_turn R cfg ta ec st = (r, st1)" by fastforce
      show ?thesis
      proof (cases r)
        case (Some code)
        then show ?thesis using 1(2) True t by (intro exI [of _ 1]) auto
      next
        case None
        then have "loop R cfg ta ec st1 = Some y" using 1(2) True t by simp
        from 1(1) [OF this] obtain n where
          "ls_dump (snd y) = ls_dump (turns R cfg ta ec n st1) \<and> ls_fs (snd y) = ls_fs (turns R cfg ta ec n st1)" by blast
        then show ?thesis using turns_shift [of R cfg ta ec n st] t by (intro exI [of _ "Suc n"]) simp
      qed
    qed
  qed
  from this [OF assms] show ?thesis by simp
qed








lemma env_config_dump_keys [simp]: "\<not> pv_dump_keys (env_config R)"
  by (simp add: env_config_def Config_init_def Let_def split: option.split)


text \<open>The dump as \<open>main\<close> hands it to the loop.\<close>

definition main_dump :: "runtime \<Rightarrow> Config \<Rightarrow> TrustAnchors \<Rightarrow> file_system \<Rightarrow> WireDump" where
  "main_dump R cfg ta fs =
     (let d1 = meta ''pki_base_url'' (pv_pki_base_url cfg) (WireDump_init (pv_dump_dir cfg) (pv_dump_keys cfg));
          d2 = meta ''client_version'' (rt_version R) d1;
          d3 = fst (snd (write_anchors (rt_os R) (rt_env R) ta (pv_output_dir cfg) d2 fs)) in
      snd (enrol_ec (rt_env R) (rt_enrol_net R) (rt_enrol_seed R) (rt_enrol_clock R) ta
        (pv_ec_validity_days cfg) d3 (pv_curve cfg)))"







lemma main_runs_loop:
  assumes "parse_config R argv = Inr cfg"
    and "discover (rt_os R) (rt_env R) (rt_discover_nets R) (rt_time R) (pv_pki_base_url cfg) (pv_tlm_hid8 cfg)
      (pv_output_dir cfg) (os_mkdir (rt_os R) (pv_output_dir cfg) fs) = Some (Some ta, fs2)"
    and "write_anchors (rt_os R) (rt_env R) ta (pv_output_dir cfg)
      (meta ''client_version'' (rt_version R) (meta ''pki_base_url'' (pv_pki_base_url cfg)
        (WireDump_init (pv_dump_dir cfg) (pv_dump_keys cfg)))) fs2 = (True, d3, fs3)"
    and "enrol_ec (rt_env R) (rt_enrol_net R) (rt_enrol_seed R) (rt_enrol_clock R) ta
      (pv_ec_validity_days cfg) d3 (pv_curve cfg) = (Some ec, d4)"
  shows "provisioner_main R argv fs = map_option (\<lambda>(code, st). (Exit code, ls_fs st))
    (rotation_loop R cfg ta ec
      \<lparr>ls_reads = 0, ls_rotations = 0, ls_dump = main_dump R cfg ta fs2, ls_fs = fs3\<rparr>)"
  using assms by (simp add: provisioner_main_def main_dump_def Let_def)

section \<open>Properties\<close>

text \<open>
  (C31) The rotation loop ends on a signal: when the flag stays cleared from its T-th read on, the
  loop returns after at most as many rotations as there are reads before the T-th. In continuous
  mode it returns only because the flag was read as cleared, with exit code 0; in one-shot mode it
  makes at most one rotation. So the whole program returns.
\<close>

theorem provisioner_stops_on_signal:
  assumes "\<forall>k \<ge> T. \<not> rt_running R k"
  shows "(\<exists>code st'. rotation_loop R cfg ta ec st = Some (code, st') \<and>
      ls_rotations st' \<le> ls_rotations st + (T - ls_reads st) \<and>
      (if pv_oneshot cfg then ls_rotations st' \<le> Suc (ls_rotations st) \<and> code \<in> {0, 1}
       else code = 0 \<and> \<not> rt_running R (ls_reads st' - 1))) \<and>
    (\<exists>status fs'. provisioner_main R argv fs = Some (status, fs'))"
proof (intro conjI rotation_loop_returns)
  have l: "rotation_loop R cfg ta ec st \<noteq> None" for cfg ta ec st
    using rotation_loop_returns [of T R cfg ta ec st] assms by auto
  have "provisioner_main R argv fs \<noteq> None"
    using l by (auto simp: provisioner_main_def Let_def split: sum.splits option.splits prod.splits)
  then show "\<exists>status fs'. provisioner_main R argv fs = Some (status, fs')" by auto
qed (use assms in blast)

text \<open>Witness of (C31): a signal before the third read of the flag, with a network that never answers.\<close>

definition toy_os :: os where
  "toy_os = \<lparr>os_mkdirs = (\<lambda>d fs. Some fs), os_list = (\<lambda>fs d. Not_directory), os_read_throws = (\<lambda>fs p. False), os_good = (\<lambda>p d. True),
     os_fwrite = (\<lambda>p d. length d), os_stored = (\<lambda>p d. length d), os_rename = (\<lambda>p q. True),
     os_unlink = (\<lambda>p. True), os_mkdir = (\<lambda>d fs. fs)\<rparr>"

definition toy_clock :: clock_readings where
  "toy_clock = \<lparr>ck_assemble = 0, ck_sign1 = 0, ck_sign2 = 0, ck_validate = 0\<rparr>"

definition toy_runtime :: runtime where
  "toy_runtime =
     \<lparr>rt_os = toy_os, rt_env = toy_env, rt_sec1_pem = (\<lambda>k. None), rt_getenv = (\<lambda>n. None),
      rt_atof = (\<lambda>s. 0), rt_sleep = (\<lambda>h r. 3600 * h), rt_version = [], rt_running = (\<lambda>k. k < 3),
      rt_time = 0, rt_discover_nets = (\<lambda>k rq. None), rt_enrol_net = (\<lambda>rq. None), rt_enrol_seed = 1,
      rt_enrol_clock = toy_clock, rt_rotate_net = (\<lambda>n rq. None), rt_rotate_seed = (\<lambda>n. n),
      rt_rotate_clock = (\<lambda>n. toy_clock), rt_stamp = (\<lambda>n. [])\<rparr>"

definition toy_anchors :: TrustAnchors where
  "toy_anchors = (let c = CertInfo_init (replicate 8 0) in
     \<lparr>ta_ea = c, ta_aa = c, ta_rca = c, ta_ec_url = [], ta_at_url = []\<rparr>)"

definition toy_enrolled :: EnrolledEc where
  "toy_enrolled = \<lparr>ee_cert = CertInfo_init (replicate 8 0),
     ee_canonical_kp = \<lparr>public_key = sb_default kP384PublicKeyLen, private_key = sb_default kP384ScalarLen\<rparr>\<rparr>"

definition toy_start :: loop_state where
  "toy_start = \<lparr>ls_reads = 0, ls_rotations = 0, ls_dump = WireDump_init [] False, ls_fs = toy_fs\<rparr>"

theorem provisioner_stops_on_signal_witness:
  "rt_running toy_runtime = (\<lambda>k. k < 3) \<and>
   (\<exists>code st'. rotation_loop toy_runtime Config_init toy_anchors toy_enrolled toy_start = Some (code, st') \<and>
      ls_rotations st' \<le> ls_rotations toy_start + (3 - ls_reads toy_start) \<and>
      (if pv_oneshot Config_init then ls_rotations st' \<le> Suc (ls_rotations toy_start) \<and> code \<in> {0, 1}
       else code = 0 \<and> \<not> rt_running toy_runtime (ls_reads st' - 1))) \<and>
   (\<exists>status fs'. provisioner_main toy_runtime [''p''] toy_fs = Some (status, fs'))"
proof -
  have r: "\<forall>k \<ge> 3. \<not> rt_running toy_runtime k" by (simp add: toy_runtime_def)
  from provisioner_stops_on_signal [OF r, of Config_init toy_anchors toy_enrolled toy_start "[''p'']" toy_fs]
  show ?thesis by (simp only: toy_runtime_def runtime.simps)
qed


end
