(* ===== verification/EndToEnd.thy ===== *)
theory EndToEnd
  imports ExampleWorld
begin

text \<open>
  The properties of the client that span its components: the refinement of the trust specification,
  the provenance of stored certificates, the effect of revocation lists over a run, the completion of
  an honest exchange, the view both authorities have of an authorization request, and the acceptance
  of the chains the library builds. Their witnesses are runs of \<open>ExampleWorld\<close>.
\<close>

section \<open>Properties\<close>

text \<open>
  (C2) The client refines the trust specification: for every run of its operations, with any network,
  clock and random data, the events of the run are a run of the specification from the abstraction of
  the first state to the abstraction of the last. Every event was permitted by its guard, and nothing
  else changed what is known or revoked; and the labelled steps are exactly the steps of the client.
\<close>

theorem client_refines_trust_spec:
  "{(evs, trust_abs c') |evs c'. run (client_event E P) c evs c'} \<subseteq> {(evs, s). run (trust_step E) (trust_abs c) evs s} \<and>
   (client_step E P c d \<longleftrightarrow> (\<exists>e. client_event E P e c d))"
proof -
  have "trust_step E = (\<lambda>e s s'. event_enabled E e s \<and> s' = event_effect e s)"
    by (simp add: trust_step_def fun_eq_iff)
  then show ?thesis using client.run_refines [of E P c] client_event_total client_event_step by auto
qed

text \<open>
  (C7) Where a certificate in the store of a client comes from, over any run from its construction:
  it was in a file of the trust directory, or it was taken as it is by one of the certificate
  fetches, or a discovery added it and a list that verified under that discovery's TLM certificate
  vouches for it, or it is a credential that had a trust path in the state in which it was accepted.
\<close>

theorem stored_certificate_provenance:
  assumes "PkiClient_init E cfg fs listing = Some start" "run (client_event E P) start evs c"
    and "find_by_hashed_id_8 (pc_trust c) k = Some ci"
  shows "(\<exists>es ends. listing = Directory es ends \<and> (\<exists>e. e \<in> set es \<and> load_entry E e = Some (Some ci))) \<or>
    Fetched ci \<in> set evs \<or>
    (\<exists>tlm now cs. Discovered tlm now cs \<in> set evs \<and> ci \<in> set cs \<and> tlm_lists E now tlm ci) \<or>
    (\<exists>pre now post c0. evs = pre @ Issued ci now # post \<and>
       run (client_event E P) start pre c0 \<and>
       (let rv = Some (pc_revocation c0) in
          trust_path E (pc_trust c0) rv now 1 ci \<or> trust_path E (pc_trust c0) rv now 2 ci))"
proof -
  let ?c = start
  have "ts_known (trust_abs c) k = Some ci" using assms(3) by (simp add: trust_abs_def)
  then have "ts_known (fold event_effect evs (trust_abs ?c)) k = Some ci"
    by (simp only: client.run_effect [OF assms(2)])
  then consider "ts_known (trust_abs ?c) k = Some ci" | e where "e \<in> set evs" "ci \<in> event_certs e"
    using known_events by blast
  then show ?thesis
  proof cases
    case 1
    then obtain es ends where "listing = Directory es ends" "ci \<in> set (loaded_certs E es)"
      using PkiClient_init_SomeD [OF assms(1)] store.find_adds_key store.find_empty
      by (cases listing; cases "cfg_trust_dir cfg = []") (auto simp: trust_abs_def)
    then show ?thesis by (auto simp: loaded_certs_iff)
  next
    case (2 e)
    then obtain pre post where evs: "evs = pre @ e # post" by (meson split_list)
    then obtain c0 c1 where c0: "run (client_event E P) ?c pre c0" "client_event E P e c0 c1"
      using assms(2) run_append_iff [of _ ?c "pre @ [e]" post c] by (auto simp: run_snoc_iff)
    have en: "event_enabled E e (trust_abs c0)" using client_event_sim [OF c0(2)] by simp
    show ?thesis
    proof (cases e)
      case (Discovered tlm now cs)
      with en 2 have "Discovered tlm now cs \<in> set evs \<and> ci \<in> set cs \<and> tlm_lists E now tlm ci" by simp
      then show ?thesis by blast
    next
      case (Issued ci' now)
      with en 2 have "e = Issued ci now"
        "trust_path E (pc_trust c0) (Some (pc_revocation c0)) now 1 ci \<or>
         trust_path E (pc_trust c0) (Some (pc_revocation c0)) now 2 ci"
        by (simp_all add: abs_path_trust_path del: abs_path.simps)
      then show ?thesis using evs c0(1) unfolding Let_def by blast
    qed (use 2 in auto)
  qed
qed

text \<open>Witness of (C7): the credential of the example run.\<close>

theorem stored_certificate_provenance_witness:
  "\<exists>c (c0 :: PkiClient) now. run (client_event ex_env ex_pem) ex_client [CrlTaken ex_list 0, Issued ex_cred ex_now] c \<and>
     find_by_hashed_id_8 (pc_trust c) (ci_hashed_id_8 ex_cred) = Some ex_cred \<and>
     (trust_path ex_env (pc_trust c0) (Some (pc_revocation c0)) now 1 ex_cred \<or>
      trust_path ex_env (pc_trust c0) (Some (pc_revocation c0)) now 2 ex_cred)"
proof -
  obtain c where c: "run (client_event ex_env ex_pem) ex_client [CrlTaken ex_list 0, Issued ex_cred ex_now] c"
    "find_by_hashed_id_8 (pc_trust c) (ci_hashed_id_8 ex_cred) = Some ex_cred" using ex_run by blast
  note d = stored_certificate_provenance [OF ex_client_made c]
  have "\<exists>now (c0 :: PkiClient). let rv = Some (pc_revocation c0) in
      trust_path ex_env (pc_trust c0) rv now 1 ex_cred \<or> trust_path ex_env (pc_trust c0) rv now 2 ex_cred"
    using d
  proof (elim disjE exE conjE)
    fix es ends e
    assume "ex_listing = Directory es ends" "e \<in> set es" "load_entry ex_env e = Some (Some ex_cred)"
    then show ?thesis using ex_cred_not_loaded by (auto simp: loaded_certs_iff)
  qed (simp_all, blast)
  then show ?thesis using c unfolding Let_def by blast
qed


text \<open>
  (C6) A revocation list takes effect on the certificates of its issuer: in a run from a reachable state
  in which a list is accepted and later a credential is, with no other list of the same issuer in
  between, the list does not name the credential if the credential was issued by the issuer of the
  list; and it does not name the authority that issued the credential, whose certificate is the one
  found in the store at that moment, if that authority was certified by the issuer of the list. A list
  says nothing on certificates that others issued.
\<close>

theorem revocation_list_takes_effect:
  assumes "reachable E P c"
    and "run (client_event E P) c (pre @ CrlTaken crl t # mid @ Issued ci now # post) c'"
    and "list_all (\<lambda>e. \<not> replaces_list (crl_issuer_hid8 crl) e) mid"
  shows "\<not> on_list crl ci \<and>
    (\<exists>c0 ca. run (client_event E P) c (pre @ CrlTaken crl t # mid) c0 \<and>
       find_by_hashed_id_8 (pc_trust c0) (ci_issuer_hash_id_8 ci) = Some ca \<and> \<not> on_list crl ca)"
  by (rule issued_respects_list [OF assms(2) reachable_inv [OF assms(1)] assms(3)])

text \<open>Witness of (C6): the example run.\<close>

theorem revocation_list_takes_effect_witness:
  "\<exists>c'. run (client_event ex_env ex_pem) ex_client [CrlTaken ex_list 0, Issued ex_cred ex_now] c' \<and>
     \<not> on_list ex_list ex_cred"
proof -
  obtain c' where c': "run (client_event ex_env ex_pem) ex_client [CrlTaken ex_list 0, Issued ex_cred ex_now] c'"
    using ex_run by blast
  have "reachable ex_env ex_pem ex_client" by (rule reachable.start [OF ex_client_made])
  from revocation_list_takes_effect [OF this, of "[]" ex_list 0 "[]" ex_cred ex_now "[]" c'] c' show ?thesis by auto
qed

text \<open>
  (C5) An honest exchange completes: when the request was encoded and sent, and the server returns the
  answer of the addressed authority (signed with its key, sealed under the key of the request, naming
  the request by its hash and granting a certificate whose chain validates), the client returns
  exactly that certificate and stores it. The checks of the client refuse nothing they should accept.
  Authorities with a NIST P-384 key are excluded, whose signatures are written as Brainpool P-384.
\<close>

theorem honest_enrolment_completes:
  assumes "openssl_ok E" "ccm_ok E" "message_codec_ok E" "authority_key E ea ea_priv"
    and "validate_ec_record rec = None" "client_load E P c h = Some kp"
    and "find_by_hashed_id_8 (pc_trust c) (ecr_ea_hashed_id_8 rec) = Some ea"
    and "encode_ec_request E w (ck_sign1 ck) (ck_sign2 ck) (assemble_ec_request rec (ck_assemble ck)) ea
        (to_vector (private_key kp)) = Inr req"
    and "codec_roundtrip (asn_DEF_InnerEcResponse E) (ec_grant E (to_vector (req_encoded req)) cert)"
    and "authority_answer E v t 0x81 psk_id (to_vector (req_aes_key req)) nonce
      (coer_encode (asn_DEF_InnerEcResponse E) (ec_grant E (to_vector (req_encoded req)) cert)) ea ea_priv = Some body"
    and "client_post c net (cfg_ea_url (pc_config c)) (to_vector (req_encoded req)) = Inr body"
    and "validate_chain E (pc_trust c) (Some (pc_revocation c)) (granted_cert E ''ec'' cert)
      (current_tai_seconds (ck_validate ck))"
  shows "request_enrolment_credential E P net w ck c h rec =
    (Inr (granted_cert E ''ec'' cert), c\<lparr>pc_trust := add_cert (granted_cert E ''ec'' cert) (pc_trust c)\<rparr>)"
  using assms by (rule enrolment_completes)

text \<open>Witness of (C5): the enrolment of the example.\<close>

theorem honest_enrolment_completes_witness:
  "request_enrolment_credential ex_env ex_pem (ex_net [6]) 1 ex_clock ex_client1 ex_handle ex_record =
     (Inr ex_cred, ex_client1\<lparr>pc_trust := add_cert ex_cred (pc_trust ex_client1)\<rparr>)"
proof -
  obtain kp where k: "client_load ex_env ex_pem ex_client1 ex_handle = Some kp" "to_vector (private_key kp) = nat_be 32 5"
    using ex_client1_key by blast
  obtain req where r: "encode_ec_request ex_env 1 (ck_sign1 ex_clock) (ck_sign2 ex_clock)
       (assemble_ec_request ex_record (ck_assemble ex_clock)) ex_root (to_vector (private_key kp)) = Inr req"
    "to_vector (req_encoded req) = [3]"
    "authority_answer ex_env 0 0 0x81 [] (to_vector (req_aes_key req)) (replicate 12 0)
       (coer_encode (asn_DEF_InnerEcResponse ex_env) (ec_grant ex_env [3] ex_cred_struct)) ex_root (nat_be 32 6) = Some [6]"
    using ex_enrolment_ready [OF k(2) ex_record_curve] by blast
  show ?thesis
    unfolding ex_cred_def
    by (rule honest_enrolment_completes [OF ex_env_ok(1,2,4) ex_root_key ex_record_accepted k(1) ex_found1 r(1)
          ex_grant_roundtrip, unfolded r(2), OF r(3) ex_net_answers(1)])
      (use ex_chain_accepted in \<open>simp add: ex_cred_def ex_clock_def ex_now_def\<close>)
qed

text \<open>
  (C19) An authorization request opens for both authorities. The Authorization Authority recovers the
  message signed with the new key and in it the inner request; the signature of the enrolment
  credential in there is encrypted to the Enrolment Authority, which recovers a message that verifies
  under the credential's key and covers, by its hash, the shared part of this request. The symmetric
  key handed back to the caller is the one of the outer message. The two signing keys are on any curve but
  NIST P-384.
\<close>

theorem authorization_request_opens:
  assumes "openssl_ok E" "ccm_ok E" "message_codec_ok E" "\<And>x. codec_roundtrip (asn_DEF_SharedAtRequest E) x"
    and "encode_at_request E w t1 t2 desc aa ea ec ec_priv at_priv = Inr res"
    and "is_keypair E (atd_curve desc) at_priv at_pub" "atd_curve desc \<noteq> NistP384"
    and "is_keypair E (atd_curve desc) ec_priv ec_pub"
    and "is_keypair E (ci_enc_curve aa) aa_priv (recipient_enc_key aa)"
    and "is_keypair E (ci_enc_curve ea) ea_priv (recipient_enc_key ea)"
  shows "\<exists>e1 outer inner m tag e2 ext sig. let c = atd_curve desc; shared = shared_at_request desc tag;
      tbs = external_tbs t1 (hash_for_curve E (coer_encode (asn_DEF_SharedAtRequest E) shared) c) c in
    coer_decode (asn_DEF_Ieee1609Dot2Data E) (to_vector (req_encoded res)) =
      Some (build_encrypted_data e1 aa (ci_enc_curve aa)) \<and>
    ecies_decrypt E aa_priv e1 (recipient_p1 E aa) (ci_enc_curve aa) = Some outer \<and>
    unwrap E outer = Some m \<and> verify E m at_pub [] \<and> sm_payload_coer m = 0x01 # 0x82 # inner \<and>
    inner = coer_encode (asn_DEF_InnerAtRequest E)
      (inner_at_request desc shared (build_encrypted_data e2 ea (ci_enc_curve ea))) \<and>
    ecies_decrypt E ea_priv e2 (recipient_p1 E ea) (ci_enc_curve ea) = Some ext \<and>
    coer_decode (asn_DEF_Ieee1609Dot2Data E) ext =
      Some (signed_wrapper tbs sig (to_vector (ci_cert_bytes ec)) (ci_hashed_id_8 ec) c) \<and>
    ecdsa_verify_digest E ec_pub (double_hash (\<lambda>d. hash_for_curve E d c)
      (coer_encode (asn_DEF_ToBeSignedData E) tbs) (to_vector (ci_cert_bytes ec))) sig c \<and>
    to_vector (req_aes_key res) = aes_key e1"
proof -
  obtain e1 outer inner m where
    aa: "coer_decode (asn_DEF_Ieee1609Dot2Data E) (to_vector (req_encoded res)) =
        Some (build_encrypted_data e1 aa (ci_enc_curve aa))"
      "ecies_decrypt E aa_priv e1 (recipient_p1 E aa) (ci_enc_curve aa) = Some outer"
      "unwrap E outer = Some m" "verify E m at_pub []" "sm_payload_coer m = 0x01 # 0x82 # inner"
      "encode_inner_at E w t1 desc ea ec ec_priv = Inr inner" "to_vector (req_aes_key res) = aes_key e1"
    using at_request_opens [OF assms(1-3,5-7,9)] by blast
  show ?thesis
    using at_inner_opens [OF assms(1-4) aa(6) assms(8,10)] aa unfolding Let_def by blast
qed

text \<open>Witness of (C19): the authorization request of the example.\<close>

theorem authorization_request_opens_witness:
  "\<exists>res e1 outer m. encode_at_request ex_env 9 0 0 at_desc ex_root ex_root ex_cred (nat_be 32 5) (nat_be 32 7) = Inr res \<and>
     coer_decode (asn_DEF_Ieee1609Dot2Data ex_env) (to_vector (req_encoded res)) =
       Some (build_encrypted_data e1 ex_root (ci_enc_curve ex_root)) \<and>
     ecies_decrypt ex_env (nat_be 32 6) e1 (recipient_p1 ex_env ex_root) (ci_enc_curve ex_root) = Some outer \<and>
     unwrap ex_env outer = Some m \<and> verify ex_env m (toy_pub 32 7) []"
proof -
  obtain res where r: "encode_at_request ex_env 9 0 0 at_desc ex_root ex_root ex_cred (nat_be 32 5) (nat_be 32 7) = Inr res"
    using at_request_encodes [OF ex_cred_bytes] by blast
  have k: "is_keypair ex_env (atd_curve at_desc) (nat_be 32 7) (toy_pub 32 7)"
    "is_keypair ex_env (atd_curve at_desc) (nat_be 32 5) (toy_pub 32 5)"
    "is_keypair ex_env (ci_enc_curve ex_root) (nat_be 32 6) (recipient_enc_key ex_root)"
    using toy_keypair [of 7 NistP256] toy_keypair [of 5 NistP256] toy_keypair [of 6 NistP256]
    by (simp_all add: at_desc_curve ex_root_fields size_simps)
  have n: "atd_curve at_desc \<noteq> NistP384" by (simp add: at_desc_curve)
  from authorization_request_opens [OF ex_env_ok(1,2,4) at_roundtrips(1) r k(1) n k(2,3,3)] r show ?thesis
    unfolding Let_def by blast
qed

text \<open>
  (C40) An honest authorization completes: when the request for the new key, signed with the key of the
  credential, was encoded and sent, and the server returns the answer of the addressed authority,
  granting a ticket whose chain validates, the client returns exactly that ticket and stores it.
  Authorities with a NIST P-384 key are excluded.
\<close>

theorem honest_authorization_completes:
  assumes "openssl_ok E" "ccm_ok E" "message_codec_ok E" "authority_key E aa aa_priv"
    and "validate_at_record rec = None" "client_load E P c h = Some kp" "client_load E P c ah = Some akp"
    and "find_by_hashed_id_8 (pc_trust c) (atr_aa_hashed_id_8 rec) = Some aa"
      "find_by_hashed_id_8 (pc_trust c) (atr_ea_hashed_id_8 rec) = Some ea"
    and "encode_at_request E (w + 1) (ck_sign1 ck) (ck_sign2 ck)
        ((assemble_at_request E w rec (ck_assemble ck))\<lparr>atd_verification_key := public_key akp\<rparr>) aa ea ec
        (to_vector (private_key kp)) (to_vector (private_key akp)) = Inr req"
    and "codec_roundtrip (asn_DEF_InnerAtResponse E) (at_grant E (to_vector (req_encoded req)) cert)"
    and "authority_answer E v t 0x83 psk_id (to_vector (req_aes_key req)) nonce
      (coer_encode (asn_DEF_InnerAtResponse E) (at_grant E (to_vector (req_encoded req)) cert)) aa aa_priv = Some body"
    and "client_post c net (cfg_aa_url (pc_config c)) (to_vector (req_encoded req)) = Inr body"
    and "validate_chain E (pc_trust c) (Some (pc_revocation c)) (granted_cert E ''at'' cert)
      (current_tai_seconds (ck_validate ck))"
  shows "request_authorization_ticket E P net w ck c h ec ah rec =
    (Inr (granted_cert E ''at'' cert), c\<lparr>pc_trust := add_cert (granted_cert E ''at'' cert) (pc_trust c)\<rparr>)"
  using assms by (rule authorization_completes)

text \<open>Witness of (C40): the authorization of the example.\<close>

theorem honest_authorization_completes_witness:
  "request_authorization_ticket ex_env ex_pem (ex_net [34]) 8 ex_clock ex_client2 ex_handle ex_cred ex_at_handle ex_at_record =
     (Inr ex_ticket, ex_client2\<lparr>pc_trust := add_cert ex_ticket (pc_trust ex_client2)\<rparr>)"
proof -
  obtain kp akp where k: "client_load ex_env ex_pem ex_client2 ex_handle = Some kp" "ex_keypair 5 kp"
    "client_load ex_env ex_pem ex_client2 ex_at_handle = Some akp" "ex_keypair 7 akp"
    using ex_client2_keys by blast
  have f: "find_by_hashed_id_8 (pc_trust ex_client2) (atr_aa_hashed_id_8 ex_at_record) = Some ex_root"
    "find_by_hashed_id_8 (pc_trust ex_client2) (atr_ea_hashed_id_8 ex_at_record) = Some ex_root"
    using ex_client2_store by (simp_all add: ex_at_record_def)
  obtain req where r: "encode_at_request ex_env (8 + 1) (ck_sign1 ex_clock) (ck_sign2 ex_clock)
      ((assemble_at_request ex_env 8 ex_at_record (ck_assemble ex_clock))\<lparr>atd_verification_key := public_key akp\<rparr>)
      ex_root ex_root ex_cred (to_vector (private_key kp)) (to_vector (private_key akp)) = Inr req"
    "to_vector (req_encoded req) = [32]"
    "authority_answer ex_env 0 0 0x83 [] (to_vector (req_aes_key req)) (replicate 12 0)
      (coer_encode (asn_DEF_InnerAtResponse ex_env) (at_grant ex_env [32] ex_ticket_struct)) ex_root (nat_be 32 6) = Some [34]"
    using ex_authorization_ready [OF ex_cred_bytes k(2,4)] by blast
  show ?thesis
    unfolding ex_ticket_def
    by (rule honest_authorization_completes [OF ex_env_ok(1,2,4) ex_root_key ex_at_record_accepted k(1,3) f r(1)
          at_roundtrips(2), unfolded r(2), OF r(3) ex_net_answers(1)])
      (use ex_ticket_chain [OF ex_client2_store(1)] ex_client2_store(2) in
        \<open>simp add: ex_ticket_def ex_clock_def ex_now_def\<close>)
qed

text \<open>
  (C20) What the library builds, it accepts: a root and a certificate issued under it, built with the
  library's builders, encoded and parsed again, form a chain that validates against a store holding
  the root, for every instant of the thirty years they are valid and unless they are revoked.
\<close>

theorem built_chain_is_accepted:
  assumes "openssl_ok E" "array8_ok E" "is_keypair E NistP256 priv rpub"
    and "\<And>x. codec_roundtrip (asn_DEF_CertificateBase E) x"
    and "build_root_cert E w1 rname rpub priv = Some r" "rpub ! 0 = 0x04"
    and "build_signed_cert E w2 name pub priv (ci_hashed_id_8 r) is_ca False (to_vector (ci_cert_bytes r)) = Some c"
    and "pub ! 0 = 0x04" "pr = from_coer E (to_vector (ci_cert_bytes r))" "pc = from_coer E (to_vector (ci_cert_bytes c))"
    and "find_by_hashed_id_8 tc (ci_hashed_id_8 pr) = Some (pr\<lparr>ci_label := l\<rparr>)"
    and "\<not> is_revoked_by_issuer rv pc pr" "\<not> is_revoked_by_issuer rv pr pr"
    and "0 \<le> now" "now < 30 * 31556952"
  shows "validate_chain E tc rv (pc\<lparr>ci_label := l'\<rparr>) now"
  using built_chain_validates [OF assms(1-8), folded assms(9,10), OF assms(11-15)]
  by (simp add: validate_chain_trust_path)

text \<open>Witness of (C20): the chain of the example.\<close>

theorem built_chain_is_accepted_witness:
  "validate_chain ex_env (pc_trust ex_client) None ex_cred ex_now"
proof -
  obtain r where r: "build_root_cert ex_env 0 ''ea'' (toy_pub 32 6) (nat_be 32 6) = Some r"
    "to_vector (ci_cert_bytes r) = [20]" using ex_root_built by blast
  obtain c where c: "build_signed_cert ex_env 0 ''ec'' (toy_pub 32 5) (nat_be 32 6) ex_hid False False [20] = Some c"
    "to_vector (ci_cert_bytes c) = [21]" using ex_cred_built by blast
  have "ci_hashed_id_8 r = compute_hid8 ex_env (to_vector (ci_cert_bytes r))"
    using r(1) unfolding build_root_cert_def by (rule build_signed_cert_SomeE) simp
  then have h: "ci_hashed_id_8 r = ex_hid" using r(2) ex_hid_root by simp
  have k: "is_keypair ex_env NistP256 (nat_be 32 6) (toy_pub 32 6)"
    using toy_keypair [of 6 NistP256] by (simp add: size_simps)
  have f: "find_by_hashed_id_8 (pc_trust ex_client) (ci_hashed_id_8 (from_coer ex_env [20])) =
      Some ((from_coer ex_env [20])\<lparr>ci_label := ''ea''\<rparr>)"
    using ex_found ex_root_fields(1) by (simp add: ex_root_def)
  have now: "0 \<le> ex_now" "ex_now < 30 * 31556952"
    by (simp_all add: ex_now_def current_tai_seconds_def unix_to_tai_seconds_def kTaiEpochUnix_def kTaiMinusUtcSeconds_def)
  have rv: "\<not> is_revoked_by_issuer None a b" for a b by (simp add: is_revoked_by_issuer_def)
  show ?thesis
    unfolding ex_cred_parsed
    by (rule built_chain_is_accepted [OF ex_env_ok(1,3) k ex_cert_roundtrip r(1) toy_pub_key(2), unfolded h r(2),
          OF c(1) toy_pub_key(2) refl refl, unfolded c(2), OF f rv rv now])
qed

text \<open>
  Witness of (C36): the certificates of the root and of the device of the example, which decode. The
  root is self-signed, so that its issuer field is the array as it was before the parsing; the other
  one's is copied from the digest it names.
\<close>

theorem parsed_certificate_wf_witness:
  "coer_decode (asn_DEF_CertificateBase ex_env) [20] = Some ex_root_struct \<and> wf_CertInfo (from_coer ex_env [20]) \<and>
   \<not> sb_empty (ci_cert_bytes (from_coer ex_env [20])) \<and> length (ci_issuer_hash_id_8 (from_coer ex_env [20])) = 8 \<and>
   coer_decode (asn_DEF_CertificateBase ex_env) [21] = Some ex_cred_struct \<and> wf_CertInfo (from_coer ex_env [21]) \<and>
   \<not> sb_empty (ci_cert_bytes (from_coer ex_env [21])) \<and> length (ci_issuer_hash_id_8 (from_coer ex_env [21])) = 8"
proof -
  have w: "wf_CertInfo (from_coer ex_env [b])" for b by (rule parsed_certificate_wf [OF ex_env_ok(3)])
  have "length (ci_issuer_hash_id_8 (from_coer ex_env [b])) = 8" for b
    using w [of b] by (simp add: wf_CertInfo_def size_simps)
  then show ?thesis using w ex_decodes(1,2) ex_usable by simp
qed

end
