(* ===== verification/AsnPtr.thy ===== *)
theory AsnPtr
  imports Prelude
begin

text \<open>
  \<open>src/internal/asn_ptr.hpp\<close>: the owning pointer of decoded structures, over an explicit heap. A block
  is the structure \<open>asn1c\<close> allocates with all it points to. Undefined behaviour (freeing a block that
  is not allocated, going through a null descriptor, using an object outside its lifetime) is the
  value \<open>None\<close>. The properties are that a program of the class's operations that respects object
  lifetimes and hands over only blocks it holds never reaches it, that no block has two owners, and
  that no block is lost: what is allocated is exactly what some pointer or the program itself holds.
\<close>

section \<open>Heap and objects\<close>

type_synonym addr = nat

text \<open>The members of the class; \<open>None\<close> is the null pointer. A descriptor is given by its name.\<close>

record AsnPtr =
  ap_ptr :: "addr option"
  ap_desc :: "string option"

text \<open>
  The allocated blocks, those held by the program as raw pointers (from \<open>calloc\<close>, from a decoder, or
  released), and the \<open>AsnPtr\<close> objects in their lifetime.
\<close>

record ptr_heap =
  ph_live :: "addr set"
  ph_raw :: "addr set"
  ph_objs :: "nat \<rightharpoonup> AsnPtr"

definition set_obj :: "nat \<Rightarrow> AsnPtr \<Rightarrow> ptr_heap \<Rightarrow> ptr_heap" where
  "set_obj v p s = s\<lparr>ph_objs := (ph_objs s)(v \<mapsto> p)\<rparr>"

section \<open>The operations\<close>

text \<open>\<open>std::calloc\<close>: a block that was not allocated, or null.\<close>

definition asn_calloc :: "addr option \<Rightarrow> ptr_heap \<Rightarrow> ptr_heap option" where
  "asn_calloc r s =
     (case r of None \<Rightarrow> Some s
      | Some a \<Rightarrow> if a \<in> ph_live s then None
                 else Some (s\<lparr>ph_live := insert a (ph_live s), ph_raw := insert a (ph_raw s)\<rparr>))"

definition ASN_STRUCT_FREE :: "string option \<Rightarrow> addr \<Rightarrow> ptr_heap \<Rightarrow> ptr_heap option" where
  "ASN_STRUCT_FREE desc a s =
     (if desc = None \<or> a \<notin> ph_live s then None else Some (s\<lparr>ph_live := ph_live s - {a}\<rparr>))"

definition AsnPtr_default :: "nat \<Rightarrow> ptr_heap \<Rightarrow> ptr_heap" where
  "AsnPtr_default v s = set_obj v \<lparr>ap_ptr = None, ap_desc = None\<rparr> s"

text \<open>The constructor from a descriptor and a pointer takes the block over.\<close>

definition AsnPtr_construct :: "nat \<Rightarrow> string \<Rightarrow> addr option \<Rightarrow> ptr_heap \<Rightarrow> ptr_heap" where
  "AsnPtr_construct v desc p s =
     set_obj v \<lparr>ap_ptr = p, ap_desc = Some desc\<rparr> (s\<lparr>ph_raw := ph_raw s - set_option p\<rparr>)"

definition AsnPtr_reset :: "nat \<Rightarrow> ptr_heap \<Rightarrow> ptr_heap option" where
  "AsnPtr_reset v s =
     (case ph_objs s v of None \<Rightarrow> None | Some p \<Rightarrow>
      (case ap_ptr p of None \<Rightarrow> Some s | Some a \<Rightarrow>
       (case ASN_STRUCT_FREE (ap_desc p) a s of None \<Rightarrow> None
        | Some s1 \<Rightarrow> Some (set_obj v (p\<lparr>ap_ptr := None\<rparr>) s1))))"

definition AsnPtr_destroy :: "nat \<Rightarrow> ptr_heap \<Rightarrow> ptr_heap option" where
  "AsnPtr_destroy v s =
     (case AsnPtr_reset v s of None \<Rightarrow> None | Some s1 \<Rightarrow> Some (s1\<lparr>ph_objs := (ph_objs s1)(v := None)\<rparr>))"

definition AsnPtr_move :: "nat \<Rightarrow> nat \<Rightarrow> ptr_heap \<Rightarrow> ptr_heap option" where
  "AsnPtr_move v o' s =
     (case ph_objs s o' of None \<Rightarrow> None | Some q \<Rightarrow>
        Some (set_obj o' (q\<lparr>ap_ptr := None\<rparr>) (set_obj v \<lparr>ap_ptr = ap_ptr q, ap_desc = ap_desc q\<rparr> s)))"

definition AsnPtr_move_assign :: "nat \<Rightarrow> nat \<Rightarrow> ptr_heap \<Rightarrow> ptr_heap option" where
  "AsnPtr_move_assign v o' s =
     (if v \<noteq> o' then
        (case AsnPtr_reset v s of None \<Rightarrow> None | Some s1 \<Rightarrow>
         (case ph_objs s1 o' of None \<Rightarrow> None | Some q \<Rightarrow>
            Some (set_obj o' (q\<lparr>ap_ptr := None\<rparr>) (set_obj v \<lparr>ap_ptr = ap_ptr q, ap_desc = ap_desc q\<rparr> s1))))
      else if ph_objs s v = None then None else Some s)"

text \<open>\<open>release\<close> gives the block to the program.\<close>

definition AsnPtr_release :: "nat \<Rightarrow> ptr_heap \<Rightarrow> (addr option \<times> ptr_heap) option" where
  "AsnPtr_release v s =
     (case ph_objs s v of None \<Rightarrow> None | Some q \<Rightarrow>
        Some (ap_ptr q, set_obj v (q\<lparr>ap_ptr := None\<rparr>) (s\<lparr>ph_raw := ph_raw s \<union> set_option (ap_ptr q)\<rparr>)))"

text \<open>
  The two decoding helpers: \<open>r\<close> is what \<open>coer::decode\<close> or its fallback returns, a new block or null.
\<close>

definition asn_decode :: "nat \<Rightarrow> string \<Rightarrow> addr option \<Rightarrow> ptr_heap \<Rightarrow> ptr_heap option" where
  "asn_decode v desc r s =
     (case asn_calloc r s of None \<Rightarrow> None | Some s1 \<Rightarrow> Some (AsnPtr_construct v desc r s1))"

definition asn_decode_fallback :: "nat \<Rightarrow> string \<Rightarrow> addr option \<Rightarrow> ptr_heap \<Rightarrow> ptr_heap option" where
  "asn_decode_fallback v desc r s = asn_decode v desc r s"

section \<open>Programs\<close>

datatype ptr_op =
    OpCalloc "addr option"
  | OpDefault nat
  | OpConstruct nat string "addr option"
  | OpDecode nat string "addr option"
  | OpDecodeFallback nat string "addr option"
  | OpDestroy nat
  | OpMoveConstruct nat nat
  | OpMoveAssign nat nat
  | OpRelease nat
  | OpReset nat

fun exec_op :: "ptr_op \<Rightarrow> ptr_heap \<Rightarrow> ptr_heap option" where
  "exec_op (OpCalloc r) s = asn_calloc r s"
| "exec_op (OpDefault v) s = Some (AsnPtr_default v s)"
| "exec_op (OpConstruct v desc p) s = Some (AsnPtr_construct v desc p s)"
| "exec_op (OpDecode v desc r) s = asn_decode v desc r s"
| "exec_op (OpDecodeFallback v desc r) s = asn_decode_fallback v desc r s"
| "exec_op (OpDestroy v) s = AsnPtr_destroy v s"
| "exec_op (OpMoveConstruct v o') s = AsnPtr_move v o' s"
| "exec_op (OpMoveAssign v o') s = AsnPtr_move_assign v o' s"
| "exec_op (OpRelease v) s = map_option snd (AsnPtr_release v s)"
| "exec_op (OpReset v) s = AsnPtr_reset v s"

text \<open>
  What a program has to respect: an object is constructed once and used in its lifetime, a
  constructor is given null or a block the program holds, and the allocator returns new blocks.
\<close>

fun op_ok :: "ptr_op \<Rightarrow> ptr_heap \<Rightarrow> bool" where
  "op_ok (OpCalloc r) s = (set_option r \<inter> ph_live s = {})"
| "op_ok (OpDefault v) s = (ph_objs s v = None)"
| "op_ok (OpConstruct v desc p) s = (ph_objs s v = None \<and> set_option p \<subseteq> ph_raw s)"
| "op_ok (OpDecode v desc r) s = (ph_objs s v = None \<and> set_option r \<inter> ph_live s = {})"
| "op_ok (OpDecodeFallback v desc r) s = (ph_objs s v = None \<and> set_option r \<inter> ph_live s = {})"
| "op_ok (OpDestroy v) s = (ph_objs s v \<noteq> None)"
| "op_ok (OpMoveConstruct v o') s = (ph_objs s v = None \<and> ph_objs s o' \<noteq> None)"
| "op_ok (OpMoveAssign v o') s = (ph_objs s v \<noteq> None \<and> ph_objs s o' \<noteq> None)"
| "op_ok (OpRelease v) s = (ph_objs s v \<noteq> None)"
| "op_ok (OpReset v) s = (ph_objs s v \<noteq> None)"

primrec exec_ops :: "ptr_op list \<Rightarrow> ptr_heap \<Rightarrow> ptr_heap option" where
  "exec_ops [] s = Some s"
| "exec_ops (x # xs) s = (case exec_op x s of None \<Rightarrow> None | Some s1 \<Rightarrow> exec_ops xs s1)"

primrec program_ok :: "ptr_op list \<Rightarrow> ptr_heap \<Rightarrow> bool" where
  "program_ok [] s = True"
| "program_ok (x # xs) s = (op_ok x s \<and> (case exec_op x s of None \<Rightarrow> True | Some s1 \<Rightarrow> program_ok xs s1))"

definition empty_heap :: ptr_heap where
  "empty_heap = \<lparr>ph_live = {}, ph_raw = {}, ph_objs = Map.empty\<rparr>"

section \<open>Ownership\<close>

text \<open>The block an object owns, and the discipline: one owner each, nothing held twice, nothing lost.\<close>

definition own :: "ptr_heap \<Rightarrow> nat \<rightharpoonup> addr" where
  "own s v = (case ph_objs s v of None \<Rightarrow> None | Some p \<Rightarrow> ap_ptr p)"

definition ownership :: "(nat \<rightharpoonup> addr) \<Rightarrow> addr set \<Rightarrow> addr set \<Rightarrow> bool" where
  "ownership f live raw \<longleftrightarrow> inj_on f (dom f) \<and> ran f \<inter> raw = {} \<and> live = raw \<union> ran f"

definition descs_ok :: "ptr_heap \<Rightarrow> bool" where
  "descs_ok s \<longleftrightarrow> (\<forall>v p. ph_objs s v = Some p \<longrightarrow> ap_ptr p \<noteq> None \<longrightarrow> ap_desc p \<noteq> None)"

definition heap_inv :: "ptr_heap \<Rightarrow> bool" where
  "heap_inv s \<longleftrightarrow> ownership (own s) (ph_live s) (ph_raw s) \<and> descs_ok s"

text \<open>The four ways a block changes hands.\<close>

lemma ran_drop:
  assumes "inj_on f (dom f)" "f v = Some a"
  shows "ran (f(v := None)) = ran f - {a}"
proof -
  have v: "f w = Some a \<longleftrightarrow> w = v" for w using assms by (auto simp: inj_on_def dom_def)
  show ?thesis
  proof (intro set_eqI iffI)
    show "b \<in> ran f - {a}" if "b \<in> ran (f(v := None))" for b
      using that v by (auto simp: ran_def split: if_splits)
    show "b \<in> ran (f(v := None))" if "b \<in> ran f - {a}" for b
    proof -
      from that obtain w where "f w = Some b" "b \<noteq> a" by (auto simp: ran_def)
      then have "(f(v := None)) w = Some b" using assms(2) by auto
      then show ?thesis by (rule ranI)
    qed
  qed
qed

lemma inj_drop: "inj_on f (dom f) \<Longrightarrow> inj_on (f(v := None)) (dom (f(v := None)))"
  by (auto simp: inj_on_def dom_def split: if_splits)

lemma ownership_free:
  "ownership f live raw \<Longrightarrow> f v = Some a \<Longrightarrow> ownership (f(v := None)) (live - {a}) raw"
  using ran_drop [of f v a] inj_drop [of f v] ranI [of f v a] by (auto simp: ownership_def)

lemma ownership_release:
  "ownership f live raw \<Longrightarrow> f v = Some a \<Longrightarrow> ownership (f(v := None)) live (insert a raw)"
  using ran_drop [of f v a] inj_drop [of f v] ranI [of f v a] by (auto simp: ownership_def)

lemma ownership_adopt:
  "ownership f live raw \<Longrightarrow> f v = None \<Longrightarrow> a \<in> raw \<Longrightarrow> ownership (f(v \<mapsto> a)) live (raw - {a})"
proof -
  assume o: "ownership f live raw" and f: "f v = None" and a: "a \<in> raw"
  then have "a \<notin> ran f" by (auto simp: ownership_def)
  then have "inj_on (f(v \<mapsto> a)) (dom (f(v \<mapsto> a)))"
    using o f by (auto simp: ownership_def inj_on_def dom_def ran_def)
  then show ?thesis using o f a by (auto simp: ownership_def)
qed

lemma ownership_alloc: "ownership f live raw \<Longrightarrow> a \<notin> live \<Longrightarrow> ownership f (insert a live) (insert a raw)"
  by (auto simp: ownership_def)

text \<open>Moving a block from one object to another is releasing and adopting it.\<close>

lemma ownership_move:
  assumes "ownership f live raw" "f w = Some a" "f v = None"
  shows "ownership (f(v \<mapsto> a, w := None)) live raw"
proof -
  have "v \<noteq> w" "a \<notin> raw" using assms ranI [of f w a] by (auto simp: ownership_def)
  moreover have "ownership (f(w := None, v \<mapsto> a)) live (insert a raw - {a})"
    by (intro ownership_adopt ownership_release [OF assms(1,2)]) (use assms in auto)
  ultimately show ?thesis by (simp add: fun_upd_twist)
qed

section \<open>The operations keep the discipline\<close>

lemma set_obj_fields [simp]:
  "ph_live (set_obj v p s) = ph_live s" "ph_raw (set_obj v p s) = ph_raw s"
  "ph_objs (set_obj v p s) = (ph_objs s)(v \<mapsto> p)"
  by (simp_all add: set_obj_def)

lemma own_set_obj [simp]: "own (set_obj v p s) = (own s)(v := ap_ptr p)"
  by (simp add: own_def fun_eq_iff)

lemma own_fields [simp]:
  "own (s\<lparr>ph_live := l\<rparr>) = own s" "own (s\<lparr>ph_raw := r\<rparr>) = own s"
  "own (s\<lparr>ph_objs := (ph_objs s)(v := None)\<rparr>) = (own s)(v := None)"
  by (simp_all add: own_def fun_eq_iff)

lemma descs_set_obj:
  "descs_ok s \<Longrightarrow> (ap_ptr p = None \<or> ap_desc p \<noteq> None) \<Longrightarrow> descs_ok (set_obj v p s)"
  by (auto simp: descs_ok_def)

lemma descs_fields [simp]:
  "descs_ok (s\<lparr>ph_live := l\<rparr>) = descs_ok s" "descs_ok (s\<lparr>ph_raw := r\<rparr>) = descs_ok s"
  by (simp_all add: descs_ok_def)

lemma descs_remove: "descs_ok s \<Longrightarrow> descs_ok (s\<lparr>ph_objs := (ph_objs s)(v := None)\<rparr>)"
  by (auto simp: descs_ok_def)

lemma own_at: "ph_objs s v = Some p \<Longrightarrow> own s v = ap_ptr p"
  by (simp add: own_def)

lemma own_unset: "own s v = None \<Longrightarrow> (own s)(v := None) = own s"
  by (simp add: fun_eq_iff)

text \<open>Resetting an object is always defined and leaves it without a block.\<close>

lemma reset_inv:
  assumes inv: "heap_inv s" and v: "ph_objs s v = Some p"
  shows "\<exists>s'. AsnPtr_reset v s = Some s' \<and> heap_inv s' \<and> ph_raw s' = ph_raw s \<and>
    ph_objs s' = (ph_objs s)(v \<mapsto> p\<lparr>ap_ptr := None\<rparr>)"
proof (cases "ap_ptr p")
  case None
  then have "(ph_objs s)(v \<mapsto> p\<lparr>ap_ptr := None\<rparr>) = ph_objs s" using v by (cases p) (auto simp: fun_eq_iff)
  then show ?thesis using None inv v by (simp add: AsnPtr_reset_def)
next
  case (Some a)
  then have f: "own s v = Some a" using v by (simp add: own_at)
  have o: "ownership (own s) (ph_live s) (ph_raw s)" and d: "descs_ok s" using inv by (auto simp: heap_inv_def)
  have "a \<in> ph_live s" "ap_desc p \<noteq> None"
    using o d f v Some ranI [of "own s" v a] by (auto simp: ownership_def descs_ok_def)
  then have "AsnPtr_reset v s = Some (set_obj v (p\<lparr>ap_ptr := None\<rparr>) (s\<lparr>ph_live := ph_live s - {a}\<rparr>))"
    using Some v by (simp add: AsnPtr_reset_def ASN_STRUCT_FREE_def)
  moreover have "heap_inv (set_obj v (p\<lparr>ap_ptr := None\<rparr>) (s\<lparr>ph_live := ph_live s - {a}\<rparr>))"
    using ownership_free [OF o f] d by (simp add: heap_inv_def descs_set_obj)
  ultimately show ?thesis by simp
qed

lemma destroy_inv:
  assumes "heap_inv s" "ph_objs s v = Some p"
  shows "\<exists>s'. AsnPtr_destroy v s = Some s' \<and> heap_inv s'"
proof -
  obtain s1 where s1: "AsnPtr_reset v s = Some s1" "heap_inv s1"
    "ph_objs s1 = (ph_objs s)(v \<mapsto> p\<lparr>ap_ptr := None\<rparr>)" using reset_inv [OF assms] by blast
  then have "own s1 v = None" by (simp add: own_def)
  then have "heap_inv (s1\<lparr>ph_objs := (ph_objs s1)(v := None)\<rparr>)"
    using s1(2) by (simp add: heap_inv_def descs_remove own_unset)
  then show ?thesis using s1(1) by (simp add: AsnPtr_destroy_def)
qed

text \<open>The transfer both move operations end with, into an object that owns nothing.\<close>

lemma transfer_inv:
  assumes inv: "heap_inv s" and q: "ph_objs s w = Some q" and v: "own s v = None" "v \<noteq> w"
  shows "heap_inv (set_obj w (q\<lparr>ap_ptr := None\<rparr>) (set_obj v \<lparr>ap_ptr = ap_ptr q, ap_desc = ap_desc q\<rparr> s))"
proof -
  have d: "descs_ok s" and o: "ownership (own s) (ph_live s) (ph_raw s)" using inv by (auto simp: heap_inv_def)
  have "ownership ((own s)(v := ap_ptr q, w := None)) (ph_live s) (ph_raw s)"
  proof (cases "ap_ptr q")
    case None
    then have "(own s)(v := ap_ptr q, w := None) = own s" using q v by (auto simp: fun_eq_iff own_at)
    then show ?thesis using o by simp
  next
    case (Some a)
    then show ?thesis using ownership_move [OF o _ v(1), of w a] q by (simp add: own_at)
  qed
  moreover have "ap_ptr q = None \<or> ap_desc q \<noteq> None" using d q unfolding descs_ok_def by blast
  ultimately show ?thesis using d by (auto simp: heap_inv_def intro!: descs_set_obj)
qed

lemma move_assign_inv:
  assumes inv: "heap_inv s" and v: "ph_objs s v = Some p" and q: "ph_objs s w = Some q"
  shows "\<exists>s'. AsnPtr_move_assign v w s = Some s' \<and> heap_inv s'"
proof (cases "v = w")
  case True
  then show ?thesis using inv v by (simp add: AsnPtr_move_assign_def)
next
  case False
  obtain s1 where s1: "AsnPtr_reset v s = Some s1" "heap_inv s1"
    "ph_objs s1 = (ph_objs s)(v \<mapsto> p\<lparr>ap_ptr := None\<rparr>)" using reset_inv [OF inv v] by blast
  then have "own s1 v = None" "ph_objs s1 w = Some q" using False q by (auto simp: own_def)
  from transfer_inv [OF s1(2) this(2,1) False] this(2) s1(1) show ?thesis
    using False by (simp add: AsnPtr_move_assign_def)
qed

lemma calloc_inv:
  assumes "heap_inv s" "set_option r \<inter> ph_live s = {}"
  shows "\<exists>s'. asn_calloc r s = Some s' \<and> heap_inv s' \<and> set_option r \<subseteq> ph_raw s' \<and> ph_objs s' = ph_objs s"
  using assms by (cases r) (auto simp: asn_calloc_def heap_inv_def intro: ownership_alloc)

lemma construct_inv:
  assumes inv: "heap_inv s" and v: "ph_objs s v = None" and r: "set_option r \<subseteq> ph_raw s"
  shows "heap_inv (AsnPtr_construct v desc r s)"
proof -
  have o: "ownership (own s) (ph_live s) (ph_raw s)" and d: "descs_ok s" using inv by (auto simp: heap_inv_def)
  have f: "own s v = None" using v by (simp add: own_def)
  have "ownership ((own s)(v := r)) (ph_live s) (ph_raw s - set_option r)"
    using ownership_adopt [OF o f] o r f by (cases r) (simp_all add: own_unset)
  then show ?thesis using d by (simp add: AsnPtr_construct_def heap_inv_def descs_set_obj)
qed

lemma decode_inv:
  assumes "heap_inv s" "ph_objs s v = None" "set_option r \<inter> ph_live s = {}"
  shows "\<exists>s'. asn_decode v desc r s = Some s' \<and> heap_inv s'"
  using calloc_inv [OF assms(1,3)] construct_inv assms(2) by (auto simp: asn_decode_def)

lemma release_inv:
  assumes inv: "heap_inv s" and v: "ph_objs s v = Some q"
  shows "heap_inv (set_obj v (q\<lparr>ap_ptr := None\<rparr>) (s\<lparr>ph_raw := ph_raw s \<union> set_option (ap_ptr q)\<rparr>))"
proof -
  have o: "ownership (own s) (ph_live s) (ph_raw s)" and d: "descs_ok s" using inv by (auto simp: heap_inv_def)
  have "ownership ((own s)(v := None)) (ph_live s) (ph_raw s \<union> set_option (ap_ptr q))"
    using ownership_release [OF o, of v] o own_at [OF v] by (cases "ap_ptr q") (simp_all add: own_unset)
  then show ?thesis using d by (simp add: heap_inv_def descs_set_obj)
qed

lemma default_inv:
  "heap_inv s \<Longrightarrow> ph_objs s v = None \<Longrightarrow> heap_inv (AsnPtr_default v s)"
  using own_unset [of s v] by (simp add: AsnPtr_default_def heap_inv_def descs_set_obj own_def)

text \<open>One operation: defined, and the discipline is kept.\<close>

lemma exec_op_inv:
  assumes inv: "heap_inv s" and ok: "op_ok x s"
  shows "\<exists>s'. exec_op x s = Some s' \<and> heap_inv s'"
proof (cases x)
  case (OpMoveConstruct v w)
  with ok obtain q where q: "ph_objs s w = Some q" and v: "ph_objs s v = None" by auto
  then have "own s v = None" "v \<noteq> w" by (auto simp: own_def)
  from transfer_inv [OF inv q this] q show ?thesis by (simp add: OpMoveConstruct AsnPtr_move_def)
next
  case (OpCalloc r)
  then show ?thesis using ok calloc_inv [OF inv, of r] by auto
next
  case (OpReset v)
  with ok obtain q where "ph_objs s v = Some q" by auto
  from reset_inv [OF inv this] show ?thesis by (auto simp: OpReset)
next
  case (OpRelease v)
  with ok obtain q where "ph_objs s v = Some q" by auto
  then show ?thesis using release_inv [OF inv] by (simp add: OpRelease AsnPtr_release_def)
qed (use ok construct_inv [OF inv] decode_inv [OF inv] default_inv [OF inv] destroy_inv [OF inv]
    move_assign_inv [OF inv] in \<open>auto simp: asn_decode_fallback_def\<close>)

lemma exec_ops_inv:
  "heap_inv s \<Longrightarrow> program_ok xs s \<Longrightarrow> \<exists>s'. exec_ops xs s = Some s' \<and> heap_inv s'"
proof (induction xs arbitrary: s)
  case Nil
  then show ?case by simp
next
  case (Cons x xs)
  obtain s1 where "exec_op x s = Some s1" "heap_inv s1"
    using exec_op_inv [OF Cons.prems(1)] Cons.prems(2) by auto
  then show ?case using Cons by simp
qed

lemma empty_heap_inv: "heap_inv empty_heap"
proof -
  have "own empty_heap = Map.empty" by (simp add: own_def fun_eq_iff empty_heap_def)
  then show ?thesis by (simp add: heap_inv_def ownership_def descs_ok_def) (simp add: empty_heap_def)
qed

section \<open>Properties\<close>

text \<open>
  (C34) A program of the operations, started on an empty heap, that respects object lifetimes and hands
  over only blocks it holds, never frees a block twice or through a null descriptor; at its end no
  block has two owners, and the allocated blocks are exactly those an object owns or the program
  holds. In particular, when all objects are destroyed only the released blocks remain.
\<close>

theorem asn_ptr_frees_exactly_once:
  assumes "program_ok xs empty_heap"
  shows "\<exists>s. exec_ops xs empty_heap = Some s \<and> inj_on (own s) (dom (own s)) \<and> ran (own s) \<inter> ph_raw s = {} \<and>
    ph_live s = ph_raw s \<union> ran (own s) \<and> (dom (ph_objs s) = {} \<longrightarrow> ph_live s = ph_raw s)"
proof -
  obtain s where s: "exec_ops xs empty_heap = Some s" "heap_inv s"
    using exec_ops_inv [OF empty_heap_inv assms] by blast
  have "ran (own s) = {}" if "dom (ph_objs s) = {}" using that by (auto simp: own_def ran_def)
  with s show ?thesis by (auto simp: heap_inv_def ownership_def)
qed

text \<open>
  Witness of (C34): a decoded structure is moved into an object that holds another one, assigned to
  itself, and both objects are destroyed; nothing remains allocated.
\<close>

definition ex_program :: "ptr_op list" where
  "ex_program = [OpDecode 0 ''A'' (Some 10), OpDecode 1 ''B'' (Some 11), OpMoveAssign 1 0, OpMoveAssign 1 1, OpDestroy 0, OpDestroy 1]"

theorem asn_ptr_frees_exactly_once_witness:
  "\<exists>s. exec_ops ex_program empty_heap = Some s \<and> ph_live s = ph_raw s \<union> ran (own s)"
proof -
  have "program_ok ex_program empty_heap"
    by (simp add: ex_program_def empty_heap_def asn_decode_def asn_calloc_def AsnPtr_construct_def
        AsnPtr_move_assign_def AsnPtr_reset_def ASN_STRUCT_FREE_def AsnPtr_destroy_def)
  from asn_ptr_frees_exactly_once [OF this] show ?thesis by blast
qed

text \<open>
  Self-assignment changes nothing, and a move leaves the source empty and the target with its block.
\<close>

lemma move_assign_self: "ph_objs s v = Some p \<Longrightarrow> AsnPtr_move_assign v v s = Some s"
  by (simp add: AsnPtr_move_assign_def)

lemma move_assign_moves:
  assumes "heap_inv s" "ph_objs s v = Some p" "ph_objs s w = Some q" "v \<noteq> w"
  shows "\<exists>s'. AsnPtr_move_assign v w s = Some s' \<and> own s' v = own s w \<and> own s' w = None"
proof -
  obtain s1 where s1: "AsnPtr_reset v s = Some s1" "ph_objs s1 = (ph_objs s)(v \<mapsto> p\<lparr>ap_ptr := None\<rparr>)"
    using reset_inv [OF assms(1,2)] by blast
  then show ?thesis using assms by (simp add: AsnPtr_move_assign_def own_at)
qed

end
