(* ===== verification/UnitTests.thy ===== *)
theory UnitTests
  imports PkiClient
begin

text \<open>
  The inputs of the repository's unit tests run on the model: \<open>src/test/test_revocation.cpp\<close>,
  \<open>test_dc_url.cpp\<close>, \<open>test_key_store.cpp\<close>, \<open>test_static_bytes.cpp\<close>, \<open>test_request_hash.cpp\<close>,
  \<open>test_ec_request.cpp\<close> and \<open>test_at_request.cpp\<close>. Each lemma has the name of its test and the
  expectations of the test as its statement. Where a test draws a random key, the lemma holds for every
  key of the shape the generator returns; where it compares two digests, the digests differ by a
  premise of the lemma, for the hash is a parameter. A list applied with the default time is applied at
  any time \<open>now\<close>, the clock being read by the call.
\<close>

section \<open>Revocation store\<close>

definition test_hid :: "byte \<Rightarrow> hid8" where
  "test_hid tag = [tag, 1, 2, 3, 4, 5, 6, 7]"

definition crl_for :: "hid8 \<Rightarrow> hid8 list \<Rightarrow> u32 \<Rightarrow> CrlContents" where
  "crl_for issuer entries next_update =
     \<lparr>crl_issuer_hid8 = issuer, crl_this_update = 0, crl_next_update = next_update, crl_revoked = entries\<rparr>"

lemma RBT_lookup_set_of_range [simp]: "RBT.lookup (set_of_range xs) h = (if h \<in> set xs then Some () else None)"
  using lookup_set_of_range [of xs h] by (cases "RBT.lookup (set_of_range xs) h") auto

text \<open>The number of issuers is the number of keys the map holds.\<close>

lemma issuer_count_keys: "issuer_count st = card (dom (RBT.lookup (revoked st)))"
  by (simp add: issuer_count_def RBT.lookup_keys distinct_card RBT.keys_def_alt [symmetric]
      length_map [of fst, symmetric] del: length_map)

lemmas revocation_test =
  revocation_apply_def is_revoked_def RevocationStore_init_def crl_for_def test_hid_def

lemma ReportsRevokedCert:
  "let (ok, st) = revocation_apply RevocationStore_init (crl_for (test_hid 0xAA) [test_hid 1, test_hid 2] 0) now
   in ok \<and> is_revoked st (test_hid 0xAA) (test_hid 1) \<and> is_revoked st (test_hid 0xAA) (test_hid 2) \<and>
      \<not> is_revoked st (test_hid 0xAA) (test_hid 3)"
  by (simp add: revocation_test)

lemma RevocationIsScopedToIssuer:
  "let (ok, st) = revocation_apply RevocationStore_init (crl_for (test_hid 0xAA) [test_hid 1] 0) now
   in ok \<and> is_revoked st (test_hid 0xAA) (test_hid 1) \<and> \<not> is_revoked st (test_hid 0xBB) (test_hid 1)"
  by (simp add: revocation_test)

lemma UnknownIssuerIsNotRevoked: "\<not> is_revoked RevocationStore_init (test_hid 0xAA) (test_hid 1)"
  by (simp add: revocation_test)

lemma ReplacingIssuerSetReinstatesCerts:
  "let (ok1, st1) = revocation_apply RevocationStore_init (crl_for (test_hid 0xAA) [test_hid 1, test_hid 2] 0) now;
       (ok2, st2) = revocation_apply st1 (crl_for (test_hid 0xAA) [test_hid 2] 0) now2
   in ok1 \<and> ok2 \<and> \<not> is_revoked st2 (test_hid 0xAA) (test_hid 1) \<and> is_revoked st2 (test_hid 0xAA) (test_hid 2)"
  by (simp add: revocation_test)

lemma IssuersAreIndependent:
  "let (ok1, st1) = revocation_apply RevocationStore_init (crl_for (test_hid 0xAA) [test_hid 1] 0) now;
       (ok2, st2) = revocation_apply st1 (crl_for (test_hid 0xBB) [test_hid 2] 0) now2
   in ok1 \<and> ok2 \<and> issuer_count st2 = 2 \<and> is_revoked st2 (test_hid 0xAA) (test_hid 1) \<and>
      is_revoked st2 (test_hid 0xBB) (test_hid 2)"
  by (simp add: revocation_test issuer_count_keys)

lemma RejectsStaleCrl:
  "let (ok, st) = revocation_apply RevocationStore_init (crl_for (test_hid 0xAA) [test_hid 1] 1000) 2000
   in \<not> ok \<and> \<not> is_revoked st (test_hid 0xAA) (test_hid 1)"
  by (simp add: revocation_test)

lemma AcceptsCrlStillFresh:
  "let (ok, st) = revocation_apply RevocationStore_init (crl_for (test_hid 0xAA) [test_hid 1] 5000) 2000
   in ok \<and> is_revoked st (test_hid 0xAA) (test_hid 1)"
  by (simp add: revocation_test)

lemma StaleCrlDoesNotClobberExistingState:
  "let (ok1, st1) = revocation_apply RevocationStore_init (crl_for (test_hid 0xAA) [test_hid 1] 5000) 2000;
       (ok2, st2) = revocation_apply st1 (crl_for (test_hid 0xAA) [] 1000) 2000
   in ok1 \<and> \<not> ok2 \<and> is_revoked st2 (test_hid 0xAA) (test_hid 1)"
  by (simp add: revocation_test)

lemma NextUpdateZeroMeansNoExpiry:
  "let (ok, st) = revocation_apply RevocationStore_init (crl_for (test_hid 0xAA) [test_hid 1] 0) 999999999
   in ok \<and> is_revoked st (test_hid 0xAA) (test_hid 1)"
  by (simp add: revocation_test)

section \<open>Distribution centre addresses\<close>

text \<open>
  The test repeats the normalisation of \<open>discover_trust\<close>; the lemmas put the address through the
  function itself, as that of a centre that serves the root.
\<close>

definition test_dc :: "string \<Rightarrow> DcInfo" where
  "test_dc url = \<lparr>dci_url = url, dci_serves = [[0xAA, 0xBB, 0xCC, 0xDD, 0x11, 0x22, 0x33, 0x44]]\<rparr>"

definition compose_url :: "string \<Rightarrow> string \<Rightarrow> string \<Rightarrow> string" where
  "compose_url raw_dc_url resource fallback_url =
     (let rca = [0xAA, 0xBB, 0xCC, 0xDD, 0x11, 0x22, 0x33, 0x44]
      in find_dc_url [test_dc raw_dc_url] rca fallback_url @ resource @ hid8_hex_upper rca)"

lemma TrailingSlashStripped:
  "compose_url ''https://dc.example.com/'' ''/getctl/'' f = ''https://dc.example.com/getctl/AABBCCDD11223344''"
  by code_simp

lemma NoTrailingSlashUnchanged:
  "compose_url ''https://dc.example.com'' ''/getctl/'' f = ''https://dc.example.com/getctl/AABBCCDD11223344''"
  by code_simp

lemma CrlTrailingSlash:
  "compose_url ''https://dc.example.com/'' ''/getcrl/'' f = ''https://dc.example.com/getcrl/AABBCCDD11223344''"
  by code_simp

lemma EmptyUrl: "compose_url [] ''/getctl/'' f = ''/getctl/AABBCCDD11223344''"
  by code_simp

definition test_dcs :: "DcInfo list" where
  "test_dcs =
     [\<lparr>dci_url = ''https://0.fr-dc.l0.c-its-pki.eu/'',
       dci_serves = [[0xB7, 0x35, 0xAC, 0x70, 0xF6, 0xA8, 0x2B, 0x2D],
                     [0xA1, 0x33, 0x3B, 0x3F, 0x84, 0x89, 0xF6, 0x88]]\<rparr>,
      \<lparr>dci_url = ''https://0.eu-dc.l0.c-its-pki.eu/'',
       dci_serves = [[0x1B, 0x5C, 0xB4, 0xBE, 0xBE, 0x6F, 0xE9, 0xE9],
                     [0xD8, 0x75, 0x15, 0x1D, 0xE8, 0xA4, 0x1E, 0xBD]]\<rparr>]"

lemma MultiRcaTopologyLookup:
  "map (\<lambda>h. find_dc_url test_dcs h [])
     [[0xB7, 0x35, 0xAC, 0x70, 0xF6, 0xA8, 0x2B, 0x2D], [0xA1, 0x33, 0x3B, 0x3F, 0x84, 0x89, 0xF6, 0x88],
      [0x1B, 0x5C, 0xB4, 0xBE, 0xBE, 0x6F, 0xE9, 0xE9], [0xD8, 0x75, 0x15, 0x1D, 0xE8, 0xA4, 0x1E, 0xBD],
      replicate 8 0xFF] =
   [''https://0.fr-dc.l0.c-its-pki.eu'', ''https://0.fr-dc.l0.c-its-pki.eu'',
    ''https://0.eu-dc.l0.c-its-pki.eu'', ''https://0.eu-dc.l0.c-its-pki.eu'', []]"
  by code_simp

section \<open>Key handles\<close>

lemma RejectsPathTraversal: "KeyHandle_from ''../../etc/cron.d/evil'' = None \<and> KeyHandle_from ''..'' = None"
  by (simp add: KeyHandle_from_def handle_char_ok_def)

lemma RejectsPathSeparators:
  "KeyHandle_from ''foo/bar'' = None \<and> KeyHandle_from (''foo'' @ [CHR 0x5C] @ ''bar'') = None"
  by (simp add: KeyHandle_from_def handle_char_ok_def)

lemma RejectsEmpty: "KeyHandle_from [] = None"
  by (simp add: KeyHandle_from_def)

lemma RejectsOverLength:
  "KeyHandle_from (replicate 65 CHR ''a'') = None \<and> KeyHandle_from (replicate 64 CHR ''a'') \<noteq> None"
  by (simp add: KeyHandle_from_def sb_from_ptr_def handle_char_ok_def list_all_iff)

lemma AcceptsValidCharset: "KeyHandle_from ''canonical-at_01'' \<noteq> None"
  by (simp add: KeyHandle_from_def sb_from_ptr_def handle_char_ok_def)

section \<open>Byte buffers\<close>

lemma FromFitsExactly:
  "map_option (\<lambda>b. (sb_size b, to_vector b)) (sb_from_ptr 4 [1, 2, 3, 4] 4) = Some (4, [1, 2, 3, 4])"
  by (simp add: sb_from_ptr_def sb_size_def to_vector_def)

lemma FromShorterThanCapacity:
  "map_option (\<lambda>b. (sb_size b, sb_empty b)) (sb_from_ptr 8 [9, 8] 2) = Some (2, False)"
  by (simp add: sb_from_ptr_def sb_size_def sb_empty_def)

lemma FromEmpty: "map_option (\<lambda>b. (sb_size b, sb_empty b)) (sb_from_ptr 8 [] 0) = Some (0, True)"
  by (simp add: sb_from_ptr_def sb_size_def sb_empty_def)

lemma FromOverflowRejected: "sb_from_ptr 4 [1, 2, 3, 4, 5] 5 = None \<and> sb_from 16 (replicate 17 0x42) = None"
  by (simp add: sb_from_ptr_def sb_from_def)

lemma FromVector: "map_option (\<lambda>b. (sb_size b, to_vector b)) (sb_from 16 [1, 2, 3]) = Some (3, [1, 2, 3])"
  by (simp add: sb_from_ptr_def sb_from_def sb_size_def to_vector_def)

lemma Equality:
  "map (\<lambda>v. case (sb_from 4 [1, 2], sb_from 4 v) of (Some a, Some b) \<Rightarrow> Some (sb_eq a b) | _ \<Rightarrow> None)
     [[1, 2], [1, 3], [1, 2, 3]] = [Some True, Some False, Some False]"
  by (simp add: sb_from_ptr_def sb_from_def sb_eq_def)

lemma DefaultConstructedIsEmpty: "sb_empty (sb_default 8) \<and> sb_size (sb_default 8) = 0"
  by (simp add: sb_default_def sb_size_def sb_empty_def)

section \<open>Key store\<close>

lemma LoadMissing: "fs_files fs (pem_path dir h) = None \<Longrightarrow> load_keypair E P dir fs h = None"
  by (simp add: load_keypair_def)

lemma SignMissing: "fs_files fs (pem_path dir h) = None \<Longrightarrow> ks_sign E P dir fs w h msg = None"
  by (simp add: ks_sign_def LoadMissing)

lemma DistinctHandles:
  assumes h: "KeyHandle_from ''key_alpha'' = Some h1" "KeyHandle_from ''key_beta'' = Some h2"
    and st: "store_keypair E P dir fs h1 kp1 = (True, fs1)" "store_keypair E P dir fs1 h2 kp2 = (True, fs2)"
    and kp: "storable E P kp1 \<and> flushed E P (pem_path dir h1) kp1" "storable E P kp2 \<and> flushed E P (pem_path dir h2) kp2"
  shows "(\<exists>k. load_keypair E P dir fs2 h1 = Some k \<and> same_keypair kp1 k) \<and>
    (\<exists>k. load_keypair E P dir fs2 h2 = Some k \<and> same_keypair kp2 k)"
  using id_str_from [OF h(1)] id_str_from [OF h(2)] by (intro file_store.load_two [OF st _ kp]) simp

lemma Overwrite:
  assumes "store_keypair E P dir fs h kp1 = (True, fs1)" "store_keypair E P dir fs1 h kp2 = (True, fs2)"
    and "storable E P kp2 \<and> flushed E P (pem_path dir h) kp2"
  shows "\<exists>k. load_keypair E P dir fs2 h = Some k \<and> same_keypair kp2 k"
  using assms(2,3) by (rule file_store.load_saved)

section \<open>Request hash\<close>

lemma AcceptsLeftmost16OfSha256:
  assumes "openssl_ok E" "req \<noteq> []" "sb_from_ptr 16 (hash_sha256 E req) 16 = Some h"
  shows "request_hash_matches E req h"
proof -
  have len: "length (hash_sha256 E req) = 32" using length_hash_sha256 [OF assms(1)] by (simp add: size_simps)
  have "h = \<lparr>sb_data = take 16 (hash_sha256 E req), sb_len = 16\<rparr>"
    using assms(3) by (simp add: sb_from_ptr_def)
  then show ?thesis
    using len assms(2) by (simp add: request_hash_matches_def sb_size_def to_vector_def)
qed

text \<open>A flipped byte and the hash of another request are both bytes other than the leftmost 16.\<close>

lemma RejectsHashOfDifferentRequest:
  assumes "wf_sb 16 h" "to_vector h \<noteq> take 16 (hash_sha256 E req)"
  shows "\<not> request_hash_matches E req h"
  using assms by (simp add: request_hash_matches_iff)

lemma RejectsEmptyRequest: "\<not> request_hash_matches E [] h"
  by (simp add: request_hash_matches_def)

lemma RejectsShortHash:
  "sb_from_ptr 16 digest 15 = Some h \<Longrightarrow> \<not> request_hash_matches E req h"
  by (auto simp: sb_from_ptr_def request_hash_matches_def sb_size_def)

section \<open>Enrolment and authorization records\<close>

definition test_ec_record :: "StaticBytes \<Rightarrow> int list \<Rightarrow> int \<Rightarrow> EcRecord" where
  "test_ec_record pub psids days =
     \<lparr>ecr_canonical_public_key = pub, ecr_ea_hashed_id_8 = replicate 8 0, ecr_requested_psids = psids,
      ecr_validity_period_days = days, ecr_curve = NistP256, ecr_its_id = []\<rparr>"

definition test_at_record :: "StaticBytes \<Rightarrow> int list \<Rightarrow> int \<Rightarrow> AtRecord" where
  "test_at_record pub psids hours =
     \<lparr>atr_at_public_key = pub, atr_aa_hashed_id_8 = replicate 8 0, atr_ea_hashed_id_8 = replicate 8 1,
      atr_requested_psids = psids, atr_validity_period_hours = hours, atr_curve = NistP256\<rparr>"

text \<open>A P-256 key as the generator returns it: 65 used bytes, the first of them 4.\<close>

definition p256_key :: "StaticBytes \<Rightarrow> bool" where
  "p256_key pub \<longleftrightarrow> sb_size pub = 65 \<and> sb_at pub 0 = Some 0x04"

lemmas record_test = validate_ec_record_def validate_at_record_def test_ec_record_def test_at_record_def
  p256_key_def sb_from_def sb_from_ptr_def

lemma EcValidateOk: "p256_key pub \<Longrightarrow> validate_ec_record (test_ec_record pub [kPsidScr] 30) = None"
  by (simp add: record_test size_simps)

lemma EcValidateRejectsApplicationPsid:
  "p256_key pub \<Longrightarrow> \<exists>pre post. validate_ec_record (test_ec_record pub [36] 30) = Some (pre @ ''kPsidScr'' @ post)"
  by (rule exI [of _ "''EC requested_psids must be exactly {''"])
    (simp add: record_test size_simps kPsidScr_def)

lemma EcValidateBadKey:
  "sb_from kP384PublicKeyLen [1, 2, 3] = Some pub \<Longrightarrow>
   \<exists>e. validate_ec_record (test_ec_record pub [36] 30) = Some e \<and> e \<noteq> []"
  by (auto simp: record_test sb_size_def size_simps)

lemma EcValidateEmptyPsids:
  "p256_key pub \<Longrightarrow> \<exists>pre post. validate_ec_record (test_ec_record pub [] 30) = Some (pre @ ''psids'' @ post)"
  by (rule exI [of _ "''EC requested_''"]) (simp add: record_test size_simps)

lemma EcValidateBadValidity:
  "validate_ec_record (test_ec_record pub [kPsidScr] 0) \<noteq> None \<and>
   validate_ec_record (test_ec_record pub [kPsidScr] 5000) \<noteq> None"
  by (simp add: record_test)

lemma EcAssemble:
  "let desc = assemble_ec_request (test_ec_record pub [36, 37, 38] 7) now
   in ecd_verification_key desc = pub \<and> length (ecd_psids desc) = 3 \<and> ecd_ea_hid8 desc = replicate 8 0 \<and>
      ecd_validity_duration_hours desc = 7 * 24 \<and> ecd_its_id desc \<noteq> []"
  by (simp add: assemble_ec_request_def test_ec_record_def)

lemma AtValidateOk: "p256_key pub \<Longrightarrow> validate_at_record (test_at_record pub [36, 37] 24) = None"
  by (simp add: record_test size_simps)

lemma AtValidateBadKey:
  "sb_from kP384PublicKeyLen [1] = Some pub \<Longrightarrow>
   \<exists>e. validate_at_record (test_at_record pub [36] 24) = Some e \<and> e \<noteq> []"
  by (auto simp: record_test sb_size_def size_simps)

lemma AtValidateRejects:
  "validate_at_record (test_at_record pub [] 24) \<noteq> None \<and> validate_at_record (test_at_record pub [36] 0) \<noteq> None"
  by (simp add: record_test)

lemma AtAssemble:
  "let desc = assemble_at_request E w (test_at_record pub [36, 37] 48) now
   in atd_verification_key desc = pub \<and> length (atd_psids desc) = 2 \<and> atd_aa_hid8 desc = replicate 8 0 \<and>
      atd_ea_hid8 desc = replicate 8 1 \<and> length (to_vector (atd_hmac_key desc)) = 32"
  by (simp add: assemble_at_request_def test_at_record_def at_hmac_key_size)

end
