(* ===== verification/Spec2Isabelle.thy ===== *)
theory Spec2Isabelle
  imports CliMain CliSession ProvisionMain EndToEnd AsnPtr UnitTests
begin

text \<open>
  A verification of \<open>v2x-pki-client\<close>, the C++ client of a V2X public key infrastructure (ETSI TS 102 941
  over IEEE 1609.2): it enrols a station with an Enrolment Authority (EA), obtains authorization
  tickets from an Authorization Authority (AA), discovers the trust lists of a Trust List Manager (TLM)
  and of the Root CAs, and checks certificate chains and revocation.

  \<^bold>\<open>The parts and their theories.\<close> Paths are relative to the repository.
  \<^item> \<open>Prelude\<close>: byte and identifier types, the collections of rewrite rules, lemmas on lists, options
    and words.
  \<^item> \<open>Sizes\<close>, \<open>StaticBytes\<close>, \<open>V2xResult\<close> (\<open>include/v2xpki/sizes.hpp\<close>, \<open>static_bytes.hpp\<close>, \<open>result.hpp\<close>):
    constants, curve tables, fixed buffers (a record of the whole array and the length in use), errors
    and \<open>Result\<close> as a sum type.
  \<^item> \<open>Asn1Types\<close> (\<open>asn/*.asn\<close>): the structures the code reads and writes; the generated codecs are a
    parameter, the record \<open>asn_TYPE\<close> per structure. \<open>CurvePoint\<close> (\<open>src/internal/coer.cpp\<close>,
    \<open>curve_point.cpp\<close>): the codec helpers, SEC1 points and signature nodes.
  \<^item> \<open>OpenSsl\<close>: what the code calls of OpenSSL, a record \<open>env\<close> that extends the codecs. \<open>CryptoEc\<close>
    (\<open>src/crypto_ec.cpp\<close>) and \<open>Ecies\<close> (\<open>src/ecies.cpp\<close>): every function, with the documented behaviour of
    OpenSSL as the named hypotheses bundled in \<open>openssl_ok\<close>, and \<open>ccm_ok\<close>. \<open>ToyEnv\<close>: an environment that
    meets all of them, on which the witnesses run.
  \<^item> \<open>CertParse\<close> (\<open>src/internal/cert_parse.cpp\<close>): the record \<open>CertInfo\<close> and its parser. \<open>SignedMessage\<close>
    (\<open>signed_message.cpp\<close>), \<open>SignedEnvelope\<close> (\<open>signed_envelope.cpp\<close>), \<open>EncryptedMessage\<close>
    (\<open>encrypted_data.cpp\<close>, \<open>request_hash.hpp\<close>): reading and building secured messages.
  \<^item> \<open>Revocation\<close> (\<open>src/revocation.cpp\<close>) with the interface \<open>revocation_list\<close>; \<open>TrustChain\<close>
    (\<open>src/trust_chain.cpp\<close>) with the interface \<open>cert_store\<close> and the specification \<open>trust_path\<close> of chain
    validation; \<open>TrustList\<close> (\<open>src/trust_list.cpp\<close>); \<open>Hex\<close>, the hexadecimal formatters and readers of
    several files, with the interface \<open>hex_digits\<close>.
  \<^item> \<open>EcRequest\<close> and \<open>AtRequest\<close> (\<open>src/ec_request.cpp\<close>, \<open>src/at_request.cpp\<close>): records, validators,
    assemblers, encoders and response decoders.
  \<^item> \<open>HttpClient\<close> (\<open>src/http_client.cpp\<close>): options, retry loop, requests; libcurl is a function from the
    number of the attempt to the transfer. \<open>KeyStore\<close> (\<open>src/plaintext_file_key_store.cpp\<close>) with the
    interface \<open>key_store\<close>.
  \<^item> \<open>PkiClient\<close> (\<open>src/pki_client.cpp\<close>): the client's state, all its operations, the step relation
    \<open>client_step\<close> and the invariant of the reachable states.
  \<^item> \<open>TrustModel\<close>: the abstract specification of what the client promises about trust, an event system
    with guards and updates; the interface \<open>trace_simulation\<close>, interpreted on the client, carries its
    consequences to all runs. \<open>Exchange\<close>: what an authority that follows TS 102 941 answers, and that the
    client accepts it. \<open>ExampleWorld\<close>: one concrete world for the witnesses. \<open>EndToEnd\<close>: the properties
    over them.
  \<^item> \<open>AsnPtr\<close> (\<open>src/internal/asn_ptr.hpp\<close>): the owning pointer of decoded structures over an explicit heap.
  \<^item> \<open>UnitTests\<close> (\<open>src/test/\<close>): the inputs and expectations of seven of the repository's unit test files,
    proved of the model.
  \<^item> \<open>Platform\<close>: what the two programs use of the operating system (the record \<open>os\<close>, a parameter), the
    streams of a process and the full construction of a client.
  \<^item> The command line tool: \<open>CliArgs\<close> (\<open>src/cli/args.cpp\<close>), \<open>CliIo\<close> (\<open>src/cli/io.cpp\<close>), \<open>CliCommands\<close> and
    \<open>CliEnrol\<close> (\<open>src/cli/commands.cpp\<close>) and \<open>CliMain\<close> (\<open>src/main.cpp\<close>). A command maps the process to its
    exit status and the process after it; \<open>cli_command\<close> is the contract of a command, interpreted for
    all ten of the table. The record \<open>machine\<close> is everything outside. \<open>CliSession\<close>: two runs of the tool
    that share a key directory; \<open>ExampleSession\<close>: such a session on the example world.
  \<^item> The provisioner (\<open>tools/pki-provisioner\<close>): \<open>WireDump\<close> (\<open>wire_dump.cpp\<close>), \<open>KeyPem\<close> (\<open>key_pem.cpp\<close>),
    \<open>ProvisionFlow\<close> (\<open>flow.cpp\<close>) and \<open>ProvisionMain\<close> (\<open>main.cpp\<close>). The rotation loop is a partial
    function over the reads of the signal flag, \<open>rt_running k\<close> being the k-th.

  \<^bold>\<open>Conventions.\<close> An operation of the client is a function from the state to its result and the state
  after the call. A null pointer is \<open>None\<close>, an early return with an error is \<open>Inl\<close>. The clock is an
  argument. Randomness is a seed \<open>w\<close>: each call of the library that draws random data passes the next
  seeds, so that two draws of one operation are independent, and the theorems hold for every seed.
  Memory that the code reads without initialising it comes from \<open>uninit\<close>. Integers have the width of the
  source where it can wrap (\<open>u16\<close>, \<open>u32\<close>, \<open>u64\<close>); \<open>int64_t\<close> values are \<open>int\<close> where a bound shows that they
  cannot overflow. Two loops end only if the environment cooperates, the key derivation and the rotation
  loop of the provisioner; they are partial functions, and they are proved to return. The retry loop
  is a function with a measure; its shift \<open>1u << attempt\<close> is one of 32-bit words, and \<open>backoff_defined\<close> says
  for which configurations C++ defines it (no configuration of the sources has more than two retries).
  An exception that nobody catches is \<open>None\<close> in a function of the library and \<open>Uncaught\<close> in a program: making a
  directory, listing the trust directory and reading a file through a stream buffer can throw.

  \<^bold>\<open>What is shown.\<close> Chain validation is equivalent to its specification (C1). The client refines the
  trust specification over all its runs (C2); from it follow where a stored certificate can come from
  (C7) and that an accepted revocation list holds, for the certificates of its issuer, until the next one (C6). Enrolment and authorization
  succeed exactly under the conjunction of all their checks (C3, C4), an honest answer passes all of
  them (C5, C40), and every error leaves the client as it was (C38). In all reachable states the trust store
  is indexed by the hashes of its certificates (C8). Discovery succeeds exactly when the lists fetched are
  genuine (C9, C10) and, like revocation, only takes what verified (C11, C12, C21, C22, C28). The decoders
  accept exactly the right messages, and hand on only what the signature covers (C15, C16, C17). What the library builds, it or its peer can read:
  ECIES, signed messages, both requests, certificate chains and stored keys that were flushed (C13, C14,
  C18, C19, C20, C23). Loops end (C25, C31). Arithmetic is exact or its wrap-around is stated (C35,
  C37); parsed certificates are well formed (C36), key handles are exactly the names over a safe alphabet (C24), decoded
  structures are freed exactly once (C34). The commands exit with 0 only after the client accepted what
  they report (C26, C28), and end with 0, with 1 and a message, or by an exception with its reason in the files (C39); a ticket is requested with the credential
  and the key of the last enrolment (C27). The provisioner takes its anchors from
  verified lists (C29), replaces a file by what the system stored of the data or leaves it alone (C33),
  puts the ticket and its key in place when a rotation succeeds (C30), and without the flag for keys
  dumps only certificates and what crossed the wire (C32).

  \<^bold>\<open>Not modelled.\<close> The generated codecs, OpenSSL, libcurl, the PEM functions, the operating system and the
  arithmetic of doubles (the rotation ratio) are parameters. The deleters around OpenSSL handles and the
  raw pointers inside the message builders have no counterpart; the structures they build are values. The
  log callback and the messages that the provisioner prints on its console, its help text and
  \<open>log_text_body\<close> among them, are left out, since nothing reads them back. The file system has no permissions: which paths can be
  written, read or listed is told by it and by the record \<open>os\<close>; running out of memory is not modelled.
\<close>

section \<open>The cryptographic round trips\<close>

text \<open>
  (C13) What ECIES encrypts to a public key is decrypted with the private key, with the same P1, also
  when the ephemeral key travelled in compressed form.
\<close>

theorem ecies_roundtrip:
  assumes "openssl_ok E" "ccm_ok E" "is_keypair E c priv pub"
    and "ecies_encrypt E w pub pt p1 c = Some enc"
  shows "ecies_decrypt E priv enc p1 c = Some pt \<and>
    ecies_decrypt E priv (enc\<lparr>ephemeral_pubkey := compress_sec1 (scalar_len c) (ephemeral_pubkey enc)\<rparr>) p1 c =
      Some pt"
  using ecies_decrypt_encrypt [OF assms, of "ephemeral_pubkey enc"] ecies_decrypt_encrypt [OF assms] by simp

text \<open>Witness of (C13): three bytes for a key of the example environment.\<close>

theorem ecies_roundtrip_witness:
  "\<exists>enc. ecies_encrypt toy_env 0 (toy_pub 32 5) [1, 2, 3] [9] NistP256 = Some enc \<and>
     ecies_decrypt toy_env (nat_be 32 5) enc [9] NistP256 = Some [1, 2, 3]"
proof -
  have k: "is_keypair toy_env NistP256 (nat_be 32 5) (toy_pub 32 5)"
    using toy_keypair [of 5 NistP256] by (simp add: size_simps)
  obtain enc where e: "ecies_encrypt toy_env 0 (toy_pub 32 5) [1, 2, 3] [9] NistP256 = Some enc"
    using toy_encrypts [of 0 NistP256 5 "[1, 2, 3]" "[9]"] by (auto simp: size_simps)
  from ecies_roundtrip [OF toy_openssl toy_ccm k e] e show ?thesis by blast
qed

text \<open>
  (C14) A signed message that the library builds is unwrapped to the payload it was built from, names
  the signer's certificate when there is one, and verifies under the signer's key in either of its
  encodings.
  The signer's key is on any curve but NIST P-384, whose signatures are written as Brainpool P-384.
\<close>

theorem signed_message_roundtrip:
  assumes "openssl_ok E" "message_codec_ok E" "is_keypair E c priv pub" "p \<noteq> []" "c \<noteq> NistP384"
    and "length hid = 8" "scb = [] \<or> hid = compute_hid8 E scb"
    and "finalize_signed_data E w (make_unsecured_tbs now p) priv scb hid c \<noteq> []"
  shows "\<exists>m. unwrap E (finalize_signed_data E w (make_unsecured_tbs now p) priv scb hid c) = Some m \<and>
    sm_payload_coer m = p \<and> sm_has_signer_digest m = (scb \<noteq> []) \<and> verify E m pub scb \<and>
    verify E m (compress_sec1 (scalar_len c) pub) scb"
  using built_message_verifies [OF assms(1-4) _ assms(6,5,8), of pub]
    built_message_verifies [OF assms(1-4) _ assms(6,5,8), of "compress_sec1 (scalar_len c) pub"] assms(7)
  by auto

text \<open>Witness of (C14): a self-signed message in the example environment.\<close>

lemma toy_digest_signed:
  "\<exists>sig. ecdsa_sign_digest toy_env w (nat_be 32 5)
     (double_hash (\<lambda>d. hash_for_curve toy_env d NistP256) [7] []) NistP256 = Some sig"
proof -
  have "length (double_hash (\<lambda>d. hash_for_curve toy_env d NistP256) [7] []) = hash_len NistP256"
    by (simp add: double_hash_def hash_sha256_def toy_env_def size_simps)
  from toy_signs [OF _ this, of 5 w] show ?thesis by (simp add: size_simps)
qed

theorem signed_message_roundtrip_witness:
  "\<exists>E m. unwrap E (build_self_signed E 0 0 [5] (nat_be 32 5) NistP256) = Some m \<and>
     sm_payload_coer m = [5] \<and> verify E m (toy_pub 32 5) []"
proof -
  obtain sig where sig: "ecdsa_sign_digest toy_env 0 (nat_be 32 5)
     (double_hash (\<lambda>d. hash_for_curve toy_env d NistP256) [7] []) NistP256 = Some sig"
    using toy_digest_signed by blast
  let ?v = "signed_wrapper (make_unsecured_tbs 0 [5]) sig [] (replicate 8 0) NistP256"
  let ?E = "toy_env\<lparr>asn_DEF_ToBeSignedData := const_codec [7], asn_DEF_Ieee1609Dot2Data := single_codec ?v [9]\<rparr>"
  have ok: "openssl_ok ?E" "message_codec_ok ?E"
    by (simp_all add: toy_openssl message_codec_ok_def single_codec_roundtrip)
  have k: "is_keypair ?E NistP256 (nat_be 32 5) (toy_pub 32 5)"
    using toy_keypair [of 5 NistP256] by (simp add: size_simps)
  have "finalize_signed_data ?E 0 (make_unsecured_tbs 0 [5]) (nat_be 32 5) [] (replicate 8 0) NistP256 \<noteq> []"
    using sig by (simp add: finalize_signed_data_def coer_encode_def) (simp add: single_codec_def)
  from signed_message_roundtrip [OF ok k _ _ _ _ this] show ?thesis
    unfolding build_self_signed_def by fastforce
qed

text \<open>
  A signature made over a digest verifies under the public key of the pair, given uncompressed
  or compressed.
\<close>

theorem signature_verifies:
  assumes "openssl_ok E" "is_keypair E c priv pub" "ecdsa_sign_digest E w priv dg c = Some sig"
  shows "ecdsa_verify_digest E pub dg sig c \<and> ecdsa_verify_digest E (compress_sec1 (scalar_len c) pub) dg sig c"
  using sign_then_verify [OF assms] by blast

text \<open>An instance: a 48-byte digest with a Brainpool P-384 key of the example environment.\<close>

theorem signature_verifies_witness:
  "\<exists>sig. ecdsa_verify_digest toy_env (toy_pub 48 5) (replicate 48 1) sig BrainpoolP384r1"
proof -
  have k: "is_keypair toy_env BrainpoolP384r1 (nat_be 48 5) (toy_pub 48 5)"
    using toy_keypair [of 5 BrainpoolP384r1] by (simp add: size_simps)
  obtain sig where "ecdsa_sign_digest toy_env 0 (nat_be 48 5) (replicate 48 1) BrainpoolP384r1 = Some sig"
    using toy_signs [of 5 BrainpoolP384r1 "replicate 48 1" 0] by (auto simp: size_simps)
  from signature_verifies [OF toy_openssl k this] show ?thesis by blast
qed

text \<open>
  Key derivation ends and returns exactly the requested number of bytes; for the 48 bytes ECIES
  asks for they are the first block and half of the second, with the counters 1 and 2.
\<close>

theorem kdf2_terminates:
  assumes "openssl_ok E"
  shows "(\<exists>k. kdf2_sha256 E ss p1 n = Some k \<and> length k = n) \<and>
    kdf2_sha256 E ss p1 48 = Some (kdf2_block E ss p1 1 @ take 16 (kdf2_block E ss p1 2))"
  using kdf2_returns [OF assms] kdf2_48 [OF assms] by blast

text \<open>An instance.\<close>

theorem kdf2_terminates_witness: "\<exists>k. kdf2_sha256 toy_env [1] [2] 100 = Some k \<and> length k = 100"
  using kdf2_terminates [OF toy_openssl] by blast

text \<open>
  The encrypted envelope built for a recipient, with no P1, is opened by the response decoder
  with the recipient's private key: the ephemeral key survives its compression in the envelope and
  the tag its place behind the ciphertext.
\<close>

theorem encrypted_envelope_opens:
  assumes "openssl_ok E" "ccm_ok E" "is_keypair E c priv pub" "is_p256_size c"
    and "ecies_encrypt E w pub pt [] c = Some ecies"
    and "encrypted_content (build_encrypted_data ecies rc c) = Some ed"
  shows "decrypt_encrypted_content E ed priv aes = Some pt"
  using assms by (rule decrypt_build_encrypted)

text \<open>An instance.\<close>

theorem encrypted_envelope_opens_witness:
  "\<exists>ecies ed. encrypted_content (build_encrypted_data ecies (CertInfo_init (replicate 8 0)) NistP256) = Some ed \<and>
     decrypt_encrypted_content toy_env ed (nat_be 32 5) [] = Some [1, 2, 3]"
proof -
  have k: "is_keypair toy_env NistP256 (nat_be 32 5) (toy_pub 32 5)"
    using toy_keypair [of 5 NistP256] by (simp add: size_simps)
  obtain ecies where e: "ecies_encrypt toy_env 0 (toy_pub 32 5) [1, 2, 3] [] NistP256 = Some ecies"
    using toy_encrypts [of 0 NistP256 5 "[1, 2, 3]" "[]"] by (auto simp: size_simps)
  obtain ed where ed: "encrypted_content (build_encrypted_data ecies (CertInfo_init (replicate 8 0)) NistP256) = Some ed"
    by (simp add: build_encrypted_data_def encrypted_content_def Let_def)
  have "is_p256_size NistP256" by (simp add: is_p256_size_def)
  from encrypted_envelope_opens [OF toy_openssl toy_ccm k this e ed] ed show ?thesis by blast
qed

section \<open>The enrolment request as the authority sees it\<close>

text \<open>
  (C18) The Enrolment Authority, with the private half of its encryption key, recovers from an encoded
  request the outer signed message and in it the inner one; both verify under the requester's key,
  the innermost payload is the encoded request, and the symmetric key handed back to the caller is
  the one in the message.
  The requester's key is on any curve but NIST P-384.
\<close>

theorem enrolment_request_opens:
  assumes "openssl_ok E" "ccm_ok E" "message_codec_ok E"
    and "encode_ec_request E w t1 t2 desc ea priv = Inr res"
    and "is_keypair E (ecd_curve desc) priv pub" "ecd_curve desc \<noteq> NistP384"
    and "is_keypair E (ci_enc_curve ea) ea_priv (recipient_enc_key ea)"
  shows "\<exists>ecies outer pop m1 m2.
    coer_decode (asn_DEF_Ieee1609Dot2Data E) (to_vector (req_encoded res)) =
      Some (build_encrypted_data ecies ea (ci_enc_curve ea)) \<and>
    ecies_decrypt E ea_priv ecies (recipient_p1 E ea) (ci_enc_curve ea) = Some outer \<and>
    unwrap E outer = Some m1 \<and> verify E m1 pub [] \<and> sm_payload_coer m1 = 0x01 # 0x80 # pop \<and>
    unwrap E pop = Some m2 \<and> verify E m2 pub [] \<and>
    sm_payload_coer m2 = coer_encode (asn_DEF_InnerEcRequest E) (inner_ec_request desc) \<and>
    to_vector (req_aes_key res) = aes_key ecies"
  using assms by (rule ec_request_opens)

text \<open>Witness of (C18): the request of the example world.\<close>

theorem enrolment_request_opens_witness:
  "\<exists>res ecies outer. encode_ec_request ex_env 1 0 0 (assemble_ec_request ex_record 0) ex_root (nat_be 32 5) = Inr res \<and>
     ecies_decrypt ex_env (nat_be 32 6) ecies (recipient_p1 ex_env ex_root) NistP256 = Some outer \<and>
     to_vector (req_aes_key res) = aes_key ecies"
proof -
  obtain res where req: "encode_ec_request ex_env 1 0 0 (assemble_ec_request ex_record 0) ex_root (nat_be 32 5) = Inr res"
    using ex_request_encodes [OF ex_record_curve] by blast
  have c: "ecd_curve (assemble_ec_request ex_record 0) = NistP256"
    by (simp add: assemble_ec_request_def ex_record_def long_record_def)
  have k: "is_keypair ex_env (ecd_curve (assemble_ec_request ex_record 0)) (nat_be 32 5) (toy_pub 32 5)"
    "is_keypair ex_env (ci_enc_curve ex_root) (nat_be 32 6) (recipient_enc_key ex_root)"
    using toy_keypair [of 5 NistP256] toy_keypair [of 6 NistP256] by (simp_all add: c ex_root_fields size_simps)
  have "ecd_curve (assemble_ec_request ex_record 0) \<noteq> NistP384" using c by simp
  from enrolment_request_opens [OF ex_env_ok(1,2,4) req k(1) this k(2)] ex_root_fields(6) req show ?thesis by auto
qed

end
